(* ===== verification/Prelude.thy ===== *)
theory Prelude
  imports Main "HOL-Library.Word" "HOL-Library.Sublist" "HOL-Library.Char_ord"
    "HOL-Library.List_Lexorder" "HOL-Library.Multiset"
begin

unbundle bit_operations_syntax

text \<open>
  What every component shares: the outcomes of a Go function (return, panic, process exit),
  Go's error values, and the pieces of Go's standard library that the source calls
  (decimal formatting, \<open>strings.Join\<close>, \<open>strings.ReplaceAll\<close>, \<open>errors.Is\<close>).
  A Go string is its list of bytes, so \<open>length\<close> is Go's \<open>len\<close> and the order of
  List_Lexorder over Char_ord is Go's byte-wise comparison.  A nil pointer, a nil interface and
  a nil slice where the code distinguishes them are \<open>None\<close>.

  The theorem collections: \<open>go_simps\<close> holds the equations of the Go-runtime notions,
  \<open>frame_simps\<close> the facts that an operation leaves a part of the state alone.
\<close>

named_theorems go_simps \<open>equations of the Go runtime notions\<close>
named_theorems frame_simps \<open>what an operation leaves unchanged\<close>

section \<open>Outcomes of a Go call\<close>

type_synonym byte = "8 word"
type_synonym u16 = "16 word"
type_synonym u32 = "32 word"
type_synonym u64 = "64 word"

datatype go_panic = NilPointer | NilMapWrite

text \<open>A call returns a value, panics, or ends the process with \<open>os.Exit\<close>.\<close>

datatype 'a go = Return 'a | Panicked go_panic | Exited nat

definition returns :: "'a go \<Rightarrow> bool" where
  "returns x = (case x of Return _ \<Rightarrow> True | _ \<Rightarrow> False)"

lemma returns_simps [simp]:
  "returns (Return a)" "\<not> returns (Panicked p)" "\<not> returns (Exited n)"
  by (simp_all add: returns_def)

lemma returnsE:
  assumes "returns x"
  obtains a where "x = Return a"
  using assms by (cases x) auto

section \<open>Errors\<close>

text \<open>
  An error value: a plain text (\<open>errors.New\<close>, \<open>fmt.Errorf\<close>), an operating-system error
  number, a Kubernetes API status with its reason, or a text wrapped around another error with
  \<open>%w\<close>.  \<open>errors.Is\<close> follows the wrapping.
\<close>

datatype go_error =
    ErrText string
  | Errno nat
  | StatusError string
  | Wrapped string go_error

fun errors_Is :: "go_error \<Rightarrow> go_error \<Rightarrow> bool" where
  "errors_Is (Wrapped s e) t = (Wrapped s e = t \<or> errors_Is e t)"
| "errors_Is e t = (e = t)"

lemma errors_Is_refl [simp]: "errors_Is e e"
  by (cases e) auto

lemma errors_Is_Wrapped [go_simps]: "errors_Is e t \<Longrightarrow> errors_Is (Wrapped s e) t"
  by simp

section \<open>Strings\<close>

text \<open>\<open>fmt\<close>'s \<open>%d\<close> on a length.\<close>

fun itoa :: "nat \<Rightarrow> string" where
  "itoa n = (if n < 10 then [char_of (48 + n)] else itoa (n div 10) @ [char_of (48 + n mod 10)])"

declare itoa.simps [simp del]

text \<open>
  \<open>fmt\<close>'s \<open>%q\<close>: the escapes of the ASCII characters; bytes from 128 on are kept, as they are in a
  valid, printable text.
\<close>

definition hex_digit :: "nat \<Rightarrow> char" where
  "hex_digit d = (if d < 10 then char_of (48 + d) else char_of (87 + d))"

definition quote_char :: "char \<Rightarrow> string" where
  "quote_char c =
     (let n = of_char c :: nat
      in if n = 34 then [CHR 0x5C, CHR 0x22] else if n = 92 then [CHR 0x5C, CHR 0x5C]
         else if n = 7 then [CHR 0x5C, CHR ''a''] else if n = 8 then [CHR 0x5C, CHR ''b'']
         else if n = 12 then [CHR 0x5C, CHR ''f''] else if n = 10 then [CHR 0x5C, CHR ''n'']
         else if n = 13 then [CHR 0x5C, CHR ''r''] else if n = 9 then [CHR 0x5C, CHR ''t'']
         else if n = 11 then [CHR 0x5C, CHR ''v'']
         else if n < 32 \<or> n = 127 then
           [CHR 0x5C, CHR ''x'', hex_digit (n div 16), hex_digit (n mod 16)]
         else [c])"

definition go_quote :: "string \<Rightarrow> string" where
  "go_quote s = CHR 0x22 # concat (map quote_char s) @ [CHR 0x22]"

fun strings_Join :: "string list \<Rightarrow> string \<Rightarrow> string" where
  "strings_Join [] sep = []"
| "strings_Join [x] sep = x"
| "strings_Join (x # y # xs) sep = x @ sep @ strings_Join (y # xs) sep"

lemma strings_Join_Cons:
  "strings_Join (x # xs) sep = (if xs = [] then x else x @ sep @ strings_Join xs sep)"
  by (cases xs) auto

lemma strings_Join_snoc:
  "strings_Join (xs @ [x]) sep = (if xs = [] then x else strings_Join xs sep @ sep @ x)"
  by (induction xs) (auto simp: strings_Join_Cons)

text \<open>
  \<open>strings.ReplaceAll\<close>: the non-overlapping occurrences from the left.  An empty \<open>old\<close>
  matches before every character and at the end.
\<close>

function replace_from :: "string \<Rightarrow> string \<Rightarrow> string \<Rightarrow> string" where
  "replace_from old new s =
     (if old = [] \<or> s = [] then s
      else if prefix old s then new @ replace_from old new (drop (length old) s)
      else hd s # replace_from old new (tl s))"
  by pat_completeness auto
termination
  by (relation "measure (\<lambda>(old, new, s). length s)") auto

declare replace_from.simps [simp del]

definition strings_ReplaceAll :: "string \<Rightarrow> string \<Rightarrow> string \<Rightarrow> string" where
  "strings_ReplaceAll s old new =
     (if old = [] then new @ concat (map (\<lambda>c. c # new) s) else replace_from old new s)"

lemma replace_from_Nil [simp]: "replace_from old new [] = []"
  by (subst replace_from.simps) simp

lemma replace_from_Cons:
  "old \<noteq> [] \<Longrightarrow> replace_from old new (c # s) =
     (if prefix old (c # s) then new @ replace_from old new (drop (length old) (c # s))
      else c # replace_from old new s)"
  by (subst replace_from.simps) simp

lemma replace_from_char: "replace_from [a] [b] s = map (\<lambda>c. if c = a then b else c) s"
  by (induction s) (auto simp: replace_from_Cons)

lemma strings_ReplaceAll_char [go_simps]:
  "strings_ReplaceAll s [a] [b] = map (\<lambda>c. if c = a then b else c) s"
  by (simp add: strings_ReplaceAll_def replace_from_char)

section \<open>Lists and maps\<close>

lemma append_sep_unique:
  assumes "xs @ a # ys = xs' @ a # ys'" and "a \<notin> set xs" and "a \<notin> set xs'"
  shows "xs = xs' \<and> ys = ys'"
  using assms
proof (induction xs arbitrary: xs')
  case Nil
  then show ?case by (cases xs') auto
next
  case (Cons x xs)
  then show ?case by (cases xs') auto
qed

text \<open>Update of a two-argument table at one place.\<close>

definition upd2 :: "('a \<Rightarrow> 'b \<Rightarrow> 'c) \<Rightarrow> 'a \<Rightarrow> 'b \<Rightarrow> 'c \<Rightarrow> 'a \<Rightarrow> 'b \<Rightarrow> 'c" where
  "upd2 f a b c = f(a := (f a)(b := c))"

lemma upd2_simps [simp]:
  "upd2 f a b c a b = c"
  "upd2 (upd2 f a b c) a b d = upd2 f a b d"
  "upd2 f a b (f a b) = f"
  by (auto simp: upd2_def fun_eq_iff)

lemma upd2_apply: "upd2 f a b c x y = (if x = a \<and> y = b then c else f x y)"
  by (simp add: upd2_def)

end
