(* ===== verification/ApiTypes.thy ===== *)
theory ApiTypes
  imports Prelude
begin

text \<open>
  \<open>api/v1alpha1\<close>: the three custom resources, as records with the fields of the Go structs.  The
  embedded \<open>ObjectMeta\<close> and the \<open>Condition\<close> and \<open>LabelSelector\<close> of apimachinery are given by
  the fields that the code of this repository reads or writes; \<open>TypeMeta\<close> and \<open>ListMeta\<close>, which
  it never touches, are left out, and a list object is the list of its items.  A pointer to a
  string or to a time is an option.
\<close>

section \<open>From apimachinery\<close>

record OwnerReference =
  orKind :: string
  orName :: string
  orUID :: string
  orController :: bool

record ObjectMeta =
  Name :: string
  Namespace :: string
  UID :: string
  ResourceVersion :: nat
  Generation :: int
  DeletionTimestamp :: "nat option"
  Labels :: "string \<rightharpoonup> string"
  OwnerReferences :: "OwnerReference list"
  Finalizers :: "string list"

text \<open>An \<open>ObjectMeta\<close> literal with a name and a namespace; the other fields are zero.\<close>

definition object_meta :: "string \<Rightarrow> string \<Rightarrow> ObjectMeta" where
  "object_meta name ns =
     \<lparr>Name = name, Namespace = ns, UID = [], ResourceVersion = 0, Generation = 0,
      DeletionTimestamp = None, Labels = Map.empty, OwnerReferences = [], Finalizers = []\<rparr>"

text \<open>\<open>(*metav1.Time).IsZero\<close>: nil or the zero time.\<close>

definition Time_IsZero :: "nat option \<Rightarrow> bool" where
  "Time_IsZero t = (case t of None \<Rightarrow> True | Some n \<Rightarrow> n = 0)"

record Condition =
  cType :: string
  cStatus :: string
  cObservedGeneration :: int
  cReason :: string
  cMessage :: string

record LabelSelectorRequirement =
  rqKey :: string
  rqOperator :: string
  rqValues :: "string list"

record LabelSelector =
  MatchLabels :: "(string \<times> string) list"
  MatchExpressions :: "LabelSelectorRequirement list"

type_synonym NamespacedName = "string \<times> string"

text \<open>The key of an object: namespace and name.\<close>

definition key_of :: "ObjectMeta \<Rightarrow> NamespacedName" where
  "key_of m = (Namespace m, Name m)"

section \<open>ScionPathPolicy\<close>

record ScionPathPolicySpec =
  PodSelector :: LabelSelector
  Preference :: "string option"

record ScionPathPolicyStatus =
  polConditions :: "Condition list"

record ScionPathPolicy =
  polMeta :: ObjectMeta
  polSpec :: ScionPathPolicySpec
  polStatus :: ScionPathPolicyStatus

section \<open>ScionClusterPeer\<close>

record ScionClusterPeerSpec =
  RemoteAS :: string
  PodCIDR :: string

record ScionClusterPeerStatus =
  peerConditions :: "Condition list"

record ScionClusterPeer =
  peerMeta :: ObjectMeta
  peerSpec :: ScionClusterPeerSpec
  peerStatus :: ScionClusterPeerStatus

section \<open>ScionComputedPath\<close>

record ScionComputedPathSpec =
  PolicyRef :: string
  DestinationCIDR :: string
  NextHopIP :: string
  HopFields :: "byte list"

record ScionComputedPathStatus =
  cpConditions :: "Condition list"

record ScionComputedPath =
  cpMeta :: ObjectMeta
  cpSpec :: ScionComputedPathSpec
  cpStatus :: ScionComputedPathStatus

definition zero_cp_spec :: ScionComputedPathSpec where
  "zero_cp_spec = \<lparr>PolicyRef = [], DestinationCIDR = [], NextHopIP = [], HopFields = []\<rparr>"

section \<open>Fields of the metadata\<close>

lemma object_meta_simps [simp]:
  "Name (object_meta n ns) = n" "Namespace (object_meta n ns) = ns"
  "OwnerReferences (object_meta n ns) = []" "Finalizers (object_meta n ns) = []"
  "DeletionTimestamp (object_meta n ns) = None"
  by (simp_all add: object_meta_def)

lemma key_of_object_meta [simp]: "key_of (object_meta n ns) = (ns, n)"
  by (simp add: key_of_def)

lemma key_of_update [simp]:
  "key_of (m\<lparr>Finalizers := fs\<rparr>) = key_of m"
  "key_of (m\<lparr>OwnerReferences := os\<rparr>) = key_of m"
  "key_of (m\<lparr>ResourceVersion := v\<rparr>) = key_of m"
  by (simp_all add: key_of_def)

lemma Time_IsZero_simps [simp]: "Time_IsZero None" "Time_IsZero (Some n) \<longleftrightarrow> n = 0"
  by (simp_all add: Time_IsZero_def)

end
