(* ===== verification/K8sLib.thy ===== *)
theory K8sLib
  imports ApiTypes
begin

text \<open>
  The interface of the packages the controllers call: the controller-runtime client, its
  \<open>controllerutil\<close>, \<open>apimachinery\<close> and the \<open>ScionClient\<close> service.  They are one record of
  functions over the state \<open>'w\<close> of the world outside the process (API server and SCION control
  service).  What the code relies on is stated in the locales; \<open>ApiServerRef\<close> gives an instance.
\<close>

section \<open>Operations\<close>

record ctrl_Result =
  RequeueAfter :: int

definition no_result :: ctrl_Result where "no_result = \<lparr>RequeueAfter = 0\<rparr>"

type_synonym fetch_answer = "bool \<times> byte list \<times> string \<times> go_error option"

text \<open>
  \<open>CreateOrUpdate\<close> takes the object and the closure that brings it to the desired state; the
  closure works on the object, and the call leaves the object in the state it was last in.
\<close>

type_synonym mutate = "ScionComputedPath \<Rightarrow> go_error option \<times> ScionComputedPath"

record 'w k8s =
  policy_Get :: "NamespacedName \<Rightarrow> 'w \<Rightarrow> go_error + ScionPathPolicy"
  policy_Update :: "ScionPathPolicy \<Rightarrow> 'w \<Rightarrow> go_error option \<times> ScionPathPolicy \<times> 'w"
  policy_StatusUpdate :: "ScionPathPolicy \<Rightarrow> 'w \<Rightarrow> go_error option \<times> ScionPathPolicy \<times> 'w"
  policy_List :: "string option \<Rightarrow> 'w \<Rightarrow> ScionPathPolicy list \<times> go_error option"
  peer_List :: "'w \<Rightarrow> go_error + ScionClusterPeer list"
  CreateOrUpdate :: "ScionComputedPath \<Rightarrow> mutate \<Rightarrow> 'w \<Rightarrow>
    (string \<times> go_error option) \<times> ScionComputedPath \<times> 'w"
  IgnoreNotFound :: "go_error \<Rightarrow> go_error option"
  ContainsFinalizer :: "ObjectMeta \<Rightarrow> string \<Rightarrow> bool"
  AddFinalizer :: "ObjectMeta \<Rightarrow> string \<Rightarrow> ObjectMeta"
  RemoveFinalizer :: "ObjectMeta \<Rightarrow> string \<Rightarrow> ObjectMeta"
  SetControllerReference :: "ObjectMeta \<Rightarrow> ObjectMeta \<Rightarrow> go_error option \<times> ObjectMeta"
  SetStatusCondition :: "Condition list \<Rightarrow> Condition \<Rightarrow> Condition list"
  LabelSelectorAsSelector :: "LabelSelector \<Rightarrow> go_error + ((string \<rightharpoonup> string) \<Rightarrow> bool)"

text \<open>The service interface \<open>ScionClient\<close>: one method, which may change the world.\<close>

type_synonym 'w ScionClient = "string \<Rightarrow> string \<Rightarrow> 'w \<Rightarrow> fetch_answer \<times> 'w"

section \<open>What the code relies on\<close>

text \<open>
  The pure helpers of \<open>controllerutil\<close> and \<open>apimachinery\<close>.  \<open>SetStatusCondition\<close> changes the first
  condition of the type or appends one.
\<close>

locale k8s_util =
  fixes lib :: "('w, 'z) k8s_scheme"
  assumes ignore_NotFound: "IgnoreNotFound lib err =
      (if err = StatusError ''NotFound'' then None else Some err)"
    and contains_finalizer: "ContainsFinalizer lib m f \<longleftrightarrow> f \<in> set (Finalizers m)"
    and add_finalizer: "f \<notin> set (Finalizers m) \<Longrightarrow>
      AddFinalizer lib m f = m\<lparr>Finalizers := Finalizers m @ [f]\<rparr>"
    and remove_finalizer: "RemoveFinalizer lib m f =
      m\<lparr>Finalizers := filter (\<lambda>g. g \<noteq> f) (Finalizers m)\<rparr>"
    and set_condition: "c \<in> set (SetStatusCondition lib cs c)"
    and set_condition_other: "cType d \<noteq> cType c \<Longrightarrow>
      d \<in> set (SetStatusCondition lib cs c) \<longleftrightarrow> d \<in> set cs"
    and set_condition_type: "distinct (map cType cs) \<Longrightarrow> d \<in> set (SetStatusCondition lib cs c) \<Longrightarrow>
      cType d = cType c \<Longrightarrow> d = c"
    and controller_other: "r \<in> set (OwnerReferences m) \<Longrightarrow> orController r \<Longrightarrow>
      orName r \<noteq> Name owner \<Longrightarrow> fst (SetControllerReference lib owner m) \<noteq> None"
    and controller_set: "SetControllerReference lib owner m = (None, m') \<Longrightarrow>
      (\<exists>os. m' = m\<lparr>OwnerReferences := os\<rparr> \<and>
        (\<exists>r\<in>set os. orController r \<and> orName r = Name owner \<and> orUID r = UID owner) \<and>
        (\<forall>r\<in>set os. orController r \<longrightarrow> orName r = Name owner))"
    and controller_same: "SetControllerReference lib owner m = (Some err, m') \<Longrightarrow> m' = m"

text \<open>
  The API server behind the client.  \<open>policies\<close> and \<open>computed\<close> are the stored objects,
  \<open>peers\<close> the stored peers and \<open>answers\<close> what the SCION service answers.  A read returns what is
  stored, and of a policy that has at most one condition of each type, which the list type
  declared in \<open>scionpathpolicy_types.go\<close> makes the server enforce; an update that succeeds stores the object as sent, up to its resource version, or
  deletes it when it is being deleted and has no finalizer left; a status update stores the
  status only; a failed call stores nothing for another object.  \<open>CreateOrUpdate\<close> runs its
  closure on the stored object, or on the given one when there is none, and stores the result;
  a call that reports an error may have stored it all the same, or not.
\<close>

definition same_content :: "ScionComputedPath \<Rightarrow> ScionComputedPath \<Rightarrow> bool" where
  "same_content a b \<longleftrightarrow> cpSpec a = cpSpec b \<and> key_of (cpMeta a) = key_of (cpMeta b) \<and>
     OwnerReferences (cpMeta a) = OwnerReferences (cpMeta b)"

locale k8s_api = k8s_util lib for lib :: "('w, 'z) k8s_scheme" +
  fixes policies :: "'w \<Rightarrow> NamespacedName \<rightharpoonup> ScionPathPolicy"
    and computed :: "'w \<Rightarrow> NamespacedName \<rightharpoonup> ScionComputedPath"
    and peers :: "'w \<Rightarrow> ScionClusterPeer list"
    and answers :: "'w \<Rightarrow> string \<Rightarrow> string \<Rightarrow> fetch_answer"
  assumes get_ok: "policy_Get lib k w = Inr p \<Longrightarrow>
      policies w k = Some p \<and> key_of (polMeta p) = k"
    and get_valid: "policy_Get lib k w = Inr p \<Longrightarrow> distinct (map cType (polConditions (polStatus p)))"
    and get_NotFound: "policy_Get lib k w = Inl (StatusError ''NotFound'') \<Longrightarrow> policies w k = None"
    and peers_ok: "peer_List lib w = Inr ps \<Longrightarrow> ps = peers w"
    and update_ok: "policy_Update lib p w = (None, p', w') \<Longrightarrow>
      (\<exists>v. p' = p\<lparr>polMeta := polMeta p\<lparr>ResourceVersion := v\<rparr>\<rparr>) \<and>
      policies w' = (policies w)(key_of (polMeta p) :=
        if \<not> Time_IsZero (DeletionTimestamp (polMeta p)) \<and> Finalizers (polMeta p) = [] then None
        else Some p')"
    and update_other: "policy_Update lib p w = (r, p', w') \<Longrightarrow>
      computed w' = computed w \<and> peers w' = peers w \<and> answers w' = answers w \<and>
      (\<forall>k. k \<noteq> key_of (polMeta p) \<longrightarrow> policies w' k = policies w k)"
    and status_ok: "policy_StatusUpdate lib p w = (None, p', w') \<Longrightarrow>
      (\<exists>q v. policies w (key_of (polMeta p)) = Some q \<and>
        policies w' = (policies w)(key_of (polMeta p) \<mapsto>
          q\<lparr>polStatus := polStatus p, polMeta := polMeta q\<lparr>ResourceVersion := v\<rparr>\<rparr>))"
    and status_other: "policy_StatusUpdate lib p w = (r, p', w') \<Longrightarrow>
      computed w' = computed w \<and> peers w' = peers w \<and> answers w' = answers w \<and>
      (\<forall>k. k \<noteq> key_of (polMeta p) \<longrightarrow> policies w' k = policies w k)"
    and cou_ok: "CreateOrUpdate lib c f w = ((op, None), c', w') \<Longrightarrow>
      (\<exists>base q stored. base = (case computed w (key_of (cpMeta c)) of None \<Rightarrow> c | Some b \<Rightarrow> b) \<and>
        f base = (None, q) \<and> same_content stored q \<and>
        computed w' = (computed w)(key_of (cpMeta c) \<mapsto> stored))"
    and cou_err: "CreateOrUpdate lib c f w = ((op, Some err), c', w') \<Longrightarrow>
      computed w' = computed w \<or>
      (\<exists>base q stored. base = (case computed w (key_of (cpMeta c)) of None \<Rightarrow> c | Some b \<Rightarrow> b) \<and>
        f base = (None, q) \<and> same_content stored q \<and>
        computed w' = (computed w)(key_of (cpMeta c) \<mapsto> stored))"
    and cou_other: "CreateOrUpdate lib c f w = (op_err, c', w') \<Longrightarrow>
      policies w' = policies w \<and> peers w' = peers w \<and> answers w' = answers w \<and>
      (\<forall>k. k \<noteq> key_of (cpMeta c) \<longrightarrow> computed w' k = computed w k)"
    and computed_key: "computed w k = Some c \<Longrightarrow> key_of (cpMeta c) = k"

text \<open>
  A \<open>ScionClient\<close> that answers what the service would, and changes nothing the API server
  stores.
\<close>

locale scion_service = k8s_api lib policies computed peers answers
  for lib :: "('w, 'z) k8s_scheme" and policies computed peers answers +
  fixes fetch :: "'w ScionClient"
  assumes fetch_answer: "fetch as pref w = (a, w') \<Longrightarrow> a = answers w as pref"
    and fetch_frame: "fetch as pref w = (a, w') \<Longrightarrow> policies w' = policies w \<and>
      computed w' = computed w \<and> peers w' = peers w \<and> answers w' = answers w"

end
