(* ===== verification/ApiServerRef.thy ===== *)
theory ApiServerRef
  imports K8sLib
begin

text \<open>
  A reference instance of the contracts of \<open>K8sLib\<close>: an API server kept in memory, with
  optimistic concurrency (an update with an old resource version is a conflict), finalizer-aware
  deletion and status as a subresource, and a table of the SCION service's answers.  It shows
  that the contracts can be met and is what the witnesses run on.
\<close>

section \<open>Stores\<close>

definition store_find :: "('a \<Rightarrow> 'k) \<Rightarrow> 'a list \<Rightarrow> 'k \<Rightarrow> 'a option" where
  "store_find key xs = map_of (map (\<lambda>x. (key x, x)) xs)"

definition store_put :: "('a \<Rightarrow> 'k) \<Rightarrow> 'a \<Rightarrow> 'a list \<Rightarrow> 'a list" where
  "store_put key x xs =
     (if \<exists>y\<in>set xs. key y = key x then map (\<lambda>y. if key y = key x then x else y) xs
      else xs @ [x])"

definition store_del :: "('a \<Rightarrow> 'k) \<Rightarrow> 'k \<Rightarrow> 'a list \<Rightarrow> 'a list" where
  "store_del key k xs = filter (\<lambda>y. key y \<noteq> k) xs"

lemma store_find_simps [simp]:
  "store_find key [] = Map.empty"
  "store_find key (x # xs) = (store_find key xs)(key x \<mapsto> x)"
  by (simp_all add: store_find_def)

lemma store_find_append:
  "store_find key (xs @ [x]) k = (case store_find key xs k of None \<Rightarrow>
     if key x = k then Some x else None | Some y \<Rightarrow> Some y)"
  by (induction xs) auto

lemma store_find_None: "store_find key xs k = None \<longleftrightarrow> (\<forall>y\<in>set xs. key y \<noteq> k)"
  by (induction xs) auto

lemma store_find_key: "store_find key xs k = Some x \<Longrightarrow> key x = k"
  by (induction xs) (auto split: if_splits)

lemma store_find_map:
  assumes "\<And>y. key (f y) = key y"
  shows "store_find key (map f xs) k = map_option f (store_find key xs k)"
  by (induction xs) (auto simp: assms)

lemma store_find_put: "store_find key (store_put key x xs) = (store_find key xs)(key x \<mapsto> x)"
proof (rule ext)
  fix k
  show "store_find key (store_put key x xs) k = ((store_find key xs)(key x \<mapsto> x)) k"
  proof (cases "store_find key xs (key x)")
    case None
    then have "store_put key x xs = xs @ [x]"
      by (auto simp: store_put_def store_find_None)
    then show ?thesis using None by (auto simp: store_find_append split: option.splits)
  next
    case (Some y)
    then have "\<exists>y\<in>set xs. key y = key x"
      using store_find_None [of key xs "key x"] by auto
    then have "store_put key x xs = map (\<lambda>y. if key y = key x then x else y) xs"
      by (simp add: store_put_def)
    then have "store_find key (store_put key x xs) k =
        map_option (\<lambda>y. if key y = key x then x else y) (store_find key xs k)"
      by (simp add: store_find_map)
    then show ?thesis
      using Some store_find_key [of key xs k] by (cases "store_find key xs k") auto
  qed
qed

lemma store_find_del: "store_find key (store_del key k xs) = (store_find key xs)(k := None)"
  by (induction xs) (auto simp: store_del_def fun_eq_iff)

section \<open>The server\<close>

record api_server =
  aPolicies :: "ScionPathPolicy list"
  aComputed :: "ScionComputedPath list"
  aPeers :: "ScionClusterPeer list"
  aAnswers :: "string \<Rightarrow> string \<Rightarrow> fetch_answer"

definition mem_policies :: "api_server \<Rightarrow> NamespacedName \<rightharpoonup> ScionPathPolicy" where
  "mem_policies w = store_find (\<lambda>p. key_of (polMeta p)) (aPolicies w)"

definition mem_computed :: "api_server \<Rightarrow> NamespacedName \<rightharpoonup> ScionComputedPath" where
  "mem_computed w = store_find (\<lambda>c. key_of (cpMeta c)) (aComputed w)"

definition bump :: "nat \<Rightarrow> ObjectMeta \<Rightarrow> ObjectMeta" where
  "bump v m = m\<lparr>ResourceVersion := Suc v\<rparr>"

definition mem_Update ::
  "ScionPathPolicy \<Rightarrow> api_server \<Rightarrow> go_error option \<times> ScionPathPolicy \<times> api_server" where
  "mem_Update p w =
     (case mem_policies w (key_of (polMeta p)) of
        None \<Rightarrow> (Some (StatusError ''NotFound''), p, w)
      | Some q \<Rightarrow>
          if ResourceVersion (polMeta q) \<noteq> ResourceVersion (polMeta p)
          then (Some (StatusError ''Conflict''), p, w)
          else let p' = p\<lparr>polMeta := bump (ResourceVersion (polMeta q)) (polMeta p)\<rparr>
            in if \<not> Time_IsZero (DeletionTimestamp (polMeta p)) \<and> Finalizers (polMeta p) = []
               then (None, p', w\<lparr>aPolicies := store_del (\<lambda>p. key_of (polMeta p))
                       (key_of (polMeta p)) (aPolicies w)\<rparr>)
               else (None, p', w\<lparr>aPolicies := store_put (\<lambda>p. key_of (polMeta p)) p'
                       (aPolicies w)\<rparr>))"

definition mem_StatusUpdate ::
  "ScionPathPolicy \<Rightarrow> api_server \<Rightarrow> go_error option \<times> ScionPathPolicy \<times> api_server" where
  "mem_StatusUpdate p w =
     (case mem_policies w (key_of (polMeta p)) of
        None \<Rightarrow> (Some (StatusError ''NotFound''), p, w)
      | Some q \<Rightarrow>
          if ResourceVersion (polMeta q) \<noteq> ResourceVersion (polMeta p)
          then (Some (StatusError ''Conflict''), p, w)
          else let q' = q\<lparr>polStatus := polStatus p,
                          polMeta := bump (ResourceVersion (polMeta q)) (polMeta q)\<rparr>
            in (None, q', w\<lparr>aPolicies := store_put (\<lambda>p. key_of (polMeta p)) q' (aPolicies w)\<rparr>))"

definition mem_CreateOrUpdate ::
  "ScionComputedPath \<Rightarrow> mutate \<Rightarrow> api_server \<Rightarrow>
     (string \<times> go_error option) \<times> ScionComputedPath \<times> api_server" where
  "mem_CreateOrUpdate c f w =
     (let found = mem_computed w (key_of (cpMeta c));
          base = (case found of None \<Rightarrow> c | Some b \<Rightarrow> b)
      in case f base of
           (Some err, q) \<Rightarrow> ((''unchanged'', Some err), q, w)
         | (None, q) \<Rightarrow>
             if key_of (cpMeta q) \<noteq> key_of (cpMeta c)
             then ((''unchanged'', Some (ErrText ''MutateFn cannot mutate object name and/or object namespace'')),
                   q, w)
             else let stored = q\<lparr>cpMeta := bump (ResourceVersion (cpMeta base)) (cpMeta q)\<rparr>
               in ((case found of None \<Rightarrow> ''created'' | Some _ \<Rightarrow> ''updated'', None), stored,
                   w\<lparr>aComputed := store_put (\<lambda>c. key_of (cpMeta c)) stored (aComputed w)\<rparr>))"

definition mem_SetControllerReference ::
  "ObjectMeta \<Rightarrow> ObjectMeta \<Rightarrow> go_error option \<times> ObjectMeta" where
  "mem_SetControllerReference owner m =
     (let ref = \<lparr>orKind = ''ScionPathPolicy'', orName = Name owner, orUID = UID owner,
            orController = True\<rparr>;
          os = OwnerReferences m
      in if \<exists>r\<in>set os. orController r \<and> orName r \<noteq> Name owner
         then (Some (ErrText ''already owned by another controller''), m)
         else (None, m\<lparr>OwnerReferences := store_put orName ref os\<rparr>))"

definition mem_SetStatusCondition :: "Condition list \<Rightarrow> Condition \<Rightarrow> Condition list" where
  "mem_SetStatusCondition cs c = store_put cType c cs"

definition requirement_matches ::
  "(string \<rightharpoonup> string) \<Rightarrow> LabelSelectorRequirement \<Rightarrow> bool" where
  "requirement_matches labels r =
     (let v = labels (rqKey r)
      in if rqOperator r = ''In'' then v \<in> Some ` set (rqValues r)
         else if rqOperator r = ''NotIn'' then v \<notin> Some ` set (rqValues r)
         else if rqOperator r = ''Exists'' then v \<noteq> None
         else v = None)"

definition mem_LabelSelectorAsSelector ::
  "LabelSelector \<Rightarrow> go_error + ((string \<rightharpoonup> string) \<Rightarrow> bool)" where
  "mem_LabelSelectorAsSelector s =
     (if \<forall>r\<in>set (MatchExpressions s).
           rqOperator r \<in> {''In'', ''NotIn'', ''Exists'', ''DoesNotExist''}
      then Inr (\<lambda>labels. list_all (\<lambda>(k, v). labels k = Some v) (MatchLabels s) \<and>
              list_all (requirement_matches labels) (MatchExpressions s))
      else Inl (ErrText ''not a valid label selector operator''))"

definition mem_k8s :: "api_server k8s" where
  "mem_k8s =
     \<lparr>policy_Get = (\<lambda>k w. case mem_policies w k of
          None \<Rightarrow> Inl (StatusError ''NotFound'')
        | Some p \<Rightarrow> if distinct (map cType (polConditions (polStatus p))) then Inr p
            else Inl (StatusError ''Invalid'')),
      policy_Update = mem_Update,
      policy_StatusUpdate = mem_StatusUpdate,
      policy_List = (\<lambda>ns w. (filter (\<lambda>p. ns = None \<or> ns = Some (Namespace (polMeta p)))
          (aPolicies w), None)),
      peer_List = (\<lambda>w. Inr (aPeers w)),
      CreateOrUpdate = mem_CreateOrUpdate,
      IgnoreNotFound = (\<lambda>err. if err = StatusError ''NotFound'' then None else Some err),
      ContainsFinalizer = (\<lambda>m f. f \<in> set (Finalizers m)),
      AddFinalizer = (\<lambda>m f. if f \<in> set (Finalizers m) then m
          else m\<lparr>Finalizers := Finalizers m @ [f]\<rparr>),
      RemoveFinalizer = (\<lambda>m f. m\<lparr>Finalizers := filter (\<lambda>g. g \<noteq> f) (Finalizers m)\<rparr>),
      SetControllerReference = mem_SetControllerReference,
      SetStatusCondition = mem_SetStatusCondition,
      LabelSelectorAsSelector = mem_LabelSelectorAsSelector\<rparr>"

definition mem_fetch :: "api_server ScionClient" where
  "mem_fetch as pref w = (aAnswers w as pref, w)"

section \<open>It meets the contracts\<close>

lemma set_store_put: "x \<in> set (store_put key x xs)"
  by (auto simp: store_put_def)

lemma set_store_put_other:
  "key y \<noteq> key x \<Longrightarrow> y \<in> set (store_put key x xs) \<longleftrightarrow> y \<in> set xs"
  by (auto simp: store_put_def)

lemma set_store_put_key: "y \<in> set (store_put key x xs) \<Longrightarrow> key y = key x \<Longrightarrow> y = x"
  by (auto simp: store_put_def split: if_splits)

lemma set_store_put_subset: "y \<in> set (store_put key x xs) \<Longrightarrow> y = x \<or> y \<in> set xs"
  by (auto simp: store_put_def split: if_splits)

lemma mem_policies_put [simp]:
  "mem_policies (w\<lparr>aPolicies := store_put (\<lambda>p. key_of (polMeta p)) p (aPolicies w)\<rparr>) =
     (mem_policies w)(key_of (polMeta p) \<mapsto> p)"
  by (simp add: mem_policies_def store_find_put)

lemma mem_policies_del [simp]:
  "mem_policies (w\<lparr>aPolicies := store_del (\<lambda>p. key_of (polMeta p)) k (aPolicies w)\<rparr>) =
     (mem_policies w)(k := None)"
  by (simp add: mem_policies_def store_find_del)

lemma mem_computed_put [simp]:
  "mem_computed (w\<lparr>aComputed := store_put (\<lambda>c. key_of (cpMeta c)) c (aComputed w)\<rparr>) =
     (mem_computed w)(key_of (cpMeta c) \<mapsto> c)"
  by (simp add: mem_computed_def store_find_put)

lemma mem_frames [simp]:
  "mem_policies (w\<lparr>aComputed := c\<rparr>) = mem_policies w"
  "mem_computed (w\<lparr>aPolicies := p\<rparr>) = mem_computed w"
  by (simp_all add: mem_policies_def mem_computed_def)

lemma mem_policies_key: "mem_policies w k = Some p \<Longrightarrow> key_of (polMeta p) = k"
  by (auto simp: mem_policies_def dest: store_find_key)

lemma mem_computed_key: "mem_computed w k = Some c \<Longrightarrow> key_of (cpMeta c) = k"
  by (auto simp: mem_computed_def dest: store_find_key)

lemma key_of_bump [simp]: "key_of (bump v m) = key_of m"
  by (simp add: bump_def)

lemma mem_scr_other:
  "r \<in> set (OwnerReferences m) \<Longrightarrow> orController r \<Longrightarrow> orName r \<noteq> Name owner \<Longrightarrow>
     fst (mem_SetControllerReference owner m) \<noteq> None"
  by (auto simp: mem_SetControllerReference_def Let_def)

lemma mem_scr_set:
  assumes "mem_SetControllerReference owner m = (None, m')"
  shows "\<exists>os. m' = m\<lparr>OwnerReferences := os\<rparr> \<and>
      (\<exists>r\<in>set os. orController r \<and> orName r = Name owner \<and> orUID r = UID owner) \<and>
      (\<forall>r\<in>set os. orController r \<longrightarrow> orName r = Name owner)"
proof -
  let ?ref = "\<lparr>orKind = ''ScionPathPolicy'', orName = Name owner, orUID = UID owner,
     orController = True\<rparr>"
  let ?os = "store_put orName ?ref (OwnerReferences m)"
  have "m' = m\<lparr>OwnerReferences := ?os\<rparr>"
    and "\<forall>r\<in>set (OwnerReferences m). orController r \<longrightarrow> orName r = Name owner"
    using assms by (auto simp: mem_SetControllerReference_def Let_def split: if_splits)
  moreover have "?ref \<in> set ?os" by (rule set_store_put)
  ultimately show ?thesis
    by (intro exI [of _ ?os]) (force dest: set_store_put_subset)
qed

lemma mem_Update_ok:
  assumes "mem_Update p w = (None, p', w')"
  shows "(\<exists>v. p' = p\<lparr>polMeta := polMeta p\<lparr>ResourceVersion := v\<rparr>\<rparr>) \<and>
      mem_policies w' = (mem_policies w)(key_of (polMeta p) :=
        if \<not> Time_IsZero (DeletionTimestamp (polMeta p)) \<and> Finalizers (polMeta p) = [] then None
        else Some p')"
  using assms
  by (auto simp: mem_Update_def Let_def bump_def split: option.splits if_splits)

lemma mem_Update_other:
  assumes "mem_Update p w = (r, p', w')"
  shows "mem_computed w' = mem_computed w \<and> aPeers w' = aPeers w \<and> aAnswers w' = aAnswers w \<and>
      (\<forall>k. k \<noteq> key_of (polMeta p) \<longrightarrow> mem_policies w' k = mem_policies w k)"
  using assms
  by (auto simp: mem_Update_def Let_def bump_def split: option.splits if_splits)

lemma mem_StatusUpdate_ok:
  assumes "mem_StatusUpdate p w = (None, p', w')"
  shows "\<exists>q v. mem_policies w (key_of (polMeta p)) = Some q \<and>
        mem_policies w' = (mem_policies w)(key_of (polMeta p) \<mapsto>
          q\<lparr>polStatus := polStatus p, polMeta := polMeta q\<lparr>ResourceVersion := v\<rparr>\<rparr>)"
  using assms
  by (auto simp: mem_StatusUpdate_def Let_def bump_def mem_policies_key
      split: option.splits if_splits)

lemma mem_StatusUpdate_other:
  assumes "mem_StatusUpdate p w = (r, p', w')"
  shows "mem_computed w' = mem_computed w \<and> aPeers w' = aPeers w \<and> aAnswers w' = aAnswers w \<and>
      (\<forall>k. k \<noteq> key_of (polMeta p) \<longrightarrow> mem_policies w' k = mem_policies w k)"
  using assms
  by (auto simp: mem_StatusUpdate_def Let_def bump_def mem_policies_key
      split: option.splits if_splits)

lemma mem_cou_ok:
  assumes "mem_CreateOrUpdate c f w = ((op, None), c', w')"
  shows "\<exists>base q stored.
        base = (case mem_computed w (key_of (cpMeta c)) of None \<Rightarrow> c | Some b \<Rightarrow> b) \<and>
        f base = (None, q) \<and> same_content stored q \<and>
        mem_computed w' = (mem_computed w)(key_of (cpMeta c) \<mapsto> stored)"
proof -
  define base where "base = (case mem_computed w (key_of (cpMeta c)) of None \<Rightarrow> c | Some b \<Rightarrow> b)"
  obtain e q where fb: "f base = (e, q)" by (cases "f base")
  have A: "(case f base of
      (Some err, q) \<Rightarrow> ((''unchanged'', Some err), q, w)
    | (None, q) \<Rightarrow>
        if key_of (cpMeta q) \<noteq> key_of (cpMeta c)
        then ((''unchanged'', Some (ErrText ''MutateFn cannot mutate object name and/or object namespace'')),
              q, w)
        else let stored = q\<lparr>cpMeta := bump (ResourceVersion (cpMeta base)) (cpMeta q)\<rparr>
          in ((case mem_computed w (key_of (cpMeta c)) of None \<Rightarrow> ''created'' | Some _ \<Rightarrow> ''updated'', None),
              stored, w\<lparr>aComputed := store_put (\<lambda>c. key_of (cpMeta c)) stored (aComputed w)\<rparr>)) =
      ((op, None), c', w')"
    using assms unfolding mem_CreateOrUpdate_def Let_def base_def .
  have "e = None" using A fb by (cases e) auto
  then have q: "f base = (None, q)" using fb by simp
  have qk: "key_of (cpMeta q) = key_of (cpMeta c)"
    using A q by (simp split: if_splits)
  have w': "w' = w\<lparr>aComputed := store_put (\<lambda>c. key_of (cpMeta c)) c' (aComputed w)\<rparr>"
    and c': "c' = q\<lparr>cpMeta := bump (ResourceVersion (cpMeta base)) (cpMeta q)\<rparr>"
    using A q qk by (auto simp: Let_def)
  have "same_content c' q"
    by (simp add: c' same_content_def bump_def)
  moreover have "mem_computed w' = (mem_computed w)(key_of (cpMeta c) \<mapsto> c')"
    using qk by (simp add: w' c')
  ultimately show ?thesis using q base_def by blast
qed

lemma mem_cou_err:
  "mem_CreateOrUpdate c f w = ((op, Some err), c', w') \<Longrightarrow> w' = w"
  by (auto simp: mem_CreateOrUpdate_def Let_def split: prod.splits option.splits if_splits)

lemma mem_cou_err_weak:
  "mem_CreateOrUpdate c f w = ((op, Some err), c', w') \<Longrightarrow>
      mem_computed w' = mem_computed w \<or>
      (\<exists>base q stored.
        base = (case mem_computed w (key_of (cpMeta c)) of None \<Rightarrow> c | Some b \<Rightarrow> b) \<and>
        f base = (None, q) \<and> same_content stored q \<and>
        mem_computed w' = (mem_computed w)(key_of (cpMeta c) \<mapsto> stored))"
  by (drule mem_cou_err) simp

lemma mem_cou_other:
  assumes "mem_CreateOrUpdate c f w = (op_err, c', w')"
  shows "mem_policies w' = mem_policies w \<and> aPeers w' = aPeers w \<and> aAnswers w' = aAnswers w \<and>
      (\<forall>k. k \<noteq> key_of (cpMeta c) \<longrightarrow> mem_computed w' k = mem_computed w k)"
  using assms
  by (auto simp: mem_CreateOrUpdate_def Let_def split: prod.splits option.splits if_splits)

lemma mem_sel [simp]:
  "policy_Get mem_k8s k w =
     (case mem_policies w k of None \<Rightarrow> Inl (StatusError ''NotFound'')
      | Some p \<Rightarrow> if distinct (map cType (polConditions (polStatus p))) then Inr p
          else Inl (StatusError ''Invalid''))"
  "policy_Update mem_k8s = mem_Update"
  "policy_StatusUpdate mem_k8s = mem_StatusUpdate"
  "peer_List mem_k8s w = Inr (aPeers w)"
  "CreateOrUpdate mem_k8s = mem_CreateOrUpdate"
  "SetControllerReference mem_k8s = mem_SetControllerReference"
  "SetStatusCondition mem_k8s = mem_SetStatusCondition"
  "LabelSelectorAsSelector mem_k8s = mem_LabelSelectorAsSelector"
  by (simp_all add: mem_k8s_def)

lemma mem_finalizers [simp]:
  "ContainsFinalizer mem_k8s m f \<longleftrightarrow> f \<in> set (Finalizers m)"
  "AddFinalizer mem_k8s m f =
     (if f \<in> set (Finalizers m) then m else m\<lparr>Finalizers := Finalizers m @ [f]\<rparr>)"
  "RemoveFinalizer mem_k8s m f = m\<lparr>Finalizers := filter (\<lambda>g. g \<noteq> f) (Finalizers m)\<rparr>"
  "IgnoreNotFound mem_k8s err = (if err = StatusError ''NotFound'' then None else Some err)"
  by (simp_all add: mem_k8s_def)

lemma mem_scr_same: "mem_SetControllerReference owner m = (Some err, m') \<Longrightarrow> m' = m"
  by (auto simp: mem_SetControllerReference_def Let_def split: if_splits)

lemma mem_conditions:
  "c \<in> set (mem_SetStatusCondition cs c)"
  "cType d \<noteq> cType c \<Longrightarrow> d \<in> set (mem_SetStatusCondition cs c) \<longleftrightarrow> d \<in> set cs"
  "d \<in> set (mem_SetStatusCondition cs c) \<Longrightarrow> cType d = cType c \<Longrightarrow> d = c"
  unfolding mem_SetStatusCondition_def
  by (rule set_store_put set_store_put_other set_store_put_key; assumption)+

lemma mem_Get:
  "policy_Get mem_k8s k w = Inr p \<Longrightarrow> mem_policies w k = Some p \<and> key_of (polMeta p) = k"
  "policy_Get mem_k8s k w = Inr p \<Longrightarrow> distinct (map cType (polConditions (polStatus p)))"
  "policy_Get mem_k8s k w = Inl (StatusError ''NotFound'') \<Longrightarrow> mem_policies w k = None"
  by (auto dest: mem_policies_key split: option.splits if_splits)

lemmas mem_contract = mem_conditions mem_scr_other mem_scr_set mem_scr_same
  mem_Update_ok mem_Update_other mem_StatusUpdate_ok mem_StatusUpdate_other mem_cou_ok mem_cou_err_weak
  mem_cou_other mem_computed_key

interpretation ms: scion_service mem_k8s mem_policies mem_computed aPeers aAnswers mem_fetch
  by unfold_locales
    ((rule mem_Get; assumption) | (unfold mem_sel mem_finalizers, rule mem_contract; assumption) |
     (rule mem_contract; assumption) | (auto simp: mem_fetch_def; fail))+

end
