(* ===== verification/PolicyReconciler.thy ===== *)
theory PolicyReconciler
  imports K8sLib
begin

text \<open>
  \<open>internal/controller/scionpathpolicy_controller.go\<close>, \<open>Reconcile\<close>: turns one policy into one
  \<open>ScionComputedPath\<close> per peer cluster.  The client and the helpers are the argument \<open>lib\<close>,
  the world they act on is passed along; the field \<open>ScionClient\<close> of the reconciler is an
  interface and may be nil.  Logging is left out.
\<close>

section \<open>Constants and state\<close>

definition cilionFinalizer :: string where
  "cilionFinalizer = ''cilion.io/policy-finalizer''"

definition defaultPolicyName :: string where
  "defaultPolicyName = ''default-scion-policy''"

record 'w ScionPathPolicyReconciler =
  rScionClient :: "'w ScionClient option"

section \<open>One destination\<close>

definition computedPathName :: "ScionPathPolicy \<Rightarrow> ScionClusterPeer \<Rightarrow> string" where
  "computedPathName policy peer = Name (polMeta policy) @ ''-to-'' @ Name (peerMeta peer)"

definition new_computedPath :: "ScionPathPolicy \<Rightarrow> ScionClusterPeer \<Rightarrow> ScionComputedPath" where
  "new_computedPath policy peer =
     \<lparr>cpMeta = object_meta (computedPathName policy peer) (Namespace (polMeta policy)),
      cpSpec = zero_cp_spec, cpStatus = \<lparr>cpConditions = []\<rparr>\<rparr>"

text \<open>The closure given to \<open>CreateOrUpdate\<close>.\<close>

definition path_mutate ::
  "('w, 'z) k8s_scheme \<Rightarrow> ScionPathPolicy \<Rightarrow> ScionClusterPeer \<Rightarrow> string \<Rightarrow> byte list \<Rightarrow> mutate" where
  "path_mutate lib policy peer nextHopIP rawHopFields computedPath =
     (case SetControllerReference lib (polMeta policy) (cpMeta computedPath) of
        (Some err, m) \<Rightarrow> (Some err, computedPath\<lparr>cpMeta := m\<rparr>)
      | (None, m) \<Rightarrow>
          (None, computedPath\<lparr>cpMeta := m,
             cpSpec := (cpSpec computedPath)\<lparr>PolicyRef := Name (polMeta policy),
               DestinationCIDR := PodCIDR (peerSpec peer), NextHopIP := nextHopIP,
               HopFields := rawHopFields\<rparr>\<rparr>))"

text \<open>
  The loop over the peers: an error ends it, a destination that is not ready is remembered and
  skipped.  The arguments of \<open>FetchPath\<close> are evaluated first, so a nil preference panics.
\<close>

fun peers_loop ::
  "('w, 'z) k8s_scheme \<Rightarrow> 'w ScionClient option \<Rightarrow> ScionPathPolicy \<Rightarrow> ScionClusterPeer list \<Rightarrow>
     bool \<Rightarrow> 'w \<Rightarrow> (go_error + bool) go \<times> 'w" where
  "peers_loop lib sc policy [] allPathsReady w = (Return (Inr allPathsReady), w)"
| "peers_loop lib sc policy (peer # peers) allPathsReady w =
     (case Preference (polSpec policy) of
        None \<Rightarrow> (Panicked NilPointer, w)
      | Some pref \<Rightarrow>
          (case sc of
             None \<Rightarrow> (Panicked NilPointer, w)
           | Some FetchPath \<Rightarrow>
               (case FetchPath (RemoteAS (peerSpec peer)) pref w of
                  ((isReady, rawHopFields, nextHopIP, Some err), w1) \<Rightarrow> (Return (Inl err), w1)
                | ((isReady, rawHopFields, nextHopIP, None), w1) \<Rightarrow>
                    if \<not> isReady then peers_loop lib sc policy peers False w1
                    else
                      (case CreateOrUpdate lib (new_computedPath policy peer)
                              (path_mutate lib policy peer nextHopIP rawHopFields) w1 of
                         ((_, Some err), _, w2) \<Rightarrow> (Return (Inl err), w2)
                       | ((_, None), _, w2) \<Rightarrow> peers_loop lib sc policy peers allPathsReady w2))))"

section \<open>Reconcile\<close>

definition active_condition :: "ScionPathPolicy \<Rightarrow> nat \<Rightarrow> Condition" where
  "active_condition policy n =
     \<lparr>cType = ''Active'', cStatus = ''True'', cObservedGeneration = Generation (polMeta policy),
      cReason = ''PathsComputed'',
      cMessage = ''Computed paths for '' @ itoa n @ '' destinations''\<rparr>"

text \<open>Step 2, the policy is being deleted.\<close>

definition reconcile_delete ::
  "('w, 'z) k8s_scheme \<Rightarrow> ScionPathPolicy \<Rightarrow> 'w \<Rightarrow> (ctrl_Result \<times> go_error option) go \<times> 'w" where
  "reconcile_delete lib policy w =
     (if ContainsFinalizer lib (polMeta policy) cilionFinalizer
      then case policy_Update lib
               (policy\<lparr>polMeta := RemoveFinalizer lib (polMeta policy) cilionFinalizer\<rparr>) w of
          (Some err, _, w1) \<Rightarrow> (Return (no_result, Some err), w1)
        | (None, _, w1) \<Rightarrow> (Return (no_result, None), w1)
      else (Return (no_result, None), w))"

text \<open>Steps 6 and 7, after the loop.\<close>

definition reconcile_status ::
  "('w, 'z) k8s_scheme \<Rightarrow> ScionPathPolicy \<Rightarrow> ScionClusterPeer list \<Rightarrow> bool \<Rightarrow> 'w \<Rightarrow>
     (ctrl_Result \<times> go_error option) go \<times> 'w" where
  "reconcile_status lib policy peers allPathsReady w =
     (if \<not> allPathsReady then (Return (\<lparr>RequeueAfter = 10 * 1000000000\<rparr>, None), w)
      else
        (case policy_StatusUpdate lib
                (policy\<lparr>polStatus := (polStatus policy)\<lparr>polConditions :=
                   SetStatusCondition lib (polConditions (polStatus policy))
                     (active_condition policy (length peers))\<rparr>\<rparr>) w of
           (Some err, _, w1) \<Rightarrow> (Return (no_result, Some err), w1)
         | (None, _, w1) \<Rightarrow> (Return (no_result, None), w1)))"

definition Reconcile ::
  "('w, 'z) k8s_scheme \<Rightarrow> 'w ScionPathPolicyReconciler \<Rightarrow> NamespacedName \<Rightarrow> 'w \<Rightarrow>
     (ctrl_Result \<times> go_error option) go \<times> 'w" where
  "Reconcile lib r req w =
     (case policy_Get lib req w of
        Inl err \<Rightarrow> (Return (no_result, IgnoreNotFound lib err), w)
      | Inr policy \<Rightarrow>
          if \<not> Time_IsZero (DeletionTimestamp (polMeta policy)) then reconcile_delete lib policy w
          else if \<not> ContainsFinalizer lib (polMeta policy) cilionFinalizer
          then case policy_Update lib
                   (policy\<lparr>polMeta := AddFinalizer lib (polMeta policy) cilionFinalizer\<rparr>) w of
              (Some err, _, w1) \<Rightarrow> (Return (no_result, Some err), w1)
            | (None, _, w1) \<Rightarrow> (Return (no_result, None), w1)
          else
            (case peer_List lib w of
               Inl err \<Rightarrow> (Return (no_result, Some err), w)
             | Inr peers \<Rightarrow>
                 (case peers_loop lib (rScionClient r) policy peers True w of
                    (Return (Inl err), w1) \<Rightarrow> (Return (no_result, Some err), w1)
                  | (Return (Inr allPathsReady), w1) \<Rightarrow>
                      reconcile_status lib policy peers allPathsReady w1
                  | (Panicked p, w1) \<Rightarrow> (Panicked p, w1)
                  | (Exited n, w1) \<Rightarrow> (Exited n, w1))))"

end
