(* ===== verification/ReconcilerSpec.thy ===== *)
theory ReconcilerSpec
  imports PolicyReconciler
begin

text \<open>
  What a reconciliation promises, over the contracts of \<open>K8sLib\<close>.  The abstract view of the
  computed paths is a table from names to the specification of a path and its controlling
  owners; \<open>publish\<close> is the abstract effect of the loop over the peers, and the loop refines it.
\<close>

section \<open>The abstract view\<close>

type_synonym path_view = "ScionComputedPathSpec \<times> string set"

definition view_of :: "ScionComputedPath \<Rightarrow> path_view" where
  "view_of c = (cpSpec c, orName ` {r \<in> set (OwnerReferences (cpMeta c)). orController r})"

definition view_map :: "(NamespacedName \<rightharpoonup> ScionComputedPath) \<Rightarrow> NamespacedName \<rightharpoonup> path_view" where
  "view_map m = map_option view_of \<circ> m"

definition wanted_spec ::
  "ScionPathPolicy \<Rightarrow> ScionClusterPeer \<Rightarrow> byte list \<Rightarrow> string \<Rightarrow> ScionComputedPathSpec" where
  "wanted_spec policy peer raw nh =
     \<lparr>PolicyRef = Name (polMeta policy), DestinationCIDR = PodCIDR (peerSpec peer),
      NextHopIP = nh, HopFields = raw\<rparr>"

definition path_key_of :: "ScionPathPolicy \<Rightarrow> ScionClusterPeer \<Rightarrow> NamespacedName" where
  "path_key_of policy peer = (Namespace (polMeta policy), computedPathName policy peer)"

text \<open>What the service says about a peer.\<close>

definition peer_ready :: "(string \<Rightarrow> string \<Rightarrow> fetch_answer) \<Rightarrow> string \<Rightarrow> ScionClusterPeer \<Rightarrow> bool" where
  "peer_ready ans pref peer = fst (ans (RemoteAS (peerSpec peer)) pref)"

definition peer_view ::
  "(string \<Rightarrow> string \<Rightarrow> fetch_answer) \<Rightarrow> string \<Rightarrow> ScionPathPolicy \<Rightarrow> ScionClusterPeer \<Rightarrow>
     path_view" where
  "peer_view ans pref policy peer =
     (case ans (RemoteAS (peerSpec peer)) pref of
        (_, raw, nh, _) \<Rightarrow> (wanted_spec policy peer raw nh, {Name (polMeta policy)}))"

definition peer_error ::
  "(string \<Rightarrow> string \<Rightarrow> fetch_answer) \<Rightarrow> string \<Rightarrow> ScionClusterPeer \<Rightarrow> go_error option" where
  "peer_error ans pref peer = snd (snd (snd (ans (RemoteAS (peerSpec peer)) pref)))"

fun publish ::
  "(string \<Rightarrow> string \<Rightarrow> fetch_answer) \<Rightarrow> string \<Rightarrow> ScionPathPolicy \<Rightarrow> ScionClusterPeer list \<Rightarrow>
     (NamespacedName \<rightharpoonup> path_view) \<Rightarrow> NamespacedName \<rightharpoonup> path_view" where
  "publish ans pref policy [] m = m"
| "publish ans pref policy (peer # peers) m =
     publish ans pref policy peers
       (if peer_ready ans pref peer
        then m(path_key_of policy peer \<mapsto> peer_view ans pref policy peer) else m)"

text \<open>For one policy the name of a computed path determines the name of the peer.\<close>

lemma path_key_of_inj:
  "path_key_of policy a = path_key_of policy b \<longleftrightarrow> Name (peerMeta a) = Name (peerMeta b)"
  by (simp add: path_key_of_def computedPathName_def)

lemma publish_other:
  "\<forall>p\<in>set ps. peer_ready ans pref p \<longrightarrow> path_key_of policy p \<noteq> k \<Longrightarrow>
     publish ans pref policy ps m k = m k"
  by (induction ps arbitrary: m) auto

lemma publish_last:
  assumes "peer_ready ans pref peer"
    and "\<forall>q\<in>set qs. peer_ready ans pref q \<longrightarrow> Name (peerMeta q) \<noteq> Name (peerMeta peer)"
  shows "publish ans pref policy (ps @ peer # qs) m (path_key_of policy peer) =
    Some (peer_view ans pref policy peer)"
proof -
  have split: "publish ans pref policy (ps @ rs) m =
      publish ans pref policy rs (publish ans pref policy ps m)" for rs
    by (induction ps arbitrary: m) auto
  have "\<forall>q\<in>set qs. peer_ready ans pref q \<longrightarrow> path_key_of policy q \<noteq> path_key_of policy peer"
    using assms(2) by (simp add: path_key_of_inj)
  then show ?thesis using assms(1) by (simp add: split publish_other)
qed

lemma publish_each:
  assumes "distinct (map (\<lambda>p. Name (peerMeta p)) ps)" and "peer \<in> set ps"
    and "peer_ready ans pref peer"
  shows "publish ans pref policy ps m (path_key_of policy peer) =
    Some (peer_view ans pref policy peer)"
proof -
  obtain ps1 ps2 where ps: "ps = ps1 @ peer # ps2"
    using assms(2) by (auto simp: in_set_conv_decomp)
  have "\<forall>q\<in>set ps2. Name (peerMeta q) \<noteq> Name (peerMeta peer)"
    using assms(1) by (simp add: ps) (metis image_eqI)
  then show ?thesis unfolding ps by (intro publish_last assms(3)) auto
qed

lemma publish_idem:
  "distinct (map (\<lambda>p. Name (peerMeta p)) ps) \<Longrightarrow>
     publish ans pref policy ps (publish ans pref policy ps m) = publish ans pref policy ps m"
proof (rule ext)
  fix k
  assume d: "distinct (map (\<lambda>p. Name (peerMeta p)) ps)"
  show "publish ans pref policy ps (publish ans pref policy ps m) k = publish ans pref policy ps m k"
  proof (cases "\<exists>p\<in>set ps. peer_ready ans pref p \<and> path_key_of policy p = k")
    case True
    then show ?thesis by (auto simp: publish_each [OF d])
  next
    case False
    then show ?thesis by (simp add: publish_other)
  qed
qed

section \<open>The loop\<close>

context scion_service
begin

lemma mutate_view:
  assumes "path_mutate lib policy peer nh raw base = (None, q)" and "same_content stored q"
  shows "view_of stored = (wanted_spec policy peer raw nh, {Name (polMeta policy)})"
proof -
  obtain m where scr: "SetControllerReference lib (polMeta policy) (cpMeta base) = (None, m)"
    and spec: "cpSpec q = wanted_spec policy peer raw nh" and meta: "cpMeta q = m"
    using assms(1)
    by (auto simp: path_mutate_def wanted_spec_def split: prod.splits option.splits)
  obtain os r where m: "m = (cpMeta base)\<lparr>OwnerReferences := os\<rparr>"
    and r: "r \<in> set os" "orController r" "orName r = Name (polMeta policy)"
    and only: "\<forall>r\<in>set os. orController r \<longrightarrow> orName r = Name (polMeta policy)"
    using controller_set [OF scr] by auto
  have "orName ` {r \<in> set os. orController r} = {Name (polMeta policy)}"
    using r only by force
  then show ?thesis
    using assms(2) by (simp add: view_of_def same_content_def spec meta m)
qed

lemma create_view:
  assumes "CreateOrUpdate lib (new_computedPath policy peer) (path_mutate lib policy peer nh raw) w
      = ((op, None), c', w')"
  shows "view_map (computed w') = (view_map (computed w))
      (path_key_of policy peer \<mapsto> (wanted_spec policy peer raw nh, {Name (polMeta policy)}))"
proof -
  have key: "key_of (cpMeta (new_computedPath policy peer)) = path_key_of policy peer"
    by (simp add: new_computedPath_def path_key_of_def)
  obtain base q stored where "path_mutate lib policy peer nh raw base = (None, q)"
    and "same_content stored q"
    and "computed w' = (computed w)(path_key_of policy peer \<mapsto> stored)"
    using cou_ok [OF assms] unfolding key by blast
  then show ?thesis by (auto simp: view_map_def fun_eq_iff mutate_view)
qed

lemma loop_frame:
  assumes "peers_loop lib sc policy ps ready w = (r, w')" and "sc = None \<or> sc = Some fetch"
  shows "policies w' = policies w \<and> peers w' = peers w \<and> answers w' = answers w \<and>
    (\<forall>k. k \<notin> path_key_of policy ` set ps \<longrightarrow> computed w' k = computed w k)"
  using assms
proof (induction ps arbitrary: ready w)
  case Nil
  then show ?case by simp
next
  case (Cons peer ps)
  note step = Cons.IH [OF _ Cons.prems(2)]
  obtain a w1 where f: "fetch (RemoteAS (peerSpec peer)) (the (Preference (polSpec policy))) w
      = (a, w1)" by (cases "fetch (RemoteAS (peerSpec peer)) (the (Preference (polSpec policy))) w")
  obtain isReady raw nh err where a: "a = (isReady, raw, nh, err)" by (cases a)
  obtain op e c w2 where c: "CreateOrUpdate lib (new_computedPath policy peer)
      (path_mutate lib policy peer nh raw) w1 = ((op, e), c, w2)"
    by (cases "CreateOrUpdate lib (new_computedPath policy peer)
      (path_mutate lib policy peer nh raw) w1") auto
  have key: "key_of (cpMeta (new_computedPath policy peer)) = path_key_of policy peer"
    by (simp add: new_computedPath_def path_key_of_def)
  show ?case
    using Cons.prems f a c fetch_frame [OF f] cou_other [OF c] step [of False w1] step [of ready w2]
    by (auto simp: key split: option.splits if_splits)
qed

lemma loop_ok:
  assumes "peers_loop lib (Some fetch) policy ps ready w = (Return (Inr r), w')"
    and pref: "Preference (polSpec policy) = Some pref"
  shows "view_map (computed w') = publish (answers w) pref policy ps (view_map (computed w)) \<and>
    (r \<longleftrightarrow> ready \<and> (\<forall>p\<in>set ps. peer_ready (answers w) pref p)) \<and>
    (\<forall>p\<in>set ps. peer_error (answers w) pref p = None)"
  using assms(1)
proof (induction ps arbitrary: ready w)
  case Nil
  then show ?case by auto
next
  case (Cons peer ps)
  obtain a w1 where f: "fetch (RemoteAS (peerSpec peer)) pref w = (a, w1)"
    by (cases "fetch (RemoteAS (peerSpec peer)) pref w")
  obtain isReady raw nh err where a: "a = (isReady, raw, nh, err)" by (cases a)
  have ans: "answers w (RemoteAS (peerSpec peer)) pref = (isReady, raw, nh, err)"
    and same: "answers w1 = answers w" "computed w1 = computed w"
    using fetch_answer [OF f] fetch_frame [OF f] a by auto
  have err: "err = None"
    using Cons.prems f a pref by (cases err) auto
  show ?case
  proof (cases isReady)
    case False
    then have "peers_loop lib (Some fetch) policy ps False w1 = (Return (Inr r), w')"
      using Cons.prems f a pref err by simp
    from Cons.IH [OF this] show ?thesis
      using False err by (auto simp: same ans peer_ready_def peer_error_def)
  next
    case True
    obtain op e c w2 where c: "CreateOrUpdate lib (new_computedPath policy peer)
        (path_mutate lib policy peer nh raw) w1 = ((op, e), c, w2)"
      by (cases "CreateOrUpdate lib (new_computedPath policy peer)
        (path_mutate lib policy peer nh raw) w1") auto
    have e: "e = None" using Cons.prems f a pref err True c by (cases e) auto
    have rest: "peers_loop lib (Some fetch) policy ps ready w2 = (Return (Inr r), w')"
      using Cons.prems f a pref err True c e by simp
    have "answers w2 = answers w" using cou_other [OF c] same by simp
    moreover have "view_map (computed w2) = (view_map (computed w))
        (path_key_of policy peer \<mapsto> peer_view (answers w) pref policy peer)"
      using create_view [OF c [unfolded e]] by (simp add: peer_view_def ans same)
    ultimately show ?thesis
      using Cons.IH [OF rest] True err
      by (simp add: ans peer_ready_def peer_error_def fun_upd_def)
  qed
qed

lemma loop_returns:
  assumes "Preference (polSpec policy) = Some pref"
  shows "returns (fst (peers_loop lib (Some fetch) policy ps ready w))"
proof (induction ps arbitrary: ready w)
  case Nil
  then show ?case by simp
next
  case (Cons peer ps)
  then show ?case
    using assms by (auto split: prod.splits option.splits)
qed

lemma loop_error:
  assumes "Preference (polSpec policy) = Some pref"
    and "peer \<in> set ps" and "peer_error (answers w) pref peer \<noteq> None"
  shows "\<exists>err w'. peers_loop lib (Some fetch) policy ps ready w = (Return (Inl err), w')"
proof -
  obtain r w' where run: "peers_loop lib (Some fetch) policy ps ready w = (Return r, w')"
    using loop_returns [OF assms(1), of ps ready w]
    by (cases "peers_loop lib (Some fetch) policy ps ready w") (auto elim: returnsE)
  then show ?thesis
    using loop_ok [of policy ps ready w _ w' pref] assms by (cases r) auto
qed

end

lemma loop_panics:
  "ps \<noteq> [] \<Longrightarrow> sc = None \<or> Preference (polSpec policy) = None \<Longrightarrow>
     peers_loop lib sc policy ps ready w = (Panicked NilPointer, w)"
  by (cases ps) (auto split: option.splits)

section \<open>Reconcile, branch by branch\<close>

context k8s_api
begin

lemma Reconcile_NotFound:
  "policy_Get lib req w = Inl (StatusError ''NotFound'') \<Longrightarrow>
     Reconcile lib r req w = (Return (no_result, None), w)"
  by (simp add: Reconcile_def ignore_NotFound)

lemma Reconcile_Get_error:
  "policy_Get lib req w = Inl err \<Longrightarrow> err \<noteq> StatusError ''NotFound'' \<Longrightarrow>
     Reconcile lib r req w = (Return (no_result, Some err), w)"
  by (simp add: Reconcile_def ignore_NotFound)

lemma Reconcile_deleting:
  assumes "policy_Get lib req w = Inr p" and "\<not> Time_IsZero (DeletionTimestamp (polMeta p))"
    and "Reconcile lib r req w = (Return (res, None), w')"
  shows "res = no_result \<and> computed w' = computed w \<and>
    (\<forall>k. k \<noteq> req \<longrightarrow> policies w' k = policies w k) \<and>
    (case policies w' req of None \<Rightarrow> True
     | Some q \<Rightarrow> cilionFinalizer \<notin> set (Finalizers (polMeta q)))"
proof (cases "cilionFinalizer \<in> set (Finalizers (polMeta p))")
  case True
  let ?p = "p\<lparr>polMeta := RemoveFinalizer lib (polMeta p) cilionFinalizer\<rparr>"
  have key: "key_of (polMeta p) = req" using get_ok [OF assms(1)] by simp
  obtain e q w1 where u: "policy_Update lib ?p w = (e, q, w1)"
    by (cases "policy_Update lib ?p w")
  have "e = None" and w1: "w1 = w'" and res: "res = no_result"
    using assms True u
    by (auto simp: Reconcile_def reconcile_delete_def contains_finalizer split: option.splits)
  note ok = update_ok [OF u [unfolded \<open>e = None\<close>]] and other = update_other [OF u]
  have "cilionFinalizer \<notin> set (Finalizers (polMeta q))"
    using ok by (auto simp: remove_finalizer)
  then show ?thesis using ok other by (auto simp: key w1 res remove_finalizer)
next
  case False
  then have "w' = w" and "res = no_result"
    using assms by (auto simp: Reconcile_def reconcile_delete_def contains_finalizer)
  then show ?thesis using False get_ok [OF assms(1)] by simp
qed

lemma Reconcile_add_finalizer:
  assumes "policy_Get lib req w = Inr p" and "Time_IsZero (DeletionTimestamp (polMeta p))"
    and "cilionFinalizer \<notin> set (Finalizers (polMeta p))"
    and "Reconcile lib r req w = (Return (res, None), w')"
  shows "res = no_result \<and> computed w' = computed w \<and> peers w' = peers w \<and>
    answers w' = answers w \<and>
    (\<exists>v. policies w' = (policies w)(req \<mapsto> p\<lparr>polMeta := (polMeta p)
       \<lparr>Finalizers := Finalizers (polMeta p) @ [cilionFinalizer], ResourceVersion := v\<rparr>\<rparr>))"
proof -
  let ?p = "p\<lparr>polMeta := AddFinalizer lib (polMeta p) cilionFinalizer\<rparr>"
  have key: "key_of (polMeta p) = req" using get_ok [OF assms(1)] by simp
  obtain e q w1 where u: "policy_Update lib ?p w = (e, q, w1)"
    by (cases "policy_Update lib ?p w")
  have "e = None" and "w1 = w'" and "res = no_result"
    using assms u by (auto simp: Reconcile_def contains_finalizer split: option.splits)
  then show ?thesis
    using update_ok [OF u [unfolded \<open>e = None\<close>]] update_other [OF u] assms(2,3)
    by (auto simp: key [symmetric] add_finalizer)
qed

text \<open>The main branch: neither deleted nor without its finalizer.\<close>

lemma Reconcile_main:
  assumes "policy_Get lib req w = Inr p" and "Time_IsZero (DeletionTimestamp (polMeta p))"
    and "cilionFinalizer \<in> set (Finalizers (polMeta p))" and "peer_List lib w = Inr ps"
  shows "Reconcile lib r req w = (case peers_loop lib (rScionClient r) p ps True w of
      (Return (Inl err), w1) \<Rightarrow> (Return (no_result, Some err), w1)
    | (Return (Inr allPathsReady), w1) \<Rightarrow> reconcile_status lib p ps allPathsReady w1
    | (Panicked x, w1) \<Rightarrow> (Panicked x, w1)
    | (Exited n, w1) \<Rightarrow> (Exited n, w1))"
  using assms by (simp add: Reconcile_def contains_finalizer)

end

lemma publish_cong:
  assumes "Name (polMeta p) = Name (polMeta q)" and "Namespace (polMeta p) = Namespace (polMeta q)"
  shows "publish ans pref p ps m = publish ans pref q ps m"
proof (induction ps arbitrary: m)
  case Nil
  then show ?case by simp
next
  case (Cons peer ps)
  have "path_key_of p peer = path_key_of q peer" and "peer_view ans pref p peer = peer_view ans pref q peer"
    by (simp_all add: path_key_of_def computedPathName_def peer_view_def wanted_spec_def assms)
  then show ?case using Cons by (simp add: fun_upd_def)
qed

section \<open>A reconciliation that reports success\<close>

definition requeue_10s :: ctrl_Result where
  "requeue_10s = \<lparr>RequeueAfter = 10000000000\<rparr>"

text \<open>Equal up to the resource version.\<close>

definition same_meta :: "ObjectMeta \<Rightarrow> ObjectMeta \<Rightarrow> bool" where
  "same_meta a b \<longleftrightarrow> (\<exists>v. b = a\<lparr>ResourceVersion := v\<rparr>)"

lemma same_meta_upd [simp]: "same_meta a (a\<lparr>ResourceVersion := v\<rparr>)"
  by (auto simp: same_meta_def)

lemma same_meta_refl [simp]: "same_meta a a"
  unfolding same_meta_def by (rule exI [of _ "ResourceVersion a"]) simp

lemma same_meta_fields:
  "same_meta a b \<Longrightarrow> Name b = Name a \<and> Namespace b = Namespace a \<and>
     Finalizers b = Finalizers a \<and> DeletionTimestamp b = DeletionTimestamp a"
  by (auto simp: same_meta_def)

context k8s_api
begin

lemma Reconcile_reads:
  assumes "policies w req = Some p" and "Reconcile lib r req w = (Return (res, None), w')"
  shows "policy_Get lib req w = Inr p \<and> key_of (polMeta p) = req"
proof (cases "policy_Get lib req w")
  case (Inl err)
  then have "err = StatusError ''NotFound''"
    using assms(2) by (auto simp: Reconcile_def ignore_NotFound split: if_splits)
  then show ?thesis using get_NotFound Inl assms(1) by auto
next
  case (Inr q)
  then show ?thesis using get_ok assms(1) by auto
qed

lemma status_effect:
  assumes "reconcile_status lib p ps ready w = (Return (res, None), w')"
    and "key_of (polMeta p) = req" and valid: "distinct (map cType (polConditions (polStatus p)))"
  shows "computed w' = computed w \<and> peers w' = peers w \<and> answers w' = answers w \<and>
    (if ready
     then res = no_result \<and>
       (\<exists>q q'. policies w req = Some q \<and> policies w' = (policies w)(req \<mapsto> q') \<and>
          polSpec q' = polSpec q \<and> same_meta (polMeta q) (polMeta q') \<and>
          active_condition p (length ps) \<in> set (polConditions (polStatus q')) \<and>
          (\<forall>c\<in>set (polConditions (polStatus q')). cType c = ''Active'' \<longrightarrow>
             c = active_condition p (length ps)))
     else res = requeue_10s \<and> policies w' = policies w)"
proof (cases ready)
  case False
  then show ?thesis using assms by (simp add: reconcile_status_def requeue_10s_def)
next
  case True
  let ?cs = "SetStatusCondition lib (polConditions (polStatus p)) (active_condition p (length ps))"
  let ?p = "p\<lparr>polStatus := (polStatus p)\<lparr>polConditions := ?cs\<rparr>\<rparr>"
  obtain e q w1 where u: "policy_StatusUpdate lib ?p w = (e, q, w1)"
    by (cases "policy_StatusUpdate lib ?p w")
  have "e = None" and w1: "w1 = w'" and res: "res = no_result"
    using assms True u by (auto simp: reconcile_status_def split: option.splits)
  obtain q v where q: "policies w req = Some q"
    and pols: "policies w' = (policies w)(req \<mapsto>
      q\<lparr>polStatus := polStatus ?p, polMeta := polMeta q\<lparr>ResourceVersion := v\<rparr>\<rparr>)"
    using status_ok [OF u [unfolded \<open>e = None\<close>]] assms(2) w1 by auto
  have "active_condition p (length ps) \<in> set ?cs" by (rule set_condition)
  moreover have "c = active_condition p (length ps)" if "c \<in> set ?cs" "cType c = ''Active''" for c
    by (rule set_condition_type [OF valid that(1)]) (simp add: that(2) active_condition_def)
  moreover define q' where
    "q' = q\<lparr>polStatus := polStatus ?p, polMeta := polMeta q\<lparr>ResourceVersion := v\<rparr>\<rparr>"
  ultimately have "policies w req = Some q \<and> policies w' = (policies w)(req \<mapsto> q') \<and>
      polSpec q' = polSpec q \<and> same_meta (polMeta q) (polMeta q') \<and>
      active_condition p (length ps) \<in> set (polConditions (polStatus q')) \<and>
      (\<forall>c\<in>set (polConditions (polStatus q')). cType c = ''Active'' \<longrightarrow>
         c = active_condition p (length ps))"
    using q pols by simp
  then show ?thesis using True res status_other [OF u] w1 by (simp only: if_True simp_thms) blast
qed

end

context scion_service
begin

lemma loop_owned:
  assumes "peers_loop lib (Some fetch) policy ps ready w = (Return (Inr r), w')"
    and pref: "Preference (polSpec policy) = Some pref"
    and "peer \<in> set ps" and "peer_ready (answers w) pref peer"
    and "computed w (path_key_of policy peer) = Some c"
    and "ow \<in> set (OwnerReferences (cpMeta c))" and "orController ow"
  shows "orName ow = Name (polMeta policy)"
  using assms(1,3-7)
proof (induction ps arbitrary: ready w c)
  case Nil
  then show ?case by simp
next
  case (Cons x ps)
  obtain a w1 where f: "fetch (RemoteAS (peerSpec x)) pref w = (a, w1)"
    by (cases "fetch (RemoteAS (peerSpec x)) pref w")
  obtain isReady raw nh err where a: "a = (isReady, raw, nh, err)" by (cases a)
  have ans: "answers w (RemoteAS (peerSpec x)) pref = (isReady, raw, nh, err)"
    and same: "answers w1 = answers w" "computed w1 = computed w"
    using fetch_answer [OF f] fetch_frame [OF f] a by auto
  have err: "err = None"
    using Cons.prems f a pref by (cases err) auto
  show ?case
  proof (cases isReady)
    case False
    then have "peers_loop lib (Some fetch) policy ps False w1 = (Return (Inr r), w')"
      using Cons.prems f a pref err by simp
    moreover have "peer \<in> set ps"
      using Cons.prems False ans by (auto simp: peer_ready_def)
    ultimately show ?thesis
      using Cons.IH Cons.prems same by simp
  next
    case True
    obtain op e c' w2 where cou: "CreateOrUpdate lib (new_computedPath policy x)
        (path_mutate lib policy x nh raw) w1 = ((op, e), c', w2)"
      by (cases "CreateOrUpdate lib (new_computedPath policy x)
        (path_mutate lib policy x nh raw) w1") auto
    have e: "e = None" using Cons.prems f a pref err True cou by (cases e) auto
    have rest: "peers_loop lib (Some fetch) policy ps ready w2 = (Return (Inr r), w')"
      using Cons.prems f a pref err True cou e by simp
    have key: "key_of (cpMeta (new_computedPath policy x)) = path_key_of policy x"
      by (simp add: new_computedPath_def path_key_of_def)
    show ?thesis
    proof (cases "path_key_of policy x = path_key_of policy peer")
      case True
      then obtain q where "path_mutate lib policy x nh raw c = (None, q)"
        using cou_ok [OF cou [unfolded e]] Cons.prems(4) same by (auto simp: key)
      then have "fst (SetControllerReference lib (polMeta policy) (cpMeta c)) = None"
        by (auto simp: path_mutate_def split: prod.splits option.splits)
      then show ?thesis using controller_other Cons.prems(5,6) by blast
    next
      case False
      then have "path_key_of policy peer \<noteq> key_of (cpMeta (new_computedPath policy x))"
        by (simp add: key)
      then have "computed w2 (path_key_of policy peer) = computed w1 (path_key_of policy peer)"
        using cou_other [OF cou] by blast
      then have "computed w2 (path_key_of policy peer) = Some c" by (simp add: same Cons.prems(4))
      moreover have "peer \<in> set ps" using Cons.prems(2) False by auto
      moreover have "answers w2 = answers w" using cou_other [OF cou] same by simp
      ultimately show ?thesis
        using Cons.IH [OF rest] Cons.prems by simp
    qed
  qed
qed

text \<open>The whole reconciliation of a policy that has its finalizer.\<close>

lemma Reconcile_success:
  assumes pol: "policies w req = Some p" "Time_IsZero (DeletionTimestamp (polMeta p))"
      "cilionFinalizer \<in> set (Finalizers (polMeta p))" "Preference (polSpec p) = Some pref"
    and sc: "rScionClient r = Some fetch"
    and run: "Reconcile lib r req w = (Return (res, None), w')"
  shows "view_map (computed w') = publish (answers w) pref p (peers w) (view_map (computed w)) \<and>
    peers w' = peers w \<and> answers w' = answers w \<and>
    (if \<forall>x\<in>set (peers w). peer_ready (answers w) pref x
     then res = no_result \<and>
       (\<exists>q. policies w' = (policies w)(req \<mapsto> q) \<and> polSpec q = polSpec p \<and>
          same_meta (polMeta p) (polMeta q) \<and>
          {c \<in> set (polConditions (polStatus q)). cType c = ''Active''} =
            {active_condition p (length (peers w))})
     else res = requeue_10s \<and> policies w' = policies w)"
proof -
  note get = Reconcile_reads [OF pol(1) run]
  then have "policy_Get lib req w = Inr p" and key: "key_of (polMeta p) = req" by simp_all
  note main = Reconcile_main [OF this(1) pol(2,3)]
  obtain ps where ps: "peer_List lib w = Inr ps"
    using run get pol by (cases "peer_List lib w") (auto simp: Reconcile_def contains_finalizer)
  then have peers: "ps = peers w" by (rule peers_ok)
  obtain lr w1 where loop: "peers_loop lib (Some fetch) p ps True w = (Return lr, w1)"
    using loop_returns [OF pol(4), of ps True w]
    by (cases "peers_loop lib (Some fetch) p ps True w") (auto elim: returnsE)
  obtain ready where lr: "lr = Inr ready"
    using run main [OF ps, of r] by (cases lr) (simp_all add: sc loop)
  have status: "reconcile_status lib p ps ready w1 = (Return (res, None), w')"
    using run main [OF ps, of r] by (simp add: sc loop lr)
  note eff = status_effect [OF status key get_valid [OF conjunct1 [OF get]]]
  note fr = loop_frame [OF loop disjI2 [OF refl]]
  note ok = loop_ok [OF loop [unfolded lr] pol(4)]
  have pols: "policies w1 = policies w" using fr by simp
  have frame: "view_map (computed w') = publish (answers w) pref p (peers w) (view_map (computed w))"
    "peers w' = peers w" "answers w' = answers w"
    using eff fr ok by (simp_all only: peers)
  have ready: "ready \<longleftrightarrow> (\<forall>x\<in>set (peers w). peer_ready (answers w) pref x)"
    using ok peers by simp
  show ?thesis
  proof (cases ready)
    case False
    then have "res = requeue_10s" and "policies w' = policies w" using eff pols by simp_all
    then show ?thesis using False frame by (simp only: ready [symmetric] if_False simp_thms)
  next
    case True
    note eff_ready = eff [unfolded if_P [OF True]]
    from eff_ready obtain q q' where res: "res = no_result" and q: "policies w1 req = Some q"
      and q': "policies w' = (policies w1)(req \<mapsto> q')" "polSpec q' = polSpec q"
        "same_meta (polMeta q) (polMeta q')"
      and cs: "active_condition p (length ps) \<in> set (polConditions (polStatus q'))"
        "\<forall>c\<in>set (polConditions (polStatus q')). cType c = ''Active'' \<longrightarrow>
           c = active_condition p (length ps)"
      by (elim conjE exE) (rule that)
    have "q = p" using q pols pol(1) by simp
    have "cType (active_condition p (length ps)) = ''Active''" by (simp add: active_condition_def)
    then have "{c \<in> set (polConditions (polStatus q')). cType c = ''Active''} =
        {active_condition p (length (peers w))}"
      using cs unfolding peers by blast
    with \<open>q = p\<close> have "\<exists>q. policies w' = (policies w)(req \<mapsto> q) \<and> polSpec q = polSpec p \<and>
          same_meta (polMeta p) (polMeta q) \<and>
          {c \<in> set (polConditions (polStatus q)). cType c = ''Active''} =
            {active_condition p (length (peers w))}"
      using q' pols by (intro exI [of _ q']) simp
    then show ?thesis using True frame res by (simp only: ready [symmetric] if_True simp_thms)
  qed
qed

text \<open>Running it again, with the same peers and answers, changes no computed path.\<close>

lemma Reconcile_idem:
  assumes pol: "policies w req = Some p" "Time_IsZero (DeletionTimestamp (polMeta p))"
      "cilionFinalizer \<in> set (Finalizers (polMeta p))" "Preference (polSpec p) = Some pref"
    and sc: "rScionClient r = Some fetch"
    and names: "distinct (map (\<lambda>x. Name (peerMeta x)) (peers w))"
    and run1: "Reconcile lib r req w = (Return (res1, None), w1)"
    and run2: "Reconcile lib r req w1 = (Return (res2, None), w2)"
  shows "view_map (computed w2) = view_map (computed w1) \<and> res2 = res1"
proof -
  note eff1 = Reconcile_success [OF pol sc run1]
  obtain q where q: "policies w1 req = Some q" "polSpec q = polSpec p"
      "same_meta (polMeta p) (polMeta q)"
    and res1: "res1 = (if \<forall>x\<in>set (peers w). peer_ready (answers w) pref x then no_result
        else requeue_10s)"
  proof (cases "\<forall>x\<in>set (peers w). peer_ready (answers w) pref x")
    case True
    from eff1 [unfolded if_P [OF True]] True that show ?thesis by auto
  next
    case False
    have "res1 = requeue_10s" and "policies w1 = policies w"
      using eff1 unfolding if_not_P [OF False] by simp_all
    then show ?thesis using False pol(1) by (intro that [of p]) auto
  qed
  have alive: "Time_IsZero (DeletionTimestamp (polMeta q))"
    "cilionFinalizer \<in> set (Finalizers (polMeta q))" "Preference (polSpec q) = Some pref"
    using pol same_meta_fields [OF q(3)] by (simp_all add: q)
  note eff2 = Reconcile_success [OF q(1) alive sc run2]
  have same: "peers w1 = peers w" "answers w1 = answers w" using eff1 by simp_all
  have pub: "publish (answers w) pref q (peers w) m = publish (answers w) pref p (peers w) m" for m
    by (rule publish_cong) (simp_all add: same_meta_fields [OF q(3)])
  have "view_map (computed w2) = publish (answers w) pref q (peers w) (view_map (computed w1))"
    using eff2 by (simp add: same)
  also have "\<dots> = publish (answers w) pref p (peers w)
      (publish (answers w) pref p (peers w) (view_map (computed w)))"
    using eff1 by (simp add: pub)
  also have "\<dots> = view_map (computed w1)"
    using eff1 by (simp add: publish_idem [OF names])
  finally have "view_map (computed w2) = view_map (computed w1)" .
  moreover have "res2 = res1"
  proof (cases "\<forall>x\<in>set (peers w). peer_ready (answers w) pref x")
    case True
    then show ?thesis using eff2 res1 by (simp add: same)
  next
    case False
    then show ?thesis using eff2 res1 by (auto simp: same)
  qed
  ultimately show ?thesis ..
qed

text \<open>From a new policy: the first run adds the finalizer, the second publishes.\<close>

lemma Reconcile_twice:
  assumes pol: "policies w req = Some p" "Time_IsZero (DeletionTimestamp (polMeta p))"
      "cilionFinalizer \<notin> set (Finalizers (polMeta p))" "Preference (polSpec p) = Some pref"
    and sc: "rScionClient r = Some fetch"
    and run1: "Reconcile lib r req w = (Return (res1, None), w1)"
    and run2: "Reconcile lib r req w1 = (Return (res2, None), w2)"
  shows "computed w1 = computed w \<and>
    view_map (computed w2) = publish (answers w) pref p (peers w) (view_map (computed w)) \<and>
    res2 = (if \<forall>x\<in>set (peers w). peer_ready (answers w) pref x then no_result else requeue_10s) \<and>
    (\<exists>q. policies w2 req = Some q \<and> polSpec q = polSpec p \<and>
       Finalizers (polMeta q) = Finalizers (polMeta p) @ [cilionFinalizer])"
proof -
  note get = Reconcile_reads [OF pol(1) run1]
  obtain v where same: "computed w1 = computed w" "peers w1 = peers w" "answers w1 = answers w"
    and p1: "policies w1 = (policies w)(req \<mapsto> p\<lparr>polMeta := (polMeta p)
       \<lparr>Finalizers := Finalizers (polMeta p) @ [cilionFinalizer], ResourceVersion := v\<rparr>\<rparr>)"
    using Reconcile_add_finalizer [OF conjunct1 [OF get] pol(2,3) run1] by blast
  let ?p1 = "p\<lparr>polMeta := (polMeta p)
     \<lparr>Finalizers := Finalizers (polMeta p) @ [cilionFinalizer], ResourceVersion := v\<rparr>\<rparr>"
  have p1_at: "policies w1 req = Some ?p1" using p1 by simp
  note eff = Reconcile_success [OF p1_at _ _ _ sc run2, of pref, simplified same]
  have pub: "publish (answers w) pref ?p1 (peers w) m = publish (answers w) pref p (peers w) m" for m
    by (rule publish_cong) simp_all
  show ?thesis
  proof (cases "\<forall>x\<in>set (peers w). peer_ready (answers w) pref x")
    case True
    then show ?thesis
      using eff pol(2,4) same(1) pub by (auto dest: same_meta_fields)
  next
    case False
    then show ?thesis using eff pol(2,4) same(1) pub p1_at by auto
  qed
qed

text \<open>Nothing but a reported error, a requeue or an activation comes out.\<close>

lemma Reconcile_no_success_on_error:
  assumes pol: "policies w req = Some p" "Time_IsZero (DeletionTimestamp (polMeta p))"
      "cilionFinalizer \<in> set (Finalizers (polMeta p))" "Preference (polSpec p) = Some pref"
    and sc: "rScionClient r = Some fetch"
    and bad: "x \<in> set (peers w)" "peer_error (answers w) pref x \<noteq> None"
    and run: "Reconcile lib r req w = (Return (res, err), w')"
  shows "err \<noteq> None"
proof
  assume none: "err = None"
  note get = Reconcile_reads [OF pol(1) run [unfolded none]]
  obtain ps where ps: "peer_List lib w = Inr ps"
    using run none get pol by (cases "peer_List lib w") (auto simp: Reconcile_def contains_finalizer)
  then have peers: "ps = peers w" by (rule peers_ok)
  obtain e w1 where "peers_loop lib (Some fetch) p ps True w = (Return (Inl e), w1)"
    using loop_error [OF pol(4), of x ps w True] bad peers by auto
  then show False
    using run none Reconcile_main [OF conjunct1 [OF get] pol(2,3) ps, of r] by (simp add: sc)
qed

text \<open>Success is possible only where no other policy controls a path to be written.\<close>

lemma Reconcile_owned:
  assumes pol: "policies w req = Some p" "Time_IsZero (DeletionTimestamp (polMeta p))"
      "cilionFinalizer \<in> set (Finalizers (polMeta p))" "Preference (polSpec p) = Some pref"
    and sc: "rScionClient r = Some fetch"
    and owner: "x \<in> set (peers w)" "peer_ready (answers w) pref x"
      "computed w (path_key_of p x) = Some c"
      "ow \<in> set (OwnerReferences (cpMeta c))" "orController ow"
    and run: "Reconcile lib r req w = (Return (res, None), w')"
  shows "orName ow = Name (polMeta p)"
proof -
  note get = Reconcile_reads [OF pol(1) run]
  obtain ps where ps: "peer_List lib w = Inr ps"
    using run get pol by (cases "peer_List lib w") (auto simp: Reconcile_def contains_finalizer)
  then have peers: "ps = peers w" by (rule peers_ok)
  obtain lr w1 where loop: "peers_loop lib (Some fetch) p ps True w = (Return lr, w1)"
    using loop_returns [OF pol(4), of ps True w]
    by (cases "peers_loop lib (Some fetch) p ps True w") (auto elim: returnsE)
  then obtain ready where "lr = Inr ready"
    using run Reconcile_main [OF conjunct1 [OF get] pol(2,3) ps, of r] by (cases lr) (auto simp: sc)
  from loop_owned [OF loop [unfolded this] pol(4) _ owner(2-5)] owner(1) peers
  show ?thesis by simp
qed

text \<open>Whatever the outcome, only this policy and the paths of its own peers can change.\<close>

lemma Reconcile_frame:
  assumes "rScionClient r = None \<or> rScionClient r = Some fetch"
    and "Reconcile lib r req w = (out, w')"
  shows "(\<forall>k. k \<noteq> req \<longrightarrow> policies w' k = policies w k) \<and>
    (\<forall>k. (\<forall>p x. policies w req = Some p \<longrightarrow> x \<in> set (peers w) \<longrightarrow> k \<noteq> path_key_of p x) \<longrightarrow>
       computed w' k = computed w k)"
proof (cases "policy_Get lib req w")
  case (Inl err)
  then show ?thesis using assms by (simp add: Reconcile_def)
next
  case (Inr p)
  then have p: "policies w req = Some p" and key: "key_of (polMeta p) = req"
    using get_ok by auto
  have fin: "key_of (polMeta (p\<lparr>polMeta := RemoveFinalizer lib (polMeta p) cilionFinalizer\<rparr>)) = req"
    by (simp add: remove_finalizer key)
  have upd: "(\<forall>k. k \<noteq> req \<longrightarrow> policies w' k = policies w k) \<and> computed w' = computed w"
    if "policy_Update lib q w = (x, y, w')" and "key_of (polMeta q) = req" for q x y
    using update_other [OF that(1)] that(2) by simp
  consider (deleting) "reconcile_delete lib p w = (out, w')"
    | (adding) x y where "policy_Update lib
        (p\<lparr>polMeta := AddFinalizer lib (polMeta p) cilionFinalizer\<rparr>) w = (x, y, w')"
        "cilionFinalizer \<notin> set (Finalizers (polMeta p))"
    | (list_error) "w' = w"
    | (main) ps x w1 where "peer_List lib w = Inr ps"
        "peers_loop lib (rScionClient r) p ps True w = (x, w1)"
        "w' = w1 \<or> (\<exists>b. reconcile_status lib p ps b w1 = (out, w'))"
    using assms(2) Inr
    by (auto simp: Reconcile_def contains_finalizer
        split: if_splits prod.splits option.splits sum.splits go.splits)
  then show ?thesis
  proof cases
    case deleting
    then have "w' = w \<or> (\<exists>x y. policy_Update lib
        (p\<lparr>polMeta := RemoveFinalizer lib (polMeta p) cilionFinalizer\<rparr>) w = (x, y, w'))"
      by (auto simp: reconcile_delete_def split: if_splits prod.splits option.splits)
    then show ?thesis using upd fin by auto
  next
    case (adding x y)
    have "key_of (polMeta (p\<lparr>polMeta := AddFinalizer lib (polMeta p) cilionFinalizer\<rparr>)) = req"
      using adding(2) by (simp add: add_finalizer key)
    from upd [OF adding(1) this] show ?thesis by simp
  next
    case list_error
    then show ?thesis by simp
  next
    case (main ps x w1)
    have ps: "ps = peers w" by (rule peers_ok [OF main(1)])
    note fr = loop_frame [OF main(2) assms(1)]
    have st: "computed w' = computed w1 \<and> (\<forall>k. k \<noteq> req \<longrightarrow> policies w' k = policies w1 k)"
    proof (cases "w' = w1")
      case True
      then show ?thesis by simp
    next
      case False
      then obtain b where "reconcile_status lib p ps b w1 = (out, w')" using main(3) by blast
      then have "w' = w1 \<or> (\<exists>x y cs. policy_StatusUpdate lib
          (p\<lparr>polStatus := (polStatus p)\<lparr>polConditions := cs\<rparr>\<rparr>) w1 = (x, y, w'))"
        by (auto simp: reconcile_status_def split: if_splits prod.splits option.splits)
      then show ?thesis using False status_other key by fastforce
    qed
    have "computed w' k = computed w k" if "\<forall>x\<in>set (peers w). k \<noteq> path_key_of p x" for k
    proof -
      have "k \<notin> path_key_of p ` set ps" using that ps by blast
      then have "computed w1 k = computed w k" using fr by blast
      then show ?thesis using st by simp
    qed
    then show ?thesis using fr st p by simp
  qed
qed

end

end
