(* ===== verification/DemoApi.thy ===== *)
theory DemoApi
  imports ApiServerRef ReconcilerSpec
begin

text \<open>
  Concrete policies, peers and API servers, on which the witnesses of the control plane's
  properties run.
\<close>

section \<open>Inputs for the witnesses\<close>

definition demo_policy :: "string \<Rightarrow> nat option \<Rightarrow> string list \<Rightarrow> string option \<Rightarrow> ScionPathPolicy" where
  "demo_policy name del fins pref =
     \<lparr>polMeta = (object_meta name ''prod'')\<lparr>UID := ''u-'' @ name, Generation := 1,
        DeletionTimestamp := del, Finalizers := fins\<rparr>,
      polSpec = \<lparr>PodSelector = \<lparr>MatchLabels = [(''app'', ''web'')], MatchExpressions = []\<rparr>,
        Preference = pref\<rparr>,
      polStatus = \<lparr>polConditions = []\<rparr>\<rparr>"

definition demo_peer :: "string \<Rightarrow> string \<Rightarrow> string \<Rightarrow> string \<Rightarrow> ScionClusterPeer" where
  "demo_peer ns name as cidr =
     \<lparr>peerMeta = object_meta name ns, peerSpec = \<lparr>RemoteAS = as, PodCIDR = cidr\<rparr>,
      peerStatus = \<lparr>peerConditions = []\<rparr>\<rparr>"

text \<open>The service knows the path to AS a, not yet the one to b, and fails for anything else.\<close>

definition demo_answers :: "string \<Rightarrow> string \<Rightarrow> fetch_answer" where
  "demo_answers as pref =
     (if as = ''1-a'' then (True, [1, 2, 3], ''192.0.2.1'', None)
      else if as = ''1-c'' then (True, [4, 5], ''192.0.2.2'', None)
      else if as = ''1-b'' then (False, [], [], None)
      else (False, [], [], Some (ErrText ''unknown AS'')))"

definition demo_api ::
  "ScionPathPolicy list \<Rightarrow> ScionComputedPath list \<Rightarrow> ScionClusterPeer list \<Rightarrow> api_server" where
  "demo_api ps cs prs =
     \<lparr>aPolicies = ps, aComputed = cs, aPeers = prs, aAnswers = demo_answers\<rparr>"

definition demo_r :: "api_server ScionPathPolicyReconciler" where
  "demo_r = \<lparr>rScionClient = Some mem_fetch\<rparr>"

definition demo_key :: NamespacedName where
  "demo_key = (''prod'', ''web'')"

definition ready_policy :: ScionPathPolicy where
  "ready_policy = demo_policy ''web'' None [cilionFinalizer] (Some ''low_latency'')"

definition peer_a :: ScionClusterPeer where "peer_a = demo_peer ''default'' ''a'' ''1-a'' ''10.1.0.0/16''"
definition peer_b :: ScionClusterPeer where "peer_b = demo_peer ''default'' ''b'' ''1-b'' ''10.2.0.0/16''"
definition peer_c :: ScionClusterPeer where "peer_c = demo_peer ''default'' ''c'' ''1-c'' ''10.3.0.0/16''"
definition peer_a2 :: ScionClusterPeer where "peer_a2 = demo_peer ''other'' ''a'' ''1-c'' ''10.4.0.0/16''"
definition peer_x :: ScionClusterPeer where "peer_x = demo_peer ''default'' ''x'' ''9-x'' ''10.9.0.0/16''"

lemma demo_r_client: "rScionClient demo_r = Some mem_fetch"
  by (simp add: demo_r_def)

text \<open>Running a reconciliation, split into its outcome and the world after it.\<close>

lemma run_split: "fst x = a \<Longrightarrow> x = (a, snd x)"
  by (cases x) simp

lemmas mem_service = ms.scion_service_axioms
lemmas mem_api = ms.k8s_api_axioms

definition stale_path :: ScionComputedPath where
  "stale_path = \<lparr>cpMeta = object_meta ''web-to-gone'' ''prod'',
     cpSpec = \<lparr>PolicyRef = ''web'', DestinationCIDR = ''10.7.0.0/16'', NextHopIP = ''192.0.2.7'',
       HopFields = [7]\<rparr>, cpStatus = \<lparr>cpConditions = []\<rparr>\<rparr>"

end
