(* ===== verification/ControlProps.thy ===== *)
theory ControlProps
  imports DemoApi
begin

text \<open>
  The properties of the policy reconciler, over any client, helper library and path service that
  meet the contracts of \<open>K8sLib\<close> (the named hypotheses \<open>k8s_api\<close> and \<open>scion_service\<close>): what a
  run that reports success has published.  The witnesses run on \<open>DemoApi\<close>.
\<close>

section \<open>What a successful reconciliation publishes\<close>

text \<open>
  C1: whenever \<open>Reconcile\<close> of a live policy with its finalizer and a preference reports success,
  the computed paths are exactly the abstract \<open>publish\<close> of the old ones: every ready peer's path,
  with the service's bytes and next hop, is stored under its name and controlled by this policy
  alone, and no other computed path is touched.
\<close>
theorem Reconcile_publishes:
  assumes "scion_service lib policies computed peers answers fetch"
    and "policies w req = Some p" and "Time_IsZero (DeletionTimestamp (polMeta p))"
    and "cilionFinalizer \<in> set (Finalizers (polMeta p))"
    and "Preference (polSpec p) = Some pref" and "rScionClient r = Some fetch"
    and "Reconcile lib r req w = (Return (res, None), w')"
  shows "view_map (computed w') = publish (answers w) pref p (peers w) (view_map (computed w))"
  using scion_service.Reconcile_success [OF assms] by simp

theorem Reconcile_publishes_witness:
  "view_map (mem_computed (snd (Reconcile mem_k8s demo_r demo_key
       (demo_api [ready_policy] [] [peer_a, peer_b]))))
     (''prod'', ''web-to-a'') =
   Some (\<lparr>PolicyRef = ''web'', DestinationCIDR = ''10.1.0.0/16'', NextHopIP = ''192.0.2.1'',
      HopFields = [1, 2, 3]\<rparr>, {''web''})"
proof -
  let ?w = "demo_api [ready_policy] [] [peer_a, peer_b]"
  have run: "Reconcile mem_k8s demo_r demo_key ?w =
      (Return (requeue_10s, None), snd (Reconcile mem_k8s demo_r demo_key ?w))"
    by (rule run_split) code_simp
  have pol: "mem_policies ?w demo_key = Some ready_policy"
    by (simp add: mem_policies_def demo_api_def ready_policy_def demo_policy_def demo_key_def
        key_of_def object_meta_def)
  have "view_map (mem_computed (snd (Reconcile mem_k8s demo_r demo_key ?w))) =
      publish (aAnswers ?w) ''low_latency'' ready_policy (aPeers ?w) (view_map (mem_computed ?w))"
    by (rule Reconcile_publishes [OF mem_service pol _ _ _ demo_r_client run])
      (simp_all add: ready_policy_def demo_policy_def)
  then show ?thesis
    by (simp add: demo_api_def peer_ready_def path_key_of_def computedPathName_def peer_view_def
        wanted_spec_def peer_a_def peer_b_def demo_peer_def demo_answers_def ready_policy_def
        demo_policy_def)
qed



text \<open>
  C36: when some peer's path is not ready, a reconciliation of a live policy with its finalizer and a
  preference that reports no error asks to be run again after ten seconds (in nanoseconds), stores
  no policy, so that no Active condition is written, and has all the same stored the paths that
  were ready.
\<close>
theorem Reconcile_requeues:
  assumes "scion_service lib policies computed peers answers fetch"
    and "policies w req = Some p" and "Time_IsZero (DeletionTimestamp (polMeta p))"
    and "cilionFinalizer \<in> set (Finalizers (polMeta p))"
    and "Preference (polSpec p) = Some pref" and "rScionClient r = Some fetch"
    and "Reconcile lib r req w = (Return (res, None), w')"
    and late: "x \<in> set (peers w)" "\<not> peer_ready (answers w) pref x"
  shows "RequeueAfter res = 10 * 10 ^ 9 \<and> policies w' = policies w \<and>
    view_map (computed w') = publish (answers w) pref p (peers w) (view_map (computed w))"
proof -
  have "\<not> (\<forall>x\<in>set (peers w). peer_ready (answers w) pref x)" using late by blast
  note eff = scion_service.Reconcile_success [OF assms(1-7), unfolded if_not_P [OF this]]
  then show ?thesis by (simp add: requeue_10s_def)
qed

theorem Reconcile_requeues_witness:
  "mem_policies (snd (Reconcile mem_k8s demo_r demo_key
     (demo_api [ready_policy] [] [peer_a, peer_b]))) demo_key = Some ready_policy"
proof -
  let ?w = "demo_api [ready_policy] [] [peer_a, peer_b]"
  have run: "Reconcile mem_k8s demo_r demo_key ?w =
      (Return (requeue_10s, None), snd (Reconcile mem_k8s demo_r demo_key ?w))"
    by (rule run_split) code_simp
  have pol: "mem_policies ?w demo_key = Some ready_policy"
    by (simp add: mem_policies_def demo_api_def ready_policy_def demo_policy_def demo_key_def
        key_of_def object_meta_def)
  have "mem_policies (snd (Reconcile mem_k8s demo_r demo_key ?w)) = mem_policies ?w"
    using Reconcile_requeues [OF mem_service pol _ _ _ demo_r_client run, of "''low_latency''" peer_b]
    by (auto simp: ready_policy_def demo_policy_def demo_api_def peer_ready_def peer_b_def
        demo_peer_def demo_answers_def)
  then show ?thesis using pol by simp
qed

text \<open>
  A peer for which the service reports an error makes the reconciliation end in an error,
  whatever the other peers answer: it never reports success.
\<close>
lemma Reconcile_fetch_error:
  assumes "scion_service lib policies computed peers answers fetch"
    and "policies w req = Some p" and "Time_IsZero (DeletionTimestamp (polMeta p))"
    and "cilionFinalizer \<in> set (Finalizers (polMeta p))"
    and "Preference (polSpec p) = Some pref" and "rScionClient r = Some fetch"
    and "x \<in> set (peers w)" and "peer_error (answers w) pref x \<noteq> None"
    and "Reconcile lib r req w = (Return (res, err), w')"
  shows "err \<noteq> None"
  by (rule scion_service.Reconcile_no_success_on_error [OF assms(1-9)])

text \<open>
  A new policy needs two runs: when both report success, the first stores only the finalizer
  and computes no path, the second publishes, and it asks for a requeue exactly when some peer's
  path was not ready; the spec is the user's throughout.
\<close>
lemma Reconcile_two_runs:
  assumes "scion_service lib policies computed peers answers fetch"
    and "policies w req = Some p" and "Time_IsZero (DeletionTimestamp (polMeta p))"
    and "cilionFinalizer \<notin> set (Finalizers (polMeta p))"
    and "Preference (polSpec p) = Some pref" and "rScionClient r = Some fetch"
    and "Reconcile lib r req w = (Return (res1, None), w1)"
    and "Reconcile lib r req w1 = (Return (res2, None), w2)"
  shows "computed w1 = computed w \<and>
    view_map (computed w2) = publish (answers w) pref p (peers w) (view_map (computed w)) \<and>
    res2 = (if \<forall>x\<in>set (peers w). peer_ready (answers w) pref x then no_result else requeue_10s) \<and>
    (\<exists>q. policies w2 req = Some q \<and> polSpec q = polSpec p \<and>
       Finalizers (polMeta q) = Finalizers (polMeta p) @ [cilionFinalizer])"
  by (rule scion_service.Reconcile_twice [OF assms])



text \<open>
  C17: whatever the outcome of a run (success, error, panic), it changes no other policy, and no
  computed path but those named after this policy and one of the current peers; so a path whose
  peer is gone is left as it is.
\<close>
theorem Reconcile_changes_only_own:
  assumes "scion_service lib policies computed peers answers fetch"
    and "rScionClient r = None \<or> rScionClient r = Some fetch"
    and "Reconcile lib r req w = (out, w')"
  shows "(\<forall>k. k \<noteq> req \<longrightarrow> policies w' k = policies w k) \<and>
    (\<forall>k. (\<forall>p x. policies w req = Some p \<longrightarrow> x \<in> set (peers w) \<longrightarrow> k \<noteq> path_key_of p x) \<longrightarrow>
       computed w' k = computed w k)"
  by (rule scion_service.Reconcile_frame [OF assms])

theorem Reconcile_changes_only_own_witness:
  "mem_computed (snd (Reconcile mem_k8s demo_r demo_key
     (demo_api [ready_policy] [stale_path] [peer_a]))) (''prod'', ''web-to-gone'') = Some stale_path"
proof -
  let ?w = "demo_api [ready_policy] [stale_path] [peer_a]"
  have key: "(''prod'', ''web-to-gone'') \<noteq> path_key_of p x"
    if "mem_policies ?w demo_key = Some p" and "x \<in> set (aPeers ?w)" for p x
    using that
    by (simp add: demo_api_def mem_policies_def peer_a_def demo_peer_def path_key_of_def
        computedPathName_def ready_policy_def demo_policy_def demo_key_def key_of_def
        object_meta_def split: if_splits)
  have "mem_computed (snd (Reconcile mem_k8s demo_r demo_key ?w)) (''prod'', ''web-to-gone'') =
      mem_computed ?w (''prod'', ''web-to-gone'')"
    using Reconcile_changes_only_own [OF mem_service disjI2 [OF demo_r_client] prod.collapse
        [symmetric], of demo_key ?w] key
    by blast
  then show ?thesis
    by (simp add: demo_api_def mem_computed_def stale_path_def key_of_def)
qed

end
