(* ===== verification/Interference.thy ===== *)
theory Interference
  imports ReconcilerSpec
begin

text \<open>
  Others act while a run is under way.  A busy world is a world with the actions that others take
  next; one of them happens before every call that the run makes to the service or to change an
  object.  Reads have no action of their own: \<open>Reconcile\<close> reads the policy and then the peers, so
  an action between the two reads could as well happen before both or after both.  \<open>Reconcile\<close>
  itself is unchanged, it runs on the client of the busy world.
\<close>

section \<open>The client of a busy world\<close>

type_synonym 'w busy = "'w \<times> ('w \<Rightarrow> 'w) list"

fun meanwhile :: "'w busy \<Rightarrow> 'w busy" where
  "meanwhile (w, []) = (w, [])"
| "meanwhile (w, f # fs) = (f w, fs)"

definition busy_call :: "('w \<Rightarrow> 'r \<times> 'w) \<Rightarrow> 'w busy \<Rightarrow> 'r \<times> 'w busy" where
  "busy_call call b =
     (case meanwhile b of (w, fs) \<Rightarrow> (case call w of (res, w') \<Rightarrow> (res, w', fs)))"

definition busy_k8s :: "('w, 'z) k8s_scheme \<Rightarrow> 'w busy k8s" where
  "busy_k8s lib =
     \<lparr>policy_Get = (\<lambda>k b. policy_Get lib k (fst b)),
      policy_Update = (\<lambda>p b. case busy_call (\<lambda>w. case policy_Update lib p w of (e, p', w') \<Rightarrow> ((e, p'), w')) b
        of ((e, p'), b') \<Rightarrow> (e, p', b')),
      policy_StatusUpdate = (\<lambda>p b. case busy_call (\<lambda>w. case policy_StatusUpdate lib p w of (e, p', w') \<Rightarrow>
          ((e, p'), w')) b
        of ((e, p'), b') \<Rightarrow> (e, p', b')),
      policy_List = (\<lambda>ns b. policy_List lib ns (fst b)),
      peer_List = (\<lambda>b. peer_List lib (fst b)),
      CreateOrUpdate = (\<lambda>c f b. case busy_call (\<lambda>w. case CreateOrUpdate lib c f w of (r, c', w') \<Rightarrow>
          ((r, c'), w')) b
        of ((r, c'), b') \<Rightarrow> (r, c', b')),
      IgnoreNotFound = IgnoreNotFound lib, ContainsFinalizer = ContainsFinalizer lib,
      AddFinalizer = AddFinalizer lib, RemoveFinalizer = RemoveFinalizer lib,
      SetControllerReference = SetControllerReference lib,
      SetStatusCondition = SetStatusCondition lib,
      LabelSelectorAsSelector = LabelSelectorAsSelector lib\<rparr>"

definition busy_fetch :: "'w ScionClient \<Rightarrow> 'w busy ScionClient" where
  "busy_fetch fetch as pref = busy_call (fetch as pref)"

definition busy_reconciler ::
  "'w ScionPathPolicyReconciler \<Rightarrow> 'w busy ScionPathPolicyReconciler" where
  "busy_reconciler r = \<lparr>rScionClient = map_option busy_fetch (rScionClient r)\<rparr>"

section \<open>Facts\<close>

lemma busy_helpers [simp]:
  "policy_Get (busy_k8s lib) k b = policy_Get lib k (fst b)"
  "peer_List (busy_k8s lib) b = peer_List lib (fst b)"
  "IgnoreNotFound (busy_k8s lib) = IgnoreNotFound lib"
  "ContainsFinalizer (busy_k8s lib) = ContainsFinalizer lib"
  "AddFinalizer (busy_k8s lib) = AddFinalizer lib"
  "RemoveFinalizer (busy_k8s lib) = RemoveFinalizer lib"
  "SetControllerReference (busy_k8s lib) = SetControllerReference lib"
  "SetStatusCondition (busy_k8s lib) = SetStatusCondition lib"
  "rScionClient (busy_reconciler r) = map_option busy_fetch (rScionClient r)"
  by (simp_all add: busy_k8s_def busy_reconciler_def)

lemma busy_mutate [simp]: "path_mutate (busy_k8s lib) = path_mutate lib"
  by (simp add: path_mutate_def fun_eq_iff)

text \<open>What a call of the busy client was on the world it found.\<close>

lemma busy_Update:
  "policy_Update (busy_k8s lib) p b = (e, p', b') \<longleftrightarrow>
     policy_Update lib p (fst (meanwhile b)) = (e, p', fst b') \<and> snd b' = snd (meanwhile b)"
  by (auto simp: busy_k8s_def busy_call_def split: prod.splits)

lemma busy_StatusUpdate:
  "policy_StatusUpdate (busy_k8s lib) p b = (e, p', b') \<longleftrightarrow>
     policy_StatusUpdate lib p (fst (meanwhile b)) = (e, p', fst b') \<and> snd b' = snd (meanwhile b)"
  by (auto simp: busy_k8s_def busy_call_def split: prod.splits)

lemma busy_CreateOrUpdate:
  "CreateOrUpdate (busy_k8s lib) c f b = (r, c', b') \<longleftrightarrow>
     CreateOrUpdate lib c f (fst (meanwhile b)) = (r, c', fst b') \<and> snd b' = snd (meanwhile b)"
  by (auto simp: busy_k8s_def busy_call_def split: prod.splits)

lemma busy_fetch_eq:
  "busy_fetch fetch as pref b = (a, b') \<longleftrightarrow>
     fetch as pref (fst (meanwhile b)) = (a, fst b') \<and> snd b' = snd (meanwhile b)"
  by (auto simp: busy_fetch_def busy_call_def split: prod.splits)

lemmas busy_calls = busy_Update busy_StatusUpdate busy_CreateOrUpdate busy_fetch_eq

text \<open>With nobody acting it is the plain world.\<close>

lemma meanwhile_idle [simp]: "snd b = [] \<Longrightarrow> meanwhile b = b"
  by (cases b) simp

lemma meanwhile_actions: "set (snd (meanwhile b)) \<subseteq> set (snd b)"
  by (cases b rule: meanwhile.cases) auto

text \<open>A property of the world that every action and every call of the run keeps, is kept by the loop.\<close>

lemma meanwhile_keeps:
  "P (fst b) \<Longrightarrow> \<forall>f\<in>set (snd b). \<forall>w. P w \<longrightarrow> P (f w) \<Longrightarrow> P (fst (meanwhile b))"
  by (cases b rule: meanwhile.cases) auto

lemma busy_loop_keeps:
  assumes acts: "\<forall>f\<in>set (snd b). \<forall>w. P w \<longrightarrow> P (f w)"
    and fetches: "\<And>fetch as pref w a w'. sc = Some fetch \<Longrightarrow> P w \<Longrightarrow> fetch as pref w = (a, w') \<Longrightarrow> P w'"
    and creates: "\<And>peer nh raw w r c' w'. peer \<in> set ps \<Longrightarrow> P w \<Longrightarrow>
      CreateOrUpdate lib (new_computedPath policy peer) (path_mutate lib policy peer nh raw) w =
        (r, c', w') \<Longrightarrow> P w'"
    and start: "P (fst b)"
    and run: "peers_loop (busy_k8s lib) (map_option busy_fetch sc) policy ps ready b = (res, b')"
  shows "P (fst b') \<and> set (snd b') \<subseteq> set (snd b)"
  using acts creates start run
proof (induction ps arbitrary: ready b)
  case Nil
  then show ?case by simp
next
  case (Cons peer ps)
  note IH = Cons.IH and acts = Cons.prems(1) and creates = Cons.prems(2)
  show ?case
  proof (cases "Preference (polSpec policy) = None \<or> sc = None")
    case True
    then show ?thesis using Cons.prems(3,4) by (auto split: option.splits)
  next
    case False
    then obtain pref fetch where pref: "Preference (polSpec policy) = Some pref"
      and sc: "sc = Some fetch" by auto
    obtain isReady raw nh err b1 where
      f: "busy_fetch fetch (RemoteAS (peerSpec peer)) pref b = ((isReady, raw, nh, err), b1)"
      by (cases "busy_fetch fetch (RemoteAS (peerSpec peer)) pref b") auto
    have f': "fetch (RemoteAS (peerSpec peer)) pref (fst (meanwhile b)) = ((isReady, raw, nh, err), fst b1)"
      and "snd b1 = snd (meanwhile b)"
      using f unfolding busy_fetch_eq by blast+
    then have s1: "set (snd b1) \<subseteq> set (snd b)" using meanwhile_actions [of b] by simp
    have "P (fst (meanwhile b))" using Cons.prems(3) acts by (rule meanwhile_keeps)
    then have P1: "P (fst b1)" by (rule fetches [OF sc _ f'])
    obtain op e c b2 where
      c: "CreateOrUpdate (busy_k8s lib) (new_computedPath policy peer)
        (path_mutate lib policy peer nh raw) b1 = ((op, e), c, b2)"
      by (cases "CreateOrUpdate (busy_k8s lib) (new_computedPath policy peer)
        (path_mutate lib policy peer nh raw) b1") auto
    have c': "CreateOrUpdate lib (new_computedPath policy peer) (path_mutate lib policy peer nh raw)
        (fst (meanwhile b1)) = ((op, e), c, fst b2)"
      and "snd b2 = snd (meanwhile b1)"
      using c unfolding busy_CreateOrUpdate by blast+
    then have s2: "set (snd b2) \<subseteq> set (snd b)" using s1 meanwhile_actions [of b1] by simp
    have acts1: "\<forall>f\<in>set (snd b1). \<forall>w. P w \<longrightarrow> P (f w)" using acts s1 by blast
    have "P (fst (meanwhile b1))" by (rule meanwhile_keeps [of P b1, OF P1]) (rule acts1)
    then have P2: "P (fst b2)" by (rule creates [OF list.set_intros(1) _ c'])
    have rest: "P (fst b') \<and> set (snd b') \<subseteq> set (snd b)"
      if "P (fst bb)" and "set (snd bb) \<subseteq> set (snd b)"
        "peers_loop (busy_k8s lib) (map_option busy_fetch sc) policy ps rr bb = (res, b')" for bb rr
    proof -
      have "P (fst b') \<and> set (snd b') \<subseteq> set (snd bb)"
      proof (rule IH [OF _ _ that(1) that(3)])
        show "\<forall>f\<in>set (snd bb). \<forall>w. P w \<longrightarrow> P (f w)" using acts that(2) by blast
        show "P w'" if "p \<in> set ps" and "P w" and "CreateOrUpdate lib (new_computedPath policy p)
            (path_mutate lib policy p nh raw) w = (r, c', w')" for p nh raw w r c' w'
          by (rule creates [OF list.set_intros(2) [OF that(1)] that(2,3)])
      qed
      then show ?thesis using that(2) by blast
    qed
    have "(b' = b1 \<or> b' = b2) \<or>
        peers_loop (busy_k8s lib) (map_option busy_fetch sc) policy ps False b1 = (res, b') \<or>
        peers_loop (busy_k8s lib) (map_option busy_fetch sc) policy ps ready b2 = (res, b')"
      using Cons.prems(4) pref sc f c by (auto split: option.splits if_splits)
    then show ?thesis using rest P1 P2 s1 s2 by blast
  qed
qed

text \<open>And by the whole run, whatever its outcome.\<close>

lemma busy_Reconcile_keeps:
  assumes acts: "\<forall>f\<in>set (snd b). \<forall>w. P w \<longrightarrow> P (f w)"
    and fetches: "\<And>fetch as pref w a w'. rScionClient r = Some fetch \<Longrightarrow> P w \<Longrightarrow>
      fetch as pref w = (a, w') \<Longrightarrow> P w'"
    and creates: "\<And>policy peer nh raw w r c' w'. P w \<Longrightarrow>
      CreateOrUpdate lib (new_computedPath policy peer) (path_mutate lib policy peer nh raw) w =
        (r, c', w') \<Longrightarrow> P w'"
    and updates: "\<And>p w e p' w'. P w \<Longrightarrow> policy_Update lib p w = (e, p', w') \<Longrightarrow> P w'"
    and statuses: "\<And>p w e p' w'. P w \<Longrightarrow> policy_StatusUpdate lib p w = (e, p', w') \<Longrightarrow> P w'"
    and start: "P (fst b)"
    and run: "Reconcile (busy_k8s lib) (busy_reconciler r) req b = (out, b')"
  shows "P (fst b')"
proof (cases "policy_Get lib req (fst b)")
  case (Inl err)
  then show ?thesis using run start by (simp add: Reconcile_def)
next
  case (Inr p)
  have upd: "P (fst b')" if "policy_Update (busy_k8s lib) q b = (e, q', b')" for q e q'
    using that updates [of "fst (meanwhile b)" q e q' "fst b'"] meanwhile_keeps [of P b, OF start acts]
    by (simp add: busy_Update)
  have status: "P (fst b')"
    if "reconcile_status (busy_k8s lib) p ps ready b1 = (out, b')" and "P (fst b1)"
      "set (snd b1) \<subseteq> set (snd b)" for ps ready b1
  proof -
    have "P (fst (meanwhile b1))"
      by (rule meanwhile_keeps [of P b1, OF that(2)]) (use acts that(3) in blast)
    then show ?thesis
      using that(1,2) statuses
      by (auto simp: reconcile_status_def busy_StatusUpdate split: if_splits prod.splits option.splits)
  qed
  consider (same) "b' = b" | (upd) q e q' where "policy_Update (busy_k8s lib) q b = (e, q', b')"
    | (main) ps x b1 where
        "peers_loop (busy_k8s lib) (map_option busy_fetch (rScionClient r)) p ps True b = (x, b1)"
        "b' = b1 \<or> (\<exists>ready. reconcile_status (busy_k8s lib) p ps ready b1 = (out, b'))"
    using run Inr
    by (auto simp: Reconcile_def reconcile_delete_def
        split: if_splits prod.splits option.splits sum.splits go.splits) blast
  then show ?thesis
  proof cases
    case same
    then show ?thesis using start by simp
  next
    case (upd q e q')
    then show ?thesis by (rule \<open>policy_Update (busy_k8s lib) q b = (e, q', b') \<Longrightarrow> P (fst b')\<close>)
  next
    case (main ps x b1)
    have "P (fst b1) \<and> set (snd b1) \<subseteq> set (snd b)"
      by (rule busy_loop_keeps [where P = P, OF acts fetches creates start main(1)])
    then show ?thesis using main(2) status by blast
  qed
qed

end
