(* ===== verification/OperatorSystem.thy ===== *)
theory OperatorSystem
  imports Interference
begin

text \<open>
  The policy controller as a system: users, the garbage collector and other writers change the
  stored policies and peers and may delete computed paths, and the work queue hands requests to
  \<open>Reconcile\<close>, in any order and any number of times; others also act between the calls of a run.
  Only the reconciler writes computed paths.
  The invariant, by rule induction over the reachable states, ties every stored path to the policy
  that it names.
\<close>

section \<open>Steps\<close>

record 'w op_state =
  world :: 'w
  queue :: "NamespacedName set"

text \<open>
  A request whose reconciliation ends in an error, a panic or a delayed requeue stays queued.
\<close>

definition op_next ::
  "NamespacedName \<Rightarrow> (ctrl_Result \<times> go_error option) go \<Rightarrow> NamespacedName set \<Rightarrow> NamespacedName set" where
  "op_next req out q = (if out = Return (no_result, None) then q - {req} else q)"

inductive op_step ::
  "('w, 'z) k8s_scheme \<Rightarrow> ('w \<Rightarrow> NamespacedName \<rightharpoonup> ScionComputedPath) \<Rightarrow>
     'w ScionPathPolicyReconciler \<Rightarrow> 'w op_state \<Rightarrow> 'w op_state \<Rightarrow> bool"
  for lib computed r where
  environment: "computed w' \<subseteq>\<^sub>m computed w \<Longrightarrow> q \<subseteq> q' \<Longrightarrow>
    op_step lib computed r \<lparr>world = w, queue = q\<rparr> \<lparr>world = w', queue = q'\<rparr>"
| reconcile: "req \<in> q \<Longrightarrow> \<forall>f\<in>set acts. \<forall>w. computed (f w) \<subseteq>\<^sub>m computed w \<Longrightarrow>
    Reconcile (busy_k8s lib) (busy_reconciler r) req (w, acts) = (out, w', rest) \<Longrightarrow>
    op_step lib computed r \<lparr>world = w, queue = q\<rparr> \<lparr>world = w', queue = op_next req out q\<rparr>"

inductive_cases op_stepE: "op_step lib computed r s s'"

inductive op_reach ::
  "('w, 'z) k8s_scheme \<Rightarrow> ('w \<Rightarrow> NamespacedName \<rightharpoonup> ScionComputedPath) \<Rightarrow>
     'w ScionPathPolicyReconciler \<Rightarrow> 'w op_state \<Rightarrow> bool"
  for lib computed r where
  start: "computed (world s) = Map.empty \<Longrightarrow> op_reach lib computed r s"
| step: "op_reach lib computed r s \<Longrightarrow> op_step lib computed r s s' \<Longrightarrow> op_reach lib computed r s'"

section \<open>The invariant\<close>

text \<open>The object is named after the policy it refers to, which alone controls it.\<close>

definition path_wf :: "NamespacedName \<Rightarrow> ScionComputedPath \<Rightarrow> bool" where
  "path_wf k c \<longleftrightarrow> (\<exists>peer. snd k = PolicyRef (cpSpec c) @ ''-to-'' @ peer) \<and>
     snd (view_of c) = {PolicyRef (cpSpec c)}"

definition paths_wf :: "(NamespacedName \<rightharpoonup> ScionComputedPath) \<Rightarrow> bool" where
  "paths_wf m \<longleftrightarrow> (\<forall>k c. m k = Some c \<longrightarrow> path_wf k c)"

lemma paths_wf_sub: "paths_wf m \<Longrightarrow> m' \<subseteq>\<^sub>m m \<Longrightarrow> paths_wf m'"
  unfolding paths_wf_def map_le_def by (metis domI)

lemma paths_wf_upd: "paths_wf m \<Longrightarrow> path_wf k c \<Longrightarrow> paths_wf (m(k \<mapsto> c))"
  by (auto simp: paths_wf_def)

context scion_service
begin

lemma create_wf:
  assumes "CreateOrUpdate lib (new_computedPath policy peer) (path_mutate lib policy peer nh raw) w
      = ((op, e), c', w')" and "paths_wf (computed w)"
  shows "paths_wf (computed w')"
proof (cases "computed w' = computed w")
  case True
  then show ?thesis using assms(2) by simp
next
  case False
  have key: "key_of (cpMeta (new_computedPath policy peer)) = path_key_of policy peer"
    by (simp add: new_computedPath_def path_key_of_def)
  obtain base q stored where mut: "path_mutate lib policy peer nh raw base = (None, q)"
    and same: "same_content stored q"
    and upd: "computed w' = (computed w)(path_key_of policy peer \<mapsto> stored)"
    using assms(1) False cou_ok [of "new_computedPath policy peer" _ w op c' w']
      cou_err [of "new_computedPath policy peer" _ w op _ c' w']
    unfolding key by (cases e) blast+
  have "view_of stored = (wanted_spec policy peer raw nh, {Name (polMeta policy)})"
    by (rule mutate_view [OF mut same])
  then have "path_wf (path_key_of policy peer) stored"
    by (simp add: path_wf_def view_of_def wanted_spec_def path_key_of_def computedPathName_def)
  then show ?thesis using upd paths_wf_upd [OF assms(2)] by simp
qed

lemma Reconcile_wf:
  assumes "rScionClient r = None \<or> rScionClient r = Some fetch"
    and "\<forall>f\<in>set acts. \<forall>w. computed (f w) \<subseteq>\<^sub>m computed w"
    and "paths_wf (computed w)"
    and "Reconcile (busy_k8s lib) (busy_reconciler r) req (w, acts) = (out, w', rest)"
  shows "paths_wf (computed w')"
proof -
  have "paths_wf (computed (fst (w', rest)))"
  proof (rule busy_Reconcile_keeps [where P = "\<lambda>w. paths_wf (computed w)" and b = "(w, acts)",
        OF _ _ _ _ _ _ assms(4)])
    show "\<forall>f\<in>set (snd (w, acts)). \<forall>w. paths_wf (computed w) \<longrightarrow> paths_wf (computed (f w))"
      using assms(2) by (auto intro: paths_wf_sub)
    show "paths_wf (computed (fst (w, acts)))" using assms(3) by simp
  qed (use assms(1) in \<open>auto dest: create_wf fetch_frame update_other status_other\<close>)
  then show ?thesis by simp
qed

lemma op_reach_wf:
  assumes "op_reach lib computed r s" and "rScionClient r = None \<or> rScionClient r = Some fetch"
  shows "paths_wf (computed (world s))"
  using assms(1)
proof (induction rule: op_reach.induct)
  case (start s)
  then show ?case by (simp add: paths_wf_def)
next
  case (step s s')
  from step.hyps(2) show ?case
  proof (cases rule: op_step.cases)
    case (environment w' w q q')
    then show ?thesis using step.IH paths_wf_sub by auto
  next
    case (reconcile req q acts w out w' rest)
    then show ?thesis using step.IH Reconcile_wf [OF assms(2) reconcile(4) _ reconcile(5)] by simp
  qed
qed

end

end
