(* ===== verification/ControlEdges.thy ===== *)
theory ControlEdges
  imports DemoApi OperatorSystem
begin

text \<open>
  The other branches of the policy reconciler: absent and deleted policies, panics, name clashes,
  and the invariant of the reachable states of the controller.
\<close>

section \<open>Absent and deleted policies\<close>

text \<open>
  A run on a policy that cannot be read changes nothing; a missing policy is no error, any
  other failure is reported as it is.
\<close>
lemma Reconcile_unreadable:
  assumes "k8s_util lib" and "policy_Get lib req w = Inl err"
  shows "Reconcile lib r req w =
    (Return (no_result, if err = StatusError ''NotFound'' then None else Some err), w)"
  using assms(2) k8s_util.ignore_NotFound [OF assms(1)] by (simp add: Reconcile_def)

text \<open>
  C20: a run on a policy that is being deleted computes no path and touches no other policy; when
  it reports success the policy is gone or no longer carries the finalizer, so that the API server
  can drop it.
\<close>
theorem Reconcile_releases:
  assumes "k8s_api lib policies computed peers answers"
    and "policy_Get lib req w = Inr p" and "\<not> Time_IsZero (DeletionTimestamp (polMeta p))"
    and "Reconcile lib r req w = (Return (res, None), w')"
  shows "res = no_result \<and> computed w' = computed w \<and>
    (\<forall>k. k \<noteq> req \<longrightarrow> policies w' k = policies w k) \<and>
    (case policies w' req of None \<Rightarrow> True
     | Some q \<Rightarrow> cilionFinalizer \<notin> set (Finalizers (polMeta q)))"
  by (rule k8s_api.Reconcile_deleting [OF assms])

theorem Reconcile_releases_witness:
  "let w = demo_api [demo_policy ''web'' (Some 5) [''other'', cilionFinalizer] None] [] [peer_a]
   in case mem_policies (snd (Reconcile mem_k8s demo_r demo_key w)) demo_key of
        None \<Rightarrow> True | Some q \<Rightarrow> cilionFinalizer \<notin> set (Finalizers (polMeta q))"
proof -
  let ?p = "demo_policy ''web'' (Some 5) [''other'', cilionFinalizer] None"
  let ?w = "demo_api [?p] [] [peer_a]"
  have run: "Reconcile mem_k8s demo_r demo_key ?w =
      (Return (no_result, None), snd (Reconcile mem_k8s demo_r demo_key ?w))"
    by (rule run_split) code_simp
  have get: "policy_Get mem_k8s demo_key ?w = Inr ?p"
    by (simp add: mem_policies_def demo_api_def demo_policy_def demo_key_def key_of_def
        object_meta_def)
  have "\<not> Time_IsZero (DeletionTimestamp (polMeta ?p))" by (simp add: demo_policy_def)
  from Reconcile_releases [OF mem_api get this run] show ?thesis by simp
qed

section \<open>Panics\<close>

lemma loop_runs:
  "Preference (polSpec policy) = Some pref \<Longrightarrow>
     \<exists>x w'. peers_loop lib (Some fetch) policy ps ready w = (Return x, w')"
  by (induction ps arbitrary: ready w) (auto split: prod.splits option.splits)

text \<open>
  C21: a run on a live policy with its finalizer panics exactly when there is a peer and the
  reconciler has no \<open>ScionClient\<close> or the policy has no preference, which the schema allows; it
  then panics before it changes anything.
\<close>
theorem Reconcile_panics_iff:
  assumes "k8s_util lib" and "policy_Get lib req w = Inr p"
    and "Time_IsZero (DeletionTimestamp (polMeta p))"
    and "cilionFinalizer \<in> set (Finalizers (polMeta p))" and "peer_List lib w = Inr ps"
  shows "Reconcile lib r req w = (Panicked x, w') \<longleftrightarrow>
    x = NilPointer \<and> w' = w \<and> ps \<noteq> [] \<and>
    (rScionClient r = None \<or> Preference (polSpec p) = None)"
proof -
  have main: "Reconcile lib r req w = (case peers_loop lib (rScionClient r) p ps True w of
      (Return (Inl err), w1) \<Rightarrow> (Return (no_result, Some err), w1)
    | (Return (Inr allPathsReady), w1) \<Rightarrow> reconcile_status lib p ps allPathsReady w1
    | (Panicked x, w1) \<Rightarrow> (Panicked x, w1)
    | (Exited n, w1) \<Rightarrow> (Exited n, w1))"
    using assms(2-5) k8s_util.contains_finalizer [OF assms(1)] by (simp add: Reconcile_def)
  have status: "reconcile_status lib p ps b w1 \<noteq> (Panicked x, w')" for b w1
    by (auto simp: reconcile_status_def split: prod.splits option.splits)
  show ?thesis
  proof (cases "ps \<noteq> [] \<and> (rScionClient r = None \<or> Preference (polSpec p) = None)")
    case True
    then have "Reconcile lib r req w = (Panicked NilPointer, w)"
      using main loop_panics [of ps "rScionClient r" p lib True w] by simp
    then show ?thesis using True by auto
  next
    case False
    have "\<exists>y w1. peers_loop lib (rScionClient r) p ps True w = (Return y, w1)"
    proof (cases "ps = []")
      case True
      then show ?thesis by simp
    next
      case False
      then obtain f pref where "rScionClient r = Some f" "Preference (polSpec p) = Some pref"
        using \<open>\<not> (ps \<noteq> [] \<and> (rScionClient r = None \<or> Preference (polSpec p) = None))\<close> by auto
      then show ?thesis using loop_runs [of p pref lib f ps True w] by simp
    qed
    then obtain y w1 where "peers_loop lib (rScionClient r) p ps True w = (Return y, w1)" by blast
    then have "Reconcile lib r req w \<noteq> (Panicked x, w')"
      using main status by (cases y) simp_all
    then show ?thesis using False by simp
  qed
qed

theorem Reconcile_panics_iff_witness:
  "let w = demo_api [demo_policy ''web'' None [cilionFinalizer] None] [] [peer_a]
   in Reconcile mem_k8s demo_r demo_key w = (Panicked NilPointer, w)"
proof -
  let ?p = "demo_policy ''web'' None [cilionFinalizer] None"
  let ?w = "demo_api [?p] [] [peer_a]"
  have "policy_Get mem_k8s demo_key ?w = Inr ?p"
    by (simp add: mem_policies_def demo_api_def demo_policy_def demo_key_def key_of_def
        object_meta_def)
  moreover have "peer_List mem_k8s ?w = Inr [peer_a]" by (simp add: demo_api_def)
  ultimately have "Reconcile mem_k8s demo_r demo_key ?w = (Panicked NilPointer, ?w)"
    using Reconcile_panics_iff [OF ms.k8s_util_axioms, of demo_key ?w ?p "[peer_a]" demo_r
        NilPointer ?w]
    by (simp add: demo_policy_def)
  then show ?thesis unfolding Let_def .
qed

section \<open>Clashing names\<close>

text \<open>
  C26: a run can report success only if none of its ready peers' paths is controlled by another
  policy; the names of two policies' paths can coincide, and then the second policy's run never
  succeeds while the first one's path exists.
\<close>
theorem Reconcile_success_unowned:
  assumes "scion_service lib policies computed peers answers fetch"
    and "policies w req = Some p" and "Time_IsZero (DeletionTimestamp (polMeta p))"
    and "cilionFinalizer \<in> set (Finalizers (polMeta p))"
    and "Preference (polSpec p) = Some pref" and "rScionClient r = Some fetch"
    and "x \<in> set (peers w)" and "peer_ready (answers w) pref x"
    and "computed w (path_key_of p x) = Some c"
    and "ow \<in> set (OwnerReferences (cpMeta c))" and "orController ow"
    and "Reconcile lib r req w = (Return (res, None), w')"
  shows "orName ow = Name (polMeta p)"
  by (rule scion_service.Reconcile_owned [OF assms])

definition clash_path :: ScionComputedPath where
  "clash_path = \<lparr>cpMeta = (object_meta ''a-to-b-to-c'' ''prod'')\<lparr>OwnerReferences :=
       [\<lparr>orKind = ''ScionPathPolicy'', orName = ''a'', orUID = ''u-a'', orController = True\<rparr>]\<rparr>,
     cpSpec = zero_cp_spec, cpStatus = \<lparr>cpConditions = []\<rparr>\<rparr>"

text \<open>Policy a with peer b-to-c, and policy a-to-b with peer c.\<close>

theorem Reconcile_success_unowned_witness:
  "let p = demo_policy ''a-to-b'' None [cilionFinalizer] (Some ''low_latency'')
   in \<forall>res. fst (Reconcile mem_k8s demo_r (''prod'', ''a-to-b'') (demo_api [p] [clash_path] [peer_c]))
        \<noteq> Return (res, None)"
proof -
  let ?p = "demo_policy ''a-to-b'' None [cilionFinalizer] (Some ''low_latency'')"
  let ?w = "demo_api [?p] [clash_path] [peer_c]"
  let ?run = "Reconcile mem_k8s demo_r (''prod'', ''a-to-b'') ?w"
  let ?ow = "\<lparr>orKind = ''ScionPathPolicy'', orName = ''a'', orUID = ''u-a'', orController = True\<rparr>"
  have pol: "mem_policies ?w (''prod'', ''a-to-b'') = Some ?p"
    by (simp add: mem_policies_def demo_api_def demo_policy_def key_of_def object_meta_def)
  have path: "mem_computed ?w (path_key_of ?p peer_c) = Some clash_path"
    by (simp add: mem_computed_def demo_api_def demo_policy_def path_key_of_def
        computedPathName_def peer_c_def demo_peer_def clash_path_def)
  have "fst ?run \<noteq> Return (res, None)" for res
  proof
    assume "fst ?run = Return (res, None)"
    then have run: "?run = (Return (res, None), snd ?run)" by (rule run_split)
    have "orName ?ow = Name (polMeta ?p)"
      by (rule Reconcile_success_unowned [OF mem_service pol _ _ _ demo_r_client _ _ path _ _ run,
            of "''low_latency''"])
        (simp_all add: demo_policy_def demo_api_def peer_ready_def peer_c_def demo_peer_def
          demo_answers_def clash_path_def)
    then show False by (simp add: demo_policy_def)
  qed
  then show ?thesis unfolding Let_def by blast
qed

text \<open>
  Peers are namespaced, but the name of a computed path holds the name of the peer only: of
  several ready peers with one name, the path of the last one listed is what remains.
\<close>
lemma Reconcile_last_peer_wins:
  assumes "scion_service lib policies computed peers answers fetch"
    and "policies w req = Some p" and "Time_IsZero (DeletionTimestamp (polMeta p))"
    and "cilionFinalizer \<in> set (Finalizers (polMeta p))"
    and "Preference (polSpec p) = Some pref" and "rScionClient r = Some fetch"
    and "Reconcile lib r req w = (Return (res, None), w')"
    and "peers w = xs @ x # ys" and "peer_ready (answers w) pref x"
    and "\<forall>y\<in>set ys. peer_ready (answers w) pref y \<longrightarrow> Name (peerMeta y) \<noteq> Name (peerMeta x)"
    and "Name (peerMeta z) = Name (peerMeta x)"
  shows "view_map (computed w') (path_key_of p z) = Some (peer_view (answers w) pref p x)"
proof -
  have "path_key_of p z = path_key_of p x" using assms(11) by (simp add: path_key_of_inj)
  then show ?thesis
    using scion_service.Reconcile_success [OF assms(1-7)]
      publish_last [where ps = xs and m = "view_map (computed w)" and policy = p, OF assms(9,10)]
    by (simp add: assms(8))
qed

section \<open>The reachable states\<close>

text \<open>
  C8: in every state the policy controller can reach from one without computed paths, whatever
  users and other writers do to policies and peers between the runs and between the calls of a run,
  in any order and number of runs that succeed, fail or panic, every computed path is named after the policy it refers to and that policy is its
  only controlling owner.
\<close>
theorem reachable_paths_owned:
  assumes "scion_service lib policies computed peers answers fetch"
    and "rScionClient r = None \<or> rScionClient r = Some fetch"
    and "op_reach lib computed r s" and "computed (world s) k = Some c"
  shows "(\<exists>peer. snd k = PolicyRef (cpSpec c) @ ''-to-'' @ peer) \<and>
    orName ` {o' \<in> set (OwnerReferences (cpMeta c)). orController o'} = {PolicyRef (cpSpec c)}"
proof -
  have "path_wf k c"
    using scion_service.op_reach_wf [OF assms(1,3,2)] assms(4) unfolding paths_wf_def by blast
  then show ?thesis by (simp add: path_wf_def view_of_def)
qed

theorem reachable_paths_owned_witness:
  "let s1 = fst (snd (Reconcile (busy_k8s mem_k8s) (busy_reconciler demo_r) demo_key
          (demo_api [ready_policy] [] [peer_a], [\<lambda>w. w\<lparr>aComputed := [], aPeers := []\<rparr>])))
   in \<forall>c. mem_computed s1 (''prod'', ''web-to-a'') = Some c \<longrightarrow>
        orName ` {o' \<in> set (OwnerReferences (cpMeta c)). orController o'} = {PolicyRef (cpSpec c)}"
proof -
  let ?w = "demo_api [ready_policy] [] [peer_a]"
  let ?acts = "[\<lambda>w. w\<lparr>aComputed := [], aPeers := []\<rparr>]"
  let ?run = "Reconcile (busy_k8s mem_k8s) (busy_reconciler demo_r) demo_key (?w, ?acts)"
  let ?w1 = "fst (snd ?run)"
  have "fst ?run = Return (no_result, None)" by code_simp
  then have run: "?run = (Return (no_result, None), ?w1, snd (snd ?run))"
    by (metis prod.collapse)
  have acts: "\<forall>f\<in>set ?acts. \<forall>w. mem_computed (f w) \<subseteq>\<^sub>m mem_computed w"
    by (simp add: mem_computed_def)
  have "op_reach mem_k8s mem_computed demo_r \<lparr>world = ?w, queue = {demo_key}\<rparr>"
    by (rule op_reach.start) (simp add: mem_computed_def demo_api_def)
  then have reach: "op_reach mem_k8s mem_computed demo_r
      \<lparr>world = ?w1, queue = op_next demo_key (Return (no_result, None)) {demo_key}\<rparr>"
    by (rule op_reach.step) (rule op_step.reconcile [OF _ acts run], simp)
  have "orName ` {o' \<in> set (OwnerReferences (cpMeta c)). orController o'} = {PolicyRef (cpSpec c)}"
    if "mem_computed ?w1 (''prod'', ''web-to-a'') = Some c" for c
    using reachable_paths_owned [OF mem_service disjI2 [OF demo_r_client] reach] that by simp
  then show ?thesis unfolding Let_def by blast
qed

end
