(* ===== verification/PolicyWatches.thy ===== *)
theory PolicyWatches
  imports PolicyReconciler
begin

text \<open>
  The watches of the controllers: \<open>SetupWithManager\<close> of the three reconcilers, with the predicate
  and the mappers of the policy controller, and the two reconcilers that do nothing yet
  (\<open>scionclusterpeer_controller.go\<close>, \<open>scioncomputedpath_controller.go\<close>).  What the builder of
  controller-runtime makes of them is an argument; what its event filter relies on is the locale
  \<open>event_filter\<close>.
\<close>

section \<open>Objects and events\<close>

record Pod =
  podMeta :: ObjectMeta
  podIP :: string

text \<open>A \<open>client.Object\<close>: a pod, or an object of another type, which the type assertion rejects.\<close>

datatype k8s_object = PodObject Pod | OtherObject string

fun as_Pod :: "k8s_object \<Rightarrow> Pod option" where
  "as_Pod (PodObject p) = Some p"
| "as_Pod (OtherObject k) = None"

datatype k8s_event =
    CreateEvent k8s_object
  | UpdateEvent k8s_object k8s_object
  | DeleteEvent k8s_object
  | GenericEvent k8s_object

record predicate_Funcs =
  CreateFunc :: "(k8s_object \<Rightarrow> bool) option"
  UpdateFunc :: "(k8s_object \<Rightarrow> k8s_object \<Rightarrow> bool) option"
  DeleteFunc :: "(k8s_object \<Rightarrow> bool) option"
  GenericFunc :: "(k8s_object \<Rightarrow> bool) option"

section \<open>The predicate on pods\<close>

definition podIPAssigned_update :: "k8s_object \<Rightarrow> k8s_object \<Rightarrow> bool" where
  "podIPAssigned_update old new =
     (case (as_Pod old, as_Pod new) of
        (Some oldPod, Some newPod) \<Rightarrow> podIP oldPod = [] \<and> podIP newPod \<noteq> []
      | _ \<Rightarrow> False)"

definition podIPAssigned_create :: "k8s_object \<Rightarrow> bool" where
  "podIPAssigned_create obj = (case as_Pod obj of None \<Rightarrow> False | Some pod \<Rightarrow> podIP pod \<noteq> [])"

definition podIPAssignedPredicate :: predicate_Funcs where
  "podIPAssignedPredicate =
     \<lparr>CreateFunc = Some podIPAssigned_create, UpdateFunc = Some podIPAssigned_update,
      DeleteFunc = None, GenericFunc = None\<rparr>"

section \<open>From a pod to its policies\<close>

fun match_policies ::
  "('w, 'z) k8s_scheme \<Rightarrow> Pod \<Rightarrow> ScionPathPolicy list \<Rightarrow> NamespacedName list \<Rightarrow> bool \<Rightarrow>
     NamespacedName list \<times> bool" where
  "match_policies lib pod [] requests hasSpecificPolicy = (requests, hasSpecificPolicy)"
| "match_policies lib pod (p # ps) requests hasSpecificPolicy =
     (case LabelSelectorAsSelector lib (PodSelector (polSpec p)) of
        Inl err \<Rightarrow> match_policies lib pod ps requests hasSpecificPolicy
      | Inr matches \<Rightarrow>
          if matches (Labels (podMeta pod))
          then match_policies lib pod ps
                 (requests @ [(Namespace (polMeta p), Name (polMeta p))]) True
          else match_policies lib pod ps requests hasSpecificPolicy)"

text \<open>The error of \<open>List\<close> is dropped.\<close>

definition podToPolicyMapper ::
  "('w, 'z) k8s_scheme \<Rightarrow> 'w \<Rightarrow> k8s_object \<Rightarrow> NamespacedName list" where
  "podToPolicyMapper lib w obj =
     (case as_Pod obj of
        None \<Rightarrow> []
      | Some pod \<Rightarrow>
          (case policy_List lib (Some (Namespace (podMeta pod))) w of
             (policies, _) \<Rightarrow>
               (case match_policies lib pod policies [] False of
                  (requests, hasSpecificPolicy) \<Rightarrow>
                    if \<not> hasSpecificPolicy then requests @ [(''kube-system'', defaultPolicyName)]
                    else requests)))"

section \<open>From a peer to all policies\<close>

definition peerToPolicyMapper ::
  "('w, 'z) k8s_scheme \<Rightarrow> 'w \<Rightarrow> k8s_object \<Rightarrow> NamespacedName list" where
  "peerToPolicyMapper lib w obj =
     (case policy_List lib None w of
        (_, Some err) \<Rightarrow> []
      | (policies, None) \<Rightarrow> map (\<lambda>p. (Namespace (polMeta p), Name (polMeta p))) policies)"

section \<open>Setup\<close>

datatype watch_filter = NoFilter | GenerationChangedPredicate | Filter predicate_Funcs

record 'w watch =
  wKind :: string
  wMapper :: "'w \<Rightarrow> k8s_object \<Rightarrow> NamespacedName list"
  wFilter :: watch_filter

type_synonym 'w reconcile = "NamespacedName \<Rightarrow> 'w \<Rightarrow> (ctrl_Result \<times> go_error option) go \<times> 'w"

record 'w controller_builder =
  bFor :: string
  bForFilter :: watch_filter
  bWatches :: "'w watch list"
  bNamed :: string
  bReconcile :: "'w reconcile"

text \<open>What \<open>Complete\<close> does to the manager.\<close>

type_synonym ('w, 'm) complete = "'w controller_builder \<Rightarrow> 'm \<Rightarrow> go_error option \<times> 'm"

definition policy_builder ::
  "('w, 'z) k8s_scheme \<Rightarrow> 'w ScionPathPolicyReconciler \<Rightarrow> 'w controller_builder" where
  "policy_builder lib r =
     \<lparr>bFor = ''ScionPathPolicy'', bForFilter = GenerationChangedPredicate,
      bWatches =
        [\<lparr>wKind = ''Pod'', wMapper = podToPolicyMapper lib, wFilter = Filter podIPAssignedPredicate\<rparr>,
         \<lparr>wKind = ''ScionClusterPeer'', wMapper = peerToPolicyMapper lib, wFilter = NoFilter\<rparr>],
      bNamed = ''global-scion-policy-controller'', bReconcile = Reconcile lib r\<rparr>"

definition PathPolicy_SetupWithManager ::
  "('w, 'z) k8s_scheme \<Rightarrow> 'w ScionPathPolicyReconciler \<Rightarrow> ('w, 'm) complete \<Rightarrow> 'm \<Rightarrow>
     go_error option \<times> 'm" where
  "PathPolicy_SetupWithManager lib r Complete mgr = Complete (policy_builder lib r) mgr"

text \<open>
  The two reconcilers that do nothing yet.  Of their fields, client and scheme are the argument
  \<open>lib\<close> elsewhere and are not read here; the manager of the eBPF programs (\<open>ebpf_manager.go\<close>) is an
  empty struct behind a pointer.
\<close>

datatype ScionClusterPeerReconciler = ScionClusterPeerReconciler

definition ClusterPeer_Reconcile :: "ScionClusterPeerReconciler \<Rightarrow> 'w reconcile" where
  "ClusterPeer_Reconcile r req w = (Return (no_result, None), w)"

definition ClusterPeer_SetupWithManager ::
  "ScionClusterPeerReconciler \<Rightarrow> ('w, 'm) complete \<Rightarrow> 'm \<Rightarrow> go_error option \<times> 'm" where
  "ClusterPeer_SetupWithManager r Complete mgr =
     Complete \<lparr>bFor = ''ScionClusterPeer'', bForFilter = NoFilter, bWatches = [],
       bNamed = ''scionclusterpeer'', bReconcile = ClusterPeer_Reconcile r\<rparr> mgr"

datatype EbpfManager = EbpfManager

record ScionComputedPathReconciler =
  ebpfManager :: "EbpfManager option"

definition ComputedPath_Reconcile :: "ScionComputedPathReconciler \<Rightarrow> 'w reconcile" where
  "ComputedPath_Reconcile r req w = (Return (no_result, None), w)"

definition ComputedPath_SetupWithManager ::
  "ScionComputedPathReconciler \<Rightarrow> ('w, 'm) complete \<Rightarrow> 'm \<Rightarrow> go_error option \<times> 'm" where
  "ComputedPath_SetupWithManager r Complete mgr =
     Complete \<lparr>bFor = ''ScionComputedPath'', bForFilter = NoFilter, bWatches = [],
       bNamed = ''scioncomputedpath'', bReconcile = ComputedPath_Reconcile r\<rparr> mgr"

section \<open>The event filter\<close>

text \<open>
  \<open>predicate.Funcs\<close>: an event whose function is set is judged by it, one whose function is not
  set passes.
\<close>

locale event_filter =
  fixes passes :: "predicate_Funcs \<Rightarrow> k8s_event \<Rightarrow> bool"
  assumes create_set: "CreateFunc f = Some g \<Longrightarrow> passes f (CreateEvent x) = g x"
    and update_set: "UpdateFunc f = Some h \<Longrightarrow> passes f (UpdateEvent x y) = h x y"
    and delete_unset: "DeleteFunc f = None \<Longrightarrow> passes f (DeleteEvent x)"
    and generic_unset: "GenericFunc f = None \<Longrightarrow> passes f (GenericEvent x)"
begin

lemma pod_filter:
  "passes podIPAssignedPredicate ev \<longleftrightarrow>
     (case ev of
        CreateEvent x \<Rightarrow> podIPAssigned_create x
      | UpdateEvent x y \<Rightarrow> podIPAssigned_update x y
      | DeleteEvent x \<Rightarrow> True
      | GenericEvent x \<Rightarrow> True)"
  by (cases ev) (auto simp: podIPAssignedPredicate_def create_set update_set delete_unset
      generic_unset)

end

fun funcs_pass :: "predicate_Funcs \<Rightarrow> k8s_event \<Rightarrow> bool" where
  "funcs_pass f (CreateEvent x) = (case CreateFunc f of None \<Rightarrow> True | Some g \<Rightarrow> g x)"
| "funcs_pass f (UpdateEvent x y) = (case UpdateFunc f of None \<Rightarrow> True | Some g \<Rightarrow> g x y)"
| "funcs_pass f (DeleteEvent x) = (case DeleteFunc f of None \<Rightarrow> True | Some g \<Rightarrow> g x)"
| "funcs_pass f (GenericEvent x) = (case GenericFunc f of None \<Rightarrow> True | Some g \<Rightarrow> g x)"

interpretation ef: event_filter funcs_pass
  by unfold_locales simp_all

section \<open>Facts on the mappers\<close>

definition selects :: "('w, 'z) k8s_scheme \<Rightarrow> Pod \<Rightarrow> ScionPathPolicy \<Rightarrow> bool" where
  "selects lib pod p =
     (case LabelSelectorAsSelector lib (PodSelector (polSpec p)) of
        Inl err \<Rightarrow> False | Inr matches \<Rightarrow> matches (Labels (podMeta pod)))"

lemma match_policies_filter:
  "match_policies lib pod ps requests has =
     (requests @ map (\<lambda>p. key_of (polMeta p)) (filter (selects lib pod) ps),
      has \<or> (\<exists>p\<in>set ps. selects lib pod p))"
  by (induction ps arbitrary: requests has)
    (auto simp: selects_def key_of_def split: sum.splits)

lemma podToPolicyMapper_eq:
  "podToPolicyMapper lib w (PodObject pod) =
     (let ps = filter (selects lib pod) (fst (policy_List lib (Some (Namespace (podMeta pod))) w))
      in if ps = [] then [(''kube-system'', defaultPolicyName)]
         else map (\<lambda>p. key_of (polMeta p)) ps)"
  by (auto simp: podToPolicyMapper_def match_policies_filter Let_def filter_empty_conv
      split: prod.splits)

lemma peerToPolicyMapper_eq:
  "peerToPolicyMapper lib w obj =
     (case snd (policy_List lib None w) of
        None \<Rightarrow> map (\<lambda>p. key_of (polMeta p)) (fst (policy_List lib None w))
      | Some err \<Rightarrow> [])"
  by (auto simp: peerToPolicyMapper_def key_of_def split: prod.splits option.splits)

end
