(* ===== verification/Manager.thy ===== *)
theory Manager
  imports PolicyWatches
begin

text \<open>
  \<open>cmd/main.go\<close>: one binary for two roles.  The parsed flags and the environment are inputs; the
  controller-runtime manager is the record \<open>mgr_lib\<close> of the functions the program calls on it.
  Logging is left out.
\<close>

section \<open>Inputs\<close>

record flags =
  metricsAddr :: string
  probeAddr :: string
  enableLeaderElection :: bool
  secureMetrics :: bool
  enableHTTP2 :: bool
  mode :: string

text \<open>The flags' defaults.\<close>

definition default_flags :: flags where
  "default_flags =
     \<lparr>metricsAddr = ''0'', probeAddr = '':8081'', enableLeaderElection = False,
      secureMetrics = True, enableHTTP2 = False, mode = ''operator''\<rparr>"

record tls_Config =
  NextProtos :: "string list"

definition disableHTTP2 :: "tls_Config \<Rightarrow> tls_Config" where
  "disableHTTP2 c = c\<lparr>NextProtos := [''http/1.1'']\<rparr>"

record metrics_Options =
  BindAddress :: string
  SecureServing :: bool
  mTLSOpts :: "(tls_Config \<Rightarrow> tls_Config) list"
  FilterProvider :: "string option"

text \<open>
  \<open>cache.Options\<close>: for each kind, the field selector the cache is restricted to.
\<close>

record manager_Options =
  Metrics :: metrics_Options
  WebhookTLSOpts :: "(tls_Config \<Rightarrow> tls_Config) list"
  HealthProbeBindAddress :: string
  LeaderElection :: bool
  LeaderElectionID :: string
  ByObject :: "string \<rightharpoonup> (string \<times> string) list"

record ('w, 'm) mgr_lib =
  ctrl_NewManager :: "manager_Options \<Rightarrow> (go_error + 'm) go"
  Complete :: "('w, 'm) complete"
  AddHealthzCheck :: "string \<Rightarrow> 'm \<Rightarrow> go_error option \<times> 'm"
  AddReadyzCheck :: "string \<Rightarrow> 'm \<Rightarrow> go_error option \<times> 'm"
  Start :: "'m \<Rightarrow> go_error option \<times> 'm"

section \<open>Options\<close>

definition forced_leaderElection :: "flags \<Rightarrow> bool" where
  "forced_leaderElection fl = (if mode fl = ''agent'' then False else enableLeaderElection fl)"

definition cache_options :: "flags \<Rightarrow> (string \<Rightarrow> string) \<Rightarrow> string \<rightharpoonup> (string \<times> string) list" where
  "cache_options fl Getenv =
     (if mode fl = ''agent''
      then let nodeName = Getenv ''NODE_NAME''
        in if nodeName \<noteq> [] then [''Pod'' \<mapsto> [(''spec.nodeName'', nodeName)]] else Map.empty
      else Map.empty)"

definition tls_options :: "flags \<Rightarrow> (tls_Config \<Rightarrow> tls_Config) list" where
  "tls_options fl = (if \<not> enableHTTP2 fl then [] @ [disableHTTP2] else [])"

definition manager_options :: "flags \<Rightarrow> (string \<Rightarrow> string) \<Rightarrow> manager_Options" where
  "manager_options fl Getenv =
     \<lparr>Metrics = \<lparr>BindAddress = metricsAddr fl, SecureServing = secureMetrics fl,
        mTLSOpts = tls_options fl,
        FilterProvider = (if secureMetrics fl then Some ''WithAuthenticationAndAuthorization''
          else None)\<rparr>,
      WebhookTLSOpts = tls_options fl, HealthProbeBindAddress = probeAddr fl,
      LeaderElection = forced_leaderElection fl,
      LeaderElectionID = ''db004011.operator.cilion.io'',
      ByObject = cache_options fl Getenv\<rparr>"

section \<open>Controllers\<close>

text \<open>
  The operator's policy reconciler is built with its client and scheme only; its \<open>ScionClient\<close> is
  the zero value, nil.
\<close>

definition operator_reconciler :: "'w ScionPathPolicyReconciler" where
  "operator_reconciler = \<lparr>rScionClient = None\<rparr>"

text \<open>The agent's reconciler is built without an eBPF manager, which is commented out.\<close>

definition agent_reconciler :: ScionComputedPathReconciler where
  "agent_reconciler = \<lparr>ebpfManager = None\<rparr>"

definition setup_operator ::
  "('w, 'z) k8s_scheme \<Rightarrow> ('w, 'm, 'y) mgr_lib_scheme \<Rightarrow> 'm \<Rightarrow> unit go \<times> 'm" where
  "setup_operator lib ml mgr =
     (case PathPolicy_SetupWithManager lib operator_reconciler (Complete ml) mgr of
        (Some err, mgr1) \<Rightarrow> (Exited 1, mgr1)
      | (None, mgr1) \<Rightarrow>
          (case ClusterPeer_SetupWithManager ScionClusterPeerReconciler (Complete ml) mgr1 of
             (Some err, mgr2) \<Rightarrow> (Exited 1, mgr2)
           | (None, mgr2) \<Rightarrow> (Return (), mgr2)))"

definition setup_agent :: "('w, 'm, 'y) mgr_lib_scheme \<Rightarrow> 'm \<Rightarrow> unit go \<times> 'm" where
  "setup_agent ml mgr =
     (case ComputedPath_SetupWithManager agent_reconciler (Complete ml) mgr of
        (Some err, mgr1) \<Rightarrow> (Exited 1, mgr1)
      | (None, mgr1) \<Rightarrow> (Return (), mgr1))"

definition setup_controllers ::
  "('w, 'z) k8s_scheme \<Rightarrow> ('w, 'm, 'y) mgr_lib_scheme \<Rightarrow> string \<Rightarrow> 'm \<Rightarrow> unit go \<times> 'm" where
  "setup_controllers lib ml md mgr =
     (if md = ''operator'' then setup_operator lib ml mgr
      else if md = ''agent'' then setup_agent ml mgr
      else (Exited 1, mgr))"

section \<open>The program\<close>

definition start_manager :: "('w, 'm, 'y) mgr_lib_scheme \<Rightarrow> 'm \<Rightarrow> unit go \<times> 'm" where
  "start_manager ml mgr =
     (case AddHealthzCheck ml ''healthz'' mgr of
        (Some err, mgr1) \<Rightarrow> (Exited 1, mgr1)
      | (None, mgr1) \<Rightarrow>
          (case AddReadyzCheck ml ''readyz'' mgr1 of
             (Some err, mgr2) \<Rightarrow> (Exited 1, mgr2)
           | (None, mgr2) \<Rightarrow>
               (case Start ml mgr2 of
                  (Some err, mgr3) \<Rightarrow> (Exited 1, mgr3)
                | (None, mgr3) \<Rightarrow> (Return (), mgr3))))"

definition main ::
  "('w, 'z) k8s_scheme \<Rightarrow> ('w, 'm, 'y) mgr_lib_scheme \<Rightarrow> flags \<Rightarrow> (string \<Rightarrow> string) \<Rightarrow>
     unit go \<times> 'm option" where
  "main lib ml fl Getenv =
     (case ctrl_NewManager ml (manager_options fl Getenv) of
        Panicked p \<Rightarrow> (Panicked p, None)
      | Exited n \<Rightarrow> (Exited n, None)
      | Return (Inl err) \<Rightarrow> (Exited 1, None)
      | Return (Inr mgr) \<Rightarrow>
          (case setup_controllers lib ml (mode fl) mgr of
             (Return _, mgr1) \<Rightarrow> (case start_manager ml mgr1 of (r, mgr2) \<Rightarrow> (r, Some mgr2))
           | (Panicked p, mgr1) \<Rightarrow> (Panicked p, Some mgr1)
           | (Exited n, mgr1) \<Rightarrow> (Exited n, Some mgr1)))"

section \<open>A recording manager\<close>

text \<open>
  An instance for the witnesses: the manager records the names of what is registered on it and
  whether it was started.
\<close>

record rec_manager =
  registered :: "string list"
  checks :: "string list"
  started :: bool
  options :: manager_Options

definition rec_mgr :: "('w, rec_manager) mgr_lib" where
  "rec_mgr =
     \<lparr>ctrl_NewManager = (\<lambda>o'. Return (Inr \<lparr>registered = [], checks = [], started = False, options = o'\<rparr>)),
      Complete = (\<lambda>b m. (None, m\<lparr>registered := registered m @ [bNamed b]\<rparr>)),
      AddHealthzCheck = (\<lambda>n m. (None, m\<lparr>checks := checks m @ [n]\<rparr>)),
      AddReadyzCheck = (\<lambda>n m. (None, m\<lparr>checks := checks m @ [n]\<rparr>)),
      Start = (\<lambda>m. (None, m\<lparr>started := True\<rparr>))\<rparr>"

section \<open>Facts\<close>

lemma setup_other:
  "md \<noteq> ''operator'' \<Longrightarrow> md \<noteq> ''agent'' \<Longrightarrow> setup_controllers lib ml md mgr = (Exited 1, mgr)"
  by (simp add: setup_controllers_def)

lemma setup_exit: "fst (setup_controllers lib ml md mgr) \<in> {Return (), Exited 1}"
  by (auto simp: setup_controllers_def setup_operator_def setup_agent_def
      split: prod.splits option.splits)

lemma start_exit: "fst (start_manager ml mgr) \<in> {Return (), Exited 1}"
  by (auto simp: start_manager_def split: prod.splits option.splits)

text \<open>Every error on the way ends the process with status 1.\<close>

lemma main_exit:
  assumes "ctrl_NewManager ml (manager_options fl Getenv) = Return r"
  shows "fst (main lib ml fl Getenv) \<in> {Return (), Exited 1}"
proof (cases r)
  case (Inl err)
  then show ?thesis using assms by (simp add: main_def)
next
  case (Inr mgr)
  obtain x m where "setup_controllers lib ml (mode fl) mgr = (x, m)"
    by (cases "setup_controllers lib ml (mode fl) mgr")
  then show ?thesis
    using assms Inr setup_exit [of lib ml "mode fl" mgr] start_exit [of ml m]
    by (auto simp: main_def split: prod.splits)
qed

lemma tls_options_http1:
  "\<not> enableHTTP2 fl \<Longrightarrow> NextProtos (fold (\<lambda>f c. f c) (tls_options fl) c) = [''http/1.1'']"
  by (simp add: tls_options_def disableHTTP2_def)

end
