(* ===== verification/Flags.thy ===== *)
theory Flags
  imports Manager
begin

text \<open>
  The command line of \<open>cmd/main.go\<close>: the flags it defines and Go's \<open>flag.Parse\<close> on them, with
  the exit statuses of \<open>flag.CommandLine\<close>.  The flags that the zap package adds are the argument
  \<open>zap\<close>, which parses into a state of its own.  Usage messages are left out.
\<close>

section \<open>The flag package\<close>

text \<open>A defined flag: whether it is boolean, and how its text is set.\<close>

record 's go_flag =
  IsBoolFlag :: bool
  SetFlag :: "string \<Rightarrow> 's \<Rightarrow> 's option"

datatype flag_error = BadSyntax string | NotDefined string | ErrHelp | BadValue string string
  | NeedsArgument string

definition ParseBool :: "string \<Rightarrow> bool option" where
  "ParseBool s =
     (if s \<in> {''1'', ''t'', ''T'', ''TRUE'', ''true'', ''True''} then Some True
      else if s \<in> {''0'', ''f'', ''F'', ''FALSE'', ''false'', ''False''} then Some False
      else None)"

text \<open>A name with \<open>=\<close> after its first byte is split there.\<close>

definition split_value :: "string \<Rightarrow> string \<times> string option" where
  "split_value name =
     (let n = takeWhile (\<lambda>c. c \<noteq> CHR ''='') name
      in (n, if CHR ''='' \<in> set name then Some (drop (Suc (length n)) name) else None))"

definition flag_name :: "string \<Rightarrow> string" where
  "flag_name s = (if s ! 1 = CHR ''-'' then drop 2 s else drop 1 s)"

text \<open>
  \<open>FlagSet.Parse\<close>: flags are taken from the front until an argument is none, or is \<open>--\<close>; the
  result has the arguments that are left.
\<close>

fun parse_args ::
  "(string \<Rightarrow> 's go_flag option) \<Rightarrow> string list \<Rightarrow> 's \<Rightarrow> flag_error + 's \<times> string list" where
  "parse_args formal [] st = Inr (st, [])"
| "parse_args formal (s # args) st =
     (if length s < 2 \<or> hd s \<noteq> CHR ''-'' then Inr (st, s # args)
      else if s = ''--'' then Inr (st, args)
      else if flag_name s = [] \<or> hd (flag_name s) = CHR ''-'' \<or> hd (flag_name s) = CHR ''=''
      then Inl (BadSyntax s)
      else
        (case split_value (flag_name s) of
           (name, value) \<Rightarrow>
             (case formal name of
                None \<Rightarrow> Inl (if name = ''help'' \<or> name = ''h'' then ErrHelp else NotDefined name)
              | Some fl \<Rightarrow>
                  if IsBoolFlag fl
                  then (case SetFlag fl (case value of Some v \<Rightarrow> v | None \<Rightarrow> ''true'') st of
                          None \<Rightarrow> Inl (BadValue name (case value of Some v \<Rightarrow> v | None \<Rightarrow> ''true''))
                        | Some st1 \<Rightarrow> parse_args formal args st1)
                  else
                    (case value of
                       Some v \<Rightarrow>
                         (case SetFlag fl v st of
                            None \<Rightarrow> Inl (BadValue name v) | Some st1 \<Rightarrow> parse_args formal args st1)
                     | None \<Rightarrow>
                         (case args of
                            [] \<Rightarrow> Inl (NeedsArgument name)
                          | v # args' \<Rightarrow>
                              (case SetFlag fl v st of
                                 None \<Rightarrow> Inl (BadValue name v)
                               | Some st1 \<Rightarrow> parse_args formal args' st1))))))"

declare parse_args.simps(2) [simp del]

text \<open>\<open>flag.CommandLine\<close> exits on an error: with 0 for a request for help, with 2 otherwise.\<close>

definition flag_Parse ::
  "(string \<Rightarrow> 's go_flag option) \<Rightarrow> string list \<Rightarrow> 's \<Rightarrow> 's go" where
  "flag_Parse formal args st =
     (case parse_args formal args st of
        Inr (st1, _) \<Rightarrow> Return st1
      | Inl err \<Rightarrow> Exited (if err = ErrHelp then 0 else 2))"

section \<open>The program's flags\<close>

definition string_flag :: "(string \<Rightarrow> 's \<Rightarrow> 's) \<Rightarrow> 's go_flag" where
  "string_flag put = \<lparr>IsBoolFlag = False, SetFlag = (\<lambda>v st. Some (put v st))\<rparr>"

definition bool_flag :: "(bool \<Rightarrow> 's \<Rightarrow> 's) \<Rightarrow> 's go_flag" where
  "bool_flag put = \<lparr>IsBoolFlag = True, SetFlag = (\<lambda>v st. map_option (\<lambda>b. put b st) (ParseBool v))\<rparr>"

definition main_formal ::
  "(string \<Rightarrow> (flags \<times> 'z) go_flag option) \<Rightarrow> string \<Rightarrow> (flags \<times> 'z) go_flag option" where
  "main_formal zap name =
     (if name = ''metrics-bind-address''
      then Some (string_flag (\<lambda>v (fl, z). (fl\<lparr>metricsAddr := v\<rparr>, z)))
      else if name = ''health-probe-bind-address''
      then Some (string_flag (\<lambda>v (fl, z). (fl\<lparr>probeAddr := v\<rparr>, z)))
      else if name = ''leader-elect''
      then Some (bool_flag (\<lambda>b (fl, z). (fl\<lparr>enableLeaderElection := b\<rparr>, z)))
      else if name = ''metrics-secure''
      then Some (bool_flag (\<lambda>b (fl, z). (fl\<lparr>secureMetrics := b\<rparr>, z)))
      else if name = ''enable-http2''
      then Some (bool_flag (\<lambda>b (fl, z). (fl\<lparr>enableHTTP2 := b\<rparr>, z)))
      else if name = ''mode''
      then Some (string_flag (\<lambda>v (fl, z). (fl\<lparr>mode := v\<rparr>, z)))
      else zap name)"

text \<open>The whole of \<open>main\<close>, from the arguments of the process on.\<close>

definition main_program ::
  "('w, 'z) k8s_scheme \<Rightarrow> ('w, 'm, 'y) mgr_lib_scheme \<Rightarrow>
     (string \<Rightarrow> (flags \<times> 'x) go_flag option) \<Rightarrow> 'x \<Rightarrow> string list \<Rightarrow> (string \<Rightarrow> string) \<Rightarrow>
     unit go \<times> 'm option" where
  "main_program lib ml zap z args Getenv =
     (case flag_Parse (main_formal zap) args (default_flags, z) of
        Return (fl, _) \<Rightarrow> main lib ml fl Getenv
      | Panicked p \<Rightarrow> (Panicked p, None)
      | Exited n \<Rightarrow> (Exited n, None))"

section \<open>Facts\<close>

lemma split_value_eq:
  "CHR ''='' \<notin> set n \<Longrightarrow> split_value (n @ CHR ''='' # v) = (n, Some v)"
  by (simp add: split_value_def takeWhile_append)

text \<open>A text that is a flag's name: not empty, no \<open>=\<close>, and no dash in front.\<close>

definition flag_ident :: "string \<Rightarrow> bool" where
  "flag_ident n \<longleftrightarrow> n \<noteq> [] \<and> CHR ''='' \<notin> set n \<and> hd n \<noteq> CHR ''-''"

lemma flag_ident_hd: "flag_ident n \<Longrightarrow> hd n \<noteq> CHR ''=''"
  by (cases n) (auto simp: flag_ident_def)

text \<open>The two ways a value is given: after \<open>=\<close>, or as the next argument.\<close>

lemma parse_eq:
  assumes "flag_ident n" and "formal n = Some fl" and "SetFlag fl v st = Some st1"
  shows "parse_args formal ((''--'' @ n @ CHR ''='' # v) # args) st = parse_args formal args st1"
  using assms flag_ident_hd [OF assms(1)]
  by (simp add: parse_args.simps(2) flag_name_def split_value_eq flag_ident_def)

lemma parse_next:
  assumes "flag_ident n" and "formal n = Some fl" and "\<not> IsBoolFlag fl"
    and "SetFlag fl v st = Some st1"
  shows "parse_args formal ((''--'' @ n) # v # args) st = parse_args formal args st1"
proof -
  have "split_value n = (n, None)"
    using assms(1) by (simp add: split_value_def flag_ident_def) (metis takeWhile_eq_all_conv)
  then show ?thesis
    using assms flag_ident_hd [OF assms(1)]
    by (simp add: parse_args.simps(2) flag_name_def flag_ident_def)
qed

lemma flag_set_simps [simp]:
  "IsBoolFlag (string_flag put) = False" "SetFlag (string_flag put) v st = Some (put v st)"
  "IsBoolFlag (bool_flag switch) = True"
  "SetFlag (bool_flag switch) v st = map_option (\<lambda>b. switch b st) (ParseBool v)"
  by (simp_all add: string_flag_def bool_flag_def)

lemma parse_positional: "s = [] \<or> hd s \<noteq> CHR ''-'' \<Longrightarrow> parse_args formal (s # args) st = Inr (st, s # args)"
  by (auto simp: parse_args.simps(2))

definition bool_text :: "bool \<Rightarrow> string" where
  "bool_text b = (if b then ''true'' else ''false'')"

lemma ParseBool_text [simp]: "ParseBool (bool_text b) = Some b"
  by (simp add: ParseBool_def bool_text_def)

text \<open>What each flag of the program does to the setting.\<close>

lemma main_formal_idents:
  "flag_ident ''metrics-bind-address''" "flag_ident ''health-probe-bind-address''"
  "flag_ident ''leader-elect''" "flag_ident ''metrics-secure''" "flag_ident ''enable-http2''"
  "flag_ident ''mode''"
  by (simp_all add: flag_ident_def)

lemma parse_main:
  "parse_args (main_formal zap) ((''--metrics-bind-address='' @ v) # args) (fl, z) =
     parse_args (main_formal zap) args (fl\<lparr>metricsAddr := v\<rparr>, z)"
  "parse_args (main_formal zap) (''--health-probe-bind-address'' # v # args) (fl, z) =
     parse_args (main_formal zap) args (fl\<lparr>probeAddr := v\<rparr>, z)"
  "parse_args (main_formal zap) ((''--leader-elect='' @ bool_text b) # args) (fl, z) =
     parse_args (main_formal zap) args (fl\<lparr>enableLeaderElection := b\<rparr>, z)"
  "parse_args (main_formal zap) ((''--metrics-secure='' @ bool_text b) # args) (fl, z) =
     parse_args (main_formal zap) args (fl\<lparr>secureMetrics := b\<rparr>, z)"
  "parse_args (main_formal zap) ((''--enable-http2='' @ bool_text b) # args) (fl, z) =
     parse_args (main_formal zap) args (fl\<lparr>enableHTTP2 := b\<rparr>, z)"
  "parse_args (main_formal zap) (''--mode'' # v # args) (fl, z) =
     parse_args (main_formal zap) args (fl\<lparr>mode := v\<rparr>, z)"
  using parse_eq [OF main_formal_idents(1), of "main_formal zap"]
    parse_next [OF main_formal_idents(2), of "main_formal zap"]
    parse_eq [OF main_formal_idents(3), of "main_formal zap"]
    parse_eq [OF main_formal_idents(4), of "main_formal zap"]
    parse_eq [OF main_formal_idents(5), of "main_formal zap"]
    parse_next [OF main_formal_idents(6), of "main_formal zap"]
  by (simp_all add: main_formal_def)

lemmas parse_main_simps = parse_main [simplified append_Cons append_Nil]

lemma parse_end [simp]: "parse_args formal (''--'' # args) st = Inr (st, args)"
  by (simp add: parse_args.simps(2))

end
