(* ===== verification/StartupProps.thy ===== *)
theory StartupProps
  imports DemoApi Flags
begin

text \<open>
  The properties of the start of the program: what \<open>main\<close> does for each mode.
\<close>

section \<open>The two modes\<close>

text \<open>
  The manager's options: leader election is on only if asked for and never in agent mode;
  the cache is restricted, to the pods of the node \<open>NODE_NAME\<close>, exactly in agent mode with that
  variable set; and without \<open>enable-http2\<close> both servers offer HTTP/1.1 only.
\<close>
lemma manager_options_by_mode:
  "(LeaderElection (manager_options fl Getenv) \<longleftrightarrow> enableLeaderElection fl \<and> mode fl \<noteq> ''agent'') \<and>
   ByObject (manager_options fl Getenv) =
     (if mode fl = ''agent'' \<and> Getenv ''NODE_NAME'' \<noteq> []
      then [''Pod'' \<mapsto> [(''spec.nodeName'', Getenv ''NODE_NAME'')]] else Map.empty) \<and>
   (let served = (\<lambda>fs c. NextProtos (fold (\<lambda>f c. f c) fs c))
    in served (WebhookTLSOpts (manager_options fl Getenv)) c =
         (if enableHTTP2 fl then NextProtos c else [''http/1.1'']) \<and>
       served (mTLSOpts (Metrics (manager_options fl Getenv))) c =
         (if enableHTTP2 fl then NextProtos c else [''http/1.1'']))"
  by (simp add: manager_options_def forced_leaderElection_def cache_options_def tls_options_def
      disableHTTP2_def Let_def)

text \<open>
  C37: how the process ends: a command line that does not parse ends it with status 2, a request for
  help with 0, before a manager exists; otherwise, once \<open>NewManager\<close> returns, it ends normally or
  with status 1, and with status 1 for any mode but operator and agent.
\<close>
theorem program_exit_status:
  assumes "ctrl_NewManager ml = (\<lambda>opts. Return (new opts))"
  shows "case parse_args (main_formal zap) args (default_flags, z) of
      Inl err \<Rightarrow> main_program lib ml zap z args Getenv = (Exited (if err = ErrHelp then 0 else 2), None)
    | Inr ((fl, _), _) \<Rightarrow> fst (main_program lib ml zap z args Getenv) \<in> {Return (), Exited 1} \<and>
        (mode fl \<notin> {''operator'', ''agent''} \<longrightarrow>
           fst (main_program lib ml zap z args Getenv) = Exited 1)"
proof (cases "parse_args (main_formal zap) args (default_flags, z)")
  case (Inl err)
  then show ?thesis by (simp add: main_program_def flag_Parse_def)
next
  case (Inr r)
  obtain fl z' rest where r: "r = ((fl, z'), rest)" by (cases r) auto
  have "main_program lib ml zap z args Getenv = main lib ml fl Getenv"
    using Inr r by (simp add: main_program_def flag_Parse_def)
  moreover have "fst (main lib ml fl Getenv) \<in> {Return (), Exited 1}"
    by (rule main_exit) (simp add: assms)
  moreover have "fst (main lib ml fl Getenv) = Exited 1" if "mode fl \<notin> {''operator'', ''agent''}"
    using that by (auto simp: main_def assms setup_other split: sum.splits)
  ultimately show ?thesis using Inr r by simp
qed

theorem program_exit_status_witness:
  "fst (main_program mem_k8s rec_mgr (\<lambda>_. None) () [''--mode=Agent''] (\<lambda>_. [])) = Exited 1 \<and>
   main_program mem_k8s rec_mgr (\<lambda>_. None) () [''--verbose''] (\<lambda>_. []) = (Exited 2, None)"
proof -
  have new: "ctrl_NewManager (rec_mgr :: (api_server, rec_manager) mgr_lib) =
      (\<lambda>o'. Return (Inr \<lparr>registered = [], checks = [], started = False, options = o'\<rparr>))"
    by (simp add: rec_mgr_def)
  have "parse_args (main_formal (\<lambda>_. None)) [''--mode=Agent''] (default_flags, ()) =
      Inr ((default_flags\<lparr>mode := ''Agent''\<rparr>, ()), [])" by code_simp
  moreover have "parse_args (main_formal (\<lambda>_. None)) [''--verbose''] (default_flags, ()) =
      Inl (NotDefined ''verbose'')" by code_simp
  ultimately show ?thesis
    using program_exit_status [OF new, where lib = mem_k8s and zap = "\<lambda>_. None" and
        args = "[''--mode=Agent'']" and z = "()"]
      program_exit_status [OF new, where lib = mem_k8s and zap = "\<lambda>_. None" and
        args = "[''--verbose'']" and z = "()"]
    by simp
qed

text \<open>
  Every setting of the flags can be given on the command line: with the six flags written out
  (a value after \<open>=\<close> or as the next argument, whatever bytes it has), the program runs with
  exactly that setting, and positional arguments after them are ignored.
\<close>
lemma flags_roundtrip:
  "main_program lib ml zap z
     ([''--metrics-bind-address='' @ metricsAddr fl, ''--health-probe-bind-address'', probeAddr fl,
       ''--leader-elect='' @ bool_text (enableLeaderElection fl),
       ''--metrics-secure='' @ bool_text (secureMetrics fl),
       ''--enable-http2='' @ bool_text (enableHTTP2 fl), ''--mode'', mode fl, ''--''] @ rest) Getenv =
   main lib ml fl Getenv"
proof -
  have "flag_Parse (main_formal zap)
     ([''--metrics-bind-address='' @ metricsAddr fl, ''--health-probe-bind-address'', probeAddr fl,
       ''--leader-elect='' @ bool_text (enableLeaderElection fl),
       ''--metrics-secure='' @ bool_text (secureMetrics fl),
       ''--enable-http2='' @ bool_text (enableHTTP2 fl), ''--mode'', mode fl, ''--''] @ rest)
     (default_flags, z) = Return (fl, z)"
    by (simp add: flag_Parse_def parse_main_simps default_flags_def)
  then show ?thesis by (simp add: main_program_def)
qed

text \<open>
  C40: the operator builds its policy reconciler without a \<open>ScionClient\<close>: the reconcile function
  it registers panics, without changing anything, for every live policy that has its finalizer as
  soon as one peer exists.
\<close>
theorem operator_reconcile_panics:
  assumes "k8s_util lib" and "policy_Get lib req w = Inr p"
    and "Time_IsZero (DeletionTimestamp (polMeta p))"
    and "cilionFinalizer \<in> set (Finalizers (polMeta p))" and "peer_List lib w = Inr (x # xs)"
  shows "bReconcile (policy_builder lib operator_reconciler) req w = (Panicked NilPointer, w)"
  using assms(2-5) k8s_util.contains_finalizer [OF assms(1)]
  by (simp add: policy_builder_def Reconcile_def operator_reconciler_def loop_panics
      del: peers_loop.simps)

theorem operator_reconcile_panics_witness:
  "bReconcile (policy_builder mem_k8s operator_reconciler) demo_key
     (demo_api [ready_policy] [] [peer_a]) =
   (Panicked NilPointer, demo_api [ready_policy] [] [peer_a])"
  by (rule operator_reconcile_panics [OF ms.k8s_util_axioms, of _ _ ready_policy peer_a "[]"])
    (simp_all add: mem_policies_def demo_api_def ready_policy_def demo_policy_def demo_key_def
      key_of_def object_meta_def)

end
