(* ===== verification/ScionHost.thy ===== *)
theory ScionHost
  imports Prelude
begin

text \<open>
  \<open>pkg/scion/host.go\<close>: the connection of this process to the local SCION stack, made once and
  kept in a package variable.  The SCION daemon, the environment and the address library are not
  in the repository; they are the fields of \<open>scion_env\<close>, the answers they give at the time of the
  call.  The process state (\<open>proc\<close>) is the package variable and whether \<open>initOnce\<close> has run.
\<close>

section \<open>State and environment\<close>

type_synonym IA = u64

record 'c hostContext =
  ia :: IA
  sciond :: "'c option"
  hostInLocalAS :: "byte list"

record 'c proc =
  singletonHostContext :: "'c hostContext"
  initOnce :: bool

definition proc0 :: "'c proc" where
  "proc0 = \<lparr>singletonHostContext = \<lparr>ia = 0, sciond = None, hostInLocalAS = []\<rparr>, initOnce = False\<rparr>"

text \<open>
  \<open>'c\<close> is the type of daemon connections, \<open>'ip\<close> of \<open>netaddr.IP\<close> and \<open>'ipp\<close> of
  \<open>netaddr.IPPort\<close>.
\<close>

record ('c, 'ip, 'ipp) scion_env =
  os_LookupEnv :: "string \<Rightarrow> string option"
  os_Stat :: "string \<Rightarrow> go_error + u32"
  daemon_DefaultAPIAddress :: string
  daemon_Connect :: "string \<Rightarrow> go_error + 'c"
  daemon_LocalIA :: "'c \<Rightarrow> go_error + IA"
  daemon_UnderlayAnycast :: "'c \<Rightarrow> go_error + byte list"
  addrutil_ResolveLocal :: "byte list \<Rightarrow> byte list \<times> go_error option"
  netaddr_FromStdIP :: "byte list \<Rightarrow> 'ip \<times> bool"
  netaddr_IPPort_IP :: "'ipp \<Rightarrow> 'ip"
  netaddr_IPPort_WithIP :: "'ipp \<Rightarrow> 'ip \<Rightarrow> 'ipp"
  netaddr_IP_IsZero :: "'ip \<Rightarrow> bool"
  netaddr_IP_IsUnspecified :: "'ip \<Rightarrow> bool"

section \<open>Initialisation\<close>

definition findSciond :: "('c, 'ip, 'ipp, 'z) scion_env_scheme \<Rightarrow> go_error + 'c" where
  "findSciond env =
     (let address = (case os_LookupEnv env ''SCION_DAEMON_ADDRESS'' of
            None \<Rightarrow> daemon_DefaultAPIAddress env
          | Some a \<Rightarrow> a)
      in case daemon_Connect env address of
           Inl err \<Rightarrow> Inl (Wrapped (''unable to connect to SCIOND at '' @ address
             @ '' (override with SCION_DAEMON_ADDRESS): '') err)
         | Inr conn \<Rightarrow> Inr conn)"

definition findAnyHostInLocalAS ::
  "('c, 'ip, 'ipp, 'z) scion_env_scheme \<Rightarrow> 'c \<Rightarrow> go_error + byte list" where
  "findAnyHostInLocalAS env conn =
     (case daemon_UnderlayAnycast env conn of Inl err \<Rightarrow> Inl err | Inr addr \<Rightarrow> Inr addr)"

definition initHostContext ::
  "('c, 'ip, 'ipp, 'z) scion_env_scheme \<Rightarrow> go_error + 'c hostContext" where
  "initHostContext env =
     (case findSciond env of
        Inl err \<Rightarrow> Inl err
      | Inr sciondConn \<Rightarrow>
          (case daemon_LocalIA env sciondConn of
             Inl err \<Rightarrow> Inl err
           | Inr localIA \<Rightarrow>
               (case findAnyHostInLocalAS env sciondConn of
                  Inl err \<Rightarrow> Inl err
                | Inr hostAddr \<Rightarrow>
                    Inr \<lparr>ia = localIA, sciond = Some sciondConn, hostInLocalAS = hostAddr\<rparr>)))"

text \<open>\<open>mustInitHostContext\<close> ends the process when the initialisation fails.\<close>

definition mustInitHostContext ::
  "('c, 'ip, 'ipp, 'z) scion_env_scheme \<Rightarrow> 'c proc \<Rightarrow> unit go \<times> 'c proc" where
  "mustInitHostContext env s =
     (case initHostContext env of
        Inl err \<Rightarrow> (Exited 1, s)
      | Inr ctx \<Rightarrow> (Return (), s\<lparr>singletonHostContext := ctx\<rparr>))"

text \<open>\<open>sync.Once\<close>: the initialisation runs in the first call only.\<close>

definition host :: "('c, 'ip, 'ipp, 'z) scion_env_scheme \<Rightarrow> 'c proc \<Rightarrow> 'c hostContext go \<times> 'c proc" where
  "host env s =
     (if initOnce s then (Return (singletonHostContext s), s)
      else case mustInitHostContext env s of
          (Return _, s1) \<Rightarrow> (Return (singletonHostContext s1), s1\<lparr>initOnce := True\<rparr>)
        | (Panicked p, s1) \<Rightarrow> (Panicked p, s1)
        | (Exited n, s1) \<Rightarrow> (Exited n, s1))"

section \<open>Sockets and local addresses\<close>

definition os_ModeSocket :: u32 where
  "os_ModeSocket = push_bit 24 1"

definition isSocket :: "u32 \<Rightarrow> bool" where
  "isSocket mode \<longleftrightarrow> mode AND os_ModeSocket \<noteq> 0"

text \<open>\<open>FileMode.String\<close>: one letter for each set mode bit from bit 31 down, then the permissions.\<close>

definition FileMode_String :: "u32 \<Rightarrow> string" where
  "FileMode_String m =
     (let kind = concat (map (\<lambda>(i, c). if bit m (31 - i) then [c] else [])
            (zip [0..<13] ''dalTLDpSugct?''))
      in (if kind = [] then ''-'' else kind) @
         map (\<lambda>(i, c). if bit m (8 - i) then c else CHR ''-'') (zip [0..<9] ''rwxrwxrwx''))"

definition statSocket :: "('c, 'ip, 'ipp, 'z) scion_env_scheme \<Rightarrow> string \<Rightarrow> go_error option" where
  "statSocket env path =
     (case os_Stat env path of
        Inl err \<Rightarrow> Some err
      | Inr mode \<Rightarrow>
          if \<not> isSocket mode then Some (ErrText (path @ '' is not a socket (mode: '' @ FileMode_String mode @ '')'')) else None)"

text \<open>
  \<open>%w\<close> on a nil error, when only the conversion failed, gives an error that wraps nothing.
\<close>

definition defaultLocalIP ::
  "('c, 'ip, 'ipp, 'z) scion_env_scheme \<Rightarrow> 'c proc \<Rightarrow> (go_error + 'ip) go \<times> 'c proc" where
  "defaultLocalIP env s =
     (case host env s of
        (Return h, s1) \<Rightarrow>
          (case addrutil_ResolveLocal env (hostInLocalAS h) of
             (stdIP, err) \<Rightarrow>
               (case netaddr_FromStdIP env stdIP of
                  (ip, ok) \<Rightarrow>
                    if err \<noteq> None \<or> \<not> ok
                    then (Return (Inl (case err of
                             Some er \<Rightarrow> Wrapped ''unable to resolve default local address '' er
                           | None \<Rightarrow> ErrText ''unable to resolve default local address %!w(<nil>)'')), s1)
                    else (Return (Inr ip), s1)))
      | (Panicked p, s1) \<Rightarrow> (Panicked p, s1)
      | (Exited n, s1) \<Rightarrow> (Exited n, s1))"

definition defaultLocalAddr ::
  "('c, 'ip, 'ipp, 'z) scion_env_scheme \<Rightarrow> 'ipp \<Rightarrow> 'c proc \<Rightarrow> (go_error + 'ipp) go \<times> 'c proc" where
  "defaultLocalAddr env local s =
     (if netaddr_IP_IsZero env (netaddr_IPPort_IP env local) \<or>
         netaddr_IP_IsUnspecified env (netaddr_IPPort_IP env local)
      then case defaultLocalIP env s of
          (Return (Inl err), s1) \<Rightarrow> (Return (Inl err), s1)
        | (Return (Inr localIP), s1) \<Rightarrow> (Return (Inr (netaddr_IPPort_WithIP env local localIP)), s1)
        | (Panicked p, s1) \<Rightarrow> (Panicked p, s1)
        | (Exited n, s1) \<Rightarrow> (Exited n, s1)
      else (Return (Inr local), s))"

text \<open>The query to the daemon is commented out: no paths, no error.\<close>

definition queryPaths :: "'c hostContext \<Rightarrow> IA \<Rightarrow> go_error + 'p list" where
  "queryPaths h dst = Inr []"

section \<open>Facts\<close>

lemma initHostContext_Inr:
  "initHostContext env = Inr ctx \<longleftrightarrow>
     (\<exists>conn. findSciond env = Inr conn \<and> sciond ctx = Some conn \<and>
        daemon_LocalIA env conn = Inr (ia ctx) \<and>
        daemon_UnderlayAnycast env conn = Inr (hostInLocalAS ctx))"
  by (cases ctx)
    (auto simp: initHostContext_def findAnyHostInLocalAS_def split: sum.splits)

lemma host_fresh:
  "\<not> initOnce s \<Longrightarrow> host env s =
     (case initHostContext env of
        Inl err \<Rightarrow> (Exited 1, s)
      | Inr ctx \<Rightarrow> (Return ctx, s\<lparr>singletonHostContext := ctx, initOnce := True\<rparr>))"
  by (auto simp: host_def mustInitHostContext_def split: sum.splits)

lemma host_done: "initOnce s \<Longrightarrow> host env s = (Return (singletonHostContext s), s)"
  by (simp add: host_def)

lemma host_Return:
  assumes "host env s = (Return ctx, s')"
  shows "initOnce s' \<and> singletonHostContext s' = ctx"
  using assms
  by (cases "initOnce s") (auto simp: host_done host_fresh split: sum.splits)

lemma host_once: "host env s = (Return ctx, s') \<Longrightarrow> host env' s' = (Return ctx, s')"
  using host_Return [of env s ctx s'] by (simp add: host_done)

lemma host_outcomes: "fst (host env s) \<noteq> Panicked p"
  by (cases "initOnce s") (auto simp: host_done host_fresh split: sum.splits)

lemma isSocket_bit: "isSocket mode \<longleftrightarrow> bit mode 24"
  using and_exp_eq_0_iff_not_bit [of mode 24]
  by (simp add: isSocket_def os_ModeSocket_def push_bit_eq_mult)

end
