(* ===== verification/ScionPaths.thy ===== *)
theory ScionPaths
  imports ScionHost
begin

text \<open>
  \<open>pkg/scion/paths.go\<close>: the process's own view of SCION paths.  The path value, its metadata
  and the printed forms of an interface and of an ISD-AS number belong to \<open>scionproto\<close>; they are
  the fields of \<open>snet\<close>.  \<open>sort.Slice\<close> is an argument, with its documented contract as the locale
  \<open>slice_sort\<close>; Go's own insertion sort, which it runs on at most twelve elements, is the model's
  instance.
\<close>

section \<open>Data\<close>

record PathInterface =
  ifID :: u64
  ifIA :: IA

record PathMetadata =
  Interfaces :: "PathInterface list"
  mdMTU :: u16

text \<open>\<open>'p\<close> is the type of values of the interface \<open>snet.Path\<close>; a nil interface is \<open>None\<close>.\<close>

record 'p snet =
  Metadata :: "'p \<Rightarrow> PathMetadata option"
  PathInterface_String :: "PathInterface \<Rightarrow> string"
  IA_String :: "IA \<Rightarrow> string"

definition SCION_PATH_STATE_ACTIVE :: int where "SCION_PATH_STATE_ACTIVE = 0"
definition SCION_PATH_STATE_INACTIVE :: int where "SCION_PATH_STATE_INACTIVE = 1"
definition SCION_PATH_STATE_PROBING :: int where "SCION_PATH_STATE_PROBING = 2"
definition SCION_PATH_STATE_CONGESTED :: int where "SCION_PATH_STATE_CONGESTED = 3"
definition SCION_PATH_STATE_DOWN :: int where "SCION_PATH_STATE_DOWN = 4"
definition SCION_PATH_PREF_LOW_LATENCY :: int where "SCION_PATH_PREF_LOW_LATENCY = 0"
definition SCION_PATH_PREF_HIGH_THROUGHPUT :: int where "SCION_PATH_PREF_HIGH_THROUGHPUT = 1"
definition SCION_PATH_PREF_BALANCED :: int where "SCION_PATH_PREF_BALANCED = 2"

record 'p SCIONPath =
  Internal :: "'p option"
  pInterfaces :: "string list"
  Id :: u64
  Sorter :: string
  MTU :: int
  PayloadSize :: int
  Hops :: int
  State :: int
  Pref :: int

section \<open>Identifiers\<close>

text \<open>\<open>path.Metadata().Interfaces\<close>: a nil path or nil metadata is a nil dereference.\<close>

definition path_Interfaces :: "('p, 'z) snet_scheme \<Rightarrow> 'p option \<Rightarrow> PathInterface list go" where
  "path_Interfaces sn path =
     (case path of None \<Rightarrow> Panicked NilPointer
      | Some p \<Rightarrow> (case Metadata sn p of None \<Rightarrow> Panicked NilPointer
                  | Some md \<Rightarrow> Return (Interfaces md)))"

text \<open>The loop of \<open>IdFromSnetPath\<close>: index, remaining interfaces, the string so far.\<close>

fun id_loop :: "('p, 'z) snet_scheme \<Rightarrow> int \<Rightarrow> int \<Rightarrow> PathInterface list \<Rightarrow> string \<Rightarrow> string" where
  "id_loop sn n i [] s = s"
| "id_loop sn n i (p # ps) s =
     (let s1 = s @ PathInterface_String sn p
      in id_loop sn n (i + 1) ps (if i < n - 1 then s1 @ ''-'' else s1))"

definition IdFromSnetPath :: "('p, 'z) snet_scheme \<Rightarrow> 'p option \<Rightarrow> string go" where
  "IdFromSnetPath sn path =
     (case path_Interfaces sn path of
        Return is \<Rightarrow> Return (id_loop sn (int (length is)) 0 is [])
      | Panicked p \<Rightarrow> Panicked p
      | Exited n \<Rightarrow> Exited n)"

text \<open>FNV-1a, 64 bit.\<close>

definition fnv_offset :: u64 where "fnv_offset = 14695981039346656037"
definition fnv_prime :: u64 where "fnv_prime = 1099511628211"

definition fnv_step :: "u64 \<Rightarrow> char \<Rightarrow> u64" where
  "fnv_step h c = (h XOR word_of_nat (of_char c)) * fnv_prime"

definition stringToUint64 :: "string \<Rightarrow> u64" where
  "stringToUint64 input = foldl fnv_step fnv_offset input"

definition GetFirstHop :: "('p, 'z) snet_scheme \<Rightarrow> 'p SCIONPath \<Rightarrow> string" where
  "GetFirstHop sn p =
     (case Internal p of
        None \<Rightarrow> []
      | Some path \<Rightarrow>
          (case Metadata sn path of
             None \<Rightarrow> []
           | Some md \<Rightarrow>
               (case Interfaces md of [] \<Rightarrow> [] | i # _ \<Rightarrow> IA_String sn (ifIA i))))"

definition InterfacesToIds :: "('p, 'z) snet_scheme \<Rightarrow> PathInterface list \<Rightarrow> string list" where
  "InterfacesToIds sn intfs =
     map (\<lambda>intf. strings_ReplaceAll (PathInterface_String sn intf) ''#'' ''-'') intfs"

section \<open>Sorting\<close>

definition path_less :: "'p SCIONPath \<Rightarrow> 'p SCIONPath \<Rightarrow> bool" where
  "path_less p q =
     (if length (Sorter p) \<noteq> length (Sorter q) then length (Sorter p) < length (Sorter q)
      else Sorter p < Sorter q)"

definition SortPartsPaths ::
  "(('p SCIONPath \<Rightarrow> 'p SCIONPath \<Rightarrow> bool) \<Rightarrow> 'p SCIONPath list \<Rightarrow> 'p SCIONPath list) \<Rightarrow>
     'p SCIONPath list \<Rightarrow> 'p SCIONPath list" where
  "SortPartsPaths sort_Slice paths = sort_Slice path_less paths"

text \<open>
  The variant on a slice of pointers, over the store \<open>h\<close> the pointers point into.  Every element
  of a slice of two or more is compared at least once, so a nil pointer in it panics.
\<close>

definition SortPartsPathsP ::
  "((nat option \<Rightarrow> nat option \<Rightarrow> bool) \<Rightarrow> nat option list \<Rightarrow> nat option list) \<Rightarrow>
     (nat \<Rightarrow> 'p SCIONPath) \<Rightarrow> nat option list \<Rightarrow> nat option list go" where
  "SortPartsPathsP sort_Slice h paths =
     (if 2 \<le> length paths \<and> None \<in> set paths then Panicked NilPointer
      else Return (sort_Slice (\<lambda>a b. path_less (h (the a)) (h (the b))) paths))"

section \<open>Queries\<close>

definition QueryRawPaths ::
  "('c, 'ip, 'ipp, 'z) scion_env_scheme \<Rightarrow> IA \<Rightarrow> 'c proc \<Rightarrow>
     (go_error + 'p option list) go \<times> 'c proc" where
  "QueryRawPaths env remote s =
     (case host env s of
        (Return hc, s1) \<Rightarrow> (Return (queryPaths hc remote), s1)
      | (Panicked p, s1) \<Rightarrow> (Panicked p, s1)
      | (Exited n, s1) \<Rightarrow> (Exited n, s1))"

text \<open>One round of the loop of \<open>QueryPaths\<close>; the fields it leaves out are zero.\<close>

definition parts_path :: "('p, 'z) snet_scheme \<Rightarrow> 'p option \<Rightarrow> 'p SCIONPath go" where
  "parts_path sn path =
     (case path of
        None \<Rightarrow> Panicked NilPointer
      | Some p \<Rightarrow>
          (case Metadata sn p of
             None \<Rightarrow> Panicked NilPointer
           | Some md \<Rightarrow>
               (case IdFromSnetPath sn path of
                  Panicked x \<Rightarrow> Panicked x
                | Exited n \<Rightarrow> Exited n
                | Return pathSorter \<Rightarrow>
                    (let pp = \<lparr>Internal = path, pInterfaces = InterfacesToIds sn (Interfaces md),
                           Id = stringToUint64 pathSorter, Sorter = pathSorter,
                           MTU = uint (mdMTU md), PayloadSize = 1200,
                           Hops = int (length (Interfaces md)) div 2,
                           State = SCION_PATH_STATE_INACTIVE, Pref = 0\<rparr>
                     in Return (pp\<lparr>Sorter := strings_Join (pInterfaces pp) '',''\<rparr>)))))"

fun parts_paths ::
  "('p, 'z) snet_scheme \<Rightarrow> 'p option list \<Rightarrow> 'p SCIONPath list \<Rightarrow> 'p SCIONPath list go" where
  "parts_paths sn [] acc = Return acc"
| "parts_paths sn (path # paths) acc =
     (case parts_path sn path of
        Return pp \<Rightarrow> parts_paths sn paths (acc @ [pp])
      | Panicked p \<Rightarrow> Panicked p
      | Exited n \<Rightarrow> Exited n)"

definition QueryPaths ::
  "('c, 'ip, 'ipp, 'z) scion_env_scheme \<Rightarrow> ('p, 'y) snet_scheme \<Rightarrow>
     (('p SCIONPath \<Rightarrow> 'p SCIONPath \<Rightarrow> bool) \<Rightarrow> 'p SCIONPath list \<Rightarrow> 'p SCIONPath list) \<Rightarrow>
     IA \<Rightarrow> 'c proc \<Rightarrow> (go_error + 'p SCIONPath list) go \<times> 'c proc" where
  "QueryPaths env sn sort_Slice remote s =
     (case host env s of
        (Return hc, s1) \<Rightarrow>
          (case queryPaths hc remote of
             Inl err \<Rightarrow> (Return (Inl err), s1)
           | Inr paths \<Rightarrow>
               (case parts_paths sn paths [] of
                  Return pps \<Rightarrow> (Return (Inr (SortPartsPaths sort_Slice pps)), s1)
                | Panicked p \<Rightarrow> (Panicked p, s1)
                | Exited n \<Rightarrow> (Exited n, s1)))
      | (Panicked p, s1) \<Rightarrow> (Panicked p, s1)
      | (Exited n, s1) \<Rightarrow> (Exited n, s1))"

end
