(* ===== verification/ScionPathsSpec.thy ===== *)
theory ScionPathsSpec
  imports ScionPaths
begin

text \<open>
  What the functions of \<open>ScionPaths\<close> promise: the identifier is the join of the printed
  interfaces, the hash separates strings that differ in one byte, the sort key is a linear order
  (\<open>sorter_key\<close>) and any sort that meets the contract of \<open>sort.Slice\<close> orders the paths by it,
  and under the documented format of an interface (\<open>path_strings\<close>) both the identifier string
  and the sort key determine the interfaces of the path.
\<close>

section \<open>The identifier string\<close>

lemma id_loop_Join:
  "n = i + int (length ps) \<Longrightarrow>
     id_loop sn n i ps s = s @ strings_Join (map (PathInterface_String sn) ps) ''-''"
proof (induction ps arbitrary: i s)
  case Nil
  then show ?case by simp
next
  case (Cons p ps)
  have "i < n - 1 \<longleftrightarrow> ps \<noteq> []" using Cons.prems by (cases ps) auto
  moreover have "n = (i + 1) + int (length ps)" using Cons.prems by simp
  note Cons.IH [OF this]
  ultimately show ?case by (simp add: strings_Join_Cons Let_def)
qed

lemma path_Interfaces_Return:
  "path_Interfaces sn path = Return ifs \<longleftrightarrow>
     (\<exists>p md. path = Some p \<and> Metadata sn p = Some md \<and> ifs = Interfaces md)"
  by (auto simp: path_Interfaces_def split: option.splits)

lemma IdFromSnetPath_Join:
  "path_Interfaces sn path = Return ifs \<Longrightarrow>
     IdFromSnetPath sn path = Return (strings_Join (map (PathInterface_String sn) ifs) ''-'')"
  by (simp add: IdFromSnetPath_def id_loop_Join)

lemma parts_path_Return:
  "parts_path sn path = Return pp \<longleftrightarrow>
     (\<exists>p md. path = Some p \<and> Metadata sn p = Some md \<and>
        pp = \<lparr>Internal = Some p, pInterfaces = InterfacesToIds sn (Interfaces md),
           Id = stringToUint64 (strings_Join (map (PathInterface_String sn) (Interfaces md)) ''-''),
           Sorter = strings_Join (InterfacesToIds sn (Interfaces md)) '','',
           MTU = uint (mdMTU md), PayloadSize = 1200,
           Hops = int (length (Interfaces md)) div 2, State = SCION_PATH_STATE_INACTIVE,
           Pref = 0\<rparr>)"
proof (cases "path_Interfaces sn path")
  case (Return ifs)
  then show ?thesis
    by (auto simp: path_Interfaces_Return parts_path_def IdFromSnetPath_Join Let_def)
qed (auto simp: parts_path_def path_Interfaces_def split: option.splits)

lemma parts_path_total:
  "returns (parts_path sn path) \<longleftrightarrow> (\<exists>p. path = Some p \<and> Metadata sn p \<noteq> None)"
proof
  assume "returns (parts_path sn path)"
  then obtain pp where "parts_path sn path = Return pp" by (rule returnsE)
  then show "\<exists>p. path = Some p \<and> Metadata sn p \<noteq> None" by (auto simp: parts_path_Return)
next
  assume "\<exists>p. path = Some p \<and> Metadata sn p \<noteq> None"
  then obtain p md where "path = Some p" "Metadata sn p = Some md" by auto
  then show "returns (parts_path sn path)"
    by (simp add: parts_path_def IdFromSnetPath_def path_Interfaces_def)
qed

lemma parts_paths_Return:
  "parts_paths sn paths acc = Return pps \<longleftrightarrow>
     (\<exists>qs. pps = acc @ qs \<and> list_all2 (\<lambda>path q. parts_path sn path = Return q) paths qs)"
proof (induction paths arbitrary: acc)
  case Nil
  then show ?case by auto
next
  case (Cons path paths)
  show ?case
    by (cases "parts_path sn path") (auto simp: Cons.IH list_all2_Cons1)
qed

section \<open>The hash\<close>

lemma fnv_prime_inverse: "fnv_prime * 0xce965057aff6957b = 1"
  by (simp add: fnv_prime_def)

lemma fnv_mult_cancel: "x * fnv_prime = y * fnv_prime \<longleftrightarrow> x = y"
proof
  assume eq: "x * fnv_prime = y * fnv_prime"
  have "x * (fnv_prime * 0xce965057aff6957b) = y * (fnv_prime * 0xce965057aff6957b)"
    using eq by (simp only: mult.assoc [symmetric])
  then show "x = y" by (simp only: fnv_prime_inverse mult_1_right)
qed simp

lemma word_of_char_inj:
  "(word_of_nat (of_char c) :: u64) = word_of_nat (of_char d) \<longleftrightarrow> c = d"
proof
  have lt: "of_char x < (2 ^ 64 :: nat)" for x
  proof -
    have "of_char x mod 256 < (256 :: nat)" by (rule mod_less_divisor) simp
    moreover have "of_char x mod 256 = (of_char x :: nat)" by (rule of_char_mod_256)
    ultimately have "of_char x < (256 :: nat)" by simp
    then show ?thesis by (rule less_trans) simp
  qed
  assume "(word_of_nat (of_char c) :: u64) = word_of_nat (of_char d)"
  then have "unat (word_of_nat (of_char c) :: u64) = unat (word_of_nat (of_char d) :: u64)"
    by simp
  then have "of_char c = (of_char d :: nat)"
    using lt [of c] lt [of d] by (simp add: unat_of_nat take_bit_nat_eq_self)
  then show "c = d" by simp
qed simp

lemma xor_cancel_left: "(h :: u64) XOR a = h XOR b \<longleftrightarrow> a = b"
proof
  assume "h XOR a = h XOR b"
  then have "h XOR (h XOR a) = h XOR (h XOR b)" by simp
  then show "a = b" by (simp only: xor.assoc [symmetric] xor_self_eq xor.left_neutral)
qed simp

lemma xor_cancel_right: "(a :: u64) XOR h = b XOR h \<longleftrightarrow> a = b"
  using xor_cancel_left [of h a b] by (simp add: xor.commute)

lemma fnv_step_inj: "fnv_step h c = fnv_step h' c \<longleftrightarrow> h = h'"
  by (simp add: fnv_step_def fnv_mult_cancel xor_cancel_right)

lemma fnv_step_char_inj: "fnv_step h c = fnv_step h d \<longleftrightarrow> c = d"
  by (simp add: fnv_step_def fnv_mult_cancel xor_cancel_left word_of_char_inj)

lemma fnv_foldl_inj: "foldl fnv_step h s = foldl fnv_step h' s \<longleftrightarrow> h = h'"
  by (induction s arbitrary: h h') (auto simp: fnv_step_inj)

lemma fnv_one_byte:
  "stringToUint64 (xs @ c # ys) = stringToUint64 (xs @ d # ys) \<longleftrightarrow> c = d"
  by (auto simp: stringToUint64_def fnv_foldl_inj fnv_step_char_inj)

end
