(* ===== verification/PathOrder.thy ===== *)
theory PathOrder
  imports ScionPathsSpec
begin

text \<open>
  The order of paths: the key of a path (\<open>sorter_key\<close>: shorter first, then byte-wise) is made an
  instance of \<open>linorder\<close>, so that the library's \<open>sort\<close> is the specification.  \<open>slice_sort\<close> is the
  documented contract of \<open>sort.Slice\<close>, which is not stable; the client lemma shows that the keys
  come out in one way only.  The instance is Go's insertion sort, the algorithm \<open>sort.Slice\<close> runs
  on short slices.
\<close>

section \<open>The sort key\<close>

datatype sorter_key = SorterKey (key_text: string)

instantiation sorter_key :: linorder
begin

definition less_sorter_key :: "sorter_key \<Rightarrow> sorter_key \<Rightarrow> bool" where
  "less_sorter_key a b \<longleftrightarrow>
     length (key_text a) < length (key_text b) \<or>
     length (key_text a) = length (key_text b) \<and> key_text a < key_text b"

definition less_eq_sorter_key :: "sorter_key \<Rightarrow> sorter_key \<Rightarrow> bool" where
  "less_eq_sorter_key a b \<longleftrightarrow> a < b \<or> a = b"

instance
proof
  fix a b c :: sorter_key
  show "a < b \<longleftrightarrow> a \<le> b \<and> \<not> b \<le> a" and "a \<le> a" and
    "a \<le> b \<Longrightarrow> b \<le> c \<Longrightarrow> a \<le> c" and "a \<le> b \<Longrightarrow> b \<le> a \<Longrightarrow> a = b"
    by (auto simp: less_sorter_key_def less_eq_sorter_key_def)
  show "a \<le> b \<or> b \<le> a"
    using linorder_less_linear [of "key_text a" "key_text b"]
    by (auto simp: less_sorter_key_def less_eq_sorter_key_def sorter_key.expand)
qed

end

definition path_key :: "'p SCIONPath \<Rightarrow> sorter_key" where
  "path_key p = SorterKey (Sorter p)"

lemma path_less_key: "path_less p q \<longleftrightarrow> path_key p < path_key q"
  by (auto simp: path_less_def path_key_def less_sorter_key_def)

section \<open>The contract of the sort\<close>

text \<open>What \<open>sort.Slice\<close> asks of its comparison: a strict weak order.\<close>

definition strict_weak :: "('a \<Rightarrow> 'a \<Rightarrow> bool) \<Rightarrow> bool" where
  "strict_weak lt \<longleftrightarrow>
     (\<forall>x. \<not> lt x x) \<and> (\<forall>x y z. lt x y \<longrightarrow> lt y z \<longrightarrow> lt x z) \<and>
     (\<forall>x y z. \<not> lt x y \<longrightarrow> \<not> lt y z \<longrightarrow> \<not> lt x z)"

lemma strict_weak_key: "strict_weak (\<lambda>x y. (f x :: 'b::linorder) < f y)"
  by (auto simp: strict_weak_def)

locale slice_sort =
  fixes sort_Slice :: "('a \<Rightarrow> 'a \<Rightarrow> bool) \<Rightarrow> 'a list \<Rightarrow> 'a list"
  assumes slice_perm: "strict_weak lt \<Longrightarrow> mset (sort_Slice lt xs) = mset xs"
    and slice_sorted: "strict_weak lt \<Longrightarrow>
      sorted_wrt (\<lambda>x y. \<not> lt y x) (sort_Slice lt xs)"
begin

lemma slice_keys:
  fixes f :: "'a \<Rightarrow> 'b::linorder"
  shows "map f (sort_Slice (\<lambda>x y. f x < f y) xs) = sort (map f xs)"
proof (rule properties_for_sort [symmetric])
  show "mset (map f (sort_Slice (\<lambda>x y. f x < f y) xs)) = mset (map f xs)"
    by (simp add: slice_perm strict_weak_key)
  show "sorted (map f (sort_Slice (\<lambda>x y. f x < f y) xs))"
    using slice_sorted [OF strict_weak_key, of f xs] by (simp add: sorted_map not_less)
qed

lemma slice_keys_distinct:
  fixes f :: "'a \<Rightarrow> 'b::linorder"
  assumes inj: "inj_on f (set xs)"
  shows "sort_Slice (\<lambda>x y. f x < f y) xs = sort_key f xs"
proof -
  have sets: "set (sort_Slice (\<lambda>x y. f x < f y) xs) = set xs"
    by (metis slice_perm strict_weak_key set_mset_mset)
  have "map f (sort_Slice (\<lambda>x y. f x < f y) xs) = map f (sort_key f xs)"
    unfolding slice_keys
    by (rule properties_for_sort) simp_all
  then show ?thesis
    by (rule map_inj_on) (simp add: sets inj)
qed

end

section \<open>Go's insertion sort\<close>

text \<open>
  \<open>insertionSort_func\<close>: the element at index \<open>i\<close> is swapped down while it is less than its left
  neighbour.  The sorted part is kept reversed, so its head is that neighbour.
\<close>

fun sift :: "('a \<Rightarrow> 'a \<Rightarrow> bool) \<Rightarrow> 'a \<Rightarrow> 'a list \<Rightarrow> 'a list" where
  "sift lt x [] = [x]"
| "sift lt x (y # ys) = (if lt x y then y # sift lt x ys else x # y # ys)"

definition go_insertionSort :: "('a \<Rightarrow> 'a \<Rightarrow> bool) \<Rightarrow> 'a list \<Rightarrow> 'a list" where
  "go_insertionSort lt xs = rev (foldl (\<lambda>acc x. sift lt x acc) [] xs)"

lemma mset_sift: "mset (sift lt x ys) = add_mset x (mset ys)"
  by (induction ys) auto

lemma set_sift: "set (sift lt x ys) = insert x (set ys)"
  using arg_cong [OF mset_sift [of lt x ys], of set_mset] by simp

lemma sorted_sift:
  assumes "strict_weak lt" and "sorted_wrt (\<lambda>x y. \<not> lt x y) ys"
  shows "sorted_wrt (\<lambda>x y. \<not> lt x y) (sift lt x ys)"
  using assms(2)
proof (induction ys)
  case Nil
  then show ?case by simp
next
  case (Cons y ys)
  have trans: "\<not> lt a b \<Longrightarrow> \<not> lt b c \<Longrightarrow> \<not> lt a c" for a b c
    using assms(1) unfolding strict_weak_def by blast
  have asym: "lt a b \<Longrightarrow> \<not> lt b a" for a b
    using assms(1) unfolding strict_weak_def by blast
  show ?case
    using Cons by (auto simp: set_sift asym dest: trans)
qed

lemma mset_fold_sift: "mset (foldl (\<lambda>acc x. sift lt x acc) acc xs) = mset acc + mset xs"
  by (induction xs arbitrary: acc) (auto simp: mset_sift)

lemma sorted_fold_sift:
  "strict_weak lt \<Longrightarrow> sorted_wrt (\<lambda>x y. \<not> lt x y) acc \<Longrightarrow>
     sorted_wrt (\<lambda>x y. \<not> lt x y) (foldl (\<lambda>acc x. sift lt x acc) acc xs)"
  by (induction xs arbitrary: acc) (auto simp: sorted_sift)

interpretation gs: slice_sort go_insertionSort
  by unfold_locales
    (simp_all add: go_insertionSort_def mset_fold_sift sorted_wrt_rev sorted_fold_sift)


end
