(* ===== verification/PathNames.thy ===== *)
theory PathNames
  imports PathOrder
begin

text \<open>
  The names of paths determine their interfaces.  \<open>path_strings\<close> is the documented format of
  \<open>snet.PathInterface\<close>'s text, \<open>ISD-AS#ID\<close>, as the code relies on it when it joins the texts with
  a dash, and with a comma after replacing the hash sign; its instance prints the numbers in
  decimal, the form of a BGP-compatible AS.
\<close>

section \<open>Joins that can be read back\<close>

definition sep_code :: "char \<Rightarrow> string set \<Rightarrow> bool" where
  "sep_code c A \<longleftrightarrow> [] \<notin> A \<and> (\<forall>x\<in>A. \<forall>y\<in>A. prefix (x @ [c]) (y @ [c]) \<longrightarrow> x = y)"

lemma sep_code_eq:
  assumes "sep_code c A" and "x \<in> A" and "y \<in> A" and "x @ c # u = y @ c # v"
  shows "x = y \<and> u = v"
proof -
  have "prefix (x @ [c]) (x @ c # u)" by (rule prefixI [of _ _ u]) simp
  moreover have "prefix (y @ [c]) (x @ c # u)"
    unfolding assms(4) by (rule prefixI [of _ _ v]) simp
  ultimately
  have "prefix (x @ [c]) (y @ [c]) \<or> prefix (y @ [c]) (x @ [c])"
    by (rule prefix_same_cases)
  then have "x = y" using assms(1-3) unfolding sep_code_def by blast
  then show ?thesis using assms(4) by simp
qed

lemma sep_code_neq:
  assumes "sep_code c A" and "x \<in> A" and "y \<in> A"
  shows "x @ c # u \<noteq> y"
proof
  assume eq: "x @ c # u = y"
  then have "prefix (x @ [c]) (y @ [c])" by auto
  then have "x = y" using assms unfolding sep_code_def by blast
  then show False using eq by simp
qed

lemma strings_Join_inj:
  assumes code: "sep_code c A"
  shows "set xs \<subseteq> A \<Longrightarrow> set ys \<subseteq> A \<Longrightarrow>
     strings_Join xs [c] = strings_Join ys [c] \<longleftrightarrow> xs = ys"
proof (induction xs arbitrary: ys)
  case Nil
  have "[] \<notin> A" using code by (simp add: sep_code_def)
  then show ?case using Nil by (cases ys) (auto simp: strings_Join_Cons)
next
  case (Cons x xs)
  have "[] \<notin> A" using code by (simp add: sep_code_def)
  show ?case
  proof (cases ys)
    case Nil
    then show ?thesis using Cons.prems \<open>[] \<notin> A\<close> by (auto simp: strings_Join_Cons)
  next
    case (Cons y ys')
    then show ?thesis
      using Cons.IH [of ys'] Cons.prems
      by (auto simp: strings_Join_Cons dest: sep_code_eq [OF code] sep_code_neq [OF code]
          sep_code_neq [OF code, THEN not_sym])
  qed
qed

section \<open>The format of an interface\<close>

definition no_sep :: "string \<Rightarrow> bool" where
  "no_sep s \<longleftrightarrow> CHR ''-'' \<notin> set s \<and> CHR ''#'' \<notin> set s \<and> CHR '','' \<notin> set s"

lemma no_sep_dash: "no_sep s \<Longrightarrow> CHR ''-'' \<notin> set s"
  and no_sep_hash: "no_sep s \<Longrightarrow> CHR ''#'' \<notin> set s"
  by (simp_all add: no_sep_def)

definition isd_as_id :: "string \<Rightarrow> bool" where
  "isd_as_id s \<longleftrightarrow> (\<exists>isd as ident. s = isd @ CHR ''-'' # as @ CHR ''#'' # ident \<and>
     no_sep isd \<and> no_sep as \<and> no_sep ident)"

lemma isd_as_id_code: "sep_code (CHR ''-'') {s. isd_as_id s}"
  unfolding sep_code_def
proof (intro conjI ballI impI)
  show "[] \<notin> {s. isd_as_id s}" by (auto simp: isd_as_id_def)
  fix x y
  assume "x \<in> {s. isd_as_id s}" and "y \<in> {s. isd_as_id s}"
  then obtain i a d i' a' d' where
    xy: "x = i @ CHR ''-'' # a @ CHR ''#'' # d" "y = i' @ CHR ''-'' # a' @ CHR ''#'' # d'"
    and free: "no_sep i" "no_sep a" "no_sep d" "no_sep i'" "no_sep a'" "no_sep d'"
    by (auto simp: isd_as_id_def)
  assume "prefix (x @ [CHR ''-'']) (y @ [CHR ''-''])"
  then obtain u where
    "i @ CHR ''-'' # a @ CHR ''#'' # d @ CHR ''-'' # u =
     i' @ CHR ''-'' # a' @ CHR ''#'' # d' @ CHR ''-'' # []"
    by (auto simp: xy elim: prefixE)
  note one = append_sep_unique [OF this no_sep_dash [OF free(1)] no_sep_dash [OF free(4)]]
  note two = append_sep_unique [OF conjunct2 [OF one] no_sep_hash [OF free(2)]
      no_sep_hash [OF free(5)]]
  note three = append_sep_unique [OF conjunct2 [OF two] no_sep_dash [OF free(3)]
      no_sep_dash [OF free(6)]]
  show "x = y" using one two three by (simp add: xy)
qed


definition dash_form :: "string \<Rightarrow> string" where
  "dash_form s = strings_ReplaceAll s ''#'' ''-''"

lemma dash_form_isd_as_id:
  "no_sep i \<Longrightarrow> no_sep a \<Longrightarrow> no_sep d \<Longrightarrow>
     dash_form (i @ CHR ''-'' # a @ CHR ''#'' # d) = i @ CHR ''-'' # a @ CHR ''-'' # d"
  by (auto simp: dash_form_def strings_ReplaceAll_char no_sep_def intro!: map_idI)

lemma dash_form_inj:
  assumes "isd_as_id x" and "isd_as_id y" and "dash_form x = dash_form y"
  shows "x = y"
proof -
  obtain i a d i' a' d' where
    xy: "x = i @ CHR ''-'' # a @ CHR ''#'' # d" "y = i' @ CHR ''-'' # a' @ CHR ''#'' # d'"
    and free: "no_sep i" "no_sep a" "no_sep d" "no_sep i'" "no_sep a'" "no_sep d'"
    using assms(1,2) by (auto simp: isd_as_id_def)
  have "i @ CHR ''-'' # a @ CHR ''-'' # d = i' @ CHR ''-'' # a' @ CHR ''-'' # d'"
    using assms(3) free by (simp add: xy dash_form_isd_as_id)
  note one = append_sep_unique [OF this no_sep_dash [OF free(1)] no_sep_dash [OF free(4)]]
  note two = append_sep_unique [OF conjunct2 [OF one] no_sep_dash [OF free(2)]
      no_sep_dash [OF free(5)]]
  show ?thesis using one two by (simp add: xy)
qed

lemma dash_form_code: "sep_code (CHR '','') (dash_form ` {s. isd_as_id s})"
  unfolding sep_code_def
proof (intro conjI ballI impI)
  have free: "CHR '','' \<notin> set (dash_form s) \<and> dash_form s \<noteq> []" if "isd_as_id s" for s
    using that by (auto simp: isd_as_id_def dash_form_isd_as_id no_sep_def)
  then show "[] \<notin> dash_form ` {s. isd_as_id s}" by fastforce
  fix x y
  assume "x \<in> dash_form ` {s. isd_as_id s}" and "y \<in> dash_form ` {s. isd_as_id s}"
  then have fx: "CHR '','' \<notin> set x" and fy: "CHR '','' \<notin> set y" using free by auto
  assume "prefix (x @ [CHR '','']) (y @ [CHR '',''])"
  then obtain u where "y @ [CHR '',''] = (x @ [CHR '','']) @ u" by (rule prefixE)
  then have "x @ CHR '','' # u = y @ CHR '','' # []" by simp
  then show "x = y" using append_sep_unique [OF _ fx fy] by blast
qed

section \<open>The contract and its consequences\<close>

locale path_strings =
  fixes sn :: "('p, 'z) snet_scheme"
  assumes iface_format: "isd_as_id (PathInterface_String sn i)"
    and iface_inj: "PathInterface_String sn i = PathInterface_String sn j \<Longrightarrow> i = j"
begin

lemma map_iface_inj:
  "map (PathInterface_String sn) is = map (PathInterface_String sn) js \<longleftrightarrow> is = js"
  by (rule inj_map_eq_map) (auto intro: injI iface_inj)

lemma id_text_inj:
  "strings_Join (map (PathInterface_String sn) is) ''-'' =
     strings_Join (map (PathInterface_String sn) js) ''-'' \<longleftrightarrow> is = js"
  by (subst strings_Join_inj [OF isd_as_id_code]) (auto simp: iface_format map_iface_inj)

lemma InterfacesToIds_dash:
  "InterfacesToIds sn is = map (\<lambda>i. dash_form (PathInterface_String sn i)) is"
  by (simp add: InterfacesToIds_def dash_form_def)

lemma dash_iface_inj:
  "map (\<lambda>i. dash_form (PathInterface_String sn i)) is =
     map (\<lambda>i. dash_form (PathInterface_String sn i)) js \<longleftrightarrow> is = js"
  by (rule inj_map_eq_map)
    (auto intro!: injI iface_inj dest: dash_form_inj [OF iface_format iface_format])

lemma sorter_inj:
  "strings_Join (InterfacesToIds sn is) '','' = strings_Join (InterfacesToIds sn js) '',''
     \<longleftrightarrow> is = js"
  unfolding InterfacesToIds_dash
  by (subst strings_Join_inj [OF dash_form_code]) (auto simp: iface_format dash_iface_inj)

lemma parts_path_sorter:
  assumes "parts_path sn a = Return p" and "parts_path sn b = Return q"
  shows "path_key p = path_key q \<longleftrightarrow> path_Interfaces sn a = path_Interfaces sn b"
  using assms
  by (auto simp: parts_path_Return path_key_def sorter_inj path_Interfaces_def)

end

section \<open>An instance: decimal numbers\<close>

lemma itoa_digits: "c \<in> set (itoa n) \<Longrightarrow> 48 \<le> (of_char c :: nat) \<and> (of_char c :: nat) < 58"
proof (induction n rule: itoa.induct)
  case (1 n)
  show ?case
  proof (cases "n < 10")
    case True
    then show ?thesis using "1.prems" by (auto simp: itoa.simps [of n] of_char_of)
  next
    case False
    have "(48 + n mod 10) mod 256 = 48 + n mod 10" by (rule mod_less) simp
    then show ?thesis using 1 False by (auto simp: itoa.simps [of n] of_char_of)
  qed
qed

lemma itoa_no_sep: "no_sep (itoa n)"
  by (auto simp: no_sep_def dest: itoa_digits)

lemma itoa_value: "foldl (\<lambda>n c. n * 10 + (of_char c - 48 :: nat)) 0 (itoa n) = n"
proof (induction n rule: itoa.induct)
  case (1 n)
  show ?case
  proof (cases "n < 10")
    case True
    then show ?thesis by (simp add: itoa.simps [of n] of_char_of)
  next
    case False
    have "(48 + n mod 10) mod 256 = 48 + n mod 10" by (rule mod_less) simp
    then show ?thesis using 1 False by (simp add: itoa.simps [of n] of_char_of)
  qed
qed

lemma itoa_inj: "itoa m = itoa n \<longleftrightarrow> m = n"
proof -
  have "inj itoa" by (rule inj_on_inverseI) (rule itoa_value)
  then show ?thesis by (rule inj_eq)
qed

definition dec_iface :: "PathInterface \<Rightarrow> string" where
  "dec_iface i = itoa (unat (drop_bit 48 (ifIA i))) @ ''-'' @ itoa (unat (take_bit 48 (ifIA i)))
     @ ''#'' @ itoa (unat (ifID i))"

definition dec_snet :: "PathMetadata snet" where
  "dec_snet = \<lparr>Metadata = Some, PathInterface_String = dec_iface,
     IA_String = (\<lambda>a. itoa (unat (drop_bit 48 a)) @ ''-'' @ itoa (unat (take_bit 48 a)))\<rparr>"

lemma dec_iface_format: "isd_as_id (dec_iface i)"
  unfolding isd_as_id_def dec_iface_def
  by (intro exI conjI) (auto simp: itoa_no_sep)

lemma dec_iface_inj:
  assumes "dec_iface i = dec_iface j"
  shows "i = j"
proof -
  have eq: "itoa (unat (drop_bit 48 (ifIA i))) @ CHR ''-'' #
      (itoa (unat (take_bit 48 (ifIA i))) @ CHR ''#'' # itoa (unat (ifID i))) =
    itoa (unat (drop_bit 48 (ifIA j))) @ CHR ''-'' #
      (itoa (unat (take_bit 48 (ifIA j))) @ CHR ''#'' # itoa (unat (ifID j)))"
    using assms by (simp add: dec_iface_def)
  note one = append_sep_unique [OF eq no_sep_dash no_sep_dash, OF itoa_no_sep itoa_no_sep]
  note two = append_sep_unique [OF conjunct2 [OF one] no_sep_hash no_sep_hash,
      OF itoa_no_sep itoa_no_sep]
  have "drop_bit 48 (ifIA i) = drop_bit 48 (ifIA j)"
    and "take_bit 48 (ifIA i) = take_bit 48 (ifIA j)" and "ifID i = ifID j"
    using one two by (simp_all add: itoa_inj word_unat_eq_iff)
  then show ?thesis
    using bits_ident [of 48 "ifIA i"] bits_ident [of 48 "ifIA j"] by (cases i, cases j) simp
qed

interpretation dp: path_strings dec_snet
  by unfold_locales (simp_all add: dec_snet_def dec_iface_format dec_iface_inj)

end
