(* ===== verification/PathCache.thy ===== *)
theory PathCache
  imports ScionPathsSpec
begin

text \<open>
  \<open>pkg/scion/path_cache.go\<close>: the package variable \<open>Paths\<close>, a map from the text of a remote
  address to the paths queried last.  \<open>Refresh\<close> and \<open>Get\<close> call \<open>QueryPaths\<close> of \<open>paths.go\<close>, so that
  they take its arguments: the host context's environment, the SCION library and \<open>sort.Slice\<close>.
\<close>

text \<open>A Go map is nil (\<open>None\<close>) or made; a \<open>*snet.UDPAddr\<close> of type \<open>'u\<close> is nil or a value.\<close>

record 'p PathCache =
  Paths :: "(string \<rightharpoonup> 'p SCIONPath list) option"

record 'u udp_addr =
  UDPAddr_IA :: "'u \<Rightarrow> IA"
  UDPAddr_String :: "'u \<Rightarrow> string"

definition NewPathCache :: "'p PathCache" where
  "NewPathCache = \<lparr>Paths = Some Map.empty\<rparr>"

definition Refresh ::
  "('u, 'z) udp_addr_scheme \<Rightarrow> ('c, 'ip, 'ipp, 'x) scion_env_scheme \<Rightarrow> ('p, 'y) snet_scheme \<Rightarrow>
     (('p SCIONPath \<Rightarrow> 'p SCIONPath \<Rightarrow> bool) \<Rightarrow> 'p SCIONPath list \<Rightarrow> 'p SCIONPath list) \<Rightarrow>
     'p PathCache \<Rightarrow> 'u option \<Rightarrow> 'c proc \<Rightarrow>
     go_error option go \<times> 'p PathCache \<times> 'c proc" where
  "Refresh ua env sn sort_Slice pc remote s =
     (case remote of
        None \<Rightarrow> (Panicked NilPointer, pc, s)
      | Some addr \<Rightarrow>
          (case QueryPaths env sn sort_Slice (UDPAddr_IA ua addr) s of
             (Return (Inl err), s1) \<Rightarrow> (Return None, pc, s1)
           | (Return (Inr paths), s1) \<Rightarrow>
               (case Paths pc of
                  None \<Rightarrow> (Panicked NilMapWrite, pc, s1)
                | Some m \<Rightarrow>
                    (Return None, pc\<lparr>Paths := Some (m(UDPAddr_String ua addr \<mapsto> paths))\<rparr>, s1))
           | (Panicked p, s1) \<Rightarrow> (Panicked p, pc, s1)
           | (Exited n, s1) \<Rightarrow> (Exited n, pc, s1)))"

text \<open>Reading a nil map or an absent key gives the nil slice, the empty list.\<close>

definition map_read :: "(string \<rightharpoonup> 'a list) option \<Rightarrow> string \<Rightarrow> 'a list" where
  "map_read m key = (case m of None \<Rightarrow> [] | Some f \<Rightarrow> (case f key of None \<Rightarrow> [] | Some v \<Rightarrow> v))"

definition Get ::
  "('u, 'z) udp_addr_scheme \<Rightarrow> ('c, 'ip, 'ipp, 'x) scion_env_scheme \<Rightarrow> ('p, 'y) snet_scheme \<Rightarrow>
     (('p SCIONPath \<Rightarrow> 'p SCIONPath \<Rightarrow> bool) \<Rightarrow> 'p SCIONPath list \<Rightarrow> 'p SCIONPath list) \<Rightarrow>
     'p PathCache \<Rightarrow> 'u option \<Rightarrow> 'c proc \<Rightarrow>
     (go_error + 'p SCIONPath list) go \<times> 'p PathCache \<times> 'c proc" where
  "Get ua env sn sort_Slice pc remote s =
     (case Refresh ua env sn sort_Slice pc remote s of
        (Return (Some err), pc1, s1) \<Rightarrow> (Return (Inl err), pc1, s1)
      | (Return None, pc1, s1) \<Rightarrow>
          (case remote of
             None \<Rightarrow> (Panicked NilPointer, pc1, s1)
           | Some addr \<Rightarrow> (Return (Inr (map_read (Paths pc1) (UDPAddr_String ua addr))), pc1, s1))
      | (Panicked p, pc1, s1) \<Rightarrow> (Panicked p, pc1, s1)
      | (Exited n, pc1, s1) \<Rightarrow> (Exited n, pc1, s1))"

section \<open>Facts\<close>

lemma Refresh_no_error: "fst (Refresh ua env sn sort_Slice pc remote s) \<noteq> Return (Some err)"
  by (auto simp: Refresh_def split: option.splits prod.splits go.splits sum.splits)

lemma Get_no_error: "fst (Get ua env sn sort_Slice pc remote s) \<noteq> Return (Inl err)"
proof
  assume "fst (Get ua env sn sort_Slice pc remote s) = Return (Inl err)"
  then have "fst (Refresh ua env sn sort_Slice pc remote s) = Return (Some err)"
    by (auto simp: Get_def split: prod.splits go.splits option.splits)
  then show False using Refresh_no_error by blast
qed

text \<open>Only the entry of the queried remote is written.\<close>

lemma Get_frame:
  assumes "Get ua env sn sort_Slice \<lparr>Paths = Some m\<rparr> (Some a) s = (r, pc, s1)"
  shows "\<exists>m'. Paths pc = Some m' \<and> (\<forall>k. k \<noteq> UDPAddr_String ua a \<longrightarrow> m' k = m k)"
  using assms
  by (auto simp: Get_def Refresh_def split: prod.splits go.splits option.splits sum.splits)

lemma QueryPaths_empty:
  assumes "host env s = (Return hc, s1)" and "mset (sort_Slice path_less []) = {#}"
  shows "QueryPaths env sn sort_Slice remote s = (Return (Inr []), s1)"
  using assms by (simp add: QueryPaths_def queryPaths_def SortPartsPaths_def)

end
