(* ===== verification/ScionProps.thy ===== *)
theory ScionProps
  imports PathNames PathCache
begin

text \<open>
  The properties of \<open>pkg/scion\<close>: the host context is set up once, addresses and sockets are
  judged as documented, a path's identifier, sort key and order, and the path cache.
\<close>

section \<open>Inputs for the witnesses\<close>

text \<open>A host whose daemon is up; connections and addresses are numbers, 0 the zero address.\<close>

definition demo_env :: "(nat, nat, nat) scion_env" where
  "demo_env =
     \<lparr>os_LookupEnv = (\<lambda>_. None),
      os_Stat = (\<lambda>p. if p = ''/run/sciond.sock'' then Inr 0x10001ED else Inl (Errno 2)),
      daemon_DefaultAPIAddress = ''127.0.0.1:30255'',
      daemon_Connect = (\<lambda>a. Inr (length a)),
      daemon_LocalIA = (\<lambda>_. Inr 42),
      daemon_UnderlayAnycast = (\<lambda>_. Inr [10, 0, 0, 1]),
      addrutil_ResolveLocal = (\<lambda>a. (a, None)),
      netaddr_FromStdIP = (\<lambda>a. (sum_list (map unat a), a \<noteq> [])),
      netaddr_IPPort_IP = (\<lambda>a. a div 65536),
      netaddr_IPPort_WithIP = (\<lambda>a i. i * 65536 + a mod 65536),
      netaddr_IP_IsZero = (\<lambda>i. i = 0),
      netaddr_IP_IsUnspecified = (\<lambda>i. i = 0)\<rparr>"

definition demo_iface :: "nat \<Rightarrow> nat \<Rightarrow> PathInterface" where
  "demo_iface n i = \<lparr>ifID = of_nat i, ifIA = push_bit 48 1 + of_nat n\<rparr>"

definition demo_path :: "PathInterface list \<Rightarrow> PathMetadata option" where
  "demo_path is' = Some \<lparr>Interfaces = is', mdMTU = 1472\<rparr>"

section \<open>The host context\<close>

text \<open>
  C28: \<open>host\<close> initialises once: the first call asks the daemon and either ends the process with
  status 1, with nothing stored, or stores and returns the context it built; every later call
  returns that context, whatever the environment has become.
\<close>
theorem host_initialises_once:
  assumes "\<not> initOnce s"
  shows "(\<exists>err. initHostContext env = Inl err \<and> host env s = (Exited 1, s)) \<or>
    (\<exists>ctx s'. initHostContext env = Inr ctx \<and> host env s = (Return ctx, s') \<and>
       (\<forall>env'. host env' s' = (Return ctx, s')))"
  using assms host_once [of env s]
  by (cases "initHostContext env") (auto simp: host_fresh)

theorem host_initialises_once_witness:
  "\<exists>s'. host demo_env proc0 = (Return \<lparr>ia = 42, sciond = Some 15, hostInLocalAS = [10, 0, 0, 1]\<rparr>, s') \<and>
     (\<forall>env'. host (env' :: (nat, nat, nat) scion_env) s' =
        (Return \<lparr>ia = 42, sciond = Some 15, hostInLocalAS = [10, 0, 0, 1]\<rparr>, s'))"
proof -
  have ctx: "initHostContext demo_env =
      Inr \<lparr>ia = 42, sciond = Some 15, hostInLocalAS = [10, 0, 0, 1]\<rparr>"
    by (simp add: initHostContext_def findSciond_def findAnyHostInLocalAS_def demo_env_def Let_def)
  have "\<not> initOnce (proc0 :: nat proc)" by (simp add: proc0_def)
  from host_initialises_once [OF this, of demo_env] ctx show ?thesis by fastforce
qed

text \<open>
  \<open>statSocket\<close> accepts a path exactly when the file exists and bit 24 of its mode, the socket
  bit of Go's \<open>FileMode\<close>, is set.
\<close>
lemma statSocket_accepts:
  "statSocket env path = None \<longleftrightarrow> (\<exists>m. os_Stat env path = Inr m \<and> bit m 24)"
  by (auto simp: statSocket_def isSocket_bit split: sum.splits)

text \<open>
  \<open>defaultLocalAddr\<close> returns an address with a specified IP as it is, without touching the
  host context; for a zero or unspecified IP it returns the given address with the IP that the
  local-AS host resolves to, or an error, and the host context is initialised by then.
\<close>
lemma defaultLocalAddr_fills_in:
  assumes "defaultLocalAddr env local s = (Return (Inr a), s')"
  shows "if netaddr_IP_IsZero env (netaddr_IPPort_IP env local) \<or>
      netaddr_IP_IsUnspecified env (netaddr_IPPort_IP env local)
    then initOnce s' \<and> (\<exists>std ip.
      addrutil_ResolveLocal env (hostInLocalAS (singletonHostContext s')) = (std, None) \<and>
      netaddr_FromStdIP env std = (ip, True) \<and> a = netaddr_IPPort_WithIP env local ip)
    else a = local \<and> s' = s"
proof (cases "netaddr_IP_IsZero env (netaddr_IPPort_IP env local) \<or>
    netaddr_IP_IsUnspecified env (netaddr_IPPort_IP env local)")
  case False
  then show ?thesis using assms by (simp add: defaultLocalAddr_def)
next
  case True
  obtain ip where ip: "defaultLocalIP env s = (Return (Inr ip), s')"
    and a: "a = netaddr_IPPort_WithIP env local ip"
    using assms True
    by (auto simp: defaultLocalAddr_def split: prod.splits go.splits sum.splits)
  obtain h where h: "host env s = (Return h, s')"
    using ip by (auto simp: defaultLocalIP_def split: prod.splits go.splits if_splits)
  obtain std err ok where r: "addrutil_ResolveLocal env (hostInLocalAS h) = (std, err)"
    and f: "netaddr_FromStdIP env std = (ip, ok)" and "err = None" and "ok"
    using ip h by (auto simp: defaultLocalIP_def split: prod.splits if_splits)
  then show ?thesis using True a host_Return [OF h] by auto
qed

section \<open>Identifiers\<close>

text \<open>
  The loop of \<open>QueryPaths\<close> panics exactly when some path or its metadata is nil; otherwise
  it keeps every path, in order, with the join of its interfaces hashed to the identifier, the
  comma-separated form with dashes for hash signs as the sort key, two interfaces to a hop, and
  the state inactive.
\<close>
lemma parts_paths_builds:
  "parts_paths sn paths [] = Return pps \<longleftrightarrow>
     list_all2 (\<lambda>path q. \<exists>p md. path = Some p \<and> Metadata sn p = Some md \<and>
       q = \<lparr>Internal = Some p, pInterfaces = InterfacesToIds sn (Interfaces md),
          Id = stringToUint64 (strings_Join (map (PathInterface_String sn) (Interfaces md)) ''-''),
          Sorter = strings_Join (InterfacesToIds sn (Interfaces md)) '','',
          MTU = uint (mdMTU md), PayloadSize = 1200,
          Hops = int (length (Interfaces md)) div 2, State = 1, Pref = 0\<rparr>) paths pps"
  by (simp add: parts_paths_Return parts_path_Return SCION_PATH_STATE_INACTIVE_def)

text \<open>
  C23: if the printed interfaces have the documented form ISD-AS#ID and are distinct for distinct
  interfaces, then two paths get the same sort key exactly when they have the same interfaces, and
  so does the text that is hashed to the identifier.
\<close>
theorem path_names_identify:
  assumes "path_strings sn" and "parts_path sn a = Return p" and "parts_path sn b = Return q"
  shows "(Sorter p = Sorter q \<longleftrightarrow> path_Interfaces sn a = path_Interfaces sn b) \<and>
    (IdFromSnetPath sn a = IdFromSnetPath sn b \<longleftrightarrow> path_Interfaces sn a = path_Interfaces sn b)"
proof -
  obtain is' js where ab: "path_Interfaces sn a = Return is'" "path_Interfaces sn b = Return js"
    using assms(2,3) by (auto simp: parts_path_Return path_Interfaces_def)
  have "IdFromSnetPath sn a = IdFromSnetPath sn b \<longleftrightarrow> is' = js"
    using path_strings.id_text_inj [OF assms(1)]
    by (simp add: IdFromSnetPath_Join [OF ab(1)] IdFromSnetPath_Join [OF ab(2)])
  then show ?thesis
    using path_strings.parts_path_sorter [OF assms] ab by (simp add: path_key_def)
qed

theorem path_names_identify_witness:
  "IdFromSnetPath dec_snet (demo_path [demo_iface 1 2, demo_iface 3 4]) \<noteq>
     IdFromSnetPath dec_snet (demo_path [demo_iface 1 2, demo_iface 3 5])"
proof -
  let ?a = "demo_path [demo_iface 1 2, demo_iface 3 4]"
  let ?b = "demo_path [demo_iface 1 2, demo_iface 3 5]"
  have total: "returns (parts_path dec_snet (demo_path ifs))" for ifs
    by (simp add: parts_path_total demo_path_def dec_snet_def)
  obtain p q where "parts_path dec_snet ?a = Return p" "parts_path dec_snet ?b = Return q"
    using total returnsE by metis
  from path_names_identify [OF dp.path_strings_axioms this] show ?thesis
    by (simp add: path_Interfaces_def demo_path_def dec_snet_def demo_iface_def)
qed

text \<open>
  The FNV-1a hash separates two strings of which one is the other with a single byte
  replaced, wherever that byte is.
\<close>
lemma stringToUint64_one_byte:
  "stringToUint64 (xs @ c # ys) = stringToUint64 (xs @ d # ys) \<longleftrightarrow> c = d"
  by (rule fnv_one_byte)

section \<open>Order\<close>

text \<open>
  C22: with any sort that meets the contract of \<open>sort.Slice\<close>, which need not be stable,
  \<open>SortPartsPaths\<close> keeps the paths and brings their keys into the linear order of
  \<open>sorter_key\<close>, shorter first and then byte-wise; if no two paths share a key the result is the
  library's stable sort, so it does not depend on the sort at all.
\<close>
theorem SortPartsPaths_sorts:
  assumes "slice_sort srt"
  shows "mset (SortPartsPaths srt ps) = mset ps \<and>
    map path_key (SortPartsPaths srt ps) = sort (map path_key ps) \<and>
    (distinct (map Sorter ps) \<longrightarrow> SortPartsPaths srt ps = sort_key path_key ps)"
proof -
  have less: "path_less = (\<lambda>p q. path_key p < path_key q)"
    by (simp add: path_less_key fun_eq_iff)
  have "distinct (map Sorter ps) \<Longrightarrow> inj_on path_key (set ps)"
    by (auto simp: distinct_map inj_on_def path_key_def)
  then show ?thesis
    unfolding SortPartsPaths_def less
    by (simp add: slice_sort.slice_keys [OF assms] slice_sort.slice_keys_distinct [OF assms]
        slice_sort.slice_perm [OF assms strict_weak_key])
qed

definition demo_parts :: "string \<Rightarrow> nat SCIONPath" where
  "demo_parts s = \<lparr>Internal = None, pInterfaces = [], Id = 0, Sorter = s, MTU = 0, PayloadSize = 0,
     Hops = 0, State = 0, Pref = 0\<rparr>"

theorem SortPartsPaths_sorts_witness:
  "map Sorter (SortPartsPaths go_insertionSort (map demo_parts [''bb'', ''b'', ''ab'', ''c''])) =
     [''b'', ''c'', ''ab'', ''bb'']"
proof -
  have "map path_key (SortPartsPaths go_insertionSort (map demo_parts [''bb'', ''b'', ''ab'', ''c''])) =
      sort (map path_key (map demo_parts [''bb'', ''b'', ''ab'', ''c'']))"
    using SortPartsPaths_sorts [OF gs.slice_sort_axioms] by blast
  also have "\<dots> = map SorterKey [''b'', ''c'', ''ab'', ''bb'']"
    by (rule properties_for_sort) (simp_all add: path_key_def demo_parts_def
        less_eq_sorter_key_def less_sorter_key_def)
  finally have "map key_text (map path_key (SortPartsPaths go_insertionSort
      (map demo_parts [''bb'', ''b'', ''ab'', ''c'']))) = [''b'', ''c'', ''ab'', ''bb'']"
    by simp
  then show ?thesis by (simp add: path_key_def o_def)
qed

text \<open>
  The variant on pointers panics exactly when it must compare through a nil pointer; else it
  permutes the pointers, leaves the paths they point to alone, and orders them by those paths'
  keys.
\<close>
lemma SortPartsPathsP_sorts:
  assumes "slice_sort srt"
  shows "case SortPartsPathsP srt h ps of
      Return qs \<Rightarrow> mset qs = mset ps \<and> (length ps < 2 \<or> None \<notin> set ps) \<and>
        map (\<lambda>a. path_key (h (the a))) qs = sort (map (\<lambda>a. path_key (h (the a))) ps)
    | Panicked x \<Rightarrow> x = NilPointer \<and> 2 \<le> length ps \<and> None \<in> set ps
    | Exited n \<Rightarrow> False"
  by (auto simp: SortPartsPathsP_def path_less_key slice_sort.slice_keys [OF assms]
      slice_sort.slice_perm [OF assms strict_weak_key])

section \<open>The cache\<close>

text \<open>
  As the query to the daemon is commented out, the cache of an initialised process returns
  no paths for any remote, with no error, and forgets those it had: it stores the empty list.
\<close>
lemma Get_empty:
  assumes "slice_sort srt" and "initOnce s" and "Paths pc = Some m"
  shows "Get ua env sn srt pc (Some a) s =
    (Return (Inr []), pc\<lparr>Paths := Some (m(UDPAddr_String ua a \<mapsto> []))\<rparr>, s)"
proof -
  have "mset (srt path_less []) = {#}"
    using slice_sort.slice_perm [OF assms(1) strict_weak_key, of path_key "[]"]
    by (simp add: path_less_key [abs_def])
  then have "QueryPaths env sn srt (UDPAddr_IA ua a) s = (Return (Inr []), s)"
    by (rule QueryPaths_empty [OF host_done [OF assms(2)]])
  then show ?thesis
    by (simp add: Get_def Refresh_def map_read_def assms(3))
qed

end
