(* ===== verification/BpfTypes.thy ===== *)
theory BpfTypes
  imports Prelude
begin

text \<open>
  \<open>internal/bpf/types.go\<close>: the keys and values of the two eBPF maps.  An IPv4 address
  becomes a \<open>uint32\<close> key in the host's byte order, and \<open>ScionPathEntry\<close> mirrors the C struct
  \<open>scion_path_entry\<close> of \<open>bpf/maps.h\<close> byte for byte.  The host's byte order is an argument
  (\<open>endian\<close>); everything here holds for both.
\<close>

section \<open>Byte order\<close>

datatype endian = LittleEndian | BigEndian

text \<open>\<open>encoding/binary\<close>: \<open>Uint32\<close>, \<open>PutUint32\<close> and \<open>PutUint16\<close> of the native order.\<close>

definition binary_Uint32 :: "endian \<Rightarrow> byte list \<Rightarrow> u32" where
  "binary_Uint32 e b =
     (case e of
        LittleEndian \<Rightarrow> ucast (b ! 0) OR push_bit 8 (ucast (b ! 1))
                        OR push_bit 16 (ucast (b ! 2)) OR push_bit 24 (ucast (b ! 3))
      | BigEndian \<Rightarrow> ucast (b ! 3) OR push_bit 8 (ucast (b ! 2))
                     OR push_bit 16 (ucast (b ! 1)) OR push_bit 24 (ucast (b ! 0)))"

definition binary_PutUint32 :: "endian \<Rightarrow> u32 \<Rightarrow> byte list" where
  "binary_PutUint32 e v =
     (let bs = [ucast v, ucast (drop_bit 8 v), ucast (drop_bit 16 v), ucast (drop_bit 24 v)]
      in case e of LittleEndian \<Rightarrow> bs | BigEndian \<Rightarrow> rev bs)"

definition binary_PutUint16 :: "endian \<Rightarrow> u16 \<Rightarrow> byte list" where
  "binary_PutUint16 e v =
     (let bs = [ucast v, ucast (drop_bit 8 v)]
      in case e of LittleEndian \<Rightarrow> bs | BigEndian \<Rightarrow> rev bs)"

definition binary_Uint16 :: "endian \<Rightarrow> byte list \<Rightarrow> u16" where
  "binary_Uint16 e b =
     (case e of
        LittleEndian \<Rightarrow> ucast (b ! 0) OR push_bit 8 (ucast (b ! 1))
      | BigEndian \<Rightarrow> ucast (b ! 1) OR push_bit 8 (ucast (b ! 0)))"

lemma length_binary_PutUint32 [simp]: "length (binary_PutUint32 e v) = 4"
  by (cases e) (simp_all add: binary_PutUint32_def Let_def)

lemma length_binary_PutUint16 [simp]: "length (binary_PutUint16 e v) = 2"
  by (cases e) (simp_all add: binary_PutUint16_def Let_def)

lemma add_diff_or_less: "24 + (n - 24) = n \<or> n < (24::nat)"
  by arith

lemma split_u32:
  "(ucast (ucast v :: byte) :: u32) OR push_bit 8 (ucast (ucast (drop_bit 8 v) :: byte))
     OR push_bit 16 (ucast (ucast (drop_bit 16 v) :: byte))
     OR push_bit 24 (ucast (ucast (drop_bit 24 v) :: byte)) = (v :: u32)"
proof (rule bit_word_eqI)
  fix n
  assume "n < LENGTH(32)"
  with add_diff_or_less [of n] show
    "bit ((ucast (ucast v :: byte) :: u32) OR push_bit 8 (ucast (ucast (drop_bit 8 v) :: byte))
       OR push_bit 16 (ucast (ucast (drop_bit 16 v) :: byte))
       OR push_bit 24 (ucast (ucast (drop_bit 24 v) :: byte))) n = bit v n"
    by (auto simp: bit_simps)
qed

lemma join_u32:
  fixes a b c d :: byte
  defines "w \<equiv> (ucast a :: u32) OR push_bit 8 (ucast b) OR push_bit 16 (ucast c)
    OR push_bit 24 (ucast d)"
  shows "ucast w = a" "ucast (drop_bit 8 w) = b" "ucast (drop_bit 16 w) = c"
    "ucast (drop_bit 24 w) = d"
  unfolding w_def
  by (rule bit_word_eqI; auto simp: bit_simps dest: bit_imp_le_length)+

lemma Uint32_PutUint32 [go_simps]: "binary_Uint32 e (binary_PutUint32 e v) = v"
  by (cases e) (simp_all add: binary_Uint32_def binary_PutUint32_def split_u32)

lemma PutUint32_Uint32 [go_simps]:
  assumes "length b = 4"
  shows "binary_PutUint32 e (binary_Uint32 e b) = b"
proof -
  from assms obtain b0 b1 b2 b3 where "b = [b0, b1, b2, b3]"
    by (auto simp: numeral_eq_Suc length_Suc_conv)
  then show ?thesis
    by (cases e)
      (simp_all add: binary_Uint32_def binary_PutUint32_def Let_def join_u32 del: drop_bit_or)
qed

lemma Uint16_PutUint16 [go_simps]: "binary_Uint16 e (binary_PutUint16 e v) = v"
proof -
  have "(ucast (ucast v :: byte) :: u16) OR push_bit 8 (ucast (ucast (drop_bit 8 v) :: byte)) = v"
    by (rule bit_word_eqI) (auto simp: bit_simps)
  then show ?thesis
    by (cases e) (simp_all add: binary_Uint16_def binary_PutUint16_def Let_def)
qed

section \<open>Addresses and keys\<close>

text \<open>
  \<open>net.IP\<close> is a byte slice, and \<open>To4\<close> gives the four bytes of an IPv4 address held in
  4 bytes or in the IPv4-mapped 16-byte form, nil for anything else.
\<close>

definition v4InV6Prefix :: "byte list" where
  "v4InV6Prefix = replicate 10 0 @ [0xff, 0xff]"

definition net_IP_To4 :: "byte list \<Rightarrow> byte list option" where
  "net_IP_To4 ip =
     (if length ip = 4 then Some ip
      else if length ip = 16 \<and> take 12 ip = v4InV6Prefix then Some (drop 12 ip)
      else None)"

lemma length_net_IP_To4: "net_IP_To4 ip = Some b \<Longrightarrow> length b = 4"
  by (auto simp: net_IP_To4_def split: if_splits)

lemma net_IP_To4_mapped [go_simps]:
  "length b = 4 \<Longrightarrow> net_IP_To4 (v4InV6Prefix @ b) = Some b"
  by (simp add: net_IP_To4_def v4InV6Prefix_def)

lemma net_IP_To4_v4 [go_simps]: "length b = 4 \<Longrightarrow> net_IP_To4 b = Some b"
  by (simp add: net_IP_To4_def)

text \<open>
  \<open>net.IP\<close>'s text, which the error message holds: dotted for an IPv4 address, else the eight
  groups of an IPv6 address with the first longest run of two or more zero groups cut out, else
  hexadecimal.
\<close>

definition v6_group :: "byte list \<Rightarrow> nat \<Rightarrow> nat" where
  "v6_group ip i = unat (ip ! (2 * i)) * 256 + unat (ip ! (2 * i + 1))"

fun hex_text :: "nat \<Rightarrow> string" where
  "hex_text n = (if n < 16 then [hex_digit n] else hex_text (n div 16) @ [hex_digit (n mod 16)])"

declare hex_text.simps [simp del]

definition zero_run :: "nat list \<Rightarrow> nat \<Rightarrow> nat" where
  "zero_run gs i = length (takeWhile (\<lambda>g. g = 0) (drop i gs))"

definition longest_run :: "nat list \<Rightarrow> nat \<times> nat" where
  "longest_run gs = foldl (\<lambda>(z, l) i. if 2 \<le> zero_run gs i \<and> l < zero_run gs i
     then (i, zero_run gs i) else (z, l)) (0, 0) [0..<length gs]"

definition v6_text :: "nat list \<Rightarrow> string" where
  "v6_text gs =
     (case longest_run gs of
        (z, l) \<Rightarrow>
          if l = 0 then strings_Join (map hex_text gs) '':''
          else strings_Join (map hex_text (take z gs)) '':'' @ ''::'' @
               strings_Join (map hex_text (drop (z + l) gs)) '':'')"

definition net_IP_String :: "byte list \<Rightarrow> string" where
  "net_IP_String ip =
     (if ip = [] then ''<nil>''
      else case net_IP_To4 ip of
          Some ip4 \<Rightarrow> strings_Join (map (\<lambda>b. itoa (unat b)) ip4) ''.''
        | None \<Rightarrow>
            if length ip = 16 then v6_text (map (v6_group ip) [0..<8])
            else ''?'' @ concat (map (\<lambda>b. [hex_digit (unat b div 16), hex_digit (unat b mod 16)]) ip))"

definition IPToKey_error :: "byte list \<Rightarrow> go_error" where
  "IPToKey_error ip = ErrText (''IPToKey: not an IPv4 address: '' @ net_IP_String ip)"

definition IPToKey :: "endian \<Rightarrow> byte list \<Rightarrow> go_error + u32" where
  "IPToKey e ip =
     (case net_IP_To4 ip of
        None \<Rightarrow> Inl (IPToKey_error ip)
      | Some ip4 \<Rightarrow> Inr (binary_Uint32 e ip4))"

definition IPFromKey :: "endian \<Rightarrow> u32 \<Rightarrow> byte list" where
  "IPFromKey e key = binary_PutUint32 e key"

lemma IPToKey_Inl: "IPToKey e ip = Inl err \<longleftrightarrow> net_IP_To4 ip = None \<and> err = IPToKey_error ip"
  by (auto simp: IPToKey_def split: option.splits)

lemma IPToKey_Inr: "IPToKey e ip = Inr k \<longleftrightarrow> net_IP_To4 ip = Some (IPFromKey e k)"
  by (auto simp: IPToKey_def IPFromKey_def go_simps length_net_IP_To4 split: option.splits)

lemma IPToKey_cases [case_names not_v4 v4]:
  obtains "net_IP_To4 ip = None" "IPToKey e ip = Inl (IPToKey_error ip)"
  | k where "net_IP_To4 ip = Some (IPFromKey e k)" "IPToKey e ip = Inr k"
proof (cases "IPToKey e ip")
  case (Inl err)
  with IPToKey_Inl [of e ip err] that(1) show ?thesis by simp
next
  case (Inr k)
  with IPToKey_Inr [of e ip k] that(2) show ?thesis by simp
qed

section \<open>The path entry and its memory image\<close>

record ScionPathEntry =
  NextHopIP :: "byte list"
  NextHopMAC :: "byte list"
  PathLen :: u16
  HopFields :: "byte list"
  MACKey :: "byte list"

text \<open>The lengths of the fixed-size Go arrays, which Go's type system guarantees.\<close>

definition wf_entry :: "ScionPathEntry \<Rightarrow> bool" where
  "wf_entry p \<longleftrightarrow> length (NextHopIP p) = 4 \<and> length (NextHopMAC p) = 6 \<and>
     length (HopFields p) = 256 \<and> length (MACKey p) = 16"

text \<open>
  The layout rule that Go's compiler and C's ABI share: each field at the next multiple of its
  alignment, the size rounded up to the largest alignment.  A field is (size, alignment).
\<close>

definition align_up :: "nat \<Rightarrow> nat \<Rightarrow> nat" where
  "align_up a off = (off + a - 1) div a * a"

fun field_offsets :: "nat \<Rightarrow> (nat \<times> nat) list \<Rightarrow> nat list \<times> nat" where
  "field_offsets off [] = ([], off)"
| "field_offsets off ((sz, a) # fs) =
     (let (offs, fin) = field_offsets (align_up a off + sz) fs in (align_up a off # offs, fin))"

definition struct_layout :: "(nat \<times> nat) list \<Rightarrow> nat list \<times> nat" where
  "struct_layout fs =
     (let (offs, fin) = field_offsets 0 fs in (offs, align_up (foldr max (map snd fs) 1) fin))"

definition go_entry_fields :: "(nat \<times> nat) list" where
  "go_entry_fields = [(4, 1), (6, 1), (2, 2), (256, 1), (16, 1)]"

definition c_entry_fields :: "(nat \<times> nat) list" where
  "c_entry_fields = [(4, 4), (6, 1), (2, 2), (256, 1), (16, 1)]"

lemma struct_layout_entry [simp]:
  "struct_layout go_entry_fields = ([0, 4, 10, 12, 268], 284)"
  "struct_layout c_entry_fields = ([0, 4, 10, 12, 268], 284)"
  by code_simp+

text \<open>The bytes of a Go value in memory: its fields at the offsets of the layout, no gap.\<close>

definition entry_memory :: "endian \<Rightarrow> ScionPathEntry \<Rightarrow> byte list" where
  "entry_memory e p =
     NextHopIP p @ NextHopMAC p @ binary_PutUint16 e (PathLen p) @ HopFields p @ MACKey p"

record scion_path_entry =
  next_hop_ip :: u32
  next_hop_mac :: "byte list"
  path_len :: u16
  hop_fields :: "byte list"
  mac_key :: "byte list"

text \<open>What the eBPF programs read: the C struct laid over the map's value.\<close>

definition slice :: "nat \<Rightarrow> nat \<Rightarrow> 'a list \<Rightarrow> 'a list" where
  "slice off n xs = take n (drop off xs)"

definition c_entry :: "endian \<Rightarrow> byte list \<Rightarrow> scion_path_entry" where
  "c_entry e m =
     (let offs = fst (struct_layout c_entry_fields); sz = map fst c_entry_fields;
          field = (\<lambda>i. slice (offs ! i) (sz ! i) m)
      in \<lparr>next_hop_ip = binary_Uint32 e (field 0), next_hop_mac = field 1,
          path_len = binary_Uint16 e (field 2), hop_fields = field 3, mac_key = field 4\<rparr>)"

lemma length_entry_memory: "wf_entry p \<Longrightarrow> length (entry_memory e p) = 284"
  by (simp add: entry_memory_def wf_entry_def)

lemma c_entry_memory:
  assumes "wf_entry p"
  shows "c_entry e (entry_memory e p) =
    \<lparr>next_hop_ip = binary_Uint32 e (NextHopIP p), next_hop_mac = NextHopMAC p,
     path_len = PathLen p, hop_fields = HopFields p, mac_key = MACKey p\<rparr>"
  using assms
  by (simp add: c_entry_def Let_def c_entry_fields_def [symmetric])
     (simp add: c_entry_fields_def slice_def entry_memory_def wf_entry_def go_simps)

end
