(* ===== verification/BpfLib.thy ===== *)
theory BpfLib
  imports Prelude
begin

text \<open>
  The interface of the packages that \<open>internal/bpf\<close> calls and whose code is not in the
  repository: \<open>cilium/ebpf\<close> (programs, maps and the collection loader), \<open>cilium/ebpf/link\<close>
  and \<open>vishvananda/netlink\<close>.  They are one record of functions over an abstract kernel state
  \<open>'k\<close>, an argument of every definition that calls them.  What the code relies on is stated in
  the locales below, which are about the library alone; \<open>KernelRef\<close> gives an instance.
\<close>

section \<open>Handles and netlink objects\<close>

text \<open>A \<open>*ebpf.Program\<close>, a \<open>*ebpf.Map\<close> and a \<open>link.Link\<close>: nil or the handle of an object.\<close>

type_synonym handle = "nat option"

text \<open>
  The three objects an ELF blob of this repository holds, in the order of their fields: the
  program, \<open>pod_policy_map\<close> and \<open>scion_path_cache\<close>.
\<close>

type_synonym handles = "handle \<times> handle \<times> handle"

record clsact_qdisc =
  qLinkIndex :: nat
  qHandle :: u32
  qParent :: u32
  qType :: string

record bpf_filter =
  fLinkIndex :: nat
  fParent :: u32
  fHandle :: u32
  fProtocol :: nat
  fPriority :: nat
  fFd :: int
  fName :: string
  fDirectAction :: bool

text \<open>An element of \<open>netlink.FilterList\<close>: a BPF filter or one of another type.\<close>

datatype tc_filter = BpfFilter bpf_filter | OtherFilter string

record ('k, 'sp) bpf_lib =
  ebpf_LoadCollectionSpec :: "byte list \<Rightarrow> go_error + 'sp"
  ebpf_LoadAndAssign :: "'sp \<Rightarrow> handles \<Rightarrow> 'k \<Rightarrow> go_error option \<times> handles \<times> 'k"
  ebpf_Program_Close :: "handle \<Rightarrow> 'k \<Rightarrow> go_error option \<times> 'k"
  ebpf_Program_FD :: "handle \<Rightarrow> 'k \<Rightarrow> int go"
  ebpf_Map_Close :: "handle \<Rightarrow> 'k \<Rightarrow> go_error option \<times> 'k"
  ebpf_Map_Put :: "handle \<Rightarrow> byte list \<Rightarrow> byte list \<Rightarrow> 'k \<Rightarrow> go_error option go \<times> 'k"
  ebpf_Map_Delete :: "handle \<Rightarrow> byte list \<Rightarrow> 'k \<Rightarrow> go_error option go \<times> 'k"
  link_AttachXDP :: "handle \<Rightarrow> nat \<Rightarrow> nat \<Rightarrow> 'k \<Rightarrow> (handle \<times> go_error option) \<times> 'k"
  link_Close :: "nat \<Rightarrow> 'k \<Rightarrow> go_error option \<times> 'k"
  nl_LinkByName :: "string \<Rightarrow> 'k \<Rightarrow> go_error + nat"
  nl_QdiscAdd :: "clsact_qdisc \<Rightarrow> 'k \<Rightarrow> go_error option \<times> 'k"
  nl_FilterAdd :: "bpf_filter \<Rightarrow> 'k \<Rightarrow> go_error option \<times> 'k"
  nl_FilterList :: "nat \<Rightarrow> u32 \<Rightarrow> 'k \<Rightarrow> go_error + tc_filter list"
  nl_FilterDel :: "bpf_filter \<Rightarrow> 'k \<Rightarrow> go_error option \<times> 'k"
  nl_MakeHandle :: "u16 \<Rightarrow> u16 \<Rightarrow> u32"
  nl_HANDLE_CLSACT :: u32
  nl_HANDLE_MIN_EGRESS :: u32
  link_XDPGenericMode :: nat
  unix_EEXIST :: nat
  unix_ETH_P_ALL :: nat

section \<open>What the code relies on\<close>

text \<open>
  eBPF hash maps: \<open>Put\<close> creates or replaces one entry of one map, \<open>Delete\<close> removes one, and an
  operation that does not report success changes nothing.
\<close>

locale bpf_maps =
  fixes lib :: "('k, 'sp, 'z) bpf_lib_scheme"
    and entries :: "'k \<Rightarrow> nat \<Rightarrow> byte list \<rightharpoonup> byte list"
  assumes put_ok: "ebpf_Map_Put lib (Some m) key v k = (Return None, k') \<Longrightarrow>
      entries k' = (entries k)(m := (entries k m)(key \<mapsto> v))"
    and put_fail: "ebpf_Map_Put lib h key v k = (r, k') \<Longrightarrow> r \<noteq> Return None \<Longrightarrow>
      entries k' = entries k"
    and put_nil: "fst (ebpf_Map_Put lib None key v k) \<noteq> Return None"
    and del_ok: "ebpf_Map_Delete lib (Some m) key k = (Return None, k') \<Longrightarrow>
      entries k' = (entries k)(m := (entries k m)(key := None))"
    and del_fail: "ebpf_Map_Delete lib h key k = (r, k') \<Longrightarrow> r \<noteq> Return None \<Longrightarrow>
      entries k' = entries k"
    and del_nil: "fst (ebpf_Map_Delete lib None key k) \<noteq> Return None"
begin

lemma put_Some:
  assumes "ebpf_Map_Put lib h key v k = (Return None, k')"
  obtains m where "h = Some m" "entries k' = (entries k)(m := (entries k m)(key \<mapsto> v))"
  using assms put_nil [of key v k] by (cases h) (auto dest: put_ok)

lemma del_Some:
  assumes "ebpf_Map_Delete lib h key k = (Return None, k')"
  obtains m where "h = Some m" "entries k' = (entries k)(m := (entries k m)(key := None))"
  using assms del_nil [of key k] by (cases h) (auto dest: del_ok)

end

text \<open>
  The life of kernel objects: a successful load returns three distinct handles that were not in
  use and opens them, a failed load opens nothing, a close that reports success releases its
  object, and closing nil does nothing and succeeds.
\<close>

locale bpf_objects =
  fixes lib :: "('k, 'sp, 'z) bpf_lib_scheme"
    and open_fds :: "'k \<Rightarrow> nat set"
  assumes load_ok: "ebpf_LoadAndAssign lib sp hs k = (None, hs', k') \<Longrightarrow>
      \<exists>p m1 m2. hs' = (Some p, Some m1, Some m2) \<and> distinct [p, m1, m2] \<and>
        {p, m1, m2} \<inter> open_fds k = {} \<and> open_fds k' = open_fds k \<union> {p, m1, m2}"
    and load_fail: "ebpf_LoadAndAssign lib sp hs k = (Some err, hs', k') \<Longrightarrow>
      open_fds k' = open_fds k"
    and prog_close_nil: "ebpf_Program_Close lib None k = (None, k)"
    and map_close_nil: "ebpf_Map_Close lib None k = (None, k)"
    and prog_close: "ebpf_Program_Close lib (Some p) k = (None, k') \<Longrightarrow> p \<notin> open_fds k'"
    and map_close: "ebpf_Map_Close lib (Some m) k = (None, k') \<Longrightarrow> m \<notin> open_fds k'"
    and prog_close_other: "ebpf_Program_Close lib (Some p) k = (r, k') \<Longrightarrow>
      open_fds k' - {p} = open_fds k - {p}"
    and map_close_other: "ebpf_Map_Close lib (Some m) k = (r, k') \<Longrightarrow>
      open_fds k' - {m} = open_fds k - {m}"

text \<open>
  The netlink filters: \<open>FilterAdd\<close> adds the filter to those of its interface and parent,
  \<open>FilterList\<close> lists them, \<open>FilterDel\<close> removes the one it is given, and none of them touches
  the queueing disciplines.
\<close>

locale netlink_tc =
  fixes lib :: "('k, 'sp, 'z) bpf_lib_scheme"
    and filters :: "'k \<Rightarrow> nat \<Rightarrow> u32 \<Rightarrow> tc_filter list"
    and qdiscs :: "'k \<Rightarrow> clsact_qdisc set"
  assumes flist_ok: "nl_FilterList lib i p k = Inr fs \<Longrightarrow> fs = filters k i p"
    and fadd_ok: "nl_FilterAdd lib f k = (None, k') \<Longrightarrow>
      filters k' = upd2 (filters k) (fLinkIndex f) (fParent f)
        (filters k (fLinkIndex f) (fParent f) @ [BpfFilter f])"
    and fadd_qdiscs: "nl_FilterAdd lib f k = (r, k') \<Longrightarrow> qdiscs k' = qdiscs k"
    and fdel_ok: "nl_FilterDel lib f k = (None, k') \<Longrightarrow>
      filters k' = upd2 (filters k) (fLinkIndex f) (fParent f)
        (filter (\<lambda>g. g \<noteq> BpfFilter f) (filters k (fLinkIndex f) (fParent f)))"
    and fdel_qdiscs: "nl_FilterDel lib f k = (r, k') \<Longrightarrow> qdiscs k' = qdiscs k"
    and qdisc_ok: "nl_QdiscAdd lib q k = (None, k') \<Longrightarrow>
      filters k' = filters k \<and> qdiscs k' = insert q (qdiscs k)"
    and qdisc_fail: "nl_QdiscAdd lib q k = (Some e, k') \<Longrightarrow>
      filters k' = filters k \<and> qdiscs k' = qdiscs k"
    and listed_here: "BpfFilter f \<in> set (filters k i p) \<Longrightarrow> fLinkIndex f = i \<and> fParent f = p"

text \<open>
  The whole kernel as the loader sees it: the parts above together, where a load creates its two
  maps empty and leaves the existing ones alone, and where attaching, detaching and closing do
  not write a map.
\<close>

locale bpf_kernel = bpf_maps lib entries + bpf_objects lib open_fds + netlink_tc lib filters qdiscs
  for lib :: "('k, 'sp, 'z) bpf_lib_scheme" and entries open_fds filters qdiscs +
  assumes load_entries: "ebpf_LoadAndAssign lib sp hs k = (None, (Some p, Some m1, Some m2), k') \<Longrightarrow>
      entries k' = (entries k)(m1 := Map.empty, m2 := Map.empty)"
    and xdp_entries: "link_AttachXDP lib h i f k = (r, k') \<Longrightarrow> entries k' = entries k"
    and qdisc_entries: "nl_QdiscAdd lib q k = (r', k') \<Longrightarrow> entries k' = entries k"
    and fadd_entries: "nl_FilterAdd lib fl k = (r', k') \<Longrightarrow> entries k' = entries k"
    and fdel_entries: "nl_FilterDel lib fl k = (r', k') \<Longrightarrow> entries k' = entries k"
    and prog_close_entries: "ebpf_Program_Close lib h k = (r', k') \<Longrightarrow> entries k' = entries k"
    and map_close_entries: "ebpf_Map_Close lib h k = (r', k') \<Longrightarrow> entries k' = entries k"
    and link_close_entries: "link_Close lib n k = (r', k') \<Longrightarrow> entries k' = entries k"

end
