(* ===== verification/BpfObjects.thy ===== *)
theory BpfObjects
  imports BpfLib
begin

text \<open>
  \<open>internal/bpf/tc_egress_bpfel.go\<close> and \<open>internal/bpf/xdp_ingress_bpfel.go\<close>: the handles of the
  two eBPF collections, how they are loaded from the embedded ELF blob and closed.  The blob is
  an argument of the load; \<open>TcEgressBytes\<close> and \<open>XdpIngressBytes\<close> are what the repository holds.
\<close>

section \<open>The tc_egress collection\<close>

record TcEgressPrograms =
  TcEgress :: handle

record TcEgressMaps =
  PodPolicyMap :: handle
  ScionPathCache :: handle

record TcEgressObjects =
  tcPrograms :: TcEgressPrograms
  tcMaps :: TcEgressMaps

definition TcEgressObjects_zero :: TcEgressObjects where
  "TcEgressObjects_zero = \<lparr>tcPrograms = \<lparr>TcEgress = None\<rparr>,
     tcMaps = \<lparr>PodPolicyMap = None, ScionPathCache = None\<rparr>\<rparr>"

definition TcEgressBytes :: "byte list" where
  "TcEgressBytes = []"

text \<open>What \<open>_TcEgressClose\<close> is given: values with a \<open>Close\<close> method.\<close>

datatype closer = ProgramCloser handle | MapCloser handle

fun closer_Close :: "('k, 'sp, 'z) bpf_lib_scheme \<Rightarrow> closer \<Rightarrow> 'k \<Rightarrow> go_error option \<times> 'k" where
  "closer_Close lib (ProgramCloser h) k = ebpf_Program_Close lib h k"
| "closer_Close lib (MapCloser h) k = ebpf_Map_Close lib h k"

fun TcEgressClose :: "('k, 'sp, 'z) bpf_lib_scheme \<Rightarrow> closer list \<Rightarrow> 'k \<Rightarrow> go_error option \<times> 'k" where
  "TcEgressClose lib [] k = (None, k)"
| "TcEgressClose lib (c # closers) k =
     (case closer_Close lib c k of
        (Some err, k') \<Rightarrow> (Some err, k')
      | (None, k') \<Rightarrow> TcEgressClose lib closers k')"

definition TcEgressObjects_Close ::
  "('k, 'sp, 'z) bpf_lib_scheme \<Rightarrow> TcEgressObjects \<Rightarrow> 'k \<Rightarrow> go_error option \<times> 'k" where
  "TcEgressObjects_Close lib obj k =
     TcEgressClose lib
       [ProgramCloser (TcEgress (tcPrograms obj)),
        MapCloser (PodPolicyMap (tcMaps obj)),
        MapCloser (ScionPathCache (tcMaps obj))] k"

definition TcEgressPrograms_Close ::
  "('k, 'sp, 'z) bpf_lib_scheme \<Rightarrow> TcEgressPrograms \<Rightarrow> 'k \<Rightarrow> go_error option \<times> 'k" where
  "TcEgressPrograms_Close lib p k = TcEgressClose lib [ProgramCloser (TcEgress p)] k"

definition TcEgressMaps_Close ::
  "('k, 'sp, 'z) bpf_lib_scheme \<Rightarrow> TcEgressMaps \<Rightarrow> 'k \<Rightarrow> go_error option \<times> 'k" where
  "TcEgressMaps_Close lib m k =
     TcEgressClose lib [MapCloser (PodPolicyMap m), MapCloser (ScionPathCache m)] k"

text \<open>\<open>LoadAndAssign\<close> fills the fields of the struct it is given.\<close>

fun tc_assign :: "handles \<Rightarrow> TcEgressObjects" where
  "tc_assign (p, m1, m2) = \<lparr>tcPrograms = \<lparr>TcEgress = p\<rparr>,
     tcMaps = \<lparr>PodPolicyMap = m1, ScionPathCache = m2\<rparr>\<rparr>"

definition tc_handles :: "TcEgressObjects \<Rightarrow> handles" where
  "tc_handles obj = (TcEgress (tcPrograms obj), PodPolicyMap (tcMaps obj), ScionPathCache (tcMaps obj))"

definition not_compiled :: "string \<Rightarrow> go_error" where
  "not_compiled name =
     ErrText (name @ '' eBPF object not compiled: run 'go generate ./pkg/bpf/'' @ [CHR 0x27])"

definition LoadTcEgressObjects ::
  "('k, 'sp, 'z) bpf_lib_scheme \<Rightarrow> byte list \<Rightarrow> TcEgressObjects \<Rightarrow> 'k \<Rightarrow>
     go_error option \<times> TcEgressObjects \<times> 'k" where
  "LoadTcEgressObjects lib blob obj k =
     (if blob = []
      then (Some (not_compiled ''tc_egress''), obj, k)
      else case ebpf_LoadCollectionSpec lib blob of
        Inl err \<Rightarrow> (Some (Wrapped ''load tc_egress: '' err), obj, k)
      | Inr spec \<Rightarrow>
          (case ebpf_LoadAndAssign lib spec (tc_handles obj) k of
             (r, hs, k') \<Rightarrow> (r, tc_assign hs, k')))"

section \<open>The xdp_ingress collection\<close>

record XdpIngressPrograms =
  XdpIngress :: handle

record XdpIngressMaps =
  XdpPodPolicyMap :: handle
  XdpScionPathCache :: handle

record XdpIngressObjects =
  xdpPrograms :: XdpIngressPrograms
  xdpMaps :: XdpIngressMaps

definition XdpIngressObjects_zero :: XdpIngressObjects where
  "XdpIngressObjects_zero = \<lparr>xdpPrograms = \<lparr>XdpIngress = None\<rparr>,
     xdpMaps = \<lparr>XdpPodPolicyMap = None, XdpScionPathCache = None\<rparr>\<rparr>"

definition XdpIngressBytes :: "byte list" where
  "XdpIngressBytes = []"

fun XdpIngressClose :: "('k, 'sp, 'z) bpf_lib_scheme \<Rightarrow> closer list \<Rightarrow> 'k \<Rightarrow> go_error option \<times> 'k" where
  "XdpIngressClose lib [] k = (None, k)"
| "XdpIngressClose lib (c # closers) k =
     (case closer_Close lib c k of
        (Some err, k') \<Rightarrow> (Some err, k')
      | (None, k') \<Rightarrow> XdpIngressClose lib closers k')"

definition XdpIngressObjects_Close ::
  "('k, 'sp, 'z) bpf_lib_scheme \<Rightarrow> XdpIngressObjects \<Rightarrow> 'k \<Rightarrow> go_error option \<times> 'k" where
  "XdpIngressObjects_Close lib obj k =
     XdpIngressClose lib
       [ProgramCloser (XdpIngress (xdpPrograms obj)),
        MapCloser (XdpPodPolicyMap (xdpMaps obj)),
        MapCloser (XdpScionPathCache (xdpMaps obj))] k"

definition XdpIngressPrograms_Close ::
  "('k, 'sp, 'z) bpf_lib_scheme \<Rightarrow> XdpIngressPrograms \<Rightarrow> 'k \<Rightarrow> go_error option \<times> 'k" where
  "XdpIngressPrograms_Close lib p k = XdpIngressClose lib [ProgramCloser (XdpIngress p)] k"

definition XdpIngressMaps_Close ::
  "('k, 'sp, 'z) bpf_lib_scheme \<Rightarrow> XdpIngressMaps \<Rightarrow> 'k \<Rightarrow> go_error option \<times> 'k" where
  "XdpIngressMaps_Close lib m k =
     XdpIngressClose lib [MapCloser (XdpPodPolicyMap m), MapCloser (XdpScionPathCache m)] k"

fun xdp_assign :: "handles \<Rightarrow> XdpIngressObjects" where
  "xdp_assign (p, m1, m2) = \<lparr>xdpPrograms = \<lparr>XdpIngress = p\<rparr>,
     xdpMaps = \<lparr>XdpPodPolicyMap = m1, XdpScionPathCache = m2\<rparr>\<rparr>"

definition xdp_handles :: "XdpIngressObjects \<Rightarrow> handles" where
  "xdp_handles obj =
     (XdpIngress (xdpPrograms obj), XdpPodPolicyMap (xdpMaps obj), XdpScionPathCache (xdpMaps obj))"

definition LoadXdpIngressObjects ::
  "('k, 'sp, 'z) bpf_lib_scheme \<Rightarrow> byte list \<Rightarrow> XdpIngressObjects \<Rightarrow> 'k \<Rightarrow>
     go_error option \<times> XdpIngressObjects \<times> 'k" where
  "LoadXdpIngressObjects lib blob obj k =
     (if blob = []
      then (Some (not_compiled ''xdp_ingress''), obj, k)
      else case ebpf_LoadCollectionSpec lib blob of
        Inl err \<Rightarrow> (Some (Wrapped ''load xdp_ingress: '' err), obj, k)
      | Inr spec \<Rightarrow>
          (case ebpf_LoadAndAssign lib spec (xdp_handles obj) k of
             (r, hs, k') \<Rightarrow> (r, xdp_assign hs, k')))"

section \<open>Closing a list of objects\<close>

text \<open>The two files hold the same loop.\<close>

lemma XdpIngressClose_eq: "XdpIngressClose lib cs k = TcEgressClose lib cs k"
  by (induction cs arbitrary: k) (auto split: prod.splits option.splits)

fun closer_fds :: "closer \<Rightarrow> nat set" where
  "closer_fds (ProgramCloser h) = set_option h"
| "closer_fds (MapCloser h) = set_option h"

definition handle_fds :: "handles \<Rightarrow> nat set" where
  "handle_fds hs = (case hs of (p, m1, m2) \<Rightarrow> set_option p \<union> set_option m1 \<union> set_option m2)"

text \<open>The loop stops at the first failing close: what comes later is not closed.\<close>

lemma TcEgressClose_append:
  "TcEgressClose lib (cs @ ds) k =
     (case TcEgressClose lib cs k of
        (Some err, k') \<Rightarrow> (Some err, k')
      | (None, k') \<Rightarrow> TcEgressClose lib ds k')"
  by (induction cs arbitrary: k) (auto split: prod.splits option.splits)

context bpf_objects begin

lemma closer_other:
  "closer_Close lib c k = (r, k') \<Longrightarrow> open_fds k' - closer_fds c = open_fds k - closer_fds c"
  by (cases c; rename_tac h; case_tac h)
     (auto simp: prog_close_nil map_close_nil dest: prog_close_other map_close_other)

lemma closer_done:
  assumes "closer_Close lib c k = (None, k')"
  shows "open_fds k' = open_fds k - closer_fds c"
proof -
  have "open_fds k' \<inter> closer_fds c = {}"
    using assms
    by (cases c; rename_tac h; case_tac h) (auto dest: prog_close map_close)
  with closer_other [OF assms] show ?thesis by blast
qed

lemma TcEgressClose_done:
  "TcEgressClose lib cs k = (None, k') \<Longrightarrow> open_fds k' = open_fds k - \<Union> (closer_fds ` set cs)"
proof (induction cs arbitrary: k)
  case Nil
  then show ?case by simp
next
  case (Cons c cs)
  from Cons.prems obtain k1 where c: "closer_Close lib c k = (None, k1)"
    and cs: "TcEgressClose lib cs k1 = (None, k')"
    by (auto split: prod.splits option.splits)
  from closer_done [OF c] Cons.IH [OF cs] show ?case by auto
qed

lemma TcEgressClose_other:
  "TcEgressClose lib cs k = (r, k') \<Longrightarrow>
     open_fds k' - \<Union> (closer_fds ` set cs) = open_fds k - \<Union> (closer_fds ` set cs)"
proof (induction cs arbitrary: k)
  case Nil
  then show ?case by simp
next
  case (Cons c cs)
  obtain rc k1 where c: "closer_Close lib c k = (rc, k1)" by (cases "closer_Close lib c k")
  from Cons.prems c have "k' = k1 \<or> TcEgressClose lib cs k1 = (r, k')"
    by (auto split: option.splits)
  then show ?case using closer_other [OF c] Cons.IH [of k1] by auto
qed

lemma tc_Close_done:
  "TcEgressObjects_Close lib obj k = (None, k') \<Longrightarrow>
     open_fds k' = open_fds k - handle_fds (tc_handles obj)"
  unfolding TcEgressObjects_Close_def
  by (drule TcEgressClose_done) (auto simp: handle_fds_def tc_handles_def)

lemma xdp_Close_done:
  "XdpIngressObjects_Close lib obj k = (None, k') \<Longrightarrow>
     open_fds k' = open_fds k - handle_fds (xdp_handles obj)"
  unfolding XdpIngressObjects_Close_def XdpIngressClose_eq
  by (drule TcEgressClose_done) (auto simp: handle_fds_def xdp_handles_def)

text \<open>Loading a collection opens its three handles, or nothing.\<close>

lemma LoadTc_ok:
  assumes "LoadTcEgressObjects lib blob obj k = (None, obj', k')"
  shows "\<exists>p m1 m2. tc_handles obj' = (Some p, Some m1, Some m2) \<and> distinct [p, m1, m2] \<and>
    {p, m1, m2} \<inter> open_fds k = {} \<and> open_fds k' = open_fds k \<union> {p, m1, m2}"
  using assms
  by (auto simp: LoadTcEgressObjects_def tc_handles_def split: if_splits sum.splits prod.splits
      dest!: load_ok)

lemma LoadXdp_ok:
  assumes "LoadXdpIngressObjects lib blob obj k = (None, obj', k')"
  shows "\<exists>p m1 m2. xdp_handles obj' = (Some p, Some m1, Some m2) \<and> distinct [p, m1, m2] \<and>
    {p, m1, m2} \<inter> open_fds k = {} \<and> open_fds k' = open_fds k \<union> {p, m1, m2}"
  using assms
  by (auto simp: LoadXdpIngressObjects_def xdp_handles_def split: if_splits sum.splits prod.splits
      dest!: load_ok)

lemma LoadTc_fail:
  "LoadTcEgressObjects lib blob obj k = (Some err, obj', k') \<Longrightarrow> open_fds k' = open_fds k"
  by (auto simp: LoadTcEgressObjects_def split: if_splits sum.splits prod.splits dest: load_fail)

lemma LoadXdp_fail:
  "LoadXdpIngressObjects lib blob obj k = (Some err, obj', k') \<Longrightarrow> open_fds k' = open_fds k"
  by (auto simp: LoadXdpIngressObjects_def split: if_splits sum.splits prod.splits dest: load_fail)

end

end
