(* ===== verification/Loader.thy ===== *)
theory Loader
  imports BpfTypes BpfObjects
begin

text \<open>
  \<open>internal/bpf/loader.go\<close>: the \<open>Loader\<close> owns the two collections and the XDP link, attaches
  the programs and writes the maps of the tc collection.  A method is a function of the library,
  the loader and the kernel state; it returns Go's error (\<open>None\<close> is nil) and the states after
  the call.  Keys and values go to the kernel in their memory representation: a \<open>uint32\<close> in
  native byte order, a path entry as the bytes of its struct.
\<close>

section \<open>State\<close>

record Loader =
  tcObjs :: TcEgressObjects
  xdpObjs :: XdpIngressObjects
  xdpLink :: handle

definition New :: Loader where
  "New = \<lparr>tcObjs = TcEgressObjects_zero, xdpObjs = XdpIngressObjects_zero, xdpLink = None\<rparr>"

section \<open>Load and Close\<close>

definition Load ::
  "('k, 'sp, 'z) bpf_lib_scheme \<Rightarrow> byte list \<Rightarrow> byte list \<Rightarrow> Loader \<Rightarrow> 'k \<Rightarrow>
     go_error option \<times> Loader \<times> 'k" where
  "Load lib tcBlob xdpBlob l k =
     (case LoadTcEgressObjects lib tcBlob (tcObjs l) k of
        (Some err, tc, k1) \<Rightarrow> (Some (Wrapped ''load tc_egress: '' err), l\<lparr>tcObjs := tc\<rparr>, k1)
      | (None, tc, k1) \<Rightarrow>
          (case LoadXdpIngressObjects lib xdpBlob (xdpObjs l) k1 of
             (Some err, xdp, k2) \<Rightarrow>
               (case TcEgressObjects_Close lib tc k2 of
                  (_, k3) \<Rightarrow> (Some (Wrapped ''load xdp_ingress: '' err),
                               l\<lparr>tcObjs := tc, xdpObjs := xdp\<rparr>, k3))
           | (None, xdp, k2) \<Rightarrow> (None, l\<lparr>tcObjs := tc, xdpObjs := xdp\<rparr>, k2)))"

text \<open>\<open>Close\<close> drops the errors of the three closes.\<close>

definition Close :: "('k, 'sp, 'z) bpf_lib_scheme \<Rightarrow> Loader \<Rightarrow> 'k \<Rightarrow> 'k" where
  "Close lib l k =
     (let k1 = (case xdpLink l of None \<Rightarrow> k | Some h \<Rightarrow> snd (link_Close lib h k));
          k2 = snd (TcEgressObjects_Close lib (tcObjs l) k1)
      in snd (XdpIngressObjects_Close lib (xdpObjs l) k2))"

section \<open>Attaching and detaching\<close>

definition clsact_of :: "('k, 'sp, 'z) bpf_lib_scheme \<Rightarrow> nat \<Rightarrow> clsact_qdisc" where
  "clsact_of lib iface =
     \<lparr>qLinkIndex = iface, qHandle = nl_MakeHandle lib 0xffff 0,
      qParent = nl_HANDLE_CLSACT lib, qType = ''clsact''\<rparr>"

definition egress_filter_of :: "('k, 'sp, 'z) bpf_lib_scheme \<Rightarrow> nat \<Rightarrow> int \<Rightarrow> bpf_filter" where
  "egress_filter_of lib iface fd =
     \<lparr>fLinkIndex = iface, fParent = nl_HANDLE_MIN_EGRESS lib, fHandle = nl_MakeHandle lib 0 1,
      fProtocol = unix_ETH_P_ALL lib, fPriority = 1, fFd = fd, fName = ''tc_egress'',
      fDirectAction = True\<rparr>"

definition AttachTC_filter ::
  "('k, 'sp, 'z) bpf_lib_scheme \<Rightarrow> Loader \<Rightarrow> string \<Rightarrow> nat \<Rightarrow> 'k \<Rightarrow> go_error option go \<times> 'k" where
  "AttachTC_filter lib l ifaceName iface k =
     (case ebpf_Program_FD lib (TcEgress (tcPrograms (tcObjs l))) k of
        Return fd \<Rightarrow>
          (case nl_FilterAdd lib (egress_filter_of lib iface fd) k of
             (Some err, k1) \<Rightarrow>
               (Return (Some (Wrapped (''AttachTC: add BPF filter on '' @ go_quote ifaceName @ '': '') err)), k1)
           | (None, k1) \<Rightarrow> (Return None, k1))
      | Panicked p \<Rightarrow> (Panicked p, k)
      | Exited n \<Rightarrow> (Exited n, k))"

definition AttachTC ::
  "('k, 'sp, 'z) bpf_lib_scheme \<Rightarrow> Loader \<Rightarrow> string \<Rightarrow> 'k \<Rightarrow> go_error option go \<times> 'k" where
  "AttachTC lib l ifaceName k =
     (case nl_LinkByName lib ifaceName k of
        Inl err \<Rightarrow>
          (Return (Some (Wrapped (''AttachTC: link '' @ go_quote ifaceName @ '' not found: '') err)), k)
      | Inr iface \<Rightarrow>
          (case nl_QdiscAdd lib (clsact_of lib iface) k of
             (None, k1) \<Rightarrow> AttachTC_filter lib l ifaceName iface k1
           | (Some err, k1) \<Rightarrow>
               if errors_Is err (Errno (unix_EEXIST lib))
               then AttachTC_filter lib l ifaceName iface k1
               else (Return (Some (Wrapped (''AttachTC: add clsact qdisc on '' @ go_quote ifaceName @ '': '')
                       err)), k1)))"

text \<open>The loop of \<open>DetachTC\<close>: only BPF filters named tc_egress are deleted.\<close>

fun detach_filters ::
  "('k, 'sp, 'z) bpf_lib_scheme \<Rightarrow> string \<Rightarrow> tc_filter list \<Rightarrow> 'k \<Rightarrow> go_error option \<times> 'k" where
  "detach_filters lib ifaceName [] k = (None, k)"
| "detach_filters lib ifaceName (BpfFilter bf # fs) k =
     (if fName bf = ''tc_egress''
      then case nl_FilterDel lib bf k of
          (Some err, k1) \<Rightarrow> (Some (Wrapped (''DetachTC: del filter on '' @ go_quote ifaceName @ '': '') err), k1)
        | (None, k1) \<Rightarrow> detach_filters lib ifaceName fs k1
      else detach_filters lib ifaceName fs k)"
| "detach_filters lib ifaceName (OtherFilter t # fs) k = detach_filters lib ifaceName fs k"

definition DetachTC ::
  "('k, 'sp, 'z) bpf_lib_scheme \<Rightarrow> string \<Rightarrow> 'k \<Rightarrow> go_error option \<times> 'k" where
  "DetachTC lib ifaceName k =
     (case nl_LinkByName lib ifaceName k of
        Inl err \<Rightarrow> (Some (Wrapped (''DetachTC: link '' @ go_quote ifaceName @ '' not found: '') err), k)
      | Inr iface \<Rightarrow>
          (case nl_FilterList lib iface (nl_HANDLE_MIN_EGRESS lib) k of
             Inl err \<Rightarrow> (Some (Wrapped (''DetachTC: list filters on '' @ go_quote ifaceName @ '': '') err), k)
           | Inr filters \<Rightarrow> detach_filters lib ifaceName filters k))"

text \<open>The link handle is overwritten whatever the attachment returns.\<close>

definition AttachXDP ::
  "('k, 'sp, 'z) bpf_lib_scheme \<Rightarrow> Loader \<Rightarrow> string \<Rightarrow> 'k \<Rightarrow> go_error option \<times> Loader \<times> 'k" where
  "AttachXDP lib l ifaceName k =
     (case nl_LinkByName lib ifaceName k of
        Inl err \<Rightarrow> (Some (Wrapped (''AttachXDP: link '' @ go_quote ifaceName @ '' not found: '') err), l, k)
      | Inr iface \<Rightarrow>
          (case link_AttachXDP lib (XdpIngress (xdpPrograms (xdpObjs l))) iface
                  (link_XDPGenericMode lib) k of
             ((h, Some err), k1) \<Rightarrow>
               (Some (Wrapped (''AttachXDP: attach to '' @ go_quote ifaceName @ '': '') err),
                l\<lparr>xdpLink := h\<rparr>, k1)
           | ((h, None), k1) \<Rightarrow> (None, l\<lparr>xdpLink := h\<rparr>, k1)))"

section \<open>Map operations\<close>

definition UpdatePodPolicy ::
  "('k, 'sp, 'z) bpf_lib_scheme \<Rightarrow> endian \<Rightarrow> Loader \<Rightarrow> byte list \<Rightarrow> u32 \<Rightarrow> 'k \<Rightarrow>
     go_error option go \<times> 'k" where
  "UpdatePodPolicy lib e l podIP policyID k =
     (case IPToKey e podIP of
        Inl err \<Rightarrow> (Return (Some err), k)
      | Inr key \<Rightarrow>
          ebpf_Map_Put lib (PodPolicyMap (tcMaps (tcObjs l)))
            (binary_PutUint32 e key) (binary_PutUint32 e policyID) k)"

definition DeletePodPolicy ::
  "('k, 'sp, 'z) bpf_lib_scheme \<Rightarrow> endian \<Rightarrow> Loader \<Rightarrow> byte list \<Rightarrow> 'k \<Rightarrow>
     go_error option go \<times> 'k" where
  "DeletePodPolicy lib e l podIP k =
     (case IPToKey e podIP of
        Inl err \<Rightarrow> (Return (Some err), k)
      | Inr key \<Rightarrow>
          ebpf_Map_Delete lib (PodPolicyMap (tcMaps (tcObjs l))) (binary_PutUint32 e key) k)"

definition UpdateScionPath ::
  "('k, 'sp, 'z) bpf_lib_scheme \<Rightarrow> endian \<Rightarrow> Loader \<Rightarrow> u32 \<Rightarrow> ScionPathEntry \<Rightarrow> 'k \<Rightarrow>
     go_error option go \<times> 'k" where
  "UpdateScionPath lib e l policyID entry k =
     ebpf_Map_Put lib (ScionPathCache (tcMaps (tcObjs l)))
       (binary_PutUint32 e policyID) (entry_memory e entry) k"

definition DeleteScionPath ::
  "('k, 'sp, 'z) bpf_lib_scheme \<Rightarrow> endian \<Rightarrow> Loader \<Rightarrow> u32 \<Rightarrow> 'k \<Rightarrow> go_error option go \<times> 'k" where
  "DeleteScionPath lib e l policyID k =
     ebpf_Map_Delete lib (ScionPathCache (tcMaps (tcObjs l))) (binary_PutUint32 e policyID) k"

end
