(* ===== verification/KernelRef.thy ===== *)
theory KernelRef
  imports BpfLib "HOL-Library.AList"
begin

text \<open>
  An instance of the library interface of \<open>BpfLib\<close>: a kernel with association-list maps (bounded
  as \<open>bpf/maps.h\<close> declares them), open handles, interfaces, queueing disciplines and filters.
  It models no code of the repository; it shows that the locales can be met together and is what
  the witnesses run on.
\<close>

record ref_kernel =
  rk_maps :: "nat \<Rightarrow> (byte list \<times> byte list) list"
  rk_max :: "nat \<Rightarrow> nat"
  rk_open :: "nat list"
  rk_links :: "(string \<times> nat) list"
  rk_qdiscs :: "clsact_qdisc list"
  rk_filters :: "bpf_filter list"

definition ref_entries :: "ref_kernel \<Rightarrow> nat \<Rightarrow> byte list \<rightharpoonup> byte list" where
  "ref_entries k m = map_of (rk_maps k m)"

definition ref_open :: "ref_kernel \<Rightarrow> nat set" where
  "ref_open k = set (rk_open k)"

definition ref_qdiscs :: "ref_kernel \<Rightarrow> clsact_qdisc set" where
  "ref_qdiscs k = set (rk_qdiscs k)"

definition ref_filters :: "ref_kernel \<Rightarrow> nat \<Rightarrow> u32 \<Rightarrow> tc_filter list" where
  "ref_filters k i p =
     map BpfFilter (filter (\<lambda>f. fLinkIndex f = i \<and> fParent f = p) (rk_filters k))"

definition ref_fresh :: "ref_kernel \<Rightarrow> nat" where
  "ref_fresh k = Suc (sum_list (rk_open k))"

definition ref_load :: "nat \<Rightarrow> handles \<Rightarrow> ref_kernel \<Rightarrow> go_error option \<times> handles \<times> ref_kernel" where
  "ref_load sp hs k =
     (let n = ref_fresh k
      in (None, (Some n, Some (n + 1), Some (n + 2)),
          k\<lparr>rk_maps := (rk_maps k)(n + 1 := [], n + 2 := []),
            rk_max := (rk_max k)(n + 1 := 10000, n + 2 := 1024),
            rk_open := [n, n + 1, n + 2] @ rk_open k\<rparr>))"

fun ref_close :: "handle \<Rightarrow> ref_kernel \<Rightarrow> go_error option \<times> ref_kernel" where
  "ref_close None k = (None, k)"
| "ref_close (Some h) k = (None, k\<lparr>rk_open := filter (\<lambda>f. f \<noteq> h) (rk_open k)\<rparr>)"

fun ref_put :: "handle \<Rightarrow> byte list \<Rightarrow> byte list \<Rightarrow> ref_kernel \<Rightarrow> go_error option go \<times> ref_kernel" where
  "ref_put None key v k = (Panicked NilPointer, k)"
| "ref_put (Some m) key v k =
     (if length key \<noteq> 4 then (Return (Some (Errno 22)), k)
      else if map_of (rk_maps k m) key = None \<and>
        rk_max k m \<le> length (remdups (map fst (rk_maps k m)))
      then (Return (Some (Errno 7)), k)
      else (Return None, k\<lparr>rk_maps := (rk_maps k)(m := AList.update key v (rk_maps k m))\<rparr>))"

fun ref_delete :: "handle \<Rightarrow> byte list \<Rightarrow> ref_kernel \<Rightarrow> go_error option go \<times> ref_kernel" where
  "ref_delete None key k = (Panicked NilPointer, k)"
| "ref_delete (Some m) key k =
     (if map_of (rk_maps k m) key = None then (Return (Some (ErrText ''key does not exist'')), k)
      else (Return None, k\<lparr>rk_maps := (rk_maps k)(m := AList.delete key (rk_maps k m))\<rparr>))"

fun ref_fd :: "handle \<Rightarrow> ref_kernel \<Rightarrow> int go" where
  "ref_fd None k = Panicked NilPointer"
| "ref_fd (Some p) k = Return (int p)"

definition ref_link :: "string \<Rightarrow> ref_kernel \<Rightarrow> go_error + nat" where
  "ref_link name k = (case map_of (rk_links k) name of None \<Rightarrow> Inl (Errno 19) | Some i \<Rightarrow> Inr i)"

definition ref_qdisc_add :: "clsact_qdisc \<Rightarrow> ref_kernel \<Rightarrow> go_error option \<times> ref_kernel" where
  "ref_qdisc_add q k =
     (if q \<in> set (rk_qdiscs k) then (Some (Errno 17), k)
      else (None, k\<lparr>rk_qdiscs := q # rk_qdiscs k\<rparr>))"

definition ref_filter_add :: "bpf_filter \<Rightarrow> ref_kernel \<Rightarrow> go_error option \<times> ref_kernel" where
  "ref_filter_add f k =
     (if \<exists>g\<in>set (rk_filters k). fLinkIndex g = fLinkIndex f \<and> fParent g = fParent f \<and>
           fHandle g = fHandle f \<and> fPriority g = fPriority f
      then (Some (Errno 17), k)
      else (None, k\<lparr>rk_filters := rk_filters k @ [f]\<rparr>))"

definition ref_filter_del :: "bpf_filter \<Rightarrow> ref_kernel \<Rightarrow> go_error option \<times> ref_kernel" where
  "ref_filter_del f k =
     (if f \<in> set (rk_filters k)
      then (None, k\<lparr>rk_filters := filter (\<lambda>g. g \<noteq> f) (rk_filters k)\<rparr>)
      else (Some (Errno 2), k))"

definition ref_attach_xdp ::
  "handle \<Rightarrow> nat \<Rightarrow> nat \<Rightarrow> ref_kernel \<Rightarrow> (handle \<times> go_error option) \<times> ref_kernel" where
  "ref_attach_xdp h i f k =
     (case h of None \<Rightarrow> ((None, Some (Errno 22)), k) | Some p \<Rightarrow> ((Some i, None), k))"

definition ref_lib :: "(ref_kernel, nat) bpf_lib" where
  "ref_lib = \<lparr>
     ebpf_LoadCollectionSpec = (\<lambda>blob. Inr (length blob)),
     ebpf_LoadAndAssign = ref_load,
     ebpf_Program_Close = ref_close,
     ebpf_Program_FD = ref_fd,
     ebpf_Map_Close = ref_close,
     ebpf_Map_Put = ref_put,
     ebpf_Map_Delete = ref_delete,
     link_AttachXDP = ref_attach_xdp,
     link_Close = (\<lambda>h k. (None, k)),
     nl_LinkByName = ref_link,
     nl_QdiscAdd = ref_qdisc_add,
     nl_FilterAdd = ref_filter_add,
     nl_FilterList = (\<lambda>i p k. Inr (ref_filters k i p)),
     nl_FilterDel = ref_filter_del,
     nl_MakeHandle = (\<lambda>major minor. push_bit 16 (ucast major) OR ucast minor),
     nl_HANDLE_CLSACT = 0xfffffff1,
     nl_HANDLE_MIN_EGRESS = 0xfffffff3,
     link_XDPGenericMode = 2,
     unix_EEXIST = 17,
     unix_ETH_P_ALL = 3\<rparr>"

definition ref_kernel0 :: ref_kernel where
  "ref_kernel0 = \<lparr>rk_maps = (\<lambda>_. []), rk_max = (\<lambda>_. 0), rk_open = [],
     rk_links = [(''eth0'', 2)], rk_qdiscs = [], rk_filters = []\<rparr>"

lemma ref_fresh_new: "f \<in> set (rk_open k) \<Longrightarrow> f < ref_fresh k"
  using member_le_sum_list [of f "rk_open k"] by (simp add: ref_fresh_def)

lemmas ref_lib_simps = ref_lib_def ref_load_def ref_link_def ref_qdisc_add_def ref_filter_add_def
  ref_filter_del_def ref_attach_xdp_def ref_entries_def ref_open_def ref_qdiscs_def

section \<open>The instance meets the interface\<close>

interpretation rk: bpf_maps ref_lib ref_entries
proof unfold_locales
  fix m key v k k'
  assume "ebpf_Map_Put ref_lib (Some m) key v k = (Return None, k')"
  then show "ref_entries k' = (ref_entries k)(m := (ref_entries k m)(key \<mapsto> v))"
    by (auto simp: ref_lib_def ref_entries_def fun_eq_iff update_conv' split: if_splits)
next
  fix h key v k r k'
  assume "ebpf_Map_Put ref_lib h key v k = (r, k')" "r \<noteq> Return None"
  then show "ref_entries k' = ref_entries k"
    by (cases h) (auto simp: ref_lib_def split: if_splits)
next
  fix m key k k'
  assume "ebpf_Map_Delete ref_lib (Some m) key k = (Return None, k')"
  then show "ref_entries k' = (ref_entries k)(m := (ref_entries k m)(key := None))"
    by (auto simp: ref_lib_def ref_entries_def fun_eq_iff delete_conv' split: if_splits)
next
  fix h key k r k'
  assume "ebpf_Map_Delete ref_lib h key k = (r, k')" "r \<noteq> Return None"
  then show "ref_entries k' = ref_entries k"
    by (cases h) (auto simp: ref_lib_def split: if_splits)
qed (simp_all add: ref_lib_def)

interpretation rk: bpf_objects ref_lib ref_open
  by unfold_locales
    (auto simp: ref_lib_def ref_load_def ref_open_def Let_def dest: ref_fresh_new)

lemma ref_filters_add:
  "ref_filters (k\<lparr>rk_filters := rk_filters k @ [f]\<rparr>) i p =
     ref_filters k i p @ (if fLinkIndex f = i \<and> fParent f = p then [BpfFilter f] else [])"
  by (simp add: ref_filters_def)

lemma ref_filters_del:
  "ref_filters (k\<lparr>rk_filters := filter (\<lambda>g. g \<noteq> f) (rk_filters k)\<rparr>) i p =
     filter (\<lambda>g. g \<noteq> BpfFilter f) (ref_filters k i p)"
  by (simp add: ref_filters_def filter_map o_def conj_commute)

lemma ref_filters_here:
  "BpfFilter f \<in> set (ref_filters k i p) \<Longrightarrow> fLinkIndex f = i \<and> fParent f = p"
  by (auto simp: ref_filters_def)

lemma ref_filters_elsewhere:
  "fLinkIndex f \<noteq> i \<or> fParent f \<noteq> p \<Longrightarrow>
     filter (\<lambda>g. g \<noteq> BpfFilter f) (ref_filters k i p) = ref_filters k i p"
  by (auto simp: filter_id_conv dest: ref_filters_here)

interpretation rk: netlink_tc ref_lib ref_filters ref_qdiscs
proof unfold_locales
  fix f k k'
  assume "nl_FilterAdd ref_lib f k = (None, k')"
  then show "ref_filters k' = upd2 (ref_filters k) (fLinkIndex f) (fParent f)
      (ref_filters k (fLinkIndex f) (fParent f) @ [BpfFilter f])"
    by (auto simp: ref_lib_def ref_filter_add_def ref_filters_add upd2_apply fun_eq_iff split: if_splits)
next
  fix f k k'
  assume "nl_FilterDel ref_lib f k = (None, k')"
  then show "ref_filters k' = upd2 (ref_filters k) (fLinkIndex f) (fParent f)
      (filter (\<lambda>g. g \<noteq> BpfFilter f) (ref_filters k (fLinkIndex f) (fParent f)))"
    by (auto simp: ref_lib_def ref_filter_del_def ref_filters_del ref_filters_elsewhere upd2_apply fun_eq_iff
        split: if_splits)
next
  fix f k i p
  assume "BpfFilter f \<in> set (ref_filters k i p)"
  then show "fLinkIndex f = i \<and> fParent f = p" by (rule ref_filters_here)
next
  fix q k k'
  assume "nl_QdiscAdd ref_lib q k = (None, k')"
  then show "ref_filters k' = ref_filters k \<and> ref_qdiscs k' = insert q (ref_qdiscs k)"
    by (auto simp: ref_lib_def ref_qdisc_add_def ref_qdiscs_def ref_filters_def fun_eq_iff
        split: if_splits)
next
  fix q k e k'
  assume "nl_QdiscAdd ref_lib q k = (Some e, k')"
  then show "ref_filters k' = ref_filters k \<and> ref_qdiscs k' = ref_qdiscs k"
    by (auto simp: ref_lib_def ref_qdisc_add_def split: if_splits)
qed (auto simp: ref_lib_def ref_filter_add_def ref_filter_del_def ref_qdiscs_def split: if_splits)

lemma ref_close_maps [dest]:
  "ref_close h k = (r, k') \<Longrightarrow> rk_maps k' = rk_maps k \<and> rk_max k' = rk_max k"
  by (cases h) auto

interpretation rk: bpf_kernel ref_lib ref_entries ref_open ref_filters ref_qdiscs
  by unfold_locales
    (auto simp: ref_lib_simps Let_def fun_eq_iff split: if_splits option.splits)

end
