(* ===== verification/LoaderSpec.thy ===== *)
theory LoaderSpec
  imports Loader KernelRef
begin

text \<open>
  What the loader promises.  Its map operations implement two tables, pod address to policy id
  and policy id to path entry (\<open>datapath_tables\<close>), read through the byte representation the eBPF
  programs use; a failed load leaves nothing open; detaching removes exactly the filters the
  loader added; and the maps of the XDP collection are never written.
\<close>

section \<open>The tables behind the maps\<close>

datatype map_op =
    OpUpdatePod "byte list" u32
  | OpDeletePod "byte list"
  | OpUpdatePath u32 ScionPathEntry
  | OpDeletePath u32

fun wf_op :: "map_op \<Rightarrow> bool" where
  "wf_op (OpUpdatePath policyID p) = wf_entry p"
| "wf_op _ = True"

fun run_map_op ::
  "('k, 'sp, 'z) bpf_lib_scheme \<Rightarrow> endian \<Rightarrow> Loader \<Rightarrow> map_op \<Rightarrow> 'k \<Rightarrow> go_error option go \<times> 'k" where
  "run_map_op lib e l (OpUpdatePod ip policyID) k = UpdatePodPolicy lib e l ip policyID k"
| "run_map_op lib e l (OpDeletePod ip) k = DeletePodPolicy lib e l ip k"
| "run_map_op lib e l (OpUpdatePath policyID p) k = UpdateScionPath lib e l policyID p k"
| "run_map_op lib e l (OpDeletePath policyID) k = DeleteScionPath lib e l policyID k"

fun run_map_ops ::
  "('k, 'sp, 'z) bpf_lib_scheme \<Rightarrow> endian \<Rightarrow> Loader \<Rightarrow> map_op list \<Rightarrow> 'k \<Rightarrow>
     go_error option go list \<times> 'k" where
  "run_map_ops lib e l [] k = ([], k)"
| "run_map_ops lib e l (op # ops) k =
     (case run_map_op lib e l op k of
        (r, k1) \<Rightarrow> (case run_map_ops lib e l ops k1 of (rs, k2) \<Rightarrow> (r # rs, k2)))"

record datapath_tables =
  pods :: "byte list \<rightharpoonup> u32"
  paths :: "u32 \<rightharpoonup> scion_path_entry"

definition c_view :: "endian \<Rightarrow> ScionPathEntry \<Rightarrow> scion_path_entry" where
  "c_view e p =
     \<lparr>next_hop_ip = binary_Uint32 e (NextHopIP p), next_hop_mac = NextHopMAC p,
      path_len = PathLen p, hop_fields = HopFields p, mac_key = MACKey p\<rparr>"

fun spec_map_op :: "endian \<Rightarrow> map_op \<Rightarrow> datapath_tables \<Rightarrow> datapath_tables" where
  "spec_map_op e (OpUpdatePod ip policyID) d =
     (case net_IP_To4 ip of None \<Rightarrow> d | Some a \<Rightarrow> d\<lparr>pods := (pods d)(a \<mapsto> policyID)\<rparr>)"
| "spec_map_op e (OpDeletePod ip) d =
     (case net_IP_To4 ip of None \<Rightarrow> d | Some a \<Rightarrow> d\<lparr>pods := (pods d)(a := None)\<rparr>)"
| "spec_map_op e (OpUpdatePath policyID p) d = d\<lparr>paths := (paths d)(policyID \<mapsto> c_view e p)\<rparr>"
| "spec_map_op e (OpDeletePath policyID) d = d\<lparr>paths := (paths d)(policyID := None)\<rparr>"

text \<open>The operations that reported success, in their order.\<close>

fun spec_map_ops ::
  "endian \<Rightarrow> map_op list \<Rightarrow> go_error option go list \<Rightarrow> datapath_tables \<Rightarrow> datapath_tables" where
  "spec_map_ops e (op # ops) (r # rs) d =
     spec_map_ops e ops rs (if r = Return None then spec_map_op e op d else d)"
| "spec_map_ops e _ _ d = d"

definition map_of_handle :: "(nat \<Rightarrow> byte list \<rightharpoonup> byte list) \<Rightarrow> handle \<Rightarrow> byte list \<rightharpoonup> byte list" where
  "map_of_handle es h = (case h of None \<Rightarrow> Map.empty | Some m \<Rightarrow> es m)"

definition tables :: "endian \<Rightarrow> (nat \<Rightarrow> byte list \<rightharpoonup> byte list) \<Rightarrow> Loader \<Rightarrow> datapath_tables" where
  "tables e es l =
     \<lparr>pods = (\<lambda>a. map_option (binary_Uint32 e) (map_of_handle es (PodPolicyMap (tcMaps (tcObjs l))) a)),
      paths = (\<lambda>i. map_option (c_entry e)
         (map_of_handle es (ScionPathCache (tcMaps (tcObjs l))) (binary_PutUint32 e i)))\<rparr>"

definition maps_distinct :: "Loader \<Rightarrow> bool" where
  "maps_distinct l \<longleftrightarrow>
     PodPolicyMap (tcMaps (tcObjs l)) \<noteq> ScionPathCache (tcMaps (tcObjs l)) \<or>
     PodPolicyMap (tcMaps (tcObjs l)) = None"

lemma PutUint32_inject [simp]: "binary_PutUint32 e x = binary_PutUint32 e y \<longleftrightarrow> x = y"
  by (metis Uint32_PutUint32)

lemma c_entry_view: "wf_entry p \<Longrightarrow> c_entry e (entry_memory e p) = c_view e p"
  by (simp add: c_entry_memory c_view_def)

text \<open>One entry of one map is one entry of one table.\<close>

lemma tables_pod_upd:
  assumes "PodPolicyMap (tcMaps (tcObjs l)) = Some m" and "maps_distinct l"
  shows "tables e (es(m := (es m)(a := v))) l = (tables e es l)
    \<lparr>pods := (pods (tables e es l))(a := map_option (binary_Uint32 e) v)\<rparr>"
  using assms
  by (cases "ScionPathCache (tcMaps (tcObjs l))")
    (auto simp: tables_def map_of_handle_def maps_distinct_def fun_eq_iff)

lemma tables_path_upd:
  assumes "ScionPathCache (tcMaps (tcObjs l)) = Some m" and "maps_distinct l"
  shows "tables e (es(m := (es m)(binary_PutUint32 e i := v))) l = (tables e es l)
    \<lparr>paths := (paths (tables e es l))(i := map_option (c_entry e) v)\<rparr>"
  using assms
  by (cases "PodPolicyMap (tcMaps (tcObjs l))")
    (auto simp: tables_def map_of_handle_def maps_distinct_def fun_eq_iff)

context bpf_maps begin

lemma map_op_fail:
  assumes "run_map_op lib e l op k = (r, k')" and "r \<noteq> Return None"
  shows "entries k' = entries k"
  using assms
  by (cases op)
    (auto simp: UpdatePodPolicy_def DeletePodPolicy_def UpdateScionPath_def DeleteScionPath_def
      split: sum.splits dest: put_fail del_fail)

lemma update_pod_tables:
  assumes "UpdatePodPolicy lib e l ip policyID k = (Return None, k')" and "maps_distinct l"
  shows "tables e (entries k') l = spec_map_op e (OpUpdatePod ip policyID) (tables e (entries k) l)"
proof (cases rule: IPToKey_cases [of ip e])
  case not_v4
  with assms(1) show ?thesis by (simp add: UpdatePodPolicy_def)
next
  case (v4 key)
  with assms(1) have "ebpf_Map_Put lib (PodPolicyMap (tcMaps (tcObjs l))) (IPFromKey e key)
      (binary_PutUint32 e policyID) k = (Return None, k')"
    by (simp add: UpdatePodPolicy_def IPFromKey_def)
  then show ?thesis
    by (rule put_Some) (simp add: tables_pod_upd assms(2) v4 go_simps)
qed

lemma delete_pod_tables:
  assumes "DeletePodPolicy lib e l ip k = (Return None, k')" and "maps_distinct l"
  shows "tables e (entries k') l = spec_map_op e (OpDeletePod ip) (tables e (entries k) l)"
proof (cases rule: IPToKey_cases [of ip e])
  case not_v4
  with assms(1) show ?thesis by (simp add: DeletePodPolicy_def)
next
  case (v4 key)
  with assms(1) have "ebpf_Map_Delete lib (PodPolicyMap (tcMaps (tcObjs l))) (IPFromKey e key) k
      = (Return None, k')"
    by (simp add: DeletePodPolicy_def IPFromKey_def)
  then show ?thesis
    by (rule del_Some) (simp add: tables_pod_upd assms(2) v4)
qed

lemma update_path_tables:
  assumes "UpdateScionPath lib e l policyID p k = (Return None, k')" and "maps_distinct l"
    and "wf_entry p"
  shows "tables e (entries k') l = spec_map_op e (OpUpdatePath policyID p) (tables e (entries k) l)"
  using assms(1) unfolding UpdateScionPath_def
  by (rule put_Some) (simp add: tables_path_upd assms(2,3) c_entry_view)

lemma delete_path_tables:
  assumes "DeleteScionPath lib e l policyID k = (Return None, k')" and "maps_distinct l"
  shows "tables e (entries k') l = spec_map_op e (OpDeletePath policyID) (tables e (entries k) l)"
  using assms(1) unfolding DeleteScionPath_def
  by (rule del_Some) (simp add: tables_path_upd assms(2))

lemma map_op_refines:
  assumes "run_map_op lib e l op k = (r, k')" and "maps_distinct l" and "wf_op op"
  shows "tables e (entries k') l =
    (if r = Return None then spec_map_op e op (tables e (entries k) l) else tables e (entries k) l)"
proof (cases "r = Return None")
  case True
  with assms show ?thesis
    by (cases op) (simp_all add: update_pod_tables delete_pod_tables update_path_tables
        delete_path_tables)
next
  case False
  with map_op_fail [OF assms(1)] show ?thesis by simp
qed

lemma map_ops_refine:
  assumes "run_map_ops lib e l ops k = (rs, k')" and "maps_distinct l" and "list_all wf_op ops"
  shows "tables e (entries k') l = spec_map_ops e ops rs (tables e (entries k) l)"
  using assms(1,3)
proof (induction ops arbitrary: k rs)
  case Nil
  then show ?case by simp
next
  case (Cons op ops)
  then obtain r k1 rs' where op: "run_map_op lib e l op k = (r, k1)"
    and ops: "run_map_ops lib e l ops k1 = (rs', k')" and "rs = r # rs'"
    by (auto split: prod.splits)
  with Cons.IH [OF ops] Cons.prems(2) map_op_refines [OF op assms(2)] show ?case
    by simp
qed

end

section \<open>Load, and what a failed load leaves open\<close>

context bpf_objects begin

lemma Load_ok:
  assumes "Load lib tb xb l k = (None, l', k')"
  shows "\<exists>p m1 m2 q n1 n2. tc_handles (tcObjs l') = (Some p, Some m1, Some m2) \<and>
    xdp_handles (xdpObjs l') = (Some q, Some n1, Some n2) \<and> distinct [p, m1, m2, q, n1, n2] \<and>
    {p, m1, m2, q, n1, n2} \<inter> open_fds k = {} \<and>
    open_fds k' = open_fds k \<union> {p, m1, m2, q, n1, n2} \<and> xdpLink l' = xdpLink l"
proof -
  from assms obtain tc xdp k1 where tc: "LoadTcEgressObjects lib tb (tcObjs l) k = (None, tc, k1)"
    and xdp: "LoadXdpIngressObjects lib xb (xdpObjs l) k1 = (None, xdp, k')"
    and l': "l' = l\<lparr>tcObjs := tc, xdpObjs := xdp\<rparr>"
    by (auto simp: Load_def split: prod.splits option.splits)
  from LoadTc_ok [OF tc] LoadXdp_ok [OF xdp] l' show ?thesis by force
qed

lemma Close_done:
  assumes "\<And>obj k. fst (TcEgressObjects_Close lib obj k) = None"
    and "\<And>obj k. fst (XdpIngressObjects_Close lib obj k) = None" and "xdpLink l = None"
  shows "open_fds (Close lib l k) =
    open_fds k - handle_fds (tc_handles (tcObjs l)) - handle_fds (xdp_handles (xdpObjs l))"
proof -
  obtain k1 where tc: "TcEgressObjects_Close lib (tcObjs l) k = (None, k1)"
    using assms(1) [of "tcObjs l" k] by (cases "TcEgressObjects_Close lib (tcObjs l) k") simp
  obtain k2 where xdp: "XdpIngressObjects_Close lib (xdpObjs l) k1 = (None, k2)"
    using assms(2) [of "xdpObjs l" k1] by (cases "XdpIngressObjects_Close lib (xdpObjs l) k1") simp
  show ?thesis
    using tc_Close_done [OF tc] xdp_Close_done [OF xdp] by (simp add: Close_def assms(3) tc xdp)
qed

lemma Load_fail_open:
  assumes "Load lib tb xb l k = (Some err, l', k')"
    and "\<And>obj k. fst (TcEgressObjects_Close lib obj k) = None"
  shows "open_fds k' = open_fds k"
proof (cases "LoadTcEgressObjects lib tb (tcObjs l) k")
  case (fields r tc k1)
  show ?thesis
  proof (cases r)
    case (Some err1)
    with assms(1) fields LoadTc_fail [of tb "tcObjs l" k err1 tc k1] show ?thesis
      by (simp add: Load_def)
  next
    case None
    with assms(1) fields obtain err2 xdp k2 where
      xdp: "LoadXdpIngressObjects lib xb (xdpObjs l) k1 = (Some err2, xdp, k2)"
      and k': "k' = snd (TcEgressObjects_Close lib tc k2)"
      by (auto simp: Load_def split: prod.splits option.splits)
    from k' assms(2) [of tc k2] have "TcEgressObjects_Close lib tc k2 = (None, k')"
      by (simp add: prod_eq_iff)
    from tc_Close_done [OF this] LoadXdp_fail [OF xdp] LoadTc_ok [of tb "tcObjs l" k tc k1] None fields
    show ?thesis by (auto simp: handle_fds_def)
  qed
qed

text \<open>A close that fails on the program leaves both maps open.\<close>

lemma tc_Close_stops:
  assumes "ebpf_Program_Close lib (TcEgress (tcPrograms obj)) k = (Some err, k')"
    and "tc_handles obj = (Some p, Some m1, Some m2)" and "p \<noteq> m1" and "p \<noteq> m2"
  shows "TcEgressObjects_Close lib obj k = (Some err, k') \<and>
    {m1, m2} \<inter> open_fds k' = {m1, m2} \<inter> open_fds k"
proof -
  from assms(1,2) have "ebpf_Program_Close lib (Some p) k = (Some err, k')"
    by (simp add: tc_handles_def)
  from prog_close_other [OF this] assms show ?thesis
    by (auto simp: TcEgressObjects_Close_def)
qed

end

section \<open>Attaching and detaching the tc program\<close>

fun is_tc_egress :: "tc_filter \<Rightarrow> bool" where
  "is_tc_egress (BpfFilter f) = (fName f = ''tc_egress'')"
| "is_tc_egress (OtherFilter t) = False"

lemma egress_filter_of_sel [simp]:
  "fLinkIndex (egress_filter_of lib i fd) = i"
  "fParent (egress_filter_of lib i fd) = nl_HANDLE_MIN_EGRESS lib"
  "fName (egress_filter_of lib i fd) = ''tc_egress''"
  by (simp_all add: egress_filter_of_def)

context netlink_tc begin

text \<open>The egress filters of an interface, and the state with these replaced.\<close>

lemma attach_filter:
  assumes "AttachTC_filter lib l name i k = (Return None, k')"
  shows "\<exists>fd. filters k' = upd2 (filters k) i (nl_HANDLE_MIN_EGRESS lib)
    (filters k i (nl_HANDLE_MIN_EGRESS lib) @ [BpfFilter (egress_filter_of lib i fd)])"
  using assms
  by (auto simp: AttachTC_filter_def split: go.splits prod.splits option.splits dest!: fadd_ok)

lemma AttachTC_ok:
  assumes "AttachTC lib l name k = (Return None, k')" and "nl_LinkByName lib name k = Inr i"
  shows "\<exists>fd. filters k' = upd2 (filters k) i (nl_HANDLE_MIN_EGRESS lib)
    (filters k i (nl_HANDLE_MIN_EGRESS lib) @ [BpfFilter (egress_filter_of lib i fd)])"
proof -
  obtain qerr k1 where q: "nl_QdiscAdd lib (clsact_of lib i) k = (qerr, k1)"
    by (cases "nl_QdiscAdd lib (clsact_of lib i) k")
  from q have same: "filters k1 = filters k"
    by (cases qerr) (auto dest: qdisc_ok qdisc_fail)
  from assms q have "AttachTC_filter lib l name i k1 = (Return None, k')"
    by (auto simp: AttachTC_def split: option.splits if_splits)
  from attach_filter [OF this] same show ?thesis by simp
qed

lemma detach_step:
  assumes "fName bf = ''tc_egress''"
  shows "detach_filters lib name (BpfFilter bf # fs) k =
    (case nl_FilterDel lib bf k of
       (Some err, k1) \<Rightarrow> (Some (Wrapped (''DetachTC: del filter on '' @ go_quote name @ '': '') err), k1)
     | (None, k1) \<Rightarrow> detach_filters lib name fs k1)"
  using assms by simp

lemma detach_filters_qdiscs:
  "detach_filters lib name fs k = (r, k') \<Longrightarrow> qdiscs k' = qdiscs k"
proof (induction fs arbitrary: k)
  case Nil
  then show ?case by simp
next
  case (Cons f fs)
  show ?case
  proof (cases "is_tc_egress f")
    case True
    then obtain bf where f: "f = BpfFilter bf" "fName bf = ''tc_egress''" by (cases f) auto
    obtain rd k1 where del: "nl_FilterDel lib bf k = (rd, k1)" by (cases "nl_FilterDel lib bf k")
    with Cons.prems f have "k' = k1 \<or> detach_filters lib name fs k1 = (r, k')"
      by (cases rd) (auto simp: detach_step simp del: detach_filters.simps)
    with Cons.IH fdel_qdiscs [OF del] show ?thesis by auto
  next
    case False
    with Cons show ?thesis by (cases f) auto
  qed
qed

lemma detach_filters_ok:
  assumes "detach_filters lib name fs k = (None, k')"
    and "\<And>bf. BpfFilter bf \<in> set fs \<Longrightarrow> fLinkIndex bf = i \<and> fParent bf = p"
  shows "filters k' = upd2 (filters k) i p
    (filter (\<lambda>g. \<not> (g \<in> set fs \<and> is_tc_egress g)) (filters k i p))"
  using assms
proof (induction fs arbitrary: k)
  case Nil
  then show ?case by simp
next
  case (Cons f fs)
  show ?case
  proof (cases "is_tc_egress f")
    case True
    then obtain bf where f: "f = BpfFilter bf" "fName bf = ''tc_egress''" by (cases f) auto
    obtain rd k1 where d: "nl_FilterDel lib bf k = (rd, k1)" by (cases "nl_FilterDel lib bf k")
    with Cons.prems(1) f have del: "nl_FilterDel lib bf k = (None, k1)"
      and rest: "detach_filters lib name fs k1 = (None, k')"
      by (cases rd; simp add: detach_step del: detach_filters.simps)+
    from Cons.prems(2) f have here: "fLinkIndex bf = i" "fParent bf = p" by auto
    have "filters k' = upd2 (filters k1) i p
        (filter (\<lambda>g. \<not> (g \<in> set fs \<and> is_tc_egress g)) (filters k1 i p))"
      using rest by (rule Cons.IH) (rule Cons.prems(2), simp)
    moreover have "filters k1 = upd2 (filters k) i p (filter (\<lambda>g. g \<noteq> f) (filters k i p))"
      using fdel_ok [OF del] here f(1) by simp
    moreover have "filter (\<lambda>g. \<not> (g \<in> set fs \<and> is_tc_egress g)) (filter (\<lambda>g. g \<noteq> f) xs) =
        filter (\<lambda>g. \<not> (g \<in> set (f # fs) \<and> is_tc_egress g)) xs" for xs
      unfolding filter_filter using True by (intro filter_cong) auto
    ultimately show ?thesis by simp
  next
    case False
    then have "(g \<in> set (f # fs) \<and> is_tc_egress g) = (g \<in> set fs \<and> is_tc_egress g)" for g
      by auto
    moreover from False Cons.prems(1) have "detach_filters lib name fs k = (None, k')"
      by (cases f) auto
    moreover have "filters k' = upd2 (filters k) i p
        (filter (\<lambda>g. \<not> (g \<in> set fs \<and> is_tc_egress g)) (filters k i p))"
      if "detach_filters lib name fs k = (None, k')"
      using that by (rule Cons.IH) (rule Cons.prems(2), simp)
    ultimately show ?thesis by simp
  qed
qed

lemma DetachTC_ok:
  assumes "DetachTC lib name k = (None, k')" and "nl_LinkByName lib name k = Inr i"
  shows "filters k' = upd2 (filters k) i (nl_HANDLE_MIN_EGRESS lib)
    (filter (\<lambda>g. \<not> is_tc_egress g) (filters k i (nl_HANDLE_MIN_EGRESS lib)))"
proof -
  let ?p = "nl_HANDLE_MIN_EGRESS lib"
  from assms obtain fs where "nl_FilterList lib i ?p k = Inr fs"
    and det: "detach_filters lib name fs k = (None, k')"
    by (auto simp: DetachTC_def split: sum.splits)
  then have fs: "fs = filters k i ?p" by (auto dest: flist_ok)
  from detach_filters_ok [OF det, of i ?p] fs listed_here
  have "filters k' = upd2 (filters k) i ?p
      (filter (\<lambda>g. \<not> (g \<in> set (filters k i ?p) \<and> is_tc_egress g)) (filters k i ?p))"
    by blast
  moreover have "filter (\<lambda>g. \<not> (g \<in> set xs \<and> is_tc_egress g)) xs = filter (\<lambda>g. \<not> is_tc_egress g) xs"
    for xs
    by (rule filter_cong) auto
  ultimately show ?thesis by simp
qed

lemma DetachTC_qdiscs: "DetachTC lib name k = (r, k') \<Longrightarrow> qdiscs k' = qdiscs k"
  by (auto simp: DetachTC_def split: sum.splits dest: detach_filters_qdiscs)

lemma attach_detach:
  assumes "AttachTC lib l name k = (Return None, k1)" and "DetachTC lib name k1 = (None, k2)"
    and "nl_LinkByName lib name k = Inr i" and "nl_LinkByName lib name k1 = Inr i"
  shows "filters k2 = upd2 (filters k) i (nl_HANDLE_MIN_EGRESS lib)
    (filter (\<lambda>g. \<not> is_tc_egress g) (filters k i (nl_HANDLE_MIN_EGRESS lib)))"
  using AttachTC_ok [OF assms(1,3)] DetachTC_ok [OF assms(2,4)] by auto

end

section \<open>The loader in operation\<close>

text \<open>
  After its one successful load the agent calls the map operations, attaches and detaches and closes,
  in any order, also after a close; each call is a step, whatever it returns.
\<close>

inductive loader_step ::
  "('k, 'sp, 'z) bpf_lib_scheme \<Rightarrow> endian \<Rightarrow> Loader \<times> 'k \<Rightarrow> Loader \<times> 'k \<Rightarrow> bool"
  for lib :: "('k, 'sp, 'z) bpf_lib_scheme" and e :: endian
where
  step_map: "run_map_op lib e l op k = (r, k') \<Longrightarrow> loader_step lib e (l, k) (l, k')"
| step_attach_tc: "AttachTC lib l name k = (r, k') \<Longrightarrow> loader_step lib e (l, k) (l, k')"
| step_detach_tc: "DetachTC lib name k = (r', k') \<Longrightarrow> loader_step lib e (l, k) (l, k')"
| step_attach_xdp: "AttachXDP lib l name k = (r', l', k') \<Longrightarrow> loader_step lib e (l, k) (l', k')"
| step_close: "loader_step lib e (l, k) (l, Close lib l k)"

inductive_cases loader_stepE: "loader_step lib e (l, k) s'"

inductive loader_reach ::
  "('k, 'sp, 'z) bpf_lib_scheme \<Rightarrow> endian \<Rightarrow> byte list \<Rightarrow> byte list \<Rightarrow> Loader \<times> 'k \<Rightarrow> bool"
  for lib :: "('k, 'sp, 'z) bpf_lib_scheme" and e :: endian and tb xb :: "byte list"
where
  reach_load: "Load lib tb xb New k0 = (None, l, k) \<Longrightarrow> loader_reach lib e tb xb (l, k)"
| reach_step: "loader_reach lib e tb xb s \<Longrightarrow> loader_step lib e s s' \<Longrightarrow>
    loader_reach lib e tb xb s'"

text \<open>
  The invariant: all six handles are there, the four maps are different, and the two maps of the
  XDP collection are empty.
\<close>

definition loader_inv :: "(nat \<Rightarrow> byte list \<rightharpoonup> byte list) \<Rightarrow> Loader \<Rightarrow> bool" where
  "loader_inv es l \<longleftrightarrow> (\<exists>p m1 m2 q n1 n2.
     tc_handles (tcObjs l) = (Some p, Some m1, Some m2) \<and>
     xdp_handles (xdpObjs l) = (Some q, Some n1, Some n2) \<and>
     distinct [m1, m2, n1, n2] \<and> es n1 = Map.empty \<and> es n2 = Map.empty)"

lemma loader_inv_maps_distinct: "loader_inv es l \<Longrightarrow> maps_distinct l"
  by (auto simp: loader_inv_def maps_distinct_def tc_handles_def)

lemma loader_inv_xdp_cache:
  "loader_inv es l \<Longrightarrow> map_of_handle es (XdpScionPathCache (xdpMaps (xdpObjs l))) = Map.empty"
  by (auto simp: loader_inv_def map_of_handle_def xdp_handles_def)

text \<open>The values of \<open>pod_policy_map\<close> are policy ids, four bytes each.\<close>

definition pods_ok :: "(nat \<Rightarrow> byte list \<rightharpoonup> byte list) \<Rightarrow> Loader \<Rightarrow> bool" where
  "pods_ok es l \<longleftrightarrow>
     (\<forall>a v. map_of_handle es (PodPolicyMap (tcMaps (tcObjs l))) a = Some v \<longrightarrow> length v = 4)"

context bpf_kernel begin

lemma attach_entries: "AttachTC lib l name k = (r, k') \<Longrightarrow> entries k' = entries k"
  by (auto simp: AttachTC_def AttachTC_filter_def split: sum.splits prod.splits option.splits
      go.splits if_splits dest!: qdisc_entries fadd_entries)

lemma detach_filters_entries: "detach_filters lib name fs k = (r, k') \<Longrightarrow> entries k' = entries k"
proof (induction fs arbitrary: k)
  case Nil
  then show ?case by simp
next
  case (Cons f fs)
  show ?case
  proof (cases "is_tc_egress f")
    case True
    then obtain bf where f: "f = BpfFilter bf" "fName bf = ''tc_egress''" by (cases f) auto
    obtain rd k1 where del: "nl_FilterDel lib bf k = (rd, k1)" by (cases "nl_FilterDel lib bf k")
    with Cons.prems f have "k' = k1 \<or> detach_filters lib name fs k1 = (r, k')"
      by (cases rd) (auto simp: detach_step simp del: detach_filters.simps)
    with Cons.IH fdel_entries [OF del] show ?thesis by auto
  next
    case False
    with Cons show ?thesis by (cases f) auto
  qed
qed

lemma detach_entries: "DetachTC lib name k = (r, k') \<Longrightarrow> entries k' = entries k"
  by (auto simp: DetachTC_def split: sum.splits dest: detach_filters_entries)

lemma attach_xdp_entries:
  "AttachXDP lib l name k = (r, l', k') \<Longrightarrow>
     entries k' = entries k \<and> tcObjs l' = tcObjs l \<and> xdpObjs l' = xdpObjs l"
  by (auto simp: AttachXDP_def split: sum.splits prod.splits option.splits dest!: xdp_entries)

lemma tc_Close_entries: "TcEgressClose lib cs k = (r, k') \<Longrightarrow> entries k' = entries k"
proof (induction cs arbitrary: k)
  case (Cons c cs)
  then show ?case
    by (cases c) (auto split: prod.splits option.splits dest: prog_close_entries map_close_entries)
qed simp

lemma xdp_Close_entries: "XdpIngressClose lib cs k = (r, k') \<Longrightarrow> entries k' = entries k"
proof (induction cs arbitrary: k)
  case (Cons c cs)
  then show ?case
    by (cases c) (auto split: prod.splits option.splits dest: prog_close_entries map_close_entries)
qed simp

lemma Close_entries [simp]: "entries (Close lib l k) = entries k"
proof -
  have tc: "entries (snd (TcEgressObjects_Close lib obj x)) = entries x" for obj x
    using tc_Close_entries by (metis TcEgressObjects_Close_def prod.collapse)
  have xdp: "entries (snd (XdpIngressObjects_Close lib obj x)) = entries x" for obj x
    using xdp_Close_entries by (metis XdpIngressObjects_Close_def prod.collapse)
  have link: "entries (snd (link_Close lib h x)) = entries x" for h x
    using link_close_entries by (metis prod.collapse)
  show ?thesis by (cases "xdpLink l") (simp_all add: Close_def Let_def tc xdp link)
qed

text \<open>A map operation writes at most the two maps of the tc collection.\<close>

lemma map_op_elsewhere:
  assumes "run_map_op lib e l op k = (r, k')"
    and "Some m \<noteq> PodPolicyMap (tcMaps (tcObjs l))" "Some m \<noteq> ScionPathCache (tcMaps (tcObjs l))"
  shows "entries k' m = entries k m"
proof (cases "r = Return None")
  case True
  with assms show ?thesis
    by (cases op)
      (auto simp: UpdatePodPolicy_def DeletePodPolicy_def UpdateScionPath_def DeleteScionPath_def
        split: sum.splits elim!: put_Some del_Some)
next
  case False
  with map_op_fail [OF assms(1)] show ?thesis by simp
qed

lemma Load_inv:
  assumes "Load lib tb xb l k = (None, l', k')"
  shows "loader_inv (entries k') l'"
proof -
  from assms obtain tc xdp k1 where tc: "LoadTcEgressObjects lib tb (tcObjs l) k = (None, tc, k1)"
    and xdp: "LoadXdpIngressObjects lib xb (xdpObjs l) k1 = (None, xdp, k')"
    and l': "l' = l\<lparr>tcObjs := tc, xdpObjs := xdp\<rparr>"
    by (auto simp: Load_def split: prod.splits option.splits)
  from LoadTc_ok [OF tc] obtain p m1 m2 where hs: "tc_handles tc = (Some p, Some m1, Some m2)"
    "distinct [p, m1, m2]" and o1: "{p, m1, m2} \<subseteq> open_fds k1" by auto
  from LoadXdp_ok [OF xdp] obtain q n1 n2 where hx: "xdp_handles xdp = (Some q, Some n1, Some n2)"
    "distinct [q, n1, n2]" "{q, n1, n2} \<inter> open_fds k1 = {}" by auto
  from xdp hx(1) obtain sp where
    "ebpf_LoadAndAssign lib sp (xdp_handles (xdpObjs l)) k1 = (None, (Some q, Some n1, Some n2), k')"
    by (auto simp: LoadXdpIngressObjects_def xdp_handles_def split: if_splits sum.splits prod.splits)
  then have "entries k' = (entries k1)(n1 := Map.empty, n2 := Map.empty)"
    by (rule load_entries)
  with hs hx o1 l' show ?thesis by (auto simp: loader_inv_def)
qed

lemma loader_step_inv:
  assumes "loader_step lib e (l, k) (l', k')" and "loader_inv (entries k) l"
  shows "loader_inv (entries k') l'"
  using assms(1)
proof (cases rule: loader_step.cases)
  case (step_map op r)
  from assms(2) obtain p m1 m2 q n1 n2 where hs: "tc_handles (tcObjs l) = (Some p, Some m1, Some m2)"
    "xdp_handles (xdpObjs l) = (Some q, Some n1, Some n2)" "distinct [m1, m2, n1, n2]"
    "entries k n1 = Map.empty" "entries k n2 = Map.empty"
    by (auto simp: loader_inv_def)
  then have "entries k' n = entries k n" if "n = n1 \<or> n = n2" for n
    using that map_op_elsewhere [OF step_map(2), of n] by (auto simp: tc_handles_def)
  with hs step_map(1) show ?thesis by (auto simp: loader_inv_def)
next
  case (step_attach_tc name r)
  with assms(2) attach_entries show ?thesis by metis
next
  case (step_detach_tc name r')
  with assms(2) detach_entries show ?thesis by metis
next
  case (step_attach_xdp name r')
  with assms(2) attach_xdp_entries [OF step_attach_xdp] show ?thesis
    by (simp add: loader_inv_def)
next
  case step_close
  with assms(2) show ?thesis by simp
qed

lemma loader_reach_inv: "loader_reach lib e tb xb (l, k) \<Longrightarrow> loader_inv (entries k) l"
proof (induction "(l, k)" arbitrary: l k rule: loader_reach.induct)
  case (reach_load k0 l k)
  then show ?case by (rule Load_inv)
next
  case (reach_step s l' k')
  obtain l1 k1 where "s = (l1, k1)" by (cases s)
  with reach_step show ?case by (auto intro: loader_step_inv)
qed

lemma Load_pods:
  assumes "Load lib tb xb l k = (None, l', k')"
  shows "map_of_handle (entries k') (PodPolicyMap (tcMaps (tcObjs l'))) = Map.empty"
proof -
  from assms obtain tc xdp k1 where tc: "LoadTcEgressObjects lib tb (tcObjs l) k = (None, tc, k1)"
    and xdp: "LoadXdpIngressObjects lib xb (xdpObjs l) k1 = (None, xdp, k')"
    and l': "l' = l\<lparr>tcObjs := tc, xdpObjs := xdp\<rparr>"
    by (auto simp: Load_def split: prod.splits option.splits)
  from LoadTc_ok [OF tc] obtain p m1 m2 where hs: "tc_handles tc = (Some p, Some m1, Some m2)"
    "distinct [p, m1, m2]" and o1: "{p, m1, m2} \<subseteq> open_fds k1" by auto
  from LoadXdp_ok [OF xdp] obtain q n1 n2 where hx: "xdp_handles xdp = (Some q, Some n1, Some n2)"
    "{q, n1, n2} \<inter> open_fds k1 = {}" by auto
  from tc hs(1) obtain sp where
    "ebpf_LoadAndAssign lib sp (tc_handles (tcObjs l)) k = (None, (Some p, Some m1, Some m2), k1)"
    by (auto simp: LoadTcEgressObjects_def tc_handles_def split: if_splits sum.splits prod.splits)
  then have "entries k1 = (entries k)(m1 := Map.empty, m2 := Map.empty)" by (rule load_entries)
  moreover from xdp hx(1) obtain sp' where
    "ebpf_LoadAndAssign lib sp' (xdp_handles (xdpObjs l)) k1 = (None, (Some q, Some n1, Some n2), k')"
    by (auto simp: LoadXdpIngressObjects_def xdp_handles_def split: if_splits sum.splits prod.splits)
  then have "entries k' = (entries k1)(n1 := Map.empty, n2 := Map.empty)"
    by (rule load_entries)
  ultimately show ?thesis
    using hs l' hx o1 by (auto simp: map_of_handle_def tc_handles_def)
qed

lemma map_op_pods_ok:
  assumes "run_map_op lib e l op k = (r, k')" and "maps_distinct l" and ok: "pods_ok (entries k) l"
  shows "pods_ok (entries k') l"
proof (cases "r = Return None")
  case False
  then show ?thesis using map_op_fail [OF assms(1)] ok by simp
next
  case True
  show ?thesis
  proof (cases op)
    case (OpUpdatePod ip policyID)
    then show ?thesis
      using assms(1) True ok
      by (auto simp: UpdatePodPolicy_def pods_ok_def map_of_handle_def
          split: sum.splits if_splits elim!: put_Some)
  next
    case (OpDeletePod ip)
    then show ?thesis
      using assms(1) True ok
      by (auto simp: DeletePodPolicy_def pods_ok_def map_of_handle_def
          split: sum.splits if_splits elim!: del_Some)
  next
    case (OpUpdatePath policyID p)
    then show ?thesis
      using assms(1,2) True ok
      by (auto simp: UpdateScionPath_def pods_ok_def map_of_handle_def maps_distinct_def
          split: option.splits elim!: put_Some)
  next
    case (OpDeletePath policyID)
    then show ?thesis
      using assms(1,2) True ok
      by (auto simp: DeleteScionPath_def pods_ok_def map_of_handle_def maps_distinct_def
          split: option.splits elim!: del_Some)
  qed
qed

lemma loader_step_pods_ok:
  assumes "loader_step lib e (l, k) (l', k')" and "loader_inv (entries k) l"
    and "pods_ok (entries k) l"
  shows "pods_ok (entries k') l'"
  using assms(1)
proof (cases rule: loader_step.cases)
  case (step_map op r)
  then show ?thesis
    using map_op_pods_ok [OF step_map(2) loader_inv_maps_distinct [OF assms(2)] assms(3)] by simp
next
  case (step_attach_tc name r)
  with assms(3) attach_entries show ?thesis by metis
next
  case (step_detach_tc name r')
  with assms(3) detach_entries show ?thesis by metis
next
  case (step_attach_xdp name r')
  with assms(3) attach_xdp_entries [OF step_attach_xdp] show ?thesis
    by (simp add: pods_ok_def)
next
  case step_close
  with assms(3) show ?thesis by simp
qed

lemma loader_reach_pods_ok: "loader_reach lib e tb xb (l, k) \<Longrightarrow> pods_ok (entries k) l"
proof (induction "(l, k)" arbitrary: l k rule: loader_reach.induct)
  case (reach_load k0 l k)
  then show ?case using Load_pods by (simp add: pods_ok_def)
next
  case (reach_step s l' k')
  obtain l1 k1 where s: "s = (l1, k1)" by (cases s)
  then have "loader_inv (entries k1) l1" using reach_step.hyps(1) loader_reach_inv by simp
  with s reach_step show ?case by (auto intro: loader_step_pods_ok)
qed

end

end
