(* ===== verification/Datapath.thy ===== *)
theory Datapath
  imports LoaderSpec
begin

text \<open>
  The readers of the loader's maps: the decisions of the eBPF programs \<open>bpf/tc_egress.c\<close> and
  \<open>bpf/xdp_ingress.c\<close> on a packet, a byte list.  A pointer into the packet is an offset, and a
  bounds check compares offsets with the packet's length.  A map lookup is the map's content at
  the key's bytes.  The kernel helper \<open>bpf_skb_adjust_room\<close>, the header writer
  \<open>write_scion_headers\<close> and the MAC check are arguments here; \<open>Encap\<close> defines the latter two.
\<close>

section \<open>Sizes\<close>

text \<open>The \<open>sizeof\<close> of the headers, from \<open>bpf/headers/scion.h\<close> and the kernel's headers.\<close>

definition sizeof_ethhdr :: nat where "sizeof_ethhdr = 14"
definition sizeof_iphdr :: nat where "sizeof_iphdr = 20"
definition sizeof_udphdr :: nat where "sizeof_udphdr = 8"
definition sizeof_scion_hdr :: nat where "sizeof_scion_hdr = 12"
definition sizeof_scion_addr_hdr_v4 :: nat where "sizeof_scion_addr_hdr_v4 = 24"
definition sizeof_scion_path_meta_hdr :: nat where "sizeof_scion_path_meta_hdr = 7"
definition sizeof_scion_info_field :: nat where "sizeof_scion_info_field = 8"
definition sizeof_scion_hop_field :: nat where "sizeof_scion_hop_field = 16"
definition sizeof_cilium_e2e_ext :: nat where "sizeof_cilium_e2e_ext = 8"

lemmas sizeofs = sizeof_ethhdr_def sizeof_iphdr_def sizeof_udphdr_def sizeof_scion_hdr_def
  sizeof_scion_addr_hdr_v4_def sizeof_scion_path_meta_hdr_def sizeof_scion_info_field_def
  sizeof_scion_hop_field_def sizeof_cilium_e2e_ext_def

definition MAX_PATH_LEN :: nat where
  "MAX_PATH_LEN = 256"

text \<open>Network-order fields are compared as their two bytes: ETH_P_IP and port 30041.\<close>

definition ETH_P_IP :: "byte list" where "ETH_P_IP = [0x08, 0x00]"
definition SCION_UDP_PORT :: "byte list" where "SCION_UDP_PORT = [0x75, 0x59]"
definition IPPROTO_UDP :: byte where "IPPROTO_UDP = 17"

text \<open>The header length of the IPv4 header at an offset, in bytes: four times the low nibble.\<close>

definition ihl_bytes :: "byte list \<Rightarrow> nat \<Rightarrow> nat" where
  "ihl_bytes pkt off = unat (pkt ! off AND 15) * 4"

section \<open>tc_egress\<close>

text \<open>The parsers return the offset after the header, \<open>None\<close> for NULL.\<close>

definition parse_eth :: "byte list \<Rightarrow> nat \<Rightarrow> nat option" where
  "parse_eth pkt off =
     (if length pkt < off + sizeof_ethhdr then None else Some (off + sizeof_ethhdr))"

definition parse_ipv4 :: "byte list \<Rightarrow> nat \<Rightarrow> nat option" where
  "parse_ipv4 pkt off =
     (if length pkt < off + sizeof_iphdr then None
      else if length pkt < off + ihl_bytes pkt off then None
      else Some (off + ihl_bytes pkt off))"

datatype tc_action = TC_ACT_OK | TC_ACT_SHOT

definition egress_encap_len :: "nat \<Rightarrow> nat" where
  "egress_encap_len plen =
     sizeof_iphdr + sizeof_udphdr + sizeof_scion_hdr + sizeof_scion_addr_hdr_v4 + plen
     + sizeof_cilium_e2e_ext"

text \<open>
  The verdict, and the path entry and encapsulation length when the packet was encapsulated.
  \<open>clamp_tcp_mss\<close> does nothing and is left out.
\<close>

definition tc_egress ::
  "endian \<Rightarrow> (nat \<Rightarrow> bool) \<Rightarrow> (scion_path_entry \<Rightarrow> nat \<Rightarrow> bool) \<Rightarrow>
   (byte list \<rightharpoonup> byte list) \<Rightarrow> (byte list \<rightharpoonup> byte list) \<Rightarrow> byte list \<Rightarrow>
   tc_action \<times> (scion_path_entry \<times> nat) option" where
  "tc_egress e adjust_room write_headers pod_policy_map scion_path_cache pkt =
     (case parse_eth pkt 0 of
        None \<Rightarrow> (TC_ACT_OK, None)
      | Some off \<Rightarrow>
          if slice 12 2 pkt \<noteq> ETH_P_IP then (TC_ACT_OK, None)
          else case parse_ipv4 pkt off of
            None \<Rightarrow> (TC_ACT_OK, None)
          | Some _ \<Rightarrow>
              (case pod_policy_map (slice (off + 12) 4 pkt) of
                 None \<Rightarrow> (TC_ACT_OK, None)
               | Some pol_id \<Rightarrow>
                   (case scion_path_cache pol_id of
                      None \<Rightarrow> (TC_ACT_OK, None)
                    | Some v \<Rightarrow>
                        let path = c_entry e v; plen = unat (path_len path);
                            encap_len = egress_encap_len plen
                        in if MAX_PATH_LEN < plen then (TC_ACT_SHOT, None)
                           else if \<not> adjust_room encap_len then (TC_ACT_SHOT, None)
                           else if \<not> write_headers path encap_len then (TC_ACT_SHOT, None)
                           else (TC_ACT_OK, Some (path, encap_len)))))"

text \<open>An IPv4 packet from a given source address, long enough for its own header.\<close>

definition ipv4_from :: "byte list \<Rightarrow> byte list \<Rightarrow> bool" where
  "ipv4_from a pkt \<longleftrightarrow> sizeof_ethhdr + sizeof_iphdr \<le> length pkt \<and> slice 12 2 pkt = ETH_P_IP \<and>
     sizeof_ethhdr + ihl_bytes pkt sizeof_ethhdr \<le> length pkt \<and>
     slice (sizeof_ethhdr + 12) 4 pkt = a"

lemma tc_egress_ipv4:
  assumes "ipv4_from a pkt"
  shows "tc_egress e adj wr pm pc pkt =
    (case pm a of None \<Rightarrow> (TC_ACT_OK, None)
     | Some i \<Rightarrow> (case pc i of None \<Rightarrow> (TC_ACT_OK, None)
        | Some v \<Rightarrow>
            let path = c_entry e v; plen = unat (path_len path); n = egress_encap_len plen
            in if MAX_PATH_LEN < plen then (TC_ACT_SHOT, None)
               else if \<not> adj n then (TC_ACT_SHOT, None)
               else if \<not> wr path n then (TC_ACT_SHOT, None) else (TC_ACT_OK, Some (path, n))))"
  using assms
  by (simp add: tc_egress_def parse_eth_def parse_ipv4_def ipv4_from_def)

text \<open>
  The same decision on the tables: the policy of the source address, its path, the verdict.
\<close>

definition egress_spec ::
  "(nat \<Rightarrow> bool) \<Rightarrow> (scion_path_entry \<Rightarrow> nat \<Rightarrow> bool) \<Rightarrow> datapath_tables \<Rightarrow> byte list \<Rightarrow>
     tc_action \<times> (scion_path_entry \<times> nat) option" where
  "egress_spec adjust_room write_headers d a =
     (case pods d a of None \<Rightarrow> (TC_ACT_OK, None)
      | Some i \<Rightarrow> (case paths d i of None \<Rightarrow> (TC_ACT_OK, None)
         | Some path \<Rightarrow>
             let plen = unat (path_len path); n = egress_encap_len plen
             in if plen \<le> MAX_PATH_LEN \<and> adjust_room n \<and> write_headers path n
                then (TC_ACT_OK, Some (path, n)) else (TC_ACT_SHOT, None)))"

lemma tc_egress_tables:
  assumes "ipv4_from a pkt" and "pods_ok es l"
  shows "tc_egress e adj wr (map_of_handle es (PodPolicyMap (tcMaps (tcObjs l))))
      (map_of_handle es (ScionPathCache (tcMaps (tcObjs l)))) pkt =
    egress_spec adj wr (tables e es l) a"
proof (cases "map_of_handle es (PodPolicyMap (tcMaps (tcObjs l))) a")
  case None
  then show ?thesis by (simp add: tc_egress_ipv4 [OF assms(1)] egress_spec_def tables_def)
next
  case (Some v)
  then have "length v = 4" using assms(2) unfolding pods_ok_def by blast
  then have "binary_PutUint32 e (binary_Uint32 e v) = v" by (rule PutUint32_Uint32)
  then show ?thesis
    using Some
    by (auto simp: tc_egress_ipv4 [OF assms(1)] egress_spec_def tables_def Let_def
        split: option.splits)
qed

lemma tc_egress_no_policy:
  assumes "pm = Map.empty \<or> pc = Map.empty"
  shows "tc_egress e adj wr pm pc pkt = (TC_ACT_OK, None)"
  using assms by (auto simp: tc_egress_def split: option.splits)

context bpf_maps begin

lemma installed_policy:
  assumes "UpdatePodPolicy lib e l ip i k = (Return None, k1)"
    and "UpdateScionPath lib e l i p k1 = (Return None, k2)"
    and "maps_distinct l" and "wf_entry p" and "net_IP_To4 ip = Some a"
  shows "map_of_handle (entries k2) (PodPolicyMap (tcMaps (tcObjs l))) a = Some (binary_PutUint32 e i)"
    and "map_of_handle (entries k2) (ScionPathCache (tcMaps (tcObjs l))) (binary_PutUint32 e i) =
      Some (entry_memory e p)"
proof -
  from assms(5) have key: "IPToKey e ip = Inr (binary_Uint32 e a)" and "length a = 4"
    by (simp_all add: IPToKey_def length_net_IP_To4)
  with assms(1) have "ebpf_Map_Put lib (PodPolicyMap (tcMaps (tcObjs l))) a
      (binary_PutUint32 e i) k = (Return None, k1)"
    by (simp add: UpdatePodPolicy_def go_simps)
  then obtain m1 where m1: "PodPolicyMap (tcMaps (tcObjs l)) = Some m1"
    "entries k1 = (entries k)(m1 := (entries k m1)(a \<mapsto> binary_PutUint32 e i))"
    by (rule put_Some)
  from assms(2) obtain m2 where m2: "ScionPathCache (tcMaps (tcObjs l)) = Some m2"
    "entries k2 = (entries k1)(m2 := (entries k1 m2)(binary_PutUint32 e i \<mapsto> entry_memory e p))"
    unfolding UpdateScionPath_def by (rule put_Some)
  from m1(1) m2(1) assms(3) have "m1 \<noteq> m2" by (auto simp: maps_distinct_def)
  with m1 m2 show
    "map_of_handle (entries k2) (PodPolicyMap (tcMaps (tcObjs l))) a = Some (binary_PutUint32 e i)"
    "map_of_handle (entries k2) (ScionPathCache (tcMaps (tcObjs l))) (binary_PutUint32 e i) =
      Some (entry_memory e p)"
    by (simp_all add: map_of_handle_def)
qed

end

section \<open>xdp_ingress\<close>

text \<open>
  \<open>parse_path_meta\<close> and \<open>get_current_hop_field\<close> return the offset of what they point to.
  In the path meta header \<open>cur_hf\<close> is the upper six bits of byte 0 (the little-endian target of
  the bindings), \<open>num_hf\<close> is byte 5 and \<open>num_inf\<close> byte 6.
\<close>

definition parse_path_meta :: "byte list \<Rightarrow> nat \<Rightarrow> nat option" where
  "parse_path_meta pkt scion_off =
     (let meta_off = scion_off + sizeof_scion_hdr + sizeof_scion_addr_hdr_v4
      in if length pkt < meta_off + sizeof_scion_path_meta_hdr then None else Some meta_off)"

definition meta_cur_hf :: "byte list \<Rightarrow> nat \<Rightarrow> nat" where
  "meta_cur_hf pkt meta = unat (drop_bit 2 (pkt ! meta))"

definition meta_num_hf :: "byte list \<Rightarrow> nat \<Rightarrow> nat" where
  "meta_num_hf pkt meta = unat (pkt ! (meta + 5))"

definition meta_num_inf :: "byte list \<Rightarrow> nat \<Rightarrow> nat" where
  "meta_num_inf pkt meta = unat (pkt ! (meta + 6))"

definition get_current_hop_field :: "byte list \<Rightarrow> nat \<Rightarrow> nat \<Rightarrow> nat option" where
  "get_current_hop_field pkt scion_off meta =
     (let path_off = scion_off + sizeof_scion_hdr + sizeof_scion_addr_hdr_v4
            + sizeof_scion_path_meta_hdr + meta_num_inf pkt meta * sizeof_scion_info_field
            + meta_cur_hf pkt meta * sizeof_scion_hop_field
      in if length pkt < path_off + sizeof_scion_hop_field then None else Some path_off)"

datatype xdp_action = XDP_PASS | XDP_DROP

definition ingress_encap_len :: "byte list \<Rightarrow> nat \<Rightarrow> nat" where
  "ingress_encap_len pkt meta =
     ihl_bytes pkt sizeof_ethhdr + sizeof_udphdr + sizeof_scion_hdr + sizeof_scion_addr_hdr_v4
     + (sizeof_scion_path_meta_hdr + meta_num_inf pkt meta * sizeof_scion_info_field
        + meta_num_hf pkt meta * sizeof_scion_hop_field)
     + sizeof_cilium_e2e_ext"

text \<open>
  The filter at the top of the program: an IPv4 UDP packet to the SCION port.  Everything that
  fails it is passed on untouched.
\<close>

definition scion_udp :: "byte list \<Rightarrow> bool" where
  "scion_udp pkt \<longleftrightarrow>
     sizeof_ethhdr + sizeof_iphdr + sizeof_udphdr \<le> length pkt \<and>
     slice 12 2 pkt = ETH_P_IP \<and>
     pkt ! (sizeof_ethhdr + 9) = IPPROTO_UDP \<and>
     (let udp_off = sizeof_ethhdr + ihl_bytes pkt sizeof_ethhdr
      in udp_off + sizeof_udphdr \<le> length pkt \<and> slice (udp_off + 2) 2 pkt = SCION_UDP_PORT)"

text \<open>From the SCION header on: every failed check drops the packet.\<close>

definition xdp_scion ::
  "(byte list \<Rightarrow> nat \<Rightarrow> nat \<Rightarrow> byte list \<Rightarrow> bool) \<Rightarrow> (nat \<Rightarrow> bool) \<Rightarrow>
   (byte list \<rightharpoonup> byte list) \<Rightarrow> byte list \<Rightarrow> xdp_action \<times> byte list" where
  "xdp_scion verify_mac adjust_head scion_path_cache pkt =
     (let udp_off = sizeof_ethhdr + ihl_bytes pkt sizeof_ethhdr;
          scion_off = udp_off + sizeof_udphdr
      in if length pkt < scion_off + sizeof_scion_hdr then (XDP_DROP, pkt)
         else case parse_path_meta pkt scion_off of
           None \<Rightarrow> (XDP_DROP, pkt)
         | Some meta \<Rightarrow>
             (case get_current_hop_field pkt scion_off meta of
                None \<Rightarrow> (XDP_DROP, pkt)
              | Some hf \<Rightarrow>
                  let encap_len = ingress_encap_len pkt meta;
                      inf = scion_off + sizeof_scion_hdr + sizeof_scion_addr_hdr_v4
                              + sizeof_scion_path_meta_hdr
                  in if length pkt < sizeof_ethhdr + encap_len then (XDP_DROP, pkt)
                     else if length pkt < inf + sizeof_scion_info_field then (XDP_DROP, pkt)
                     else case scion_path_cache [0, 0, 0, 0] of
                       None \<Rightarrow> (XDP_DROP, pkt)
                     | Some v \<Rightarrow>
                         if \<not> verify_mac (slice 268 16 v) inf hf pkt then (XDP_DROP, pkt)
                         else if \<not> adjust_head encap_len then (XDP_DROP, pkt)
                         else let moved = drop encap_len pkt
                              in if length moved < sizeof_ethhdr then (XDP_DROP, moved)
                                 else let out = take 12 pkt @ ETH_P_IP @ drop sizeof_ethhdr moved
                                      in if length out < sizeof_ethhdr + sizeof_iphdr
                                         then (XDP_DROP, out)
                                         else (XDP_PASS, out)))"

definition xdp_ingress ::
  "(byte list \<Rightarrow> nat \<Rightarrow> nat \<Rightarrow> byte list \<Rightarrow> bool) \<Rightarrow> (nat \<Rightarrow> bool) \<Rightarrow>
   (byte list \<rightharpoonup> byte list) \<Rightarrow> byte list \<Rightarrow> xdp_action \<times> byte list" where
  "xdp_ingress verify_mac adjust_head scion_path_cache pkt =
     (if scion_udp pkt then xdp_scion verify_mac adjust_head scion_path_cache pkt
      else (XDP_PASS, pkt))"

lemma xdp_scion_no_key:
  "pc [0, 0, 0, 0] = None \<Longrightarrow> xdp_scion vm ah pc pkt = (XDP_DROP, pkt)"
  by (simp add: xdp_scion_def Let_def split: option.splits)

lemma xdp_ingress_empty_cache:
  "xdp_ingress vm ah Map.empty pkt = (if scion_udp pkt then (XDP_DROP, pkt) else (XDP_PASS, pkt))"
  by (simp add: xdp_ingress_def xdp_scion_no_key)

section \<open>Bounds\<close>

text \<open>
  The packet's bytes bound what the two programs compute from them: a header length is a nibble,
  a hop field pointer has six bits, a count is a byte, and a path length is at most 256.
\<close>

lemma ihl_bytes_le: "ihl_bytes pkt off \<le> 60"
proof -
  have "unat (pkt ! off AND 15) \<le> unat (15 :: byte)"
    by (rule word_and_le1 [THEN word_le_nat_alt [THEN iffD1]])
  then show ?thesis by (simp add: ihl_bytes_def)
qed

lemma meta_num_hf_le: "meta_num_hf pkt meta \<le> 255"
  using unsigned_less [where ?'a = nat and w = "pkt ! (meta + 5)"] by (simp add: meta_num_hf_def)

lemma meta_num_inf_le: "meta_num_inf pkt meta \<le> 255"
  using unsigned_less [where ?'a = nat and w = "pkt ! (meta + 6)"] by (simp add: meta_num_inf_def)

lemma ingress_encap_len_bounds:
  "59 \<le> ingress_encap_len pkt meta \<and> ingress_encap_len pkt meta \<le> 6239"
  using ihl_bytes_le [of pkt sizeof_ethhdr] meta_num_hf_le [of pkt meta]
    meta_num_inf_le [of pkt meta]
  by (simp add: ingress_encap_len_def sizeofs)

text \<open>
  Where the program finds the headers of a SCION packet: the path meta header, the first info
  field, the current hop field, and the end of the path header.
\<close>

definition meta_offset :: "byte list \<Rightarrow> nat" where
  "meta_offset pkt = sizeof_ethhdr + ihl_bytes pkt sizeof_ethhdr + sizeof_udphdr
     + sizeof_scion_hdr + sizeof_scion_addr_hdr_v4"

definition info_offset :: "byte list \<Rightarrow> nat" where
  "info_offset pkt = meta_offset pkt + sizeof_scion_path_meta_hdr"

definition hop_offset :: "byte list \<Rightarrow> nat" where
  "hop_offset pkt = info_offset pkt
     + meta_num_inf pkt (meta_offset pkt) * sizeof_scion_info_field
     + meta_cur_hf pkt (meta_offset pkt) * sizeof_scion_hop_field"

definition path_end :: "byte list \<Rightarrow> nat" where
  "path_end pkt = info_offset pkt
     + meta_num_inf pkt (meta_offset pkt) * sizeof_scion_info_field
     + meta_num_hf pkt (meta_offset pkt) * sizeof_scion_hop_field"

lemma path_end_encap:
  "sizeof_ethhdr + ingress_encap_len pkt (meta_offset pkt) = path_end pkt + sizeof_cilium_e2e_ext"
  by (simp add: ingress_encap_len_def path_end_def info_offset_def meta_offset_def)

lemma hop_in_path_iff:
  "hop_offset pkt + sizeof_scion_hop_field \<le> path_end pkt \<longleftrightarrow>
   meta_cur_hf pkt (meta_offset pkt) < meta_num_hf pkt (meta_offset pkt)"
  by (simp add: hop_offset_def path_end_def sizeof_scion_hop_field_def) arith

text \<open>
  A SCION packet that is let in passed every check, at these offsets, and had its MAC verified
  with the key of entry 0.
\<close>

lemma xdp_scion_offsets:
  "xdp_scion vm ah pc pkt =
    (let n = ingress_encap_len pkt (meta_offset pkt);
         out = take 12 pkt @ ETH_P_IP @ drop (sizeof_ethhdr + n) pkt
     in if length pkt < info_offset pkt \<or> length pkt < hop_offset pkt + sizeof_scion_hop_field \<or>
          length pkt < sizeof_ethhdr + n \<or> length pkt < info_offset pkt + sizeof_scion_info_field
        then (XDP_DROP, pkt)
        else case pc [0, 0, 0, 0] of
          None \<Rightarrow> (XDP_DROP, pkt)
        | Some v \<Rightarrow>
            if \<not> vm (slice 268 16 v) (info_offset pkt) (hop_offset pkt) pkt then (XDP_DROP, pkt)
            else if \<not> ah n then (XDP_DROP, pkt)
            else if length (drop n pkt) < sizeof_ethhdr then (XDP_DROP, drop n pkt)
            else if length out < sizeof_ethhdr + sizeof_iphdr then (XDP_DROP, out)
            else (XDP_PASS, out))"
proof -
  define so where "so = sizeof_ethhdr + ihl_bytes pkt sizeof_ethhdr + sizeof_udphdr"
  have meta: "parse_path_meta pkt so =
      (if length pkt < info_offset pkt then None else Some (meta_offset pkt))"
    by (simp add: parse_path_meta_def so_def meta_offset_def info_offset_def)
  have hop: "get_current_hop_field pkt so (meta_offset pkt) =
      (if length pkt < hop_offset pkt + sizeof_scion_hop_field then None
       else Some (hop_offset pkt))"
    by (simp add: get_current_hop_field_def so_def meta_offset_def info_offset_def hop_offset_def)
  have inf: "so + sizeof_scion_hdr + sizeof_scion_addr_hdr_v4 + sizeof_scion_path_meta_hdr =
      info_offset pkt"
    by (simp add: so_def meta_offset_def info_offset_def)
  have "length pkt < so + sizeof_scion_hdr \<Longrightarrow> length pkt < info_offset pkt"
    by (simp add: inf [symmetric])
  then show ?thesis
    by (simp only: xdp_scion_def so_def [symmetric] inf meta Let_def drop_drop)
      (simp add: hop)
qed

lemma xdp_scion_pass:
  assumes "xdp_scion vm ah pc pkt = (XDP_PASS, out)"
  shows "\<exists>v n. n = ingress_encap_len pkt (meta_offset pkt) \<and> sizeof_ethhdr + n \<le> length pkt \<and>
    info_offset pkt + sizeof_scion_info_field \<le> length pkt \<and>
    hop_offset pkt + sizeof_scion_hop_field \<le> length pkt \<and>
    pc [0, 0, 0, 0] = Some v \<and> vm (slice 268 16 v) (info_offset pkt) (hop_offset pkt) pkt \<and>
    ah n \<and> out = take 12 pkt @ ETH_P_IP @ drop (sizeof_ethhdr + n) pkt \<and>
    sizeof_ethhdr + sizeof_iphdr \<le> length out"
  using assms
  by (simp only: xdp_scion_offsets Let_def) (auto split: option.splits if_splits)

lemma decapsulated_length:
  assumes "sizeof_ethhdr + n \<le> length pkt"
    and "out = take 12 pkt @ ETH_P_IP @ drop (sizeof_ethhdr + n) pkt"
  shows "length out = length pkt - n"
  using assms by (simp add: sizeof_ethhdr_def ETH_P_IP_def)

lemma length_hop_fields: "length v = 284 \<Longrightarrow> length (hop_fields (c_entry e v)) = MAX_PATH_LEN"
  by (simp add: c_entry_def Let_def c_entry_fields_def [symmetric])
    (simp add: c_entry_fields_def slice_def MAX_PATH_LEN_def)

text \<open>
  \<open>tc_egress\<close> uses its helpers at no other lengths than 72 to 328, the second being a full
  \<open>hop_fields\<close> array, so helpers that agree there give the same program.
\<close>

lemma egress_encap_len_eq: "egress_encap_len n = 72 + n"
  by (simp add: egress_encap_len_def sizeofs)

lemma tc_egress_helpers_cong:
  assumes "\<And>n. 72 \<le> n \<Longrightarrow> n \<le> 328 \<Longrightarrow> adj n = adj' n"
    and "\<And>p. unat (path_len p) \<le> 256 \<Longrightarrow>
      wr p (72 + unat (path_len p)) = wr' p (72 + unat (path_len p))"
  shows "tc_egress e adj wr pm pc pkt = tc_egress e adj' wr' pm pc pkt"
  using assms
  by (auto simp: tc_egress_def egress_encap_len_eq MAX_PATH_LEN_def Let_def not_less
      split: option.split)

lemma tc_egress_encapsulated:
  "tc_egress e adj wr pm pc pkt = (act, Some (p, n)) \<Longrightarrow>
   act = TC_ACT_OK \<and> n = 72 + unat (path_len p) \<and> unat (path_len p) \<le> MAX_PATH_LEN \<and>
   adj n \<and> wr p n \<and> p \<in> c_entry e ` ran pc"
  by (auto simp: tc_egress_def egress_encap_len_eq Let_def not_less ran_def
      split: option.splits if_splits)

end
