(* ===== verification/LoaderProps.thy ===== *)
theory LoaderProps
  imports Datapath
begin

text \<open>
  The properties of \<open>internal/bpf\<close>: keys and entries keep their meaning on the way into the
  kernel, the map operations implement the tables the egress program decides by, and what loading,
  closing, attaching and detaching leave behind.  They hold for any kernel that meets the
  contracts of \<open>BpfLib\<close> (the named hypotheses \<open>bpf_maps\<close>, \<open>bpf_objects\<close>, \<open>netlink_tc\<close>,
  \<open>bpf_kernel\<close>); the witnesses run on the one of \<open>KernelRef\<close>.
\<close>

section \<open>Inputs for the witnesses\<close>

text \<open>The loader and the kernel after a successful load, in a kernel with one interface.\<close>

definition demo_loader :: Loader where
  "demo_loader = fst (snd (Load ref_lib [1] [2] New ref_kernel0))"

definition demo_kernel :: ref_kernel where
  "demo_kernel = snd (snd (Load ref_lib [1] [2] New ref_kernel0))"

definition demo_entry :: ScionPathEntry where
  "demo_entry = \<lparr>NextHopIP = [192, 0, 2, 1], NextHopMAC = [2, 0, 0, 0, 0, 1], PathLen = 100,
     HopFields = replicate 256 7, MACKey = replicate 16 9\<rparr>"

text \<open>A 34-byte IPv4 packet from 10.1.0.5.\<close>

definition demo_packet :: "byte list" where
  "demo_packet = replicate 12 0 @ [8, 0, 0x45] @ replicate 11 0 @ [10, 1, 0, 5, 10, 2, 0, 9]"

lemma Load_demo: "Load ref_lib [1] [2] New ref_kernel0 = (None, demo_loader, demo_kernel)"
proof -
  have "fst (Load ref_lib [1] [2] New ref_kernel0) = None"
    by (simp add: Load_def LoadTcEgressObjects_def LoadXdpIngressObjects_def ref_lib_def
        ref_load_def Let_def)
  then show ?thesis by (simp add: demo_loader_def demo_kernel_def prod_eq_iff)
qed

lemma reach_demo: "loader_reach ref_lib e [1] [2] (demo_loader, demo_kernel)"
  by (rule loader_reach.reach_load [OF Load_demo])

lemma demo_loader_eq:
  "demo_loader = \<lparr>tcObjs = \<lparr>tcPrograms = \<lparr>TcEgress = Some 1\<rparr>,
       tcMaps = \<lparr>PodPolicyMap = Some 2, ScionPathCache = Some 3\<rparr>\<rparr>,
     xdpObjs = \<lparr>xdpPrograms = \<lparr>XdpIngress = Some 7\<rparr>,
       xdpMaps = \<lparr>XdpPodPolicyMap = Some 8, XdpScionPathCache = Some 9\<rparr>\<rparr>,
     xdpLink = None\<rparr>"
  by (simp add: demo_loader_def Load_def LoadTcEgressObjects_def LoadXdpIngressObjects_def
      New_def ref_lib_def ref_load_def Let_def ref_kernel0_def ref_fresh_def)

lemma demo_kernel_eq:
  "demo_kernel = ref_kernel0\<lparr>rk_max := (\<lambda>_. 0)(2 := 10000, 3 := 1024, 8 := 10000, 9 := 1024),
     rk_open := [7, 8, 9, 1, 2, 3]\<rparr>"
  by (simp add: demo_kernel_def Load_def LoadTcEgressObjects_def LoadXdpIngressObjects_def
      New_def ref_lib_def ref_load_def Let_def ref_kernel0_def ref_fresh_def)
    (simp add: fun_eq_iff eval_nat_numeral)

section \<open>Keys and entries\<close>

text \<open>
  A key computed from an address has exactly the address's four IPv4 bytes in memory, on
  either byte order, so the eBPF programs look it up by the packet's source address as it stands;
  every key is the key of an address, and an address without an IPv4 form has none.
\<close>
lemma IPToKey_memory:
  "(IPToKey e ip = Inr key \<longleftrightarrow> net_IP_To4 ip = Some (binary_PutUint32 e key)) \<and>
   IPToKey e (IPFromKey e key) = Inr key \<and>
   ((\<exists>err. IPToKey e ip = Inl err) \<longleftrightarrow> net_IP_To4 ip = None)"
  by (auto simp: IPToKey_Inr IPFromKey_def IPToKey_Inl go_simps)

text \<open>
  C29: the Go struct and the C struct of a path entry have the same layout, 284 bytes without
  padding, and the eBPF programs read from the bytes the loader writes the same field values.
\<close>
theorem entry_layout_shared:
  assumes "wf_entry p"
  shows "struct_layout go_entry_fields = struct_layout c_entry_fields \<and>
    length (entry_memory e p) = snd (struct_layout c_entry_fields) \<and>
    c_entry e (entry_memory e p) =
      \<lparr>next_hop_ip = binary_Uint32 e (NextHopIP p), next_hop_mac = NextHopMAC p,
       path_len = PathLen p, hop_fields = HopFields p, mac_key = MACKey p\<rparr>"
  by (simp add: c_entry_memory [OF assms] length_entry_memory [OF assms])

theorem entry_layout_shared_witness:
  "path_len (c_entry LittleEndian (entry_memory LittleEndian demo_entry)) = 100"
proof -
  have "wf_entry demo_entry" by (simp add: wf_entry_def demo_entry_def)
  from entry_layout_shared [OF this, of LittleEndian] show ?thesis by (simp add: demo_entry_def)
qed

section \<open>The tables\<close>

text \<open>
  C5: any sequence of map operations implements the two tables: after it, the maps read through
  the programs' representation hold what the operations that reported success did, in order, to
  the tables from address to policy id and from policy id to path; a failed operation and a panic
  changed nothing.
\<close>
theorem map_operations_refine:
  assumes "bpf_maps lib entries" and "run_map_ops lib e l ops k = (rs, k')"
    and "maps_distinct l" and "list_all wf_op ops"
  shows "tables e (entries k') l = spec_map_ops e ops rs (tables e (entries k) l)"
  by (rule bpf_maps.map_ops_refine [OF assms])

theorem map_operations_refine_witness:
  "pods (tables BigEndian (ref_entries (snd (run_map_ops ref_lib BigEndian demo_loader
       [OpUpdatePod [10, 1, 0, 5] 7, OpUpdatePod [1, 2, 3] 8, OpDeletePod [10, 1, 0, 6]]
       demo_kernel))) demo_loader) [10, 1, 0, 5] = Some 7"
proof -
  let ?ops = "[OpUpdatePod [10, 1, 0, 5] 7, OpUpdatePod [1, 2, 3] 8, OpDeletePod [10, 1, 0, 6]]"
  let ?x = "run_map_ops ref_lib BigEndian demo_loader ?ops demo_kernel"
  have rs: "fst ?x = [Return None, Return (Some (IPToKey_error [1, 2, 3])), Return (Some (ErrText ''key does not exist''))]"
    unfolding demo_loader_eq demo_kernel_eq by code_simp
  have run: "?x = ([Return None, Return (Some (IPToKey_error [1, 2, 3])),
      Return (Some (ErrText ''key does not exist''))], snd ?x)"
    by (rule prod_eqI) (simp_all only: rs fst_conv snd_conv)
  have "maps_distinct demo_loader" by (simp add: demo_loader_eq maps_distinct_def)
  note map_operations_refine [OF rk.bpf_maps_axioms run this]
  then show ?thesis by (simp add: net_IP_To4_def del: run_map_ops.simps)
qed

section \<open>Egress\<close>

text \<open>
  C3: in every state the loader can reach, the egress program decides about an IPv4 packet by the
  loader's tables: no policy for the source address, or no path for its policy, lets the packet
  out as it is; otherwise it is encapsulated with that path, or dropped when the path is longer
  than 256 bytes or the packet cannot be grown or written.
\<close>
theorem egress_follows_tables:
  assumes "bpf_kernel lib entries open_fds filters qdiscs"
    and "loader_reach lib e tb xb (l, k)" and "ipv4_from a pkt"
  shows "tc_egress e adjust_room write_headers
      (map_of_handle (entries k) (PodPolicyMap (tcMaps (tcObjs l))))
      (map_of_handle (entries k) (ScionPathCache (tcMaps (tcObjs l)))) pkt =
    egress_spec adjust_room write_headers (tables e (entries k) l) a"
  by (rule tc_egress_tables [OF assms(3) bpf_kernel.loader_reach_pods_ok [OF assms(1,2)]])

theorem egress_follows_tables_witness:
  "tc_egress LittleEndian (\<lambda>_. True) (\<lambda>_ _. True)
     (map_of_handle (ref_entries demo_kernel) (PodPolicyMap (tcMaps (tcObjs demo_loader))))
     (map_of_handle (ref_entries demo_kernel) (ScionPathCache (tcMaps (tcObjs demo_loader))))
     demo_packet = (TC_ACT_OK, None)"
proof -
  have pkt: "ipv4_from [10, 1, 0, 5] demo_packet" by code_simp
  have "pods (tables LittleEndian (ref_entries demo_kernel) demo_loader) [10, 1, 0, 5] = None"
    by (simp add: tables_def map_of_handle_def demo_loader_eq demo_kernel_eq ref_entries_def
        ref_kernel0_def)
  then show ?thesis
    unfolding egress_follows_tables [OF rk.bpf_kernel_axioms reach_demo pkt]
    by (simp add: egress_spec_def)
qed

text \<open>
  C4: end to end: once a reachable loader has installed a policy for a pod's address and a path of
  at most 256 bytes for that policy, both without error, a packet from that address leaves
  encapsulated with exactly that path, its encapsulation 72 bytes more than the path's length,
  provided the kernel grants the room and the headers are written.
\<close>
theorem installed_policy_enforced:
  assumes "bpf_kernel lib entries open_fds filters qdiscs"
    and "loader_reach lib e tb xb (l, k)" and "wf_entry p" and "net_IP_To4 ip = Some a"
    and "UpdatePodPolicy lib e l ip i k = (Return None, k1)"
    and "UpdateScionPath lib e l i p k1 = (Return None, k2)"
    and "ipv4_from a pkt" and "unat (PathLen p) \<le> 256"
    and "adjust_room (unat (PathLen p) + 72)"
    and "write_headers (c_view e p) (unat (PathLen p) + 72)"
  shows "tc_egress e adjust_room write_headers
      (map_of_handle (entries k2) (PodPolicyMap (tcMaps (tcObjs l))))
      (map_of_handle (entries k2) (ScionPathCache (tcMaps (tcObjs l)))) pkt =
    (TC_ACT_OK, Some (c_view e p, unat (PathLen p) + 72))"
proof -
  have maps: "bpf_maps lib entries" using assms(1) by (simp add: bpf_kernel_def)
  have "maps_distinct l"
    by (rule loader_inv_maps_distinct [OF bpf_kernel.loader_reach_inv [OF assms(1,2)]])
  note inst = bpf_maps.installed_policy [OF maps assms(5,6) this assms(3,4)]
  have len: "egress_encap_len (unat (PathLen p)) = unat (PathLen p) + 72"
    by (simp add: egress_encap_len_def sizeofs)
  show ?thesis
    using assms(8-10) len
    by (simp add: tc_egress_ipv4 [OF assms(7)] inst c_entry_view [OF assms(3)] c_view_def
        MAX_PATH_LEN_def Let_def)
qed

theorem installed_policy_enforced_witness:
  "let k1 = snd (UpdatePodPolicy ref_lib LittleEndian demo_loader [10, 1, 0, 5] 7 demo_kernel);
       k2 = snd (UpdateScionPath ref_lib LittleEndian demo_loader 7 demo_entry k1)
   in tc_egress LittleEndian (\<lambda>n. n < 1000) (\<lambda>_ _. True)
        (map_of_handle (ref_entries k2) (PodPolicyMap (tcMaps (tcObjs demo_loader))))
        (map_of_handle (ref_entries k2) (ScionPathCache (tcMaps (tcObjs demo_loader))))
        demo_packet = (TC_ACT_OK, Some (c_view LittleEndian demo_entry, 172))"
proof -
  define k1 where
    "k1 = snd (UpdatePodPolicy ref_lib LittleEndian demo_loader [10, 1, 0, 5] 7 demo_kernel)"
  define k2 where "k2 = snd (UpdateScionPath ref_lib LittleEndian demo_loader 7 demo_entry k1)"
  have u1: "UpdatePodPolicy ref_lib LittleEndian demo_loader [10, 1, 0, 5] 7 demo_kernel =
      (Return None, k1)"
    by (simp add: k1_def prod_eq_iff UpdatePodPolicy_def IPToKey_def net_IP_To4_def
        demo_loader_eq demo_kernel_eq ref_lib_def ref_kernel0_def)
  have "rk_maps k1 3 = []" and "rk_max k1 3 = 1024"
    by (simp_all add: k1_def UpdatePodPolicy_def IPToKey_def net_IP_To4_def
        demo_loader_eq demo_kernel_eq ref_lib_def ref_kernel0_def)
  then have u2: "UpdateScionPath ref_lib LittleEndian demo_loader 7 demo_entry k1 =
      (Return None, k2)"
    by (simp add: k2_def prod_eq_iff UpdateScionPath_def demo_loader_eq ref_lib_def)
  have wf: "wf_entry demo_entry" by (simp add: wf_entry_def demo_entry_def)
  have four: "net_IP_To4 [10, 1, 0, 5] = Some [10, 1, 0, 5]" by (simp add: net_IP_To4_def)
  have pkt: "ipv4_from [10, 1, 0, 5] demo_packet" by code_simp
  have len: "unat (PathLen demo_entry) = 100" by (simp add: demo_entry_def)
  have "tc_egress LittleEndian (\<lambda>n. n < 1000) (\<lambda>_ _. True)
        (map_of_handle (ref_entries k2) (PodPolicyMap (tcMaps (tcObjs demo_loader))))
        (map_of_handle (ref_entries k2) (ScionPathCache (tcMaps (tcObjs demo_loader))))
        demo_packet = (TC_ACT_OK, Some (c_view LittleEndian demo_entry, unat (PathLen demo_entry) + 72))"
    by (rule installed_policy_enforced [OF rk.bpf_kernel_axioms reach_demo wf four u1 u2 pkt])
      (simp_all add: len)
  then show ?thesis unfolding Let_def k2_def k1_def by (simp add: len)
qed

end
