(* ===== verification/LifecycleProps.thy ===== *)
theory LifecycleProps
  imports LoaderProps
begin

text \<open>
  The properties of \<open>internal/bpf\<close>, continued: loading and closing the collections, attaching and
  detaching the egress filter.
\<close>

section \<open>Load and Close\<close>

text \<open>
  C19: \<open>Load\<close> is all or nothing, in a kernel where closing works: on success the loader holds six
  distinct new handles, and they are what was opened, and closing a loader without an XDP link
  closes just these; on an error, of either collection, nothing is left open that was not open
  before.
\<close>
theorem Load_all_or_nothing:
  assumes "bpf_objects lib open_fds" and "\<And>obj k. fst (TcEgressObjects_Close lib obj k) = None"
    and "\<And>obj k. fst (XdpIngressObjects_Close lib obj k) = None"
    and "Load lib tb xb l k = (r, l', k')"
  shows "case r of
      Some err \<Rightarrow> open_fds k' = open_fds k
    | None \<Rightarrow> \<exists>p m1 m2 q n1 n2. tc_handles (tcObjs l') = (Some p, Some m1, Some m2) \<and>
        xdp_handles (xdpObjs l') = (Some q, Some n1, Some n2) \<and>
        distinct [p, m1, m2, q, n1, n2] \<and> {p, m1, m2, q, n1, n2} \<inter> open_fds k = {} \<and>
        open_fds k' = open_fds k \<union> {p, m1, m2, q, n1, n2} \<and>
        (xdpLink l = None \<longrightarrow> open_fds (Close lib l' k') = open_fds k)"
proof (cases r)
  case None
  from bpf_objects.Load_ok [OF assms(1) assms(4) [unfolded None]] obtain p m1 m2 q n1 n2 where
    h: "tc_handles (tcObjs l') = (Some p, Some m1, Some m2)"
      "xdp_handles (xdpObjs l') = (Some q, Some n1, Some n2)" "distinct [p, m1, m2, q, n1, n2]"
      "{p, m1, m2, q, n1, n2} \<inter> open_fds k = {}"
      "open_fds k' = open_fds k \<union> {p, m1, m2, q, n1, n2}" "xdpLink l' = xdpLink l"
    by (elim exE conjE)
  have "open_fds (Close lib l' k') = open_fds k" if "xdpLink l = None"
  proof -
    have "open_fds (Close lib l' k') = open_fds k' - {p, m1, m2} - {q, n1, n2}"
      using bpf_objects.Close_done [OF assms(1-3), of l' k'] that h(6) unfolding h(1,2)
      by (simp add: handle_fds_def insert_commute)
    then show ?thesis using h(4) unfolding h(5) by blast
  qed
  then have "xdpLink l = None \<longrightarrow> open_fds (Close lib l' k') = open_fds k" by (rule impI)
  with h(1-5) show ?thesis
    unfolding None option.case by (intro exI conjI)
next
  case (Some err)
  then show ?thesis using bpf_objects.Load_fail_open [OF assms(1) _ assms(2)] assms(4) by auto
qed

lemma ref_close_total: "fst (ref_close h k) = None"
  by (cases h) simp_all

lemma ref_tc_close: "fst (TcEgressObjects_Close ref_lib obj k) = None"
  using ref_close_total
  by (auto simp: TcEgressObjects_Close_def ref_lib_def split: prod.splits option.splits)
    (metis fst_conv option.distinct(1))+

lemma ref_xdp_close: "fst (XdpIngressObjects_Close ref_lib obj k) = None"
  using ref_close_total
  by (auto simp: XdpIngressObjects_Close_def XdpIngressClose_eq ref_lib_def
      split: prod.splits option.splits)
    (metis fst_conv option.distinct(1))+

theorem Load_all_or_nothing_witness:
  "ref_open (snd (snd (Load ref_lib [1] XdpIngressBytes New ref_kernel0))) = {}"
proof -
  let ?x = "Load ref_lib [1] XdpIngressBytes New ref_kernel0"
  have "fst ?x = Some (Wrapped ''load xdp_ingress: '' (not_compiled ''xdp_ingress''))"
    by (simp add: Load_def LoadTcEgressObjects_def LoadXdpIngressObjects_def ref_lib_def
        ref_load_def Let_def XdpIngressBytes_def split: prod.splits)
  then have "?x = (Some (Wrapped ''load xdp_ingress: '' (not_compiled ''xdp_ingress'')),
      fst (snd ?x), snd (snd ?x))" by (simp add: prod_eq_iff)
  from Load_all_or_nothing [OF rk.bpf_objects_axioms ref_tc_close ref_xdp_close this]
  show ?thesis by (simp add: ref_open_def ref_kernel0_def)
qed

text \<open>
  As committed, with both embedded objects empty, \<open>Load\<close> always fails, on any kernel: each of
  the two empty blobs is enough, and with the first one nothing at all has been done.
\<close>
lemma Load_fails_as_committed:
  "Load lib TcEgressBytes xb l k =
     (Some (Wrapped ''load tc_egress: '' (not_compiled ''tc_egress'')), l, k) \<and>
   fst (Load lib tb XdpIngressBytes l k) \<noteq> None"
  by (auto simp: Load_def LoadTcEgressObjects_def LoadXdpIngressObjects_def TcEgressBytes_def
      XdpIngressBytes_def split: prod.splits option.splits)

text \<open>
  Closing the egress collection: when it reports no error all three handles are released;
  but it stops at the first failure, so when the program's close fails its error is what is
  returned and both maps stay as they were.
\<close>
lemma TcEgressObjects_Close_stops:
  assumes "bpf_objects lib open_fds" and "TcEgressObjects_Close lib obj k = (r, k')"
    and "tc_handles obj = (Some p, Some m1, Some m2)" and "distinct [p, m1, m2]"
  shows "(r = None \<longrightarrow> open_fds k' = open_fds k - {p, m1, m2}) \<and>
    (\<forall>err k1. ebpf_Program_Close lib (Some p) k = (Some err, k1) \<longrightarrow>
       r = Some err \<and> k' = k1 \<and> {m1, m2} \<inter> open_fds k' = {m1, m2} \<inter> open_fds k)"
proof -
  have "open_fds k' = open_fds k - {p, m1, m2}" if "r = None"
    using bpf_objects.tc_Close_done [OF assms(1), of obj k k'] assms(2,3) that
    by (auto simp: handle_fds_def)
  moreover have "r = Some err \<and> k' = k1 \<and> {m1, m2} \<inter> open_fds k' = {m1, m2} \<inter> open_fds k"
    if "ebpf_Program_Close lib (Some p) k = (Some err, k1)" for err k1
    using bpf_objects.tc_Close_stops [OF assms(1), of obj k err k1 p m1 m2] that assms(2-4)
    by (auto simp: tc_handles_def)
  ultimately show ?thesis by blast
qed

section \<open>Attach and detach\<close>

text \<open>
  C25: detaching after attaching, both without error, leaves the egress filters the interface had
  before except those named tc_egress, and no other interface's or parent's filters changed; the
  clsact queueing discipline stays.
\<close>
theorem AttachTC_DetachTC:
  assumes "netlink_tc lib filters qdiscs"
    and "AttachTC lib l name k = (Return None, k1)" and "DetachTC lib name k1 = (None, k2)"
    and "nl_LinkByName lib name k = Inr i" and "nl_LinkByName lib name k1 = Inr i"
  shows "filters k2 = upd2 (filters k) i (nl_HANDLE_MIN_EGRESS lib)
      (filter (\<lambda>g. \<not> is_tc_egress g) (filters k i (nl_HANDLE_MIN_EGRESS lib))) \<and>
    qdiscs k2 = qdiscs k1"
  using netlink_tc.attach_detach [OF assms] netlink_tc.DetachTC_qdiscs [OF assms(1,3)] by simp

theorem AttachTC_DetachTC_witness:
  "ref_qdiscs (snd (DetachTC ref_lib ''eth0''
     (snd (AttachTC ref_lib demo_loader ''eth0'' demo_kernel)))) \<noteq> {} \<and>
   ref_filters (snd (DetachTC ref_lib ''eth0''
     (snd (AttachTC ref_lib demo_loader ''eth0'' demo_kernel)))) 2 0xfffffff3 = []"
proof -
  define k1 where "k1 = snd (AttachTC ref_lib demo_loader ''eth0'' demo_kernel)"
  define k2 where "k2 = snd (DetachTC ref_lib ''eth0'' k1)"
  note defs = AttachTC_def AttachTC_filter_def DetachTC_def demo_loader_eq demo_kernel_eq
    ref_lib_def ref_kernel0_def ref_link_def ref_qdisc_add_def ref_filter_add_def
    ref_filter_del_def ref_filters_def egress_filter_of_def clsact_of_def
  have a: "AttachTC ref_lib demo_loader ''eth0'' demo_kernel = (Return None, k1)"
    by (simp add: k1_def prod_eq_iff defs)
  have k1: "rk_links k1 = [(''eth0'', 2)]" "rk_qdiscs k1 = [clsact_of ref_lib 2]"
    "rk_filters k1 = [egress_filter_of ref_lib 2 1]"
    by (simp_all add: k1_def defs)
  have links: "nl_LinkByName ref_lib ''eth0'' k1 = Inr 2"
    "nl_LinkByName ref_lib ''eth0'' demo_kernel = Inr 2"
    by (simp_all add: k1 ref_lib_def ref_link_def demo_kernel_eq ref_kernel0_def)
  have d: "DetachTC ref_lib ''eth0'' k1 = (None, k2)"
    by (simp add: k2_def prod_eq_iff DetachTC_def links)
      (simp add: ref_lib_def ref_filters_def k1 ref_filter_del_def egress_filter_of_def)
  have none: "ref_filters demo_kernel = (\<lambda>i p. [])"
    by (simp add: ref_filters_def demo_kernel_eq ref_kernel0_def fun_eq_iff)
  have "ref_filters k2 = upd2 (ref_filters demo_kernel) 2 (nl_HANDLE_MIN_EGRESS ref_lib)
      (filter (\<lambda>g. \<not> is_tc_egress g) (ref_filters demo_kernel 2 (nl_HANDLE_MIN_EGRESS ref_lib))) \<and>
      ref_qdiscs k2 = ref_qdiscs k1"
    by (rule AttachTC_DetachTC [OF rk.netlink_tc_axioms a d links(2,1)])
  then have "ref_qdiscs k2 \<noteq> {} \<and> ref_filters k2 2 0xfffffff3 = []"
    by (simp add: none upd2_apply ref_qdiscs_def k1)
  then show ?thesis unfolding k2_def k1_def .
qed

end
