(* ===== verification/DatapathProps.thy ===== *)
theory DatapathProps
  imports LifecycleProps
begin

text \<open>
  Properties of the two eBPF programs: which packets the ingress program lets in, and the bounds
  of what both read, cut off and add.
\<close>

section \<open>Ingress\<close>

text \<open>
  C24: the XDP program reads maps of its own that nothing writes: in every state the loader can
  reach it drops every SCION packet, and passes all others untouched.
\<close>
theorem ingress_drops_all_scion:
  assumes "bpf_kernel lib entries open_fds filters qdiscs"
    and "loader_reach lib e tb xb (l, k)"
  shows "xdp_ingress verify_mac adjust_head
      (map_of_handle (entries k) (XdpScionPathCache (xdpMaps (xdpObjs l)))) pkt =
    (if scion_udp pkt then (XDP_DROP, pkt) else (XDP_PASS, pkt))"
  using loader_inv_xdp_cache [OF bpf_kernel.loader_reach_inv [OF assms]]
  by (simp add: xdp_ingress_empty_cache)

text \<open>Headers up to the SCION header, to port 30041.\<close>

definition demo_scion_headers :: "byte list" where
  "demo_scion_headers = replicate 12 0 @ [8, 0, 0x45] @ replicate 8 0 @ [17] @ replicate 12 0
     @ [0x75, 0x59, 0, 0, 0, 0]"

theorem ingress_drops_all_scion_witness:
  "xdp_ingress (\<lambda>_ _ _ _. True) (\<lambda>_. True)
     (map_of_handle (ref_entries (snd (UpdateScionPath ref_lib LittleEndian demo_loader 0 demo_entry
        demo_kernel))) (XdpScionPathCache (xdpMaps (xdpObjs demo_loader)))) demo_scion_headers =
   (XDP_DROP, demo_scion_headers)"
proof -
  let ?x = "UpdateScionPath ref_lib LittleEndian demo_loader 0 demo_entry demo_kernel"
  have "run_map_op ref_lib LittleEndian demo_loader (OpUpdatePath 0 demo_entry) demo_kernel =
      (fst ?x, snd ?x)" by simp
  then have "loader_step ref_lib LittleEndian (demo_loader, demo_kernel) (demo_loader, snd ?x)"
    by (rule loader_step.step_map)
  then have reach: "loader_reach ref_lib LittleEndian [1] [2] (demo_loader, snd ?x)"
    by (rule loader_reach.reach_step [OF reach_demo])
  have "scion_udp demo_scion_headers" by code_simp
  then show ?thesis
    unfolding ingress_drops_all_scion [OF rk.bpf_kernel_axioms reach] by simp
qed

text \<open>
  C31: whatever the cache holds, a SCION packet the program lets in had its hop field's MAC
  verified with the key of cache entry 0 and leaves shorter by its encapsulation, 59 to 6239
  bytes; the info field and the hop field read lie inside the packet and what leaves still has an
  Ethernet and an IPv4 header.  Nothing compares the hop field pointer with the number of hop
  fields: the hop field lies inside the path header only if the packet says so, otherwise its
  bytes are the inner packet's.
\<close>
theorem ingress_pass_bounds:
  assumes "xdp_ingress verify_mac adjust_head scion_path_cache pkt = (XDP_PASS, out)"
    and "scion_udp pkt"
  shows "\<exists>v n. n = ingress_encap_len pkt (meta_offset pkt) \<and> 59 \<le> n \<and> n \<le> 6239 \<and>
    sizeof_ethhdr + n = path_end pkt + sizeof_cilium_e2e_ext \<and>
    sizeof_ethhdr + n \<le> length pkt \<and> length out = length pkt - n \<and>
    sizeof_ethhdr + sizeof_iphdr \<le> length out \<and>
    out = take 12 pkt @ ETH_P_IP @ drop (sizeof_ethhdr + n) pkt \<and>
    info_offset pkt + sizeof_scion_info_field \<le> length pkt \<and>
    hop_offset pkt + sizeof_scion_hop_field \<le> length pkt \<and>
    (hop_offset pkt + sizeof_scion_hop_field \<le> path_end pkt \<longleftrightarrow>
     meta_cur_hf pkt (meta_offset pkt) < meta_num_hf pkt (meta_offset pkt)) \<and>
    scion_path_cache [0, 0, 0, 0] = Some v \<and> adjust_head n \<and>
    verify_mac (mac_key (c_entry e v)) (info_offset pkt) (hop_offset pkt) pkt"
proof -
  have key: "mac_key (c_entry e v) = slice 268 16 v" for v
    by (simp add: c_entry_def Let_def c_entry_fields_def [symmetric])
      (simp add: c_entry_fields_def)
  from assms have "xdp_scion verify_mac adjust_head scion_path_cache pkt = (XDP_PASS, out)"
    by (simp add: xdp_ingress_def)
  from xdp_scion_pass [OF this] obtain v n where
    r: "n = ingress_encap_len pkt (meta_offset pkt)" "sizeof_ethhdr + n \<le> length pkt"
      "info_offset pkt + sizeof_scion_info_field \<le> length pkt"
      "hop_offset pkt + sizeof_scion_hop_field \<le> length pkt"
      "scion_path_cache [0, 0, 0, 0] = Some v"
      "verify_mac (mac_key (c_entry e v)) (info_offset pkt) (hop_offset pkt) pkt"
      "adjust_head n" "out = take 12 pkt @ ETH_P_IP @ drop (sizeof_ethhdr + n) pkt"
      "sizeof_ethhdr + sizeof_iphdr \<le> length out"
    unfolding key by blast
  have "length out = length pkt - n" using r(2,8) by (rule decapsulated_length)
  moreover have "59 \<le> n \<and> n \<le> 6239" unfolding r(1) by (rule ingress_encap_len_bounds)
  moreover have "sizeof_ethhdr + n = path_end pkt + sizeof_cilium_e2e_ext"
    unfolding r(1) by (rule path_end_encap)
  ultimately show ?thesis
    by (intro exI [of _ v] exI [of _ n] conjI hop_in_path_iff) (use r in simp_all)
qed

text \<open>
  One info field and one hop field, a hop field pointer past them, and an inner packet that holds
  the hop field the program then verifies.
\<close>

definition demo_scion_packet :: "byte list" where
  "demo_scion_packet = demo_scion_headers @ replicate 36 0 @ [4, 0, 0, 0, 0, 1, 1]
     @ replicate 32 0 @ [0x45] @ replicate 19 0"

theorem ingress_pass_bounds_witness:
  "path_end demo_scion_packet = 109 \<and> hop_offset demo_scion_packet = 109 \<and>
   take 12 demo_scion_packet @ [8, 0] @ [0x45] @ replicate 19 0 =
     take 12 demo_scion_packet @ ETH_P_IP @ drop (sizeof_ethhdr + 103) demo_scion_packet"
proof -
  let ?vm = "\<lambda>key inf hf pkt. key = replicate 16 9 \<and> inf = 85 \<and> hf = (109 :: nat)"
  let ?pc = "\<lambda>_. Some (entry_memory LittleEndian demo_entry)"
  have run: "xdp_ingress ?vm (\<lambda>n. n = 103) ?pc demo_scion_packet =
      (XDP_PASS, take 12 demo_scion_packet @ [8, 0] @ [0x45] @ replicate 19 0)"
    by code_simp
  have udp: "scion_udp demo_scion_packet" by code_simp
  show ?thesis
    using ingress_pass_bounds [OF run udp, of LittleEndian]
    by (auto simp: sizeof_ethhdr_def sizeof_cilium_e2e_ext_def)
qed

section \<open>Egress\<close>

text \<open>
  C35: whatever the maps and the packet hold, the egress program asks for room and writes headers
  only for 72 to 328 bytes, the fixed headers and a path of at most 256 bytes: helpers that agree
  there make the same program; and a packet it encapsulates passes with the length of its own
  path, which fits into the entry's \<open>hop_fields\<close>.
\<close>
theorem egress_room_bounded:
  assumes "\<forall>n. 72 \<le> n \<and> n \<le> 328 \<longrightarrow> adjust_room n = adjust_room' n"
    and "\<forall>p. unat (path_len p) \<le> 256 \<longrightarrow>
      write_headers p (72 + unat (path_len p)) = write_headers' p (72 + unat (path_len p))"
    and "\<forall>v \<in> ran path_map. length v = 284"
  shows "tc_egress e adjust_room write_headers pod_map path_map pkt =
      tc_egress e adjust_room' write_headers' pod_map path_map pkt \<and>
    (\<forall>act p n. tc_egress e adjust_room write_headers pod_map path_map pkt = (act, Some (p, n)) \<longrightarrow>
      act = TC_ACT_OK \<and> n = 72 + unat (path_len p) \<and> n \<le> 328 \<and>
      unat (path_len p) \<le> length (hop_fields p))"
proof (intro conjI allI impI)
  show "tc_egress e adjust_room write_headers pod_map path_map pkt =
      tc_egress e adjust_room' write_headers' pod_map path_map pkt"
    by (rule tc_egress_helpers_cong) (use assms(1,2) in blast)+
next
  fix act p n
  assume "tc_egress e adjust_room write_headers pod_map path_map pkt = (act, Some (p, n))"
  from tc_egress_encapsulated [OF this]
  have r: "act = TC_ACT_OK" "n = 72 + unat (path_len p)" "unat (path_len p) \<le> MAX_PATH_LEN"
    and "p \<in> c_entry e ` ran path_map" by simp_all
  then have "length (hop_fields p) = MAX_PATH_LEN" using assms(3) length_hop_fields by blast
  with r show "act = TC_ACT_OK" "n = 72 + unat (path_len p)" "n \<le> 328"
    "unat (path_len p) \<le> length (hop_fields p)"
    by (simp_all add: MAX_PATH_LEN_def)
qed

text \<open>A path that fills the entry.\<close>

definition full_entry :: ScionPathEntry where
  "full_entry = demo_entry\<lparr>PathLen := 256\<rparr>"

theorem egress_room_bounded_witness:
  "tc_egress LittleEndian (\<lambda>n. n < 1000) (\<lambda>_ _. True) (\<lambda>_. Some [7, 0, 0, 0])
     (\<lambda>_. Some (entry_memory LittleEndian full_entry)) demo_packet =
   tc_egress LittleEndian (\<lambda>n. n < 329) (\<lambda>_ n. n < 329) (\<lambda>_. Some [7, 0, 0, 0])
     (\<lambda>_. Some (entry_memory LittleEndian full_entry)) demo_packet \<and>
   snd (tc_egress LittleEndian (\<lambda>n. n < 1000) (\<lambda>_ _. True) (\<lambda>_. Some [7, 0, 0, 0])
     (\<lambda>_. Some (entry_memory LittleEndian full_entry)) demo_packet) =
   Some (c_view LittleEndian full_entry, 328)"
proof -
  let ?pc = "\<lambda>_ :: byte list. Some (entry_memory LittleEndian full_entry)"
  let ?run = "\<lambda>adj wr. tc_egress LittleEndian adj wr (\<lambda>_. Some [7, 0, 0, 0]) ?pc demo_packet"
  have wf: "wf_entry full_entry" by (simp add: full_entry_def wf_entry_def demo_entry_def)
  have len: "\<forall>v \<in> ran ?pc. length v = 284"
    by (simp add: ran_def length_entry_memory [OF wf])
  have "ipv4_from [10, 1, 0, 5] demo_packet" by code_simp
  then have "?run (\<lambda>n. n < 1000) (\<lambda>_ _. True) =
      (TC_ACT_OK, Some (c_view LittleEndian full_entry, 328))"
    by (simp add: tc_egress_ipv4 c_entry_view [OF wf] egress_encap_len_eq MAX_PATH_LEN_def Let_def)
      (simp add: c_view_def full_entry_def)
  moreover have "?run (\<lambda>n. n < 1000) (\<lambda>_ _. True) = ?run (\<lambda>n. n < 329) (\<lambda>_ n. n < 329)"
    by (rule egress_room_bounded [THEN conjunct1]) (use len in auto)
  ultimately show ?thesis by simp
qed

end
