(* ===== verification/Encap.thy ===== *)
theory Encap
  imports Datapath
begin

text \<open>
  What the eBPF programs write: the outer headers of \<open>write_scion_headers\<close> in \<open>bpf/tc_egress.c\<close>,
  and the MAC code of \<open>bpf/scion_mac.h\<close>.  Two variables of \<open>write_scion_headers\<close>, \<open>scion\<close> and
  \<open>meta\<close>, are declared nowhere: the offsets they should hold are arguments.  \<open>verify_scion_mac\<close>
  subscripts the 48-bit field \<open>mac\<close>, which C does not allow: it is read as the field's six bytes.
  The kernel's \<open>bpf_skb_adjust_room\<close> is an argument, with the documented part of it as a locale.
\<close>

section \<open>Writing bytes\<close>

text \<open>Bytes stored from an offset on; a packet never changes its length by a store.\<close>

fun put :: "nat \<Rightarrow> 'a list \<Rightarrow> 'a list \<Rightarrow> 'a list" where
  "put off [] q = q"
| "put off (b # bs) q = put (Suc off) bs (q[off := b])"

lemma length_put [simp]: "length (put off bs q) = length q"
  by (induction off bs q rule: put.induct) simp_all

lemma nth_put:
  "i < length q \<Longrightarrow>
     put off bs q ! i = (if off \<le> i \<and> i < off + length bs then bs ! (i - off) else q ! i)"
proof (induction off bs q rule: put.induct)
  case (2 off b bs q)
  then show ?case
    by (cases "i = off") (auto simp: Suc_diff_Suc nth_Cons' nth_list_update)
qed auto

lemma take_put: "n \<le> off \<Longrightarrow> take n (put off bs q) = take n q"
  by (rule nth_equalityI) (simp_all add: nth_put)

lemma put_middle:
  "off = length xs \<Longrightarrow> length ys = length bs \<Longrightarrow> put off bs (xs @ ys @ zs) = xs @ bs @ zs"
  by (rule nth_equalityI) (auto simp: nth_put nth_append)

lemma put_id:
  assumes "off + length bs \<le> length q" and "slice off (length bs) q = bs"
  shows "put off bs q = q"
proof (rule nth_equalityI)
  fix i assume "i < length (put off bs q)"
  then have i: "i < length q" by simp
  have "bs ! (i - off) = q ! i" if "off \<le> i" "i < off + length bs"
    using that assms(1) by (subst assms(2) [symmetric]) (simp add: slice_def)
  then show "put off bs q ! i = q ! i" using i by (simp add: nth_put)
qed simp

section \<open>The MAC code\<close>

definition SCION_MAC_LEN :: nat where
  "SCION_MAC_LEN = 6"

text \<open>Where \<open>mac\<close> lies in a hop field.\<close>

definition offsetof_mac :: nat where
  "offsetof_mac = 8"

text \<open>Result code and MAC; the arguments are not used.\<close>

definition calculate_scion_mac :: "byte list \<Rightarrow> nat \<Rightarrow> nat \<Rightarrow> byte list \<Rightarrow> int \<times> byte list" where
  "calculate_scion_mac key info hf pkt = (0, replicate SCION_MAC_LEN 0)"

definition verify_scion_mac :: "byte list \<Rightarrow> nat \<Rightarrow> nat \<Rightarrow> byte list \<Rightarrow> int" where
  "verify_scion_mac key info hf pkt =
     (case calculate_scion_mac key info hf pkt of
        (r, computed_mac) \<Rightarrow>
          if r < 0 then -1
          else if computed_mac \<noteq> slice (hf + offsetof_mac) SCION_MAC_LEN pkt then -2
          else 0)"

lemma verify_scion_mac_iff:
  "verify_scion_mac key info hf pkt = 0 \<longleftrightarrow>
     slice (hf + offsetof_mac) SCION_MAC_LEN pkt = replicate SCION_MAC_LEN 0"
  by (auto simp: verify_scion_mac_def calculate_scion_mac_def)

section \<open>write_scion_headers\<close>

text \<open>
  \<open>skb->len\<close>, which also counts the bytes outside the linear part, less a header, as the network
  order \<open>u16\<close> that \<open>bpf_htons\<close> makes of it.
\<close>

definition length_field :: "u32 \<Rightarrow> nat \<Rightarrow> byte list" where
  "length_field len hdr = binary_PutUint16 BigEndian (ucast len - of_nat hdr)"

text \<open>The fields of the three outer headers; the source address is left as it is.\<close>

definition write_eth :: "scion_path_entry \<Rightarrow> byte list \<Rightarrow> byte list" where
  "write_eth path q = put 12 ETH_P_IP (put 0 (next_hop_mac path) q)"

definition write_ipv4 :: "endian \<Rightarrow> u32 \<Rightarrow> scion_path_entry \<Rightarrow> byte list \<Rightarrow> byte list" where
  "write_ipv4 e skb_len path q =
     put 30 (binary_PutUint32 e (next_hop_ip path))
       (put 22 [64, IPPROTO_UDP, 0, 0]
         (put 14 ([0x45, 0] @ length_field skb_len sizeof_ethhdr @ [0, 0, 0, 0]) q))"

definition write_udp :: "u32 \<Rightarrow> byte list \<Rightarrow> byte list" where
  "write_udp skb_len q =
     put 34 (SCION_UDP_PORT @ SCION_UDP_PORT
       @ length_field skb_len (sizeof_ethhdr + sizeof_iphdr) @ [0, 0]) q"

text \<open>\<open>None\<close> is a negative result.\<close>

definition write_scion_headers ::
  "endian \<Rightarrow> u32 \<Rightarrow> nat \<Rightarrow> nat \<Rightarrow> scion_path_entry \<Rightarrow> byte list \<Rightarrow> byte list option" where
  "write_scion_headers e skb_len scion meta path q =
     (if length q < sizeof_ethhdr then None
      else let q1 = write_eth path q
        in if length q1 < sizeof_ethhdr + sizeof_iphdr then None
           else let q2 = write_ipv4 e skb_len path q1
             in if length q2 < sizeof_ethhdr + sizeof_iphdr + sizeof_udphdr then None
                else let q3 = write_udp skb_len q2;
                         info = scion + sizeof_scion_hdr + sizeof_scion_addr_hdr_v4
                                 + sizeof_scion_path_meta_hdr;
                         hf = info + meta_num_inf q3 meta * sizeof_scion_info_field
                     in (case calculate_scion_mac (mac_key path) info hf q3 of
                           (r, mac) \<Rightarrow>
                             if r < 0 then None else Some (put (hf + offsetof_mac) mac q3)))"

section \<open>tc_egress on packets\<close>

text \<open>
  The decision of \<open>tc_egress\<close> with the two helpers on the packet: \<open>adjust_room n\<close> opens \<open>n\<close> bytes in
  the linear part, \<open>paged\<close> is the number of bytes outside it.  Action and packet; a packet that is
  shot is given as it came.
\<close>

definition encapsulate ::
  "endian \<Rightarrow> (nat \<Rightarrow> byte list \<Rightarrow> byte list option) \<Rightarrow> nat \<Rightarrow> nat \<Rightarrow> nat \<Rightarrow> scion_path_entry \<Rightarrow> nat \<Rightarrow>
     byte list \<Rightarrow> byte list option" where
  "encapsulate e adjust_room paged scion meta path n pkt =
     (case adjust_room n pkt of
        None \<Rightarrow> None
      | Some q \<Rightarrow> write_scion_headers e (of_nat (length q + paged)) scion meta path q)"

definition tc_egress_packet ::
  "endian \<Rightarrow> (nat \<Rightarrow> byte list \<Rightarrow> byte list option) \<Rightarrow> nat \<Rightarrow> nat \<Rightarrow> nat \<Rightarrow>
     (byte list \<rightharpoonup> byte list) \<Rightarrow> (byte list \<rightharpoonup> byte list) \<Rightarrow> byte list \<Rightarrow> tc_action \<times> byte list" where
  "tc_egress_packet e adjust_room paged scion meta pod_policy_map scion_path_cache pkt =
     (case tc_egress e (\<lambda>n. adjust_room n pkt \<noteq> None)
             (\<lambda>path n. encapsulate e adjust_room paged scion meta path n pkt \<noteq> None)
             pod_policy_map scion_path_cache pkt of
        (act, None) \<Rightarrow> (act, pkt)
      | (act, Some (path, n)) \<Rightarrow>
          (case encapsulate e adjust_room paged scion meta path n pkt of
             None \<Rightarrow> (act, pkt) | Some q \<Rightarrow> (act, q)))"

text \<open>\<open>BPF_ADJ_ROOM_MAC\<close>: room is inserted after the Ethernet header.\<close>

locale skb_room =
  fixes adjust_room :: "nat \<Rightarrow> byte list \<Rightarrow> byte list option"
  assumes room: "adjust_room n pkt = Some q \<Longrightarrow>
    \<exists>gap. length gap = n \<and> q = take sizeof_ethhdr pkt @ gap @ drop sizeof_ethhdr pkt"

text \<open>The kernel zeroes the bytes that it inserts.\<close>

locale skb_room_zero =
  fixes adjust_room :: "nat \<Rightarrow> byte list \<Rightarrow> byte list option"
  assumes zero_room: "adjust_room n pkt = Some q \<Longrightarrow>
    q = take sizeof_ethhdr pkt @ replicate n 0 @ drop sizeof_ethhdr pkt"

sublocale skb_room_zero < skb_room adjust_room
proof
  fix n pkt q
  assume "adjust_room n pkt = Some q"
  then show "\<exists>gap. length gap = n \<and> q = take sizeof_ethhdr pkt @ gap @ drop sizeof_ethhdr pkt"
    by (intro exI [of _ "replicate n 0"]) (auto dest: zero_room)
qed

section \<open>The outer headers\<close>

lemma length_length_field [simp]: "length (length_field len hdr) = 2"
  by (simp add: length_field_def)

definition outer_headers :: "endian \<Rightarrow> u32 \<Rightarrow> scion_path_entry \<Rightarrow> byte list \<Rightarrow> byte list" where
  "outer_headers e skb_len path q =
     next_hop_mac path @ slice 6 6 q @ ETH_P_IP
     @ ([0x45, 0] @ length_field skb_len sizeof_ethhdr @ [0, 0, 0, 0]) @ [64, IPPROTO_UDP, 0, 0]
     @ slice 26 4 q @ binary_PutUint32 e (next_hop_ip path)
     @ SCION_UDP_PORT @ SCION_UDP_PORT @ length_field skb_len (sizeof_ethhdr + sizeof_iphdr) @ [0, 0]"

lemma length_outer_headers:
  "length (next_hop_mac path) = 6 \<Longrightarrow> 42 \<le> length q \<Longrightarrow> length (outer_headers e sl path q) = 42"
  by (simp add: outer_headers_def slice_def ETH_P_IP_def SCION_UDP_PORT_def)

lemma written_pieces:
  assumes "length (next_hop_mac path) = 6" and "length s0 = 6" "length s1 = 6" "length s2 = 2"
    "length s3 = 8" "length s4 = 4" "length s5 = 4" "length s6 = 4" "length s7 = 8"
  shows "write_udp sl (write_ipv4 e sl path (write_eth path
      (s0 @ s1 @ s2 @ s3 @ s4 @ s5 @ s6 @ s7 @ rest))) =
    next_hop_mac path @ s1 @ ETH_P_IP
      @ ([0x45, 0] @ length_field sl sizeof_ethhdr @ [0, 0, 0, 0]) @ [64, IPPROTO_UDP, 0, 0]
      @ s5 @ binary_PutUint32 e (next_hop_ip path)
      @ (SCION_UDP_PORT @ SCION_UDP_PORT @ length_field sl (sizeof_ethhdr + sizeof_iphdr) @ [0, 0])
      @ rest"
proof -
  let ?m = "next_hop_mac path" and ?ip = "binary_PutUint32 e (next_hop_ip path)"
  let ?a = "[0x45, 0] @ length_field sl sizeof_ethhdr @ [0, 0, 0, 0]"
  let ?b = "[64, IPPROTO_UDP, 0, 0]"
  let ?u = "SCION_UDP_PORT @ SCION_UDP_PORT @ length_field sl (sizeof_ethhdr + sizeof_iphdr) @ [0, 0]"
  have len: "length ?a = 8" "length ?b = 4" "length ?u = 8" "length ETH_P_IP = 2" "length ?ip = 4"
    by (simp_all add: ETH_P_IP_def SCION_UDP_PORT_def)
  have "put 0 ?m (s0 @ s1 @ s2 @ s3 @ s4 @ s5 @ s6 @ s7 @ rest) =
      ?m @ s1 @ s2 @ s3 @ s4 @ s5 @ s6 @ s7 @ rest"
    using put_middle [of 0 "[]" s0 ?m] assms by simp
  moreover have "put 12 ETH_P_IP (?m @ s1 @ s2 @ s3 @ s4 @ s5 @ s6 @ s7 @ rest) =
      ?m @ s1 @ ETH_P_IP @ s3 @ s4 @ s5 @ s6 @ s7 @ rest"
    using put_middle [of 12 "?m @ s1" s2 ETH_P_IP] assms len by simp
  moreover have "put 14 ?a (?m @ s1 @ ETH_P_IP @ s3 @ s4 @ s5 @ s6 @ s7 @ rest) =
      ?m @ s1 @ ETH_P_IP @ ?a @ s4 @ s5 @ s6 @ s7 @ rest"
    using put_middle [of 14 "?m @ s1 @ ETH_P_IP" s3 ?a] assms len by simp
  moreover have "put 22 ?b (?m @ s1 @ ETH_P_IP @ ?a @ s4 @ s5 @ s6 @ s7 @ rest) =
      ?m @ s1 @ ETH_P_IP @ ?a @ ?b @ s5 @ s6 @ s7 @ rest"
    using put_middle [of 22 "?m @ s1 @ ETH_P_IP @ ?a" s4 ?b] assms len by simp
  moreover have "put 30 ?ip (?m @ s1 @ ETH_P_IP @ ?a @ ?b @ s5 @ s6 @ s7 @ rest) =
      ?m @ s1 @ ETH_P_IP @ ?a @ ?b @ s5 @ ?ip @ s7 @ rest"
    using put_middle [of 30 "?m @ s1 @ ETH_P_IP @ ?a @ ?b @ s5" s6 ?ip] assms len by simp
  moreover have "put 34 ?u (?m @ s1 @ ETH_P_IP @ ?a @ ?b @ s5 @ ?ip @ s7 @ rest) =
      ?m @ s1 @ ETH_P_IP @ ?a @ ?b @ s5 @ ?ip @ ?u @ rest"
    using put_middle [of 34 "?m @ s1 @ ETH_P_IP @ ?a @ ?b @ s5 @ ?ip" s7 ?u] assms len by simp
  ultimately show ?thesis
    by (simp only: write_eth_def write_ipv4_def write_udp_def)
qed

lemma slice_cut: "drop a q = slice a n q @ drop (a + n) q"
  using append_take_drop_id [of n "drop a q"] by (simp add: slice_def drop_drop add.commute)

lemma written_headers:
  assumes "length (next_hop_mac path) = 6" and "42 \<le> length q"
  shows "write_udp sl (write_ipv4 e sl path (write_eth path q)) = outer_headers e sl path q @ drop 42 q"
proof -
  have q: "q = slice 0 6 q @ slice 6 6 q @ slice 12 2 q @ slice 14 8 q @ slice 22 4 q @ slice 26 4 q
      @ slice 30 4 q @ slice 34 8 q @ drop 42 q"
    using slice_cut [of 0 q 6] slice_cut [of 6 q 6] slice_cut [of 12 q 2] slice_cut [of 14 q 8]
      slice_cut [of 22 q 4] slice_cut [of 26 q 4] slice_cut [of 30 q 4] slice_cut [of 34 q 8]
    by simp
  have len: "length (slice a n q) = n" if "a + n \<le> 42" for a n
    using assms(2) that by (simp add: slice_def)
  show ?thesis
    by (subst q, subst written_pieces) (use assms(1) in \<open>simp_all add: len outer_headers_def\<close>)
qed

text \<open>All of it: the headers, and a zeroed MAC somewhere behind them.\<close>

lemma write_scion_headers_eq:
  assumes "length (next_hop_mac path) = 6"
  shows "write_scion_headers e sl scion meta path q =
    (if length q < 42 then None
     else let q3 = outer_headers e sl path q @ drop 42 q
       in Some (put (scion + 43 + meta_num_inf q3 meta * 8 + 8) (replicate 6 0) q3))"
proof (cases "length q < 42")
  case False
  then show ?thesis
    using written_headers [OF assms, of q]
    by (simp add: write_scion_headers_def calculate_scion_mac_def Let_def sizeofs write_eth_def
        write_ipv4_def write_udp_def SCION_MAC_LEN_def offsetof_mac_def)
next
  case True
  then show ?thesis
    by (simp add: write_scion_headers_def Let_def sizeofs write_eth_def write_ipv4_def write_udp_def)
qed

section \<open>An encapsulated packet\<close>

text \<open>The offsets the two undeclared variables should hold: of the headers they are named after.\<close>

definition egress_scion :: nat where
  "egress_scion = sizeof_ethhdr + sizeof_iphdr + sizeof_udphdr"

definition egress_meta :: nat where
  "egress_meta = egress_scion + sizeof_scion_hdr + sizeof_scion_addr_hdr_v4"

lemmas egress_offsets = egress_scion_def egress_meta_def sizeofs

lemma length_next_hop_mac: "length v = 284 \<Longrightarrow> length (next_hop_mac (c_entry e v)) = 6"
  by (simp add: c_entry_def Let_def c_entry_fields_def [symmetric])
    (simp add: c_entry_fields_def slice_def)

text \<open>
  The packet that leaves: the outer headers, the rest of the room that was opened, with a zeroed
  MAC in it, and the packet that came without its Ethernet header.
\<close>

definition encapsulated ::
  "endian \<Rightarrow> nat \<Rightarrow> scion_path_entry \<Rightarrow> byte list \<Rightarrow> byte list \<Rightarrow> byte list" where
  "encapsulated e paged path gap pkt =
     (let q = take sizeof_ethhdr pkt @ gap @ drop sizeof_ethhdr pkt
      in put (93 + unat (gap ! 70) * 8) (replicate SCION_MAC_LEN 0)
           (outer_headers e (of_nat (length q + paged)) path q
             @ drop 28 gap @ drop sizeof_ethhdr pkt))"

context skb_room
begin

lemma encapsulate_eq:
  assumes "adjust_room n pkt = Some q" and "length v = 284" and "14 \<le> length pkt" and "72 \<le> n"
  shows "\<exists>gap. length gap = n \<and> q = take sizeof_ethhdr pkt @ gap @ drop sizeof_ethhdr pkt \<and>
    encapsulate e adjust_room paged egress_scion egress_meta (c_entry e v) n pkt =
      Some (encapsulated e paged (c_entry e v) gap pkt)"
proof -
  from room [OF assms(1)] obtain gap
    where gap: "length gap = n" "q = take sizeof_ethhdr pkt @ gap @ drop sizeof_ethhdr pkt" by blast
  let ?H = "outer_headers e (of_nat (length q + paged)) (c_entry e v) q"
  have long: "42 \<le> length q" and rest: "drop 42 q = drop 28 gap @ drop sizeof_ethhdr pkt"
    using gap assms(3,4) by (simp_all add: sizeof_ethhdr_def)
  have H: "length ?H = 42"
    using length_next_hop_mac [OF assms(2)] long by (rule length_outer_headers)
  have "meta_num_inf (?H @ drop 42 q) egress_meta = unat (gap ! 70)"
    unfolding rest using H gap(1) assms(4)
    by (simp add: meta_num_inf_def egress_offsets nth_append less_diff_conv)
  moreover have "encapsulate e adjust_room paged egress_scion egress_meta (c_entry e v) n pkt =
      Some (put (egress_scion + 43 + meta_num_inf (?H @ drop 42 q) egress_meta * 8 + 8)
        (replicate 6 0) (?H @ drop 42 q))"
    using long
    by (simp add: encapsulate_def assms(1) write_scion_headers_eq [OF length_next_hop_mac [OF assms(2)]]
        Let_def linorder_not_less [symmetric])
  moreover have "egress_scion + 43 + x + 8 = 93 + x" for x
    by (simp add: egress_offsets)
  ultimately have "encapsulate e adjust_room paged egress_scion egress_meta (c_entry e v) n pkt =
      Some (encapsulated e paged (c_entry e v) gap pkt)"
    by (simp only: encapsulated_def Let_def gap(2) [symmetric] rest SCION_MAC_LEN_def)
  with gap show ?thesis by blast
qed

lemma tc_egress_packet_eq:
  assumes "ipv4_from a pkt" and "pm a = Some i" and "pc i = Some v" and "length v = 284"
    and "unat (path_len (c_entry e v)) \<le> MAX_PATH_LEN"
    and "adjust_room (72 + unat (path_len (c_entry e v))) pkt = Some q"
  shows "\<exists>gap. length gap = 72 + unat (path_len (c_entry e v)) \<and>
    q = take sizeof_ethhdr pkt @ gap @ drop sizeof_ethhdr pkt \<and>
    tc_egress_packet e adjust_room paged egress_scion egress_meta pm pc pkt =
      (TC_ACT_OK, encapsulated e paged (c_entry e v) gap pkt)"
proof -
  have "14 \<le> length pkt" using assms(1) by (simp add: ipv4_from_def sizeofs)
  from encapsulate_eq [OF assms(6,4) this, of e paged] obtain gap where
    "length gap = 72 + unat (path_len (c_entry e v))"
    "q = take sizeof_ethhdr pkt @ gap @ drop sizeof_ethhdr pkt"
    "encapsulate e adjust_room paged egress_scion egress_meta (c_entry e v)
      (72 + unat (path_len (c_entry e v))) pkt = Some (encapsulated e paged (c_entry e v) gap pkt)"
    by auto
  then show ?thesis
    using assms
    by (auto simp: tc_egress_packet_def tc_egress_ipv4 [OF assms(1)] egress_encap_len_eq Let_def
        simp del: not_None_eq)
qed

end

text \<open>Its length and its start.\<close>

lemma encapsulated_parts:
  fixes e :: endian and paged :: nat
  assumes "length (next_hop_mac path) = 6" and "14 \<le> length pkt" and "72 \<le> length gap"
  defines "r \<equiv> encapsulated e paged path gap pkt"
    and "q \<equiv> take sizeof_ethhdr pkt @ gap @ drop sizeof_ethhdr pkt"
  shows "length r = length pkt + length gap"
    and "take 42 r = outer_headers e (of_nat (length r + paged)) path q"
proof -
  let ?H = "outer_headers e (of_nat (length q + paged)) path q"
  have q: "length q = length pkt + length gap" using assms(2,3) by (simp add: q_def sizeof_ethhdr_def)
  have H: "length ?H = 42" by (rule length_outer_headers [OF assms(1)]) (use q assms(3) in simp)
  have r: "r = put (93 + unat (gap ! 70) * 8) (replicate SCION_MAC_LEN 0)
      (?H @ drop 28 gap @ drop sizeof_ethhdr pkt)"
    by (simp add: r_def encapsulated_def Let_def q_def)
  show len: "length r = length pkt + length gap"
    using H assms(2,3) by (simp add: r sizeof_ethhdr_def)
  show "take 42 r = outer_headers e (of_nat (length r + paged)) path q"
    unfolding len unfolding r using H by (simp add: take_put flip: q)
qed

section \<open>An encapsulated packet without a path\<close>

text \<open>
  In zeroed room nothing is written behind the outer headers but a MAC of zeros, wherever in it the
  two undeclared pointers point: the whole rest of the room stays zero.
\<close>

definition bare_packet :: "endian \<Rightarrow> nat \<Rightarrow> scion_path_entry \<Rightarrow> nat \<Rightarrow> byte list \<Rightarrow> byte list" where
  "bare_packet e paged path n pkt =
     (let q = take sizeof_ethhdr pkt @ replicate n 0 @ drop sizeof_ethhdr pkt
      in outer_headers e (of_nat (length q + paged)) path q
           @ replicate (n - 28) 0 @ drop sizeof_ethhdr pkt)"

lemma length_bare_packet:
  assumes "length (next_hop_mac path) = 6" and "14 \<le> length pkt" and "28 \<le> n"
  shows "length (bare_packet e paged path n pkt) = length pkt + n"
  using assms length_outer_headers [OF assms(1),
      of "take sizeof_ethhdr pkt @ replicate n 0 @ drop sizeof_ethhdr pkt"]
  by (simp add: bare_packet_def Let_def sizeof_ethhdr_def)

lemma bare_packet_room:
  assumes "length (next_hop_mac path) = 6" and "14 \<le> length pkt" and "28 \<le> n"
  shows "take 42 (bare_packet e paged path n pkt) =
      outer_headers e (of_nat (length pkt + n + paged)) path
        (take sizeof_ethhdr pkt @ replicate n 0 @ drop sizeof_ethhdr pkt)"
    and "drop 42 (bare_packet e paged path n pkt) = replicate (n - 28) 0 @ drop sizeof_ethhdr pkt"
    and "42 \<le> i \<Longrightarrow> i + j \<le> 14 + n \<Longrightarrow> slice i j (bare_packet e paged path n pkt) = replicate j 0"
    and "42 \<le> i \<Longrightarrow> i < 14 + n \<Longrightarrow> bare_packet e paged path n pkt ! i = 0"
proof -
  let ?r = "bare_packet e paged path n pkt"
  let ?q = "take sizeof_ethhdr pkt @ replicate n 0 @ drop sizeof_ethhdr pkt"
  have q: "length ?q = length pkt + n" using assms(2) by (simp add: sizeof_ethhdr_def)
  have H: "length (outer_headers e sl path ?q) = 42" for sl
    by (rule length_outer_headers [OF assms(1)]) (use q assms(2,3) in simp)
  have r: "?r = outer_headers e (of_nat (length pkt + n + paged)) path ?q
      @ replicate (n - 28) 0 @ drop sizeof_ethhdr pkt"
    by (simp only: bare_packet_def Let_def q)
  show start: "take 42 ?r = outer_headers e (of_nat (length pkt + n + paged)) path ?q"
    and rest: "drop 42 ?r = replicate (n - 28) 0 @ drop sizeof_ethhdr pkt"
    using H by (simp_all add: r)
  have "slice i j ?r = slice (i - 42) j (drop 42 ?r)" if "42 \<le> i" for i j
    using that by (simp add: slice_def)
  then show "slice i j ?r = replicate j 0" if "42 \<le> i" "i + j \<le> 14 + n"
    unfolding rest using that by (simp add: slice_def)
  show "?r ! i = 0" if "42 \<le> i" "i < 14 + n"
    using that H assms(3) by (auto simp: r nth_append)
qed

context skb_room_zero
begin

lemma encapsulate_zero:
  assumes "adjust_room n pkt = Some q" and mac: "length (next_hop_mac path) = 6"
    and len: "14 \<le> length pkt" "28 \<le> n"
    and scion: "42 \<le> scion" "scion + 57 \<le> 14 + n" and meta: "42 \<le> meta" "meta + 7 \<le> 14 + n"
  shows "encapsulate e adjust_room paged scion meta path n pkt = Some (bare_packet e paged path n pkt)"
proof -
  let ?r = "bare_packet e paged path n pkt"
  note q = zero_room [OF assms(1)]
  have qlen: "length q = length pkt + n" and rest: "drop 42 q = replicate (n - 28) 0 @ drop sizeof_ethhdr pkt"
    using len by (simp_all add: q sizeof_ethhdr_def)
  have long: "\<not> length q < 42" using qlen len by simp
  have r: "outer_headers e (of_nat (length q + paged)) path q @ drop 42 q = ?r"
    unfolding rest by (simp add: bare_packet_def Let_def q)
  have inf: "meta_num_inf ?r meta = 0"
    using bare_packet_room(4) [OF mac len, of "meta + 6"] meta by (simp add: meta_num_inf_def)
  have "slice (scion + 51) 6 ?r = replicate 6 0"
    by (rule bare_packet_room(3) [OF mac len]) (use scion in simp_all)
  then have "put (scion + 51) (replicate 6 0) ?r = ?r"
    by (intro put_id) (use scion len in \<open>simp_all add: length_bare_packet [OF mac len]\<close>)
  moreover have "write_scion_headers e (of_nat (length q + paged)) scion meta path q =
      Some (put (scion + 43 + meta_num_inf ?r meta * 8 + 8) (replicate 6 0) ?r)"
    by (simp only: write_scion_headers_eq [OF mac] Let_def r long if_False)
  ultimately show ?thesis by (simp add: encapsulate_def assms(1) inf add.commute)
qed

lemma tc_egress_packet_zero:
  assumes "ipv4_from a pkt" and "pm a = Some i" and "pc i = Some v" and "length v = 284"
    and plen: "unat (path_len (c_entry e v)) = plen" "plen \<le> MAX_PATH_LEN"
    and "adjust_room (72 + plen) pkt = Some q"
    and "42 \<le> scion" "scion + 57 \<le> 86 + plen" and "42 \<le> meta" "meta + 7 \<le> 86 + plen"
  shows "tc_egress_packet e adjust_room paged scion meta pm pc pkt =
    (TC_ACT_OK, bare_packet e paged (c_entry e v) (72 + plen) pkt)"
proof -
  have "14 \<le> length pkt" using assms(1) by (simp add: ipv4_from_def sizeofs)
  from encapsulate_zero [OF assms(7) length_next_hop_mac [OF assms(4)] this, of scion meta e paged]
  have "encapsulate e adjust_room paged scion meta (c_entry e v) (72 + plen) pkt =
      Some (bare_packet e paged (c_entry e v) (72 + plen) pkt)"
    using assms(8-11) by simp
  then show ?thesis
    using assms(2,3,7) plen
    by (auto simp: tc_egress_packet_def tc_egress_ipv4 [OF assms(1)] egress_encap_len_eq Let_def
        simp del: not_None_eq)
qed

end

section \<open>A kernel that opens room\<close>

text \<open>An instance: the room starts with given bytes and is zero behind them.\<close>

definition open_room :: "byte list \<Rightarrow> nat \<Rightarrow> byte list \<Rightarrow> byte list option" where
  "open_room fill n pkt =
     (if n < length fill then None
      else Some (take sizeof_ethhdr pkt @ (fill @ replicate (n - length fill) 0)
                   @ drop sizeof_ethhdr pkt))"

interpretation room: skb_room "open_room fill" for fill
proof
  fix n pkt q
  assume a: "open_room fill n pkt = Some q"
  let ?gap = "fill @ replicate (n - length fill) 0"
  have "length ?gap = n \<and> q = take sizeof_ethhdr pkt @ ?gap @ drop sizeof_ethhdr pkt"
    using a by (auto simp: open_room_def split: if_splits)
  then show "\<exists>gap. length gap = n \<and> q = take sizeof_ethhdr pkt @ gap @ drop sizeof_ethhdr pkt" ..
qed

interpretation zroom: skb_room_zero "open_room []"
  by unfold_locales (simp add: open_room_def)

end
