(* ===== verification/EncapProps.thy ===== *)
theory EncapProps
  imports DatapathProps Encap
begin

text \<open>
  Properties of the packets the eBPF programs write and read: the headers the egress program puts
  in front of a pod's packet, what the ingress program of the other node makes of them, and what the
  MAC check amounts to.
\<close>

section \<open>The outer headers\<close>

lemma ucast_of_nat_16: "(ucast (of_nat n :: u32) :: u16) = of_nat n"
  by transfer simp

lemma length_field_value:
  "hdr \<le> n \<Longrightarrow> binary_Uint16 BigEndian (length_field (of_nat n) hdr) = of_nat (n - hdr)"
  by (simp add: length_field_def Uint16_PutUint16 ucast_of_nat_16)

lemma slice_take: "a + n \<le> m \<Longrightarrow> slice a n xs = slice a n (take m xs)"
  by (simp add: slice_def drop_take min_def)

lemma nth_of_take: "i < m \<Longrightarrow> xs ! i = take m xs ! i"
  by simp

text \<open>The fields, read from a packet that starts with the outer headers.\<close>

lemma slices_of_headers:
  assumes start: "take 42 r = m @ s1 @ ty @ ([v, 0] @ l1 @ [0, 0, 0, 0]) @ [ttl, pr, 0, 0] @ s5 @ ip
      @ p1 @ p2 @ l2 @ [0, 0]"
    and len: "length m = 6" "length s1 = 6" "length ty = 2" "length l1 = 2" "length s5 = 4"
      "length ip = 4" "length p1 = 2" "length p2 = 2" "length l2 = 2"
  shows "slice 0 6 r = m" and "slice 6 6 r = s1" and "slice 12 2 r = ty" and "r ! 14 = v"
    and "slice 16 2 r = l1" and "r ! 22 = ttl" and "r ! 23 = pr" and "slice 26 4 r = s5"
    and "slice 30 4 r = ip" and "slice 34 2 r = p1" and "slice 36 2 r = p2" and "slice 38 2 r = l2"
  using len
  by (simp_all only: slice_take [of _ _ 42 r] nth_of_take [of _ 42 r] start)
    (simp_all add: slice_def nth_append)

lemma outer_headers_read:
  fixes e :: endian
  assumes start: "take 42 r = outer_headers e (of_nat len) path q"
    and mac: "length (next_hop_mac path) = 6" and long: "42 \<le> length q" and "34 \<le> len"
  shows "slice 0 6 r = next_hop_mac path" and "slice 6 6 r = slice 6 6 q" and "slice 12 2 r = ETH_P_IP"
    and "r ! 14 = 0x45" and "binary_Uint16 BigEndian (slice 16 2 r) = of_nat (len - 14)"
    and "r ! 22 = 64" and "r ! 23 = IPPROTO_UDP" and "slice 26 4 r = slice 26 4 q"
    and "slice 30 4 r = binary_PutUint32 e (next_hop_ip path)"
    and "slice 34 2 r = SCION_UDP_PORT" and "slice 36 2 r = SCION_UDP_PORT"
    and "binary_Uint16 BigEndian (slice 38 2 r) = of_nat (len - 34)"
proof -
  have "length (slice 6 6 q) = 6" "length (slice 26 4 q) = 4" "length ETH_P_IP = 2"
    "length SCION_UDP_PORT = 2"
    using long by (simp_all add: slice_def ETH_P_IP_def SCION_UDP_PORT_def)
  note f = slices_of_headers [OF start [unfolded outer_headers_def] mac this(1,3) length_length_field
      this(2) length_binary_PutUint32 this(4,4) length_length_field]
  show "slice 0 6 r = next_hop_mac path" "slice 6 6 r = slice 6 6 q" "slice 12 2 r = ETH_P_IP"
    "r ! 14 = 0x45" "r ! 22 = 64" "r ! 23 = IPPROTO_UDP" "slice 26 4 r = slice 26 4 q"
    "slice 30 4 r = binary_PutUint32 e (next_hop_ip path)"
    "slice 34 2 r = SCION_UDP_PORT" "slice 36 2 r = SCION_UDP_PORT"
    by (rule f)+
  show "binary_Uint16 BigEndian (slice 16 2 r) = of_nat (len - 14)"
    "binary_Uint16 BigEndian (slice 38 2 r) = of_nat (len - 34)"
    using assms(4) unfolding f
    by (simp_all add: length_field_value sizeof_ethhdr_def sizeof_iphdr_def)
qed

text \<open>The ingress program's filter accepts such a packet and finds the headers where they are.\<close>

lemma outer_headers_ingress:
  assumes "42 \<le> length r" and "slice 12 2 r = ETH_P_IP" and "r ! 14 = 0x45" and "r ! 23 = IPPROTO_UDP"
    and "slice 36 2 r = SCION_UDP_PORT"
  shows "scion_udp r" and "meta_offset r = egress_meta"
proof -
  have "ihl_bytes r 14 = 20" using assms(3) by (simp add: ihl_bytes_def)
  then show "scion_udp r" and "meta_offset r = egress_meta"
    using assms by (simp_all add: scion_udp_def meta_offset_def egress_offsets Let_def)
qed

text \<open>
  C32: a packet of a pod with an installed policy and path leaves with outer headers in front of it:
  to the next hop's MAC and IP address, from the pod packet's MAC address, an IPv4 and a UDP header
  to and from the SCION port, with the lengths of the new packet modulo \<open>2 ^ 16\<close>; the ingress
  program's filter takes it for a SCION packet.  The IPv4 source address is not written: it is
  whatever the opened room held.
\<close>
theorem egress_outer_headers:
  fixes e :: endian
  assumes "skb_room adjust_room" and "ipv4_from a pkt"
    and "pod_map a = Some i" and "path_map i = Some v" and "length v = 284"
    and "unat (path_len (c_entry e v)) \<le> MAX_PATH_LEN"
    and "adjust_room (72 + unat (path_len (c_entry e v))) pkt = Some room"
  shows "\<exists>q. tc_egress_packet e adjust_room paged egress_scion egress_meta pod_map path_map pkt =
      (TC_ACT_OK, q) \<and>
    length q = length pkt + 72 + unat (path_len (c_entry e v)) \<and>
    slice 0 6 q = next_hop_mac (c_entry e v) \<and> slice 6 6 q = slice 6 6 pkt \<and>
    slice 12 2 q = ETH_P_IP \<and> q ! 14 = 0x45 \<and>
    binary_Uint16 BigEndian (slice 16 2 q) = of_nat (length q + paged - 14) \<and>
    q ! 22 = 64 \<and> q ! 23 = IPPROTO_UDP \<and> slice 26 4 q = slice 26 4 room \<and>
    slice 30 4 q = binary_PutUint32 e (next_hop_ip (c_entry e v)) \<and>
    slice 34 2 q = SCION_UDP_PORT \<and> slice 36 2 q = SCION_UDP_PORT \<and>
    binary_Uint16 BigEndian (slice 38 2 q) = of_nat (length q + paged - 34) \<and> scion_udp q"
proof -
  let ?p = "c_entry e v" and ?n = "72 + unat (path_len (c_entry e v))"
  have len: "34 \<le> length pkt" using assms(2) by (simp add: ipv4_from_def sizeofs)
  from skb_room.tc_egress_packet_eq [where adjust_room = adjust_room and pm = pod_map
      and pc = path_map and e = e and paged = paged, OF assms]
  obtain gap where
    gap: "length gap = ?n" "room = take sizeof_ethhdr pkt @ gap @ drop sizeof_ethhdr pkt"
    and run: "tc_egress_packet e adjust_room paged egress_scion egress_meta pod_map path_map pkt =
      (TC_ACT_OK, encapsulated e paged ?p gap pkt)" by blast
  let ?r = "encapsulated e paged ?p gap pkt"
  note mac = length_next_hop_mac [OF assms(5)]
  have long: "14 \<le> length pkt" "72 \<le> length gap" using len gap by simp_all
  note parts = encapsulated_parts [OF mac long, where e = e and paged = paged, folded gap(2)]
  have src: "slice 6 6 room = slice 6 6 pkt"
    using len unfolding gap(2) by (simp add: slice_def sizeof_ethhdr_def drop_take)
  have "42 \<le> length room" "34 \<le> length ?r + paged"
    using len gap by (simp_all add: sizeof_ethhdr_def parts(1))
  note f = outer_headers_read [OF parts(2) mac this]
  have "42 \<le> length ?r" using len gap(1) unfolding parts(1) by simp
  then have "scion_udp ?r" using f by (intro outer_headers_ingress) simp_all
  with f run parts(1) gap(1) src show ?thesis by auto
qed

text \<open>An entry with a short path.\<close>

definition short_entry :: ScionPathEntry where
  "short_entry = demo_entry\<lparr>PathLen := 31\<rparr>"

lemma wf_short_entry: "wf_entry short_entry"
  by (simp add: short_entry_def wf_entry_def demo_entry_def)

lemma short_entry_view:
  "c_entry LittleEndian (entry_memory LittleEndian short_entry) = c_view LittleEndian short_entry"
  "path_len (c_view LittleEndian short_entry) = 31"
  "next_hop_mac (c_view LittleEndian short_entry) = [2, 0, 0, 0, 0, 1]"
  by (rule c_entry_view [OF wf_short_entry])
    (simp_all add: c_view_def short_entry_def demo_entry_def)

theorem egress_outer_headers_witness:
  "\<exists>q. tc_egress_packet LittleEndian (open_room []) 0 egress_scion egress_meta (\<lambda>_. Some [7, 0, 0, 0])
       (\<lambda>_. Some (entry_memory LittleEndian short_entry)) demo_packet = (TC_ACT_OK, q) \<and>
     length q = 137 \<and> slice 30 4 q = [192, 0, 2, 1] \<and> scion_udp q"
proof -
  have pkt: "ipv4_from [10, 1, 0, 5] demo_packet" by code_simp
  have len: "length demo_packet = 34" by code_simp
  let ?v = "entry_memory LittleEndian short_entry"
  have room: "open_room [] 103 demo_packet =
      Some (take 14 demo_packet @ replicate 103 0 @ drop 14 demo_packet)"
    by (simp add: open_room_def sizeof_ethhdr_def)
  have ip: "binary_PutUint32 LittleEndian (next_hop_ip (c_view LittleEndian short_entry)) =
      [192, 0, 2, 1]"
    by (simp add: c_view_def short_entry_def demo_entry_def PutUint32_Uint32)
  note f = egress_outer_headers [where e = LittleEndian and paged = 0 and adjust_room = "open_room []"
      and pkt = demo_packet and pod_map = "\<lambda>_. Some [7, 0, 0, 0]" and i = "[7, 0, 0, 0]" and v = ?v
      and path_map = "\<lambda>_. Some ?v", OF room.skb_room_axioms pkt refl refl
        length_entry_memory [OF wf_short_entry], unfolded short_entry_view ip len]
  have "unat (31 :: u16) \<le> MAX_PATH_LEN" by (simp add: MAX_PATH_LEN_def)
  moreover have "open_room [] (72 + unat (31 :: u16)) demo_packet = open_room [] 103 demo_packet" by simp
  ultimately show ?thesis using f room by auto
qed

section \<open>There and back\<close>

text \<open>How the ingress program reads a packet with no path in its room.\<close>

lemma bare_packet_ingress:
  fixes e :: endian and paged :: nat
  assumes mac: "length (next_hop_mac path) = 6" and len: "34 \<le> length pkt" and plen: "13 \<le> plen"
  defines "r \<equiv> bare_packet e paged path (72 + plen) pkt"
  shows "xdp_ingress (\<lambda>k i h p. verify_scion_mac k i h p = 0) adjust_head cache r =
    (if cache [0, 0, 0, 0] = None \<or> \<not> adjust_head 79 then (XDP_DROP, r)
     else (XDP_PASS, next_hop_mac path @ slice 6 6 pkt @ ETH_P_IP
       @ replicate (plen - 7) 0 @ drop sizeof_ethhdr pkt))"
proof -
  let ?q = "take sizeof_ethhdr pkt @ replicate (72 + plen) 0 @ drop sizeof_ethhdr pkt"
  have long: "14 \<le> length pkt" "28 \<le> 72 + plen" using len by simp_all
  note room = bare_packet_room [where e = e and paged = paged, OF mac long, folded r_def]
  have rlen: "length r = length pkt + (72 + plen)" unfolding r_def by (rule length_bare_packet [OF mac long])
  have "42 \<le> length ?q" "34 \<le> length pkt + (72 + plen) + paged" using len by (simp_all add: sizeof_ethhdr_def)
  note f = outer_headers_read [OF room(1) mac this]
  have udp: "scion_udp r" and meta: "meta_offset r = 78"
    using f rlen outer_headers_ingress [of r] by (simp_all add: egress_offsets)
  have m: "meta_num_inf r 78 = 0" "meta_num_hf r 78 = 0" "meta_cur_hf r 78 = 0"
    using room(4) plen by (simp_all add: meta_num_inf_def meta_num_hf_def meta_cur_hf_def)
  have ihl: "ihl_bytes r sizeof_ethhdr = 20" using f(4) by (simp add: ihl_bytes_def sizeof_ethhdr_def)
  have n: "ingress_encap_len r 78 = 79" by (simp add: ingress_encap_len_def m ihl) (simp add: sizeofs)
  have offs: "info_offset r = 85" "hop_offset r = 85"
    using meta m by (simp_all add: hop_offset_def info_offset_def sizeofs)
  have ver: "verify_scion_mac k i 85 r = 0" for k i
    using room(3) [of 93 6] plen by (simp add: verify_scion_mac_iff offsetof_mac_def SCION_MAC_LEN_def)
  have "drop 93 r = drop 51 (drop 42 r)" by simp
  also have "\<dots> = replicate (plen - 7) 0 @ drop sizeof_ethhdr pkt" unfolding room(2) using plen by simp
  finally have inner: "drop 93 r = replicate (plen - 7) 0 @ drop sizeof_ethhdr pkt" .
  have "take 12 r = slice 0 6 r @ slice 6 6 r" using take_add [of 6 6 r] by (simp add: slice_def)
  moreover have "slice 6 6 r = slice 6 6 pkt"
    using len unfolding f(2) by (simp add: slice_def sizeof_ethhdr_def drop_take)
  ultimately have eth: "take 12 r = next_hop_mac path @ slice 6 6 pkt" by (simp add: f(1))
  have sizes: "\<not> (length r < 85 \<or> length r < 85 + 16 \<or> length r < 14 + 79 \<or> length r < 85 + 8)"
    "\<not> length (drop 79 r) < 14"
    using rlen len plen by simp_all
  have "\<not> length (take 12 r @ ETH_P_IP @ drop (14 + 79) r) < 34"
    using rlen len plen by (simp add: ETH_P_IP_def)
  with sizes show ?thesis
    using udp meta n offs ver eth inner
    by (auto simp: xdp_ingress_def xdp_scion_offsets Let_def sizeofs split: option.splits)
qed

text \<open>
  C33: what the two programs make of a pod's packet together: the room that the kernel opens and
  zeroes stays zero behind the outer headers, wherever in it the undeclared pointers point, so that
  no byte of the installed path leaves the node; the ingress program of another node takes the
  zeros for a path header without fields, cuts off 79 bytes instead of 72 and the path's length,
  accepts the zeros as a MAC, and hands up, if it finds an entry 0 and can cut, a frame to the next
  hop whose IPv4 header starts with the remaining zeros; otherwise it drops the packet.  For a
  path length of at least 13, seven bytes for the meta header and six for the end of the MAC.
\<close>
theorem egress_output_misread:
  fixes e :: endian
  assumes "skb_room_zero adjust_room" and "ipv4_from a pkt"
    and "pod_map a = Some i" and "path_map i = Some v" and "length v = 284"
    and "unat (path_len (c_entry e v)) = plen" and "13 \<le> plen" and "plen \<le> MAX_PATH_LEN"
    and "adjust_room (72 + plen) pkt = Some room"
    and "42 \<le> scion" and "scion + 57 \<le> 86 + plen" and "42 \<le> meta" and "meta + 7 \<le> 86 + plen"
  shows "\<exists>q. tc_egress_packet e adjust_room paged scion meta pod_map path_map pkt = (TC_ACT_OK, q) \<and>
    drop 42 q = replicate (44 + plen) 0 @ drop 14 pkt \<and>
    xdp_ingress (\<lambda>k i h p. verify_scion_mac k i h p = 0) adjust_head cache q =
      (if cache [0, 0, 0, 0] = None \<or> \<not> adjust_head 79 then (XDP_DROP, q)
       else (XDP_PASS, next_hop_mac (c_entry e v) @ slice 6 6 pkt @ ETH_P_IP
         @ replicate (plen - 7) 0 @ drop 14 pkt))"
proof -
  have len: "34 \<le> length pkt" using assms(2) by (simp add: ipv4_from_def sizeofs)
  note mac = length_next_hop_mac [OF assms(5), of e]
  note run = skb_room_zero.tc_egress_packet_zero [where adjust_room = adjust_room and pm = pod_map
      and pc = path_map and e = e and paged = paged, OF assms(1-6,8-13)]
  have "drop 42 (bare_packet e paged (c_entry e v) (72 + plen) pkt) = replicate (44 + plen) 0 @ drop 14 pkt"
    using bare_packet_room(2) [where e = e and paged = paged and n = "72 + plen", OF mac, of pkt] len by (simp add: sizeof_ethhdr_def)
  then show ?thesis
    using run bare_packet_ingress [where e = e and paged = paged, OF mac len assms(7)]
    by (simp add: sizeof_ethhdr_def)
qed

theorem egress_output_misread_witness:
  "\<exists>q. tc_egress_packet LittleEndian (open_room []) 0 egress_scion egress_meta (\<lambda>_. Some [7, 0, 0, 0])
       (\<lambda>_. Some (entry_memory LittleEndian short_entry)) demo_packet = (TC_ACT_OK, q) \<and>
     xdp_ingress (\<lambda>k i h p. verify_scion_mac k i h p = 0) (\<lambda>n. n = 79) (\<lambda>_. Some []) q =
       (XDP_PASS, [2, 0, 0, 0, 0, 1] @ replicate 6 0 @ [8, 0] @ replicate 24 0 @ drop 14 demo_packet)"
proof -
  let ?v = "entry_memory LittleEndian short_entry"
  have pkt: "ipv4_from [10, 1, 0, 5] demo_packet" by code_simp
  have room: "open_room [] (72 + 31) demo_packet =
      Some (take 14 demo_packet @ replicate 103 0 @ drop 14 demo_packet)"
    by (simp add: open_room_def sizeof_ethhdr_def)
  have plen: "unat (31 :: u16) = 31" "(13 :: nat) \<le> 31" "31 \<le> MAX_PATH_LEN"
    "42 \<le> egress_scion" "egress_scion + 57 \<le> 86 + 31" "42 \<le> egress_meta" "egress_meta + 7 \<le> 86 + 31"
    by (simp_all add: MAX_PATH_LEN_def egress_offsets)
  have "slice 6 6 demo_packet = replicate 6 0" by code_simp
  with egress_output_misread [where e = LittleEndian and paged = 0 and adjust_room = "open_room []"
      and pkt = demo_packet and pod_map = "\<lambda>_. Some [7, 0, 0, 0]" and i = "[7, 0, 0, 0]" and v = ?v
      and path_map = "\<lambda>_. Some ?v" and cache = "\<lambda>_. Some []" and adjust_head = "\<lambda>n. n = 79"
      and plen = 31, OF zroom.skb_room_zero_axioms pkt refl refl length_entry_memory [OF wf_short_entry],
      unfolded short_entry_view, OF plen(1-3) room plen(4-7)]
  show ?thesis by (auto simp: ETH_P_IP_def)
qed

section \<open>The MAC check\<close>

text \<open>
  C34: the MAC check keeps nobody out: what the ingress program does with a packet does not depend
  on the key, or on anything else in the cache beyond there being an entry 0; and it lets in a
  SCION packet exactly when the six bytes of its hop field's MAC are zero, apart from lengths.
\<close>
theorem ingress_ignores_key:
  assumes "cache [0, 0, 0, 0] = Some v" and "cache' [0, 0, 0, 0] = Some v'" and "scion_udp pkt"
  shows "xdp_ingress (\<lambda>k i h p. verify_scion_mac k i h p = 0) adjust_head cache pkt =
      xdp_ingress (\<lambda>k i h p. verify_scion_mac k i h p = 0) adjust_head cache' pkt \<and>
    (fst (xdp_ingress (\<lambda>k i h p. verify_scion_mac k i h p = 0) adjust_head cache pkt) = XDP_PASS \<longleftrightarrow>
      slice (hop_offset pkt + offsetof_mac) SCION_MAC_LEN pkt = replicate SCION_MAC_LEN 0 \<and>
      hop_offset pkt + sizeof_scion_hop_field \<le> length pkt \<and>
      info_offset pkt + sizeof_scion_info_field \<le> length pkt \<and>
      sizeof_ethhdr + ingress_encap_len pkt (meta_offset pkt) + sizeof_iphdr \<le> length pkt \<and>
      adjust_head (ingress_encap_len pkt (meta_offset pkt)))"
  using assms
  by (auto simp: xdp_ingress_def xdp_scion_offsets Let_def verify_scion_mac_iff sizeofs
      ETH_P_IP_def not_less)

text \<open>With one key or another, a hop field of zeros is let in.\<close>

theorem ingress_ignores_key_witness:
  "fst (xdp_ingress (\<lambda>k i h p. verify_scion_mac k i h p = 0) (\<lambda>n. n = 103)
     (\<lambda>_. Some (replicate 284 9)) (demo_scion_headers @ replicate 36 0 @ [0, 0, 0, 0, 0, 1, 1]
       @ replicate 32 0 @ [0x45] @ replicate 19 0)) = XDP_PASS"
proof -
  let ?pkt = "demo_scion_headers @ replicate 36 0 @ [0, 0, 0, 0, 0, 1, 1]
       @ replicate 32 0 @ [0x45] @ replicate 19 (0 :: byte)"
  have udp: "scion_udp ?pkt" by code_simp
  have "fst (xdp_ingress (\<lambda>k i h p. verify_scion_mac k i h p = 0) (\<lambda>n. n = 103)
      (\<lambda>_. Some []) ?pkt) = XDP_PASS" by code_simp
  then show ?thesis
    using ingress_ignores_key [where cache = "\<lambda>_. Some (replicate 284 9)" and cache' = "\<lambda>_. Some []"
        and v = "replicate 284 9" and v' = "[]" and adjust_head = "\<lambda>n. n = 103", OF refl refl udp]
    by metis
qed

end
