(* ===== verification/MapLimits.thy ===== *)
theory MapLimits
  imports LoaderProps
begin

text \<open>
  The two maps as \<open>bpf/maps.h\<close> declares them: hash maps with fixed sizes of key and value and a
  largest number of entries.  The kernel takes the bytes of a key and of a value as they are, so that
  the sizes must agree; the loader's keys and values have those of the map they are meant for.
\<close>

section \<open>The declarations\<close>

record bpf_map_spec =
  key_size :: nat
  value_size :: nat
  max_entries :: nat

definition pod_policy_map_spec :: bpf_map_spec where
  "pod_policy_map_spec = \<lparr>key_size = 4, value_size = 4, max_entries = 10000\<rparr>"

definition scion_path_cache_spec :: bpf_map_spec where
  "scion_path_cache_spec =
     \<lparr>key_size = 4, value_size = snd (struct_layout c_entry_fields), max_entries = 1024\<rparr>"

section \<open>A kernel that enforces them\<close>

text \<open>
  Both objects include \<open>maps.h\<close>, so that a load creates two maps of these declarations.  A \<open>Put\<close>
  that is carried out has found the key or room for it in a map whose keys have its size.  No call
  changes the declaration of a map.
\<close>

locale limited_kernel = bpf_kernel lib entries open_fds filters qdiscs
  for lib :: "('k, 'sp, 'z) bpf_lib_scheme" and entries open_fds filters qdiscs +
  fixes spec :: "'k \<Rightarrow> nat \<Rightarrow> bpf_map_spec option"
  assumes load_spec: "ebpf_LoadAndAssign lib sp hs k = (None, (Some p, Some m1, Some m2), k') \<Longrightarrow>
      spec k' = (spec k)(m1 \<mapsto> pod_policy_map_spec, m2 \<mapsto> scion_path_cache_spec)"
    and put_done: "spec k m = Some s \<Longrightarrow> ebpf_Map_Put lib (Some m) key v k = (Return None, k') \<Longrightarrow>
      length key = key_size s \<and>
      (key \<in> dom (entries k m) \<or> card (dom (entries k m)) < max_entries s)"
    and put_spec: "ebpf_Map_Put lib h key v k = (r, k') \<Longrightarrow> spec k' = spec k"
    and del_spec: "ebpf_Map_Delete lib h key k = (r, k') \<Longrightarrow> spec k' = spec k"
    and xdp_spec: "link_AttachXDP lib h i f k = (rx, k') \<Longrightarrow> spec k' = spec k"
    and qdisc_spec: "nl_QdiscAdd lib q k = (r', k') \<Longrightarrow> spec k' = spec k"
    and fadd_spec: "nl_FilterAdd lib fl k = (r', k') \<Longrightarrow> spec k' = spec k"
    and fdel_spec: "nl_FilterDel lib fl k = (r', k') \<Longrightarrow> spec k' = spec k"
    and prog_close_spec: "ebpf_Program_Close lib h k = (r', k') \<Longrightarrow> spec k' = spec k"
    and map_close_spec: "ebpf_Map_Close lib h k = (r', k') \<Longrightarrow> spec k' = spec k"
    and link_close_spec: "link_Close lib n k = (r', k') \<Longrightarrow> spec k' = spec k"

definition ref_spec :: "ref_kernel \<Rightarrow> nat \<Rightarrow> bpf_map_spec option" where
  "ref_spec k m =
     (if rk_max k m = 10000 then Some pod_policy_map_spec
      else if rk_max k m = 1024 then Some scion_path_cache_spec else None)"

lemma ref_spec_Some:
  "ref_spec k m = Some s \<Longrightarrow> key_size s = 4 \<and> max_entries s = rk_max k m"
  by (auto simp: ref_spec_def pod_policy_map_spec_def scion_path_cache_spec_def split: if_splits)

lemma card_map_of: "card (dom (map_of xs)) = length (remdups (map fst xs))"
  by (simp add: dom_map_of_conv_image_fst flip: set_map) (metis length_remdups_card_conv)

interpretation rk: limited_kernel ref_lib ref_entries ref_open ref_filters ref_qdiscs ref_spec
proof unfold_locales
  fix k m s key v k'
  assume s: "ref_spec k m = Some s"
    and "ebpf_Map_Put ref_lib (Some m) key v k = (Return None, k')"
  then show "length key = key_size s \<and>
      (key \<in> dom (ref_entries k m) \<or> card (dom (ref_entries k m)) < max_entries s)"
    using ref_spec_Some [OF s]
    by (auto simp: ref_lib_def ref_entries_def card_map_of split: if_splits)
next
  fix h key v k r k'
  assume "ebpf_Map_Put ref_lib h key v k = (r, k')"
  then show "ref_spec k' = ref_spec k"
    by (cases h) (auto simp: ref_lib_def ref_spec_def split: if_splits)
next
  fix h key k r k'
  assume "ebpf_Map_Delete ref_lib h key k = (r, k')"
  then show "ref_spec k' = ref_spec k"
    by (cases h) (auto simp: ref_lib_def ref_spec_def split: if_splits)
qed (auto simp: ref_lib_simps ref_spec_def Let_def fun_eq_iff split: if_splits option.splits)

section \<open>The maps stay within their limits\<close>

definition within :: "bpf_map_spec \<Rightarrow> (byte list \<rightharpoonup> byte list) \<Rightarrow> bool" where
  "within s m \<longleftrightarrow> finite (dom m) \<and> card (dom m) \<le> max_entries s \<and> (\<forall>key\<in>dom m. length key = key_size s)"

lemma within_empty: "within s Map.empty"
  by (simp add: within_def)

lemma within_put:
  assumes "within s m" and "length key = key_size s" and "key \<in> dom m \<or> card (dom m) < max_entries s"
  shows "within s (m(key \<mapsto> v))"
  using assms by (cases "key \<in> dom m") (auto simp: within_def insert_absorb)

lemma within_del: "within s m \<Longrightarrow> within s (m(key := None))"
  unfolding within_def by (auto intro: le_trans [OF card_Diff1_le])

definition limit_inv ::
  "(nat \<Rightarrow> bpf_map_spec option) \<Rightarrow> (nat \<Rightarrow> byte list \<rightharpoonup> byte list) \<Rightarrow> Loader \<Rightarrow> bool" where
  "limit_inv sp es l \<longleftrightarrow> (\<exists>m1 m2. PodPolicyMap (tcMaps (tcObjs l)) = Some m1 \<and>
     ScionPathCache (tcMaps (tcObjs l)) = Some m2 \<and>
     sp m1 = Some pod_policy_map_spec \<and> sp m2 = Some scion_path_cache_spec \<and>
     within pod_policy_map_spec (es m1) \<and> within scion_path_cache_spec (es m2))"

context limited_kernel
begin

lemma put_within:
  assumes "ebpf_Map_Put lib h key v k = (r, k')" and "spec k m = Some s" and "within s (entries k m)"
  shows "within s (entries k' m)"
proof (cases "r = Return None")
  case False
  then show ?thesis using put_fail [OF assms(1)] assms(3) by simp
next
  case True
  with assms(1) obtain n where n: "h = Some n" "entries k' = (entries k)(n := (entries k n)(key \<mapsto> v))"
    by (metis put_Some)
  show ?thesis
  proof (cases "n = m")
    case same: True
    then show ?thesis
      using put_done [OF assms(2), of key v k'] assms(1,3) True n by (simp add: within_put)
  qed (simp add: n assms(3))
qed

lemma del_within:
  assumes "ebpf_Map_Delete lib h key k = (r, k')" and "within s (entries k m)"
  shows "within s (entries k' m)"
proof (cases "r = Return None")
  case False
  then show ?thesis using del_fail [OF assms(1)] assms(2) by simp
next
  case True
  with assms(1) obtain n where "entries k' = (entries k)(n := (entries k n)(key := None))"
    by (metis del_Some)
  then show ?thesis using assms(2) within_del [of s "entries k n"] by (cases "n = m") simp_all
qed

lemma map_op_limits:
  assumes "run_map_op lib e l op k = (r, k')" and "limit_inv (spec k) (entries k) l"
  shows "limit_inv (spec k') (entries k') l"
proof -
  have "k' = k \<or> (\<exists>h key v. ebpf_Map_Put lib h key v k = (r, k')) \<or>
      (\<exists>h key. ebpf_Map_Delete lib h key k = (r, k'))"
    using assms(1) by (cases op) (auto simp: UpdatePodPolicy_def DeletePodPolicy_def
        UpdateScionPath_def DeleteScionPath_def split: sum.splits)
  then show ?thesis
  proof (elim disjE exE)
    fix h key v
    assume "ebpf_Map_Put lib h key v k = (r, k')"
    from put_spec [OF this] put_within [OF this] assms(2) show ?thesis
      unfolding limit_inv_def by metis
  next
    fix h key
    assume "ebpf_Map_Delete lib h key k = (r, k')"
    from del_spec [OF this] del_within [OF this] assms(2) show ?thesis
      unfolding limit_inv_def by metis
  qed (simp add: assms(2))
qed

lemma attach_spec: "AttachTC lib l name k = (r, k') \<Longrightarrow> spec k' = spec k"
  by (auto simp: AttachTC_def AttachTC_filter_def split: sum.splits prod.splits option.splits
      go.splits if_splits dest!: qdisc_spec fadd_spec)

lemma detach_filters_spec: "detach_filters lib name fs k = (r, k') \<Longrightarrow> spec k' = spec k"
proof (induction fs arbitrary: k)
  case Nil
  then show ?case by simp
next
  case (Cons f fs)
  then show ?case
    by (cases f) (auto split: if_splits prod.splits option.splits dest: fdel_spec)
qed

lemma detach_spec: "DetachTC lib name k = (r, k') \<Longrightarrow> spec k' = spec k"
  by (auto simp: DetachTC_def split: sum.splits dest: detach_filters_spec)

lemma attach_xdp_spec: "AttachXDP lib l name k = (r, l', k') \<Longrightarrow> spec k' = spec k"
  by (auto simp: AttachXDP_def split: sum.splits prod.splits option.splits dest!: xdp_spec)

lemma Load_limits:
  assumes "Load lib tb xb l k = (None, l', k')"
  shows "limit_inv (spec k') (entries k') l'"
proof -
  from assms obtain tc xdp k1 where tc: "LoadTcEgressObjects lib tb (tcObjs l) k = (None, tc, k1)"
    and xdp: "LoadXdpIngressObjects lib xb (xdpObjs l) k1 = (None, xdp, k')"
    and l': "l' = l\<lparr>tcObjs := tc, xdpObjs := xdp\<rparr>"
    by (auto simp: Load_def split: prod.splits option.splits)
  from LoadTc_ok [OF tc] obtain p m1 m2 where hs: "tc_handles tc = (Some p, Some m1, Some m2)"
    "distinct [p, m1, m2]" and o1: "{p, m1, m2} \<subseteq> open_fds k1" by auto
  from LoadXdp_ok [OF xdp] obtain q n1 n2 where hx: "xdp_handles xdp = (Some q, Some n1, Some n2)"
    "{q, n1, n2} \<inter> open_fds k1 = {}" by auto
  from tc hs(1) obtain sp where t:
    "ebpf_LoadAndAssign lib sp (tc_handles (tcObjs l)) k = (None, (Some p, Some m1, Some m2), k1)"
    by (auto simp: LoadTcEgressObjects_def tc_handles_def split: if_splits sum.splits prod.splits)
  from xdp hx(1) obtain sp' where x:
    "ebpf_LoadAndAssign lib sp' (xdp_handles (xdpObjs l)) k1 = (None, (Some q, Some n1, Some n2), k')"
    by (auto simp: LoadXdpIngressObjects_def xdp_handles_def split: if_splits sum.splits prod.splits)
  have "m1 \<notin> {n1, n2}" "m2 \<notin> {n1, n2}" "m1 \<noteq> m2" using hs(2) hx(2) o1 by auto
  then show ?thesis
    using hs(1) load_spec [OF t] load_spec [OF x] load_entries [OF t] load_entries [OF x]
    by (simp add: l' limit_inv_def tc_handles_def within_empty)
qed

lemma tc_Close_spec: "TcEgressClose lib cs k = (r, k') \<Longrightarrow> spec k' = spec k"
proof (induction cs arbitrary: k)
  case (Cons c cs)
  then show ?case
    by (cases c) (auto split: prod.splits option.splits dest: prog_close_spec map_close_spec)
qed simp

lemma xdp_Close_spec: "XdpIngressClose lib cs k = (r, k') \<Longrightarrow> spec k' = spec k"
proof (induction cs arbitrary: k)
  case (Cons c cs)
  then show ?case
    by (cases c) (auto split: prod.splits option.splits dest: prog_close_spec map_close_spec)
qed simp

lemma Close_spec [simp]: "spec (Close lib l k) = spec k"
proof -
  have tc: "spec (snd (TcEgressObjects_Close lib obj x)) = spec x" for obj x
    using tc_Close_spec by (metis TcEgressObjects_Close_def prod.collapse)
  have xdp: "spec (snd (XdpIngressObjects_Close lib obj x)) = spec x" for obj x
    using xdp_Close_spec by (metis XdpIngressObjects_Close_def prod.collapse)
  have link: "spec (snd (link_Close lib h x)) = spec x" for h x
    using link_close_spec by (metis prod.collapse)
  show ?thesis by (cases "xdpLink l") (simp_all add: Close_def Let_def tc xdp link)
qed

lemma loader_reach_limits:
  "loader_reach lib e tb xb (l, k) \<Longrightarrow> limit_inv (spec k) (entries k) l"
proof (induction "(l, k)" arbitrary: l k rule: loader_reach.induct)
  case (reach_load k0 l k)
  then show ?case by (rule Load_limits)
next
  case (reach_step s l' k')
  obtain l1 k1 where s: "s = (l1, k1)" by (cases s)
  then have inv: "limit_inv (spec k1) (entries k1) l1" using reach_step.hyps(2) by simp
  from reach_step.hyps(3) [unfolded s] show ?case
  proof (cases rule: loader_step.cases)
    case (step_map op r)
    then show ?thesis using map_op_limits inv by simp
  next
    case (step_attach_tc name r)
    then show ?thesis using inv attach_spec attach_entries by metis
  next
    case (step_detach_tc name r')
    then show ?thesis using inv detach_spec detach_entries by metis
  next
    case (step_attach_xdp name r')
    then show ?thesis
      using inv attach_xdp_spec [OF step_attach_xdp] attach_xdp_entries [OF step_attach_xdp]
      by (simp add: limit_inv_def)
  next
    case step_close
    then show ?thesis using inv by simp
  qed
qed

end

section \<open>What the limits mean for the tables\<close>

text \<open>The path table has as many entries as the map behind it, whose keys are four bytes.\<close>

lemma card_path_keys:
  assumes "\<forall>key\<in>dom m. length key = 4"
  shows "card {i. binary_PutUint32 e i \<in> dom m} = card (dom m)"
proof -
  have "key \<in> binary_PutUint32 e ` {i. binary_PutUint32 e i \<in> dom m}" if "key \<in> dom m" for key
  proof -
    have "binary_PutUint32 e (binary_Uint32 e key) = key"
      using assms that by (intro PutUint32_Uint32) blast
    then show ?thesis using that by (metis (mono_tags, lifting) imageI mem_Collect_eq)
  qed
  then have "binary_PutUint32 e ` {i. binary_PutUint32 e i \<in> dom m} = dom m" by blast
  moreover have "inj_on (binary_PutUint32 e) {i. binary_PutUint32 e i \<in> dom m}"
    by (rule inj_onI) simp
  ultimately show ?thesis by (metis card_image)
qed

lemma tables_dom:
  assumes "PodPolicyMap (tcMaps (tcObjs l)) = Some m1" and "ScionPathCache (tcMaps (tcObjs l)) = Some m2"
  shows "dom (pods (tables e es l)) = dom (es m1)"
    and "dom (paths (tables e es l)) = {i. binary_PutUint32 e i \<in> dom (es m2)}"
  using assms by (auto simp: tables_def map_of_handle_def domIff)

lemma length_PutUint32 [simp]: "length (binary_PutUint32 e v) = 4"
  by (cases e) (simp_all add: binary_PutUint32_def)

section \<open>Calls of the declared sizes\<close>

text \<open>
  The library behind a check: a \<open>Put\<close> or \<open>Delete\<close> on a map whose key or value has not the declared
  size, or on a map that is not declared, ends the process.
\<close>

definition put_fits :: "bpf_map_spec option \<Rightarrow> byte list \<Rightarrow> byte list \<Rightarrow> bool" where
  "put_fits so key v \<longleftrightarrow>
     (case so of None \<Rightarrow> False | Some s \<Rightarrow> length key = key_size s \<and> length v = value_size s)"

definition key_fits :: "bpf_map_spec option \<Rightarrow> byte list \<Rightarrow> bool" where
  "key_fits so key \<longleftrightarrow> (case so of None \<Rightarrow> False | Some s \<Rightarrow> length key = key_size s)"

definition checked_lib ::
  "('k \<Rightarrow> nat \<Rightarrow> bpf_map_spec option) \<Rightarrow> ('k, 'sp, 'z) bpf_lib_scheme \<Rightarrow> ('k, 'sp, 'z) bpf_lib_scheme" where
  "checked_lib spec lib = lib\<lparr>
     ebpf_Map_Put := (\<lambda>h key v k. case h of
         None \<Rightarrow> ebpf_Map_Put lib None key v k
       | Some m \<Rightarrow> if put_fits (spec k m) key v then ebpf_Map_Put lib (Some m) key v k
           else (Exited 1, k)),
     ebpf_Map_Delete := (\<lambda>h key k. case h of
         None \<Rightarrow> ebpf_Map_Delete lib None key k
       | Some m \<Rightarrow> if key_fits (spec k m) key then ebpf_Map_Delete lib (Some m) key k
           else (Exited 1, k))\<rparr>"

lemma map_op_fits:
  assumes "PodPolicyMap (tcMaps (tcObjs l)) = Some m1" and "ScionPathCache (tcMaps (tcObjs l)) = Some m2"
    and "spec k m1 = Some pod_policy_map_spec" and "spec k m2 = Some scion_path_cache_spec"
    and "wf_op op"
  shows "run_map_op (checked_lib spec lib) e l op k = run_map_op lib e l op k"
  using assms
  by (cases op)
    (auto simp: checked_lib_def put_fits_def key_fits_def UpdatePodPolicy_def DeletePodPolicy_def
      UpdateScionPath_def DeleteScionPath_def pod_policy_map_spec_def scion_path_cache_spec_def
      length_entry_memory split: sum.splits)

context limited_kernel
begin

lemma map_ops_fit:
  assumes "limit_inv (spec k) (entries k) l" and "list_all wf_op ops"
  shows "run_map_ops (checked_lib spec lib) e l ops k = run_map_ops lib e l ops k"
  using assms
proof (induction ops arbitrary: k)
  case (Cons op ops)
  obtain r k1 where op: "run_map_op lib e l op k = (r, k1)" by (cases "run_map_op lib e l op k")
  have "run_map_op (checked_lib spec lib) e l op k = run_map_op lib e l op k"
    using Cons.prems map_op_fits [of l _ _ spec k op lib e] unfolding limit_inv_def by auto
  then show ?case
    using Cons.IH [OF map_op_limits [OF op Cons.prems(1)]] Cons.prems(2) op by simp
qed simp

end

section \<open>The property\<close>

text \<open>
  C18: the loader keeps to the maps' declarations: in every state it can reach, closed or not, the
  tables hold at most the 10000 pods and 1024 paths that \<open>maps.h\<close> declares, and in any sequence of
  map operations from there, whatever their outcomes, every key and every value has the size
  declared for the map it is written to, so that a library that stops every other call makes no
  difference.  The path entries are those of Go, whose arrays have fixed lengths.
\<close>
theorem map_calls_conform:
  assumes "limited_kernel lib entries open_fds filters qdiscs spec"
    and "loader_reach lib e tb xb (l, k)" and "list_all wf_op ops"
  shows "card (dom (pods (tables e (entries k) l))) \<le> 10000 \<and>
    card (dom (paths (tables e (entries k) l))) \<le> 1024 \<and>
    run_map_ops (checked_lib spec lib) e l ops k = run_map_ops lib e l ops k"
proof -
  note inv = limited_kernel.loader_reach_limits [OF assms(1,2)]
  then obtain m1 m2 where h: "PodPolicyMap (tcMaps (tcObjs l)) = Some m1"
      "ScionPathCache (tcMaps (tcObjs l)) = Some m2"
    and w: "within pod_policy_map_spec (entries k m1)" "within scion_path_cache_spec (entries k m2)"
    unfolding limit_inv_def by blast
  have "card (dom (paths (tables e (entries k) l))) = card (dom (entries k m2))"
    using w(2) by (simp add: tables_dom [OF h] card_path_keys within_def scion_path_cache_spec_def)
  then show ?thesis
    using w limited_kernel.map_ops_fit [OF assms(1) inv assms(3)]
    by (simp add: tables_dom [OF h] within_def pod_policy_map_spec_def scion_path_cache_spec_def)
qed

theorem map_calls_conform_witness:
  "let ops = [OpUpdatePod [10, 1, 0, 5] 7, OpUpdatePath 7 demo_entry, OpUpdatePod [1, 2, 3] 8]
   in fst (run_map_ops (checked_lib ref_spec ref_lib) BigEndian demo_loader ops demo_kernel) =
     [Return None, Return None, Return (Some (IPToKey_error [1, 2, 3]))]"
proof -
  let ?ops = "[OpUpdatePod [10, 1, 0, 5] 7, OpUpdatePath 7 demo_entry, OpUpdatePod [1, 2, 3] 8]"
  have "list_all wf_op ?ops" by (simp add: wf_entry_def demo_entry_def)
  from map_calls_conform [OF rk.limited_kernel_axioms reach_demo this]
  have "run_map_ops (checked_lib ref_spec ref_lib) BigEndian demo_loader ?ops demo_kernel =
      run_map_ops ref_lib BigEndian demo_loader ?ops demo_kernel" by blast
  moreover have "fst (run_map_ops ref_lib BigEndian demo_loader ?ops demo_kernel) =
      [Return None, Return None, Return (Some (IPToKey_error [1, 2, 3]))]"
    unfolding demo_loader_eq demo_kernel_eq by code_simp
  ultimately show ?thesis by (simp only: Let_def)
qed

end
