(* ===== verification/TestUtils.thy ===== *)
theory TestUtils
  imports Prelude
begin

text \<open>
  \<open>test/utils/utils.go\<close>: the helpers of the end-to-end tests, which run commands, look for the
  cert-manager resources in a listing and uncomment parts of a file.  The operating system is the
  record \<open>os_lib\<close> of the calls they make; \<open>strings.Index\<close>, \<open>strings.TrimPrefix\<close>,
  \<open>strings.SplitSeq\<close> and \<open>bufio.Scanner\<close> are modelled as far as they are used.  Writes to a
  \<open>bytes.Buffer\<close> do not fail, and printing is left out.
\<close>

section \<open>Strings\<close>

fun index_from :: "string \<Rightarrow> string \<Rightarrow> nat \<Rightarrow> nat option" where
  "index_from [] sub i = (if sub = [] then Some i else None)"
| "index_from (c # s) sub i = (if prefix sub (c # s) then Some i else index_from s sub (Suc i))"

text \<open>\<open>strings.Index\<close>: the first occurrence, \<open>None\<close> for a negative result.\<close>

definition strings_Index :: "string \<Rightarrow> string \<Rightarrow> nat option" where
  "strings_Index s sub = index_from s sub 0"

definition strings_Contains :: "string \<Rightarrow> string \<Rightarrow> bool" where
  "strings_Contains s sub \<longleftrightarrow> strings_Index s sub \<noteq> None"

definition strings_TrimPrefix :: "string \<Rightarrow> string \<Rightarrow> string" where
  "strings_TrimPrefix s p = (if prefix p s then drop (length p) s else s)"

fun split_lines :: "string \<Rightarrow> string list" where
  "split_lines [] = [[]]"
| "split_lines (c # s) =
     (if c = CHR 0x0A then [] # split_lines s
      else case split_lines s of [] \<Rightarrow> [[c]] | l # ls \<Rightarrow> (c # l) # ls)"

text \<open>
  The lines a \<open>bufio.Scanner\<close> returns: a final empty line is none, a trailing carriage return is
  dropped, and a line of 65536 bytes or more ends the scan.
\<close>

definition drop_cr :: "string \<Rightarrow> string" where
  "drop_cr l = (if l \<noteq> [] \<and> last l = CHR 0x0D then butlast l else l)"

definition scan_lines :: "string \<Rightarrow> string list" where
  "scan_lines t =
     (let ls = split_lines t
      in map drop_cr (takeWhile (\<lambda>l. length l < 65536) (if last ls = [] then butlast ls else ls)))"

section \<open>The operating system\<close>

record 's os_lib =
  os_Getwd :: "'s \<Rightarrow> string \<times> go_error option"
  os_Chdir :: "string \<Rightarrow> 's \<Rightarrow> go_error option \<times> 's"
  os_Environ :: "'s \<Rightarrow> string list"
  os_LookupVar :: "string \<Rightarrow> 's \<Rightarrow> string option"
  cmd_CombinedOutput :: "string list \<Rightarrow> string \<Rightarrow> string list \<Rightarrow> 's \<Rightarrow> (string \<times> go_error option) \<times> 's"
  os_ReadFile :: "string \<Rightarrow> 's \<Rightarrow> go_error + string"
  os_WriteFile :: "string \<Rightarrow> string \<Rightarrow> 's \<Rightarrow> go_error option \<times> 's"

section \<open>Running commands\<close>

definition GetProjectDir :: "('s, 'z) os_lib_scheme \<Rightarrow> 's \<Rightarrow> string \<times> go_error option" where
  "GetProjectDir lib s =
     (case os_Getwd lib s of
        (wd, Some err) \<Rightarrow> (wd, Some (Wrapped ''failed to get current working directory: '' err))
      | (wd, None) \<Rightarrow> (strings_ReplaceAll wd ''/test/e2e'' [], None))"

text \<open>The errors of \<open>GetProjectDir\<close> and \<open>Chdir\<close> are ignored.\<close>

definition Run :: "('s, 'z) os_lib_scheme \<Rightarrow> string list \<Rightarrow> 's \<Rightarrow> (string \<times> go_error option) \<times> 's" where
  "Run lib args s =
     (let dir = fst (GetProjectDir lib s);
          s1 = snd (os_Chdir lib dir s);
          env = os_Environ lib s1 @ [''GO111MODULE=on''];
          command = strings_Join args '' ''
      in case cmd_CombinedOutput lib args dir env s1 of
           ((out, Some err), s2) \<Rightarrow>
             ((out, Some (Wrapped (go_quote command @ '' failed with error '' @ go_quote out @ '': '')
                err)), s2)
         | ((out, None), s2) \<Rightarrow> ((out, None), s2))"

definition certmanager_url :: string where
  "certmanager_url =
     ''https://github.com/cert-manager/cert-manager/releases/download/'' @ ''v1.20.2'' @
     ''/cert-manager.yaml''"

fun delete_leases :: "('s, 'z) os_lib_scheme \<Rightarrow> string list \<Rightarrow> 's \<Rightarrow> 's" where
  "delete_leases lib [] s = s"
| "delete_leases lib (lease # ls) s =
     delete_leases lib ls (snd (Run lib [''kubectl'', ''delete'', ''lease'', lease, ''-n'',
       ''kube-system'', ''--ignore-not-found'', ''--force'', ''--grace-period=0''] s))"

definition UninstallCertManager :: "('s, 'z) os_lib_scheme \<Rightarrow> 's \<Rightarrow> 's" where
  "UninstallCertManager lib s =
     delete_leases lib [''cert-manager-cainjector-leader-election'', ''cert-manager-controller'']
       (snd (Run lib [''kubectl'', ''delete'', ''-f'', certmanager_url] s))"

definition InstallCertManager :: "('s, 'z) os_lib_scheme \<Rightarrow> 's \<Rightarrow> go_error option \<times> 's" where
  "InstallCertManager lib s =
     (case Run lib [''kubectl'', ''apply'', ''-f'', certmanager_url] s of
        ((_, Some err), s1) \<Rightarrow> (Some err, s1)
      | ((_, None), s1) \<Rightarrow>
          (case Run lib [''kubectl'', ''wait'', ''deployment.apps/cert-manager-webhook'', ''--for'',
                  ''condition=Available'', ''--namespace'', ''cert-manager'', ''--timeout'', ''5m''] s1 of
             ((_, err), s2) \<Rightarrow> (err, s2)))"

definition GetNonEmptyLines :: "string \<Rightarrow> string list" where
  "GetNonEmptyLines out = filter (\<lambda>l. l \<noteq> []) (split_lines out)"

definition certManagerCRDs :: "string list" where
  "certManagerCRDs =
     [''certificates.cert-manager.io'', ''issuers.cert-manager.io'',
      ''clusterissuers.cert-manager.io'', ''certificaterequests.cert-manager.io'',
      ''orders.acme.cert-manager.io'', ''challenges.acme.cert-manager.io'']"

definition IsCertManagerCRDsInstalled :: "('s, 'z) os_lib_scheme \<Rightarrow> 's \<Rightarrow> bool \<times> 's" where
  "IsCertManagerCRDsInstalled lib s =
     (case Run lib [''kubectl'', ''get'', ''crds''] s of
        ((out, Some err), s1) \<Rightarrow> (False, s1)
      | ((out, None), s1) \<Rightarrow>
          (list_ex (\<lambda>crd. list_ex (\<lambda>line. strings_Contains line crd) (GetNonEmptyLines out))
             certManagerCRDs, s1))"

definition LoadImageToKindClusterWithName ::
  "('s, 'z) os_lib_scheme \<Rightarrow> string \<Rightarrow> 's \<Rightarrow> go_error option \<times> 's" where
  "LoadImageToKindClusterWithName lib name s =
     (let cluster = (case os_LookupVar lib ''KIND_CLUSTER'' s of Some v \<Rightarrow> v | None \<Rightarrow> ''kind'');
          kindOptions = [''load'', ''docker-image'', name, ''--name'', cluster];
          kindBinary = (case os_LookupVar lib ''KIND'' s of Some v \<Rightarrow> v | None \<Rightarrow> ''kind'')
      in case Run lib (kindBinary # kindOptions) s of ((_, err), s1) \<Rightarrow> (err, s1))"

section \<open>Uncommenting\<close>

text \<open>The loop over the scanned lines: no newline after the last one.\<close>

fun uncomment_loop :: "string \<Rightarrow> string list \<Rightarrow> string \<Rightarrow> string" where
  "uncomment_loop p [] out = out"
| "uncomment_loop p [l] out = out @ strings_TrimPrefix l p"
| "uncomment_loop p (l # l' # ls) out =
     uncomment_loop p (l' # ls) ((out @ strings_TrimPrefix l p) @ [CHR 0x0A])"

definition UncommentCode ::
  "('s, 'z) os_lib_scheme \<Rightarrow> string \<Rightarrow> string \<Rightarrow> string \<Rightarrow> 's \<Rightarrow> go_error option \<times> 's" where
  "UncommentCode lib filename target p s =
     (case os_ReadFile lib filename s of
        Inl err \<Rightarrow> (Some (Wrapped (''failed to read file '' @ go_quote filename @ '': '') err), s)
      | Inr content \<Rightarrow>
          (case strings_Index content target of
             None \<Rightarrow> (Some (ErrText (''unable to find the code '' @ go_quote target @
                 '' to be uncommented'')), s)
           | Some idx \<Rightarrow>
               (case scan_lines target of
                  [] \<Rightarrow> (None, s)
                | ls \<Rightarrow>
                    (case os_WriteFile lib filename
                            (uncomment_loop p ls (take idx content) @
                             drop (idx + length target) content) s of
                       (Some err, s1) \<Rightarrow>
                         (Some (Wrapped (''failed to write file '' @ go_quote filename @ '': '') err), s1)
                     | (None, s1) \<Rightarrow> (None, s1)))))"

section \<open>Facts\<close>

lemma uncomment_loop_Join:
  "ls \<noteq> [] \<Longrightarrow> uncomment_loop p ls out =
     out @ strings_Join (map (\<lambda>l. strings_TrimPrefix l p) ls) [CHR 0x0A]"
  by (induction p ls out rule: uncomment_loop.induct) auto

lemma index_from_shift: "index_from s sub i = map_option (\<lambda>n. n + i) (index_from s sub 0)"
proof (induction s arbitrary: i)
  case Nil
  then show ?case by simp
next
  case (Cons c s)
  show ?case
    using Cons.IH [of "Suc i"] Cons.IH [of "Suc 0"] by (cases "index_from s sub 0") simp_all
qed

lemma strings_Index_split:
  "strings_Index s sub = Some n \<Longrightarrow> s = take n s @ sub @ drop (n + length sub) s"
proof (induction s arbitrary: n)
  case Nil
  then show ?case by (auto simp: strings_Index_def split: if_splits)
next
  case (Cons c s)
  show ?case
  proof (cases "prefix sub (c # s)")
    case True
    then have "n = 0" using Cons.prems by (simp add: strings_Index_def)
    moreover obtain u where "c # s = sub @ u" using True by (rule prefixE)
    ultimately show ?thesis by simp
  next
    case False
    then obtain m where m: "strings_Index s sub = Some m" "n = Suc m"
      using Cons.prems index_from_shift [of s sub "Suc 0"] by (auto simp: strings_Index_def)
    then show ?thesis using Cons.IH [OF m(1)] by simp
  qed
qed

lemma split_lines_not_Nil [simp]: "split_lines s \<noteq> []"
  by (cases s) (auto split: list.splits)

lemma split_lines_append:
  "CHR 0x0A \<notin> set l \<Longrightarrow> split_lines (l @ CHR 0x0A # s) = l # split_lines s"
  by (induction l) auto

lemma split_lines_single: "CHR 0x0A \<notin> set l \<Longrightarrow> split_lines l = [l]"
  by (induction l) auto

lemma split_lines_Join:
  "ls \<noteq> [] \<Longrightarrow> \<forall>l\<in>set ls. CHR 0x0A \<notin> set l \<Longrightarrow>
     split_lines (strings_Join ls [CHR 0x0A]) = ls"
  by (induction ls) (auto simp: strings_Join_Cons split_lines_append split_lines_single)

text \<open>A line that a scan returns as it is.\<close>

definition plain_line :: "string \<Rightarrow> bool" where
  "plain_line l \<longleftrightarrow> l \<noteq> [] \<and> CHR 0x0A \<notin> set l \<and> last l \<noteq> CHR 0x0D \<and> length l < 65536"

lemma plain_lines_scanned:
  assumes "\<forall>l\<in>set ls. plain_line l"
  shows "map drop_cr (takeWhile (\<lambda>l. length l < 65536) ls) = ls"
proof -
  have "takeWhile (\<lambda>l. length l < 65536) ls = ls"
    using assms by (simp add: takeWhile_eq_all_conv plain_line_def)
  moreover have "map drop_cr ls = ls"
    using assms by (intro map_idI) (auto simp: plain_line_def drop_cr_def)
  ultimately show ?thesis by metis
qed

lemma scan_lines_Join:
  assumes "ls \<noteq> []" and "\<forall>l\<in>set ls. plain_line l"
  shows "scan_lines (strings_Join ls [CHR 0x0A]) = ls"
proof -
  have "split_lines (strings_Join ls [CHR 0x0A]) = ls"
    using assms by (intro split_lines_Join) (auto simp: plain_line_def)
  moreover have "last ls \<noteq> []" using assms by (auto simp: plain_line_def)
  moreover note plain_lines_scanned [OF assms(2)]
  ultimately show ?thesis by (simp add: scan_lines_def)
qed

text \<open>A newline at the end of the target is lost: the scan drops the empty last line.\<close>

lemma scan_lines_newline:
  assumes "ls \<noteq> []" and "\<forall>l\<in>set ls. plain_line l"
  shows "scan_lines (strings_Join ls [CHR 0x0A] @ [CHR 0x0A]) = ls"
proof -
  have "split_lines (strings_Join ls [CHR 0x0A] @ [CHR 0x0A]) = ls @ [[]]"
    using assms
    by (induction ls) (auto simp: strings_Join_Cons split_lines_append plain_line_def)
  moreover note plain_lines_scanned [OF assms(2)]
  ultimately show ?thesis by (simp add: scan_lines_def)
qed

text \<open>The first occurrence of a string, as the positions before it show.\<close>

lemma strings_Index_first:
  assumes "prefix sub (drop n s)" and "\<forall>m<n. \<not> prefix sub (drop m s)" and "n \<le> length s"
  shows "strings_Index s sub = Some n"
  using assms
proof (induction s arbitrary: n)
  case Nil
  then show ?case by (simp add: strings_Index_def)
next
  case (Cons c s)
  show ?case
  proof (cases n)
    case 0
    then show ?thesis using Cons.prems(1) by (simp add: strings_Index_def)
  next
    case (Suc k)
    have "\<not> prefix sub (c # s)" using Cons.prems(2) Suc by (metis drop0 zero_less_Suc)
    moreover have "\<forall>m<k. \<not> prefix sub (drop m s)"
      using Cons.prems(2) Suc by (metis Suc_mono drop_Suc_Cons)
    then have "strings_Index s sub = Some k" using Cons Suc by simp
    ultimately show ?thesis
      using index_from_shift [of s sub "Suc 0"] Suc by (simp add: strings_Index_def)
  qed
qed

lemma strings_TrimPrefix_append [simp]: "strings_TrimPrefix (p @ l) p = l"
  by (simp add: strings_TrimPrefix_def)

section \<open>The property\<close>

text \<open>
  Uncommenting a block: if the first occurrence of the target in the file is a sequence of
  lines that all carry the prefix, the file is written once, with the prefix removed from these
  lines and all else unchanged, except that a newline at the end of the target is lost, so that
  the text after it joins the last uncommented line.
\<close>
lemma UncommentCode_uncomments:
  assumes "os_ReadFile lib file s = Inr (a @ target @ b)"
    and "\<forall>m<length a. \<not> prefix target (drop m (a @ target @ b))"
    and "target = strings_Join (map (\<lambda>l. p @ l) ls) [CHR 0x0A] @ nl"
    and "nl = [] \<or> nl = [CHR 0x0A]"
    and "ls \<noteq> []" and "\<forall>l\<in>set ls. plain_line (p @ l)"
  shows "UncommentCode lib file target p s =
    (case os_WriteFile lib file (a @ strings_Join ls [CHR 0x0A] @ b) s of
       (err, s') \<Rightarrow>
         (map_option (Wrapped (''failed to write file '' @ go_quote file @ '': '')) err, s'))"
proof -
  let ?ps = "map (\<lambda>l. p @ l) ls"
  have idx: "strings_Index (a @ target @ b) target = Some (length a)"
    using assms(2) by (intro strings_Index_first) simp_all
  have plain: "?ps \<noteq> []" "\<forall>l\<in>set ?ps. plain_line l" using assms(5,6) by simp_all
  have scan: "scan_lines target = ?ps"
    using assms(3,4) scan_lines_Join [OF plain] scan_lines_newline [OF plain] by auto
  have loop: "uncomment_loop p ?ps a = a @ strings_Join ls [CHR 0x0A]"
    using uncomment_loop_Join [OF plain(1), of p a] by (simp add: comp_def)
  obtain q qs where q: "?ps = q # qs" using plain(1) by (cases ?ps) auto
  show ?thesis
    using loop by (simp add: UncommentCode_def assms(1) idx scan q split: prod.splits option.splits)
qed

text \<open>The witness's operating system: its state is the contents of the one file.\<close>

definition one_file :: "string os_lib" where
  "one_file = \<lparr>os_Getwd = (\<lambda>_. (''/'', None)), os_Chdir = (\<lambda>_ s. (None, s)), os_Environ = (\<lambda>_. []),
     os_LookupVar = (\<lambda>_ _. None), cmd_CombinedOutput = (\<lambda>_ _ _ s. (([], None), s)),
     os_ReadFile = (\<lambda>_ s. Inr s), os_WriteFile = (\<lambda>_ t _. (None, t))\<rparr>"

end
