(* ===== verification/SchemeReg.thy ===== *)
theory SchemeReg
  imports Manager ApiServerRef
begin

text \<open>
  Package initialisation: \<open>groupversion_info.go\<close>, the \<open>init\<close> functions of the API types and the
  scheme of \<open>cmd/main.go\<close>.  The scheme and its builder are packages of the Kubernetes project: the
  record \<open>scheme_lib\<close> over their states, with what is relied on as the locale \<open>scheme_registry\<close>.
  A Go type is given by its name.  The \<open>init\<close> functions of a package run after its variables are
  set, in the order of its files' names, and before those of the packages that import it.
\<close>

section \<open>The packages\<close>

record GroupVersion =
  Group :: string
  Version :: string

record ('s, 'b) scheme_lib =
  runtime_NewScheme :: 's
  new_Builder :: "GroupVersion \<Rightarrow> 'b"
  Builder_Register :: "string list \<Rightarrow> 'b \<Rightarrow> 'b"
  Builder_AddToScheme :: "'b \<Rightarrow> 's \<Rightarrow> go_error option \<times> 's"
  clientgo_AddToScheme :: "'s \<Rightarrow> go_error option \<times> 's"

definition core_v1 :: GroupVersion where
  "core_v1 = \<lparr>Group = '''', Version = ''v1''\<rparr>"

section \<open>api/v1alpha1\<close>

definition SchemeGroupVersion :: GroupVersion where
  "SchemeGroupVersion = \<lparr>Group = ''cilion.cilion.io'', Version = ''v1alpha1''\<rparr>"

definition SchemeBuilder :: "('s, 'b, 'z) scheme_lib_scheme \<Rightarrow> 'b" where
  "SchemeBuilder lib = new_Builder lib SchemeGroupVersion"

definition clusterpeer_init :: "('s, 'b, 'z) scheme_lib_scheme \<Rightarrow> 'b \<Rightarrow> 'b" where
  "clusterpeer_init lib = Builder_Register lib [''ScionClusterPeer'', ''ScionClusterPeerList'']"

definition computedpath_init :: "('s, 'b, 'z) scheme_lib_scheme \<Rightarrow> 'b \<Rightarrow> 'b" where
  "computedpath_init lib = Builder_Register lib [''ScionComputedPath'', ''ScionComputedPathList'']"

definition pathpolicy_init :: "('s, 'b, 'z) scheme_lib_scheme \<Rightarrow> 'b \<Rightarrow> 'b" where
  "pathpolicy_init lib = Builder_Register lib [''ScionPathPolicy'', ''ScionPathPolicyList'']"

definition v1alpha1_init :: "('s, 'b, 'z) scheme_lib_scheme \<Rightarrow> 'b" where
  "v1alpha1_init lib =
     pathpolicy_init lib (computedpath_init lib (clusterpeer_init lib (SchemeBuilder lib)))"

text \<open>\<open>AddToScheme\<close> is a method value: it works on the builder as it is when called.\<close>

definition v1alpha1_AddToScheme ::
  "('s, 'b, 'z) scheme_lib_scheme \<Rightarrow> 'b \<Rightarrow> 's \<Rightarrow> go_error option \<times> 's" where
  "v1alpha1_AddToScheme lib b = Builder_AddToScheme lib b"

section \<open>cmd/main.go\<close>

text \<open>\<open>utilruntime.Must\<close> panics on an error, which in an \<open>init\<close> ends the process with status 2.\<close>

fun Must :: "go_error option \<times> 's \<Rightarrow> 's go" where
  "Must (None, s) = Return s"
| "Must (Some err, s) = Exited 2"

definition main_init :: "('s, 'b, 'z) scheme_lib_scheme \<Rightarrow> 'b \<Rightarrow> 's go" where
  "main_init lib b =
     (case Must (clientgo_AddToScheme lib (runtime_NewScheme lib)) of
        Return s \<Rightarrow> Must (v1alpha1_AddToScheme lib b s)
      | Panicked p \<Rightarrow> Panicked p
      | Exited n \<Rightarrow> Exited n)"

definition program_init :: "('s, 'b, 'z) scheme_lib_scheme \<Rightarrow> 's go" where
  "program_init lib = main_init lib (v1alpha1_init lib)"

section \<open>Contract\<close>

text \<open>
  A builder remembers its group version and the types registered with it.  Adding it to a scheme
  that knows none of them succeeds and makes the scheme recognise them, and in their group version
  nothing else but the kinds every group version gets; adding keeps what is recognised.  The
  client's types include pods and none of this program's.
\<close>

locale scheme_registry =
  fixes lib :: "('s, 'b, 'z) scheme_lib_scheme"
    and builder_gv :: "'b \<Rightarrow> GroupVersion" and builder_types :: "'b \<Rightarrow> string set"
    and recognizes :: "'s \<Rightarrow> GroupVersion \<Rightarrow> string \<Rightarrow> bool" and common_kinds :: "string set"
  assumes new_scheme: "\<not> recognizes (runtime_NewScheme lib) gv k"
    and new_builder: "builder_gv (new_Builder lib gv) = gv" "builder_types (new_Builder lib gv) = {}"
    and register: "builder_gv (Builder_Register lib ts b) = builder_gv b"
      "builder_types (Builder_Register lib ts b) = builder_types b \<union> set ts"
    and add_fresh: "(\<And>k. \<not> recognizes s (builder_gv b) k) \<Longrightarrow>
      fst (Builder_AddToScheme lib b s) = None"
    and add_types: "Builder_AddToScheme lib b s = (None, s') \<Longrightarrow>
      recognizes s' (builder_gv b) k \<longleftrightarrow>
        recognizes s (builder_gv b) k \<or> k \<in> builder_types b \<or> k \<in> common_kinds"
    and add_keeps: "Builder_AddToScheme lib b s = (None, s') \<Longrightarrow> recognizes s gv k \<Longrightarrow>
      recognizes s' gv k"
    and client_ok: "fst (clientgo_AddToScheme lib (runtime_NewScheme lib)) = None"
    and client_types: "clientgo_AddToScheme lib (runtime_NewScheme lib) = (None, s) \<Longrightarrow>
      recognizes s core_v1 ''Pod''"
    and client_other: "clientgo_AddToScheme lib (runtime_NewScheme lib) = (None, s) \<Longrightarrow>
      \<not> recognizes s SchemeGroupVersion k"
begin

lemma builder_init:
  "builder_gv (v1alpha1_init lib) = SchemeGroupVersion"
  "builder_types (v1alpha1_init lib) =
     {''ScionClusterPeer'', ''ScionClusterPeerList'', ''ScionComputedPath'', ''ScionComputedPathList'',
      ''ScionPathPolicy'', ''ScionPathPolicyList''}"
  by (auto simp: v1alpha1_init_def pathpolicy_init_def computedpath_init_def clusterpeer_init_def
      SchemeBuilder_def new_builder register)

lemma program_init_ok:
  "\<exists>s. program_init lib = Return s \<and> recognizes s core_v1 ''Pod'' \<and>
     (\<forall>k. recognizes s SchemeGroupVersion k \<longleftrightarrow>
        k \<in> builder_types (v1alpha1_init lib) \<or> k \<in> common_kinds)"
proof -
  obtain s where s: "clientgo_AddToScheme lib (runtime_NewScheme lib) = (None, s)"
    using client_ok by (cases "clientgo_AddToScheme lib (runtime_NewScheme lib)") auto
  note other = client_other [OF s]
  obtain s' where s': "Builder_AddToScheme lib (v1alpha1_init lib) s = (None, s')"
    using add_fresh [of s "v1alpha1_init lib"] other
    by (cases "Builder_AddToScheme lib (v1alpha1_init lib) s") (auto simp: builder_init)
  have "program_init lib = Return s'"
    by (simp add: program_init_def main_init_def s s' v1alpha1_AddToScheme_def)
  moreover have "recognizes s' core_v1 ''Pod''" by (rule add_keeps [OF s' client_types [OF s]])
  moreover have "recognizes s' SchemeGroupVersion k \<longleftrightarrow>
      k \<in> builder_types (v1alpha1_init lib) \<or> k \<in> common_kinds" for k
    using add_types [OF s', of k] other by (simp add: builder_init)
  ultimately show ?thesis by blast
qed

end

section \<open>What the controllers need\<close>

text \<open>A manager that collects the controllers that are set up on it.\<close>

definition collect_mgr :: "('w, 'w controller_builder list) mgr_lib" where
  "collect_mgr =
     \<lparr>ctrl_NewManager = (\<lambda>_. Return (Inr [])), Complete = (\<lambda>b m. (None, m @ [b])),
      AddHealthzCheck = (\<lambda>_ m. (None, m)), AddReadyzCheck = (\<lambda>_ m. (None, m)),
      Start = (\<lambda>m. (None, m))\<rparr>"

definition kinds_of :: "'w controller_builder \<Rightarrow> string list" where
  "kinds_of b = bFor b # map wKind (bWatches b)"

definition gv_of :: "string \<Rightarrow> GroupVersion" where
  "gv_of kind = (if kind = ''Pod'' then core_v1 else SchemeGroupVersion)"

lemma kinds_by_role:
  assumes "setup_controllers lib collect_mgr md [] = (Return (), bs)" and "b \<in> set bs"
    and "k \<in> set (kinds_of b)"
  shows "k \<in> {''Pod'', ''ScionPathPolicy'', ''ScionClusterPeer'', ''ScionComputedPath''}"
  using assms
  by (auto simp: setup_controllers_def setup_operator_def setup_agent_def collect_mgr_def kinds_of_def
      PathPolicy_SetupWithManager_def ClusterPeer_SetupWithManager_def
      ComputedPath_SetupWithManager_def policy_builder_def split: if_splits)

section \<open>A scheme in memory\<close>

text \<open>A scheme and a builder as lists of what was added.\<close>

type_synonym mem_scheme = "(GroupVersion \<times> string) list"
type_synonym mem_builder = "GroupVersion \<times> string list"

definition mem_scheme_lib :: "(mem_scheme, mem_builder) scheme_lib" where
  "mem_scheme_lib =
     \<lparr>runtime_NewScheme = [], new_Builder = (\<lambda>gv. (gv, [])),
      Builder_Register = (\<lambda>ts b. (fst b, snd b @ ts)),
      Builder_AddToScheme = (\<lambda>b s.
        if \<exists>k\<in>set (snd b). (fst b, k) \<in> set s then (Some (ErrText ''Double registration''), s)
        else (None, s @ map (Pair (fst b)) (snd b @ [''ListOptions'', ''WatchEvent'']))),
      clientgo_AddToScheme = (\<lambda>s. (None, s @ [(core_v1, ''Pod''), (core_v1, ''PodList'')]))\<rparr>"

interpretation mem_scheme: scheme_registry mem_scheme_lib fst "\<lambda>b. set (snd b)"
    "\<lambda>s gv k. (gv, k) \<in> set s" "{''ListOptions'', ''WatchEvent''}"
  by unfold_locales
    (auto simp: mem_scheme_lib_def core_v1_def SchemeGroupVersion_def split: if_splits)

section \<open>The scheme covers the controllers\<close>

text \<open>
  C39: before \<open>main\<close> runs, the scheme knows pods and, in the group version of this program, exactly
  the six registered types beside the common kinds; so in either role every kind that a controller
  is set up for or watches is in the scheme the manager is given.
\<close>
theorem scheme_covers_controllers:
  assumes "scheme_registry slib builder_gv builder_types recognizes common_kinds"
    and "setup_controllers lib collect_mgr md [] = (Return (), bs)"
  shows "\<exists>s. program_init slib = Return s \<and>
    (\<forall>k. recognizes s SchemeGroupVersion k \<longleftrightarrow> k \<in> common_kinds \<or>
       k \<in> {''ScionClusterPeer'', ''ScionClusterPeerList'', ''ScionComputedPath'',
         ''ScionComputedPathList'', ''ScionPathPolicy'', ''ScionPathPolicyList''}) \<and>
    (\<forall>b\<in>set bs. \<forall>k\<in>set (kinds_of b). recognizes s (gv_of k) k)"
proof -
  from scheme_registry.program_init_ok [OF assms(1)] obtain s where
    s: "program_init slib = Return s" "recognizes s core_v1 ''Pod''"
    and all: "\<forall>k. recognizes s SchemeGroupVersion k \<longleftrightarrow>
      k \<in> builder_types (v1alpha1_init slib) \<or> k \<in> common_kinds"
    by (elim exE conjE)
  have known: "recognizes s SchemeGroupVersion k \<longleftrightarrow> k \<in> common_kinds \<or>
       k \<in> {''ScionClusterPeer'', ''ScionClusterPeerList'', ''ScionComputedPath'',
         ''ScionComputedPathList'', ''ScionPathPolicy'', ''ScionPathPolicyList''}" for k
    using all [THEN spec, of k] scheme_registry.builder_init(2) [OF assms(1)] by (simp only: disj_commute)
  have "recognizes s (gv_of k) k" if "b \<in> set bs" "k \<in> set (kinds_of b)" for b k
    using kinds_by_role [OF assms(2) that] s(2) by (auto simp: gv_of_def known)
  then have "\<forall>b\<in>set bs. \<forall>k\<in>set (kinds_of b). recognizes s (gv_of k) k" by (intro ballI)
  with s(1) known show ?thesis by (intro exI [of _ s] conjI allI)
qed

theorem scheme_covers_controllers_witness:
  "\<exists>s. program_init mem_scheme_lib = Return s \<and>
     map bNamed (snd (setup_controllers mem_k8s collect_mgr ''operator'' [])) =
       [''global-scion-policy-controller'', ''scionclusterpeer''] \<and>
     (SchemeGroupVersion, ''ScionPathPolicy'') \<in> set s \<and> (SchemeGroupVersion, ''Pod'') \<notin> set s"
proof -
  let ?bs = "snd (setup_controllers mem_k8s collect_mgr ''operator'' [])"
  have set: "setup_controllers mem_k8s collect_mgr ''operator'' [] = (Return (), ?bs)"
    and names: "map bNamed ?bs = [''global-scion-policy-controller'', ''scionclusterpeer'']"
    by (simp_all add: policy_builder_def setup_controllers_def setup_operator_def collect_mgr_def
        PathPolicy_SetupWithManager_def ClusterPeer_SetupWithManager_def)
  from scheme_covers_controllers [OF mem_scheme.scheme_registry_axioms set] obtain s where
    s: "program_init mem_scheme_lib = Return s"
    and known: "\<forall>k. (SchemeGroupVersion, k) \<in> set s \<longleftrightarrow> k \<in> {''ListOptions'', ''WatchEvent''} \<or>
       k \<in> {''ScionClusterPeer'', ''ScionClusterPeerList'', ''ScionComputedPath'',
         ''ScionComputedPathList'', ''ScionPathPolicy'', ''ScionPathPolicyList''}"
    by (elim exE conjE)
  from known [THEN spec, of "''ScionPathPolicy''"] known [THEN spec, of "''Pod''"]
  have "(SchemeGroupVersion, ''ScionPathPolicy'') \<in> set s" "(SchemeGroupVersion, ''Pod'') \<notin> set s"
    by simp_all
  with s names show ?thesis by (intro exI [of _ s] conjI)
qed

end
