(* ===== verification/Rbac.thy ===== *)
theory Rbac
  imports DemoApi
begin

text \<open>
  The cluster role the manager runs under, \<open>config/rbac/role.yaml\<close> as generated from the markers of
  the controllers, and a client whose calls the API server authorizes by it.
\<close>

section \<open>The role\<close>

record policy_rule =
  apiGroups :: "string list"
  resources :: "string list"
  verbs :: "string list"

definition cilion_group :: string where
  "cilion_group = ''cilion.cilion.io''"

definition manager_role :: "policy_rule list" where
  "manager_role =
     [\<lparr>apiGroups = [''''], resources = [''pods''], verbs = [''get'', ''list'', ''watch'']\<rparr>,
      \<lparr>apiGroups = [cilion_group],
       resources = [''scionclusterpeers'', ''scioncomputedpaths'', ''scionpathpolicies''],
       verbs = [''create'', ''delete'', ''get'', ''list'', ''patch'', ''update'', ''watch'']\<rparr>,
      \<lparr>apiGroups = [cilion_group],
       resources = [''scionclusterpeers/finalizers'', ''scioncomputedpaths/finalizers''],
       verbs = [''update'']\<rparr>,
      \<lparr>apiGroups = [cilion_group],
       resources = [''scionclusterpeers/status'', ''scioncomputedpaths/status''],
       verbs = [''get'', ''patch'', ''update'']\<rparr>]"

text \<open>
  A request is granted by a rule that lists its verb, its group and its resource, a subresource
  being a resource of its own.
\<close>

definition grants :: "policy_rule list \<Rightarrow> string \<Rightarrow> string \<Rightarrow> string \<Rightarrow> bool" where
  "grants role verb grp resource \<longleftrightarrow>
     list_ex (\<lambda>r. List.member (verbs r) verb \<and> List.member (apiGroups r) grp \<and>
       List.member (resources r) resource) role"

text \<open>What the operator does to objects, and which of it the role grants.\<close>

lemma manager_role_grants:
  "\<forall>v\<in>{''list'', ''watch''}. grants manager_role v cilion_group ''scionpathpolicies'' \<and>
     grants manager_role v cilion_group ''scionclusterpeers'' \<and>
     grants manager_role v cilion_group ''scioncomputedpaths'' \<and>
     grants manager_role v '''' ''pods''"
  "grants manager_role ''update'' cilion_group ''scionpathpolicies''"
  "grants manager_role ''create'' cilion_group ''scioncomputedpaths''"
  "grants manager_role ''update'' cilion_group ''scioncomputedpaths''"
  by (simp_all add: grants_def manager_role_def)


section \<open>The authorized client\<close>



section \<open>A server that authorizes\<close>




section \<open>What the role forbids\<close>



end
