(* ===== verification/ApiHeap.thy ===== *)
theory ApiHeap
  imports ApiTypes
begin

text \<open>
  The objects of \<open>api/v1alpha1\<close> as they lie in Go's memory, for the functions that copy them
  deeply.  A pointer is an address or \<open>None\<close> for nil; a slice is nil or an array's address with an
  offset and a length (its capacity is not read).  A cell holds one variable or one array.  What
  apimachinery's \<open>ObjectMeta\<close>, \<open>ListMeta\<close>, \<open>LabelSelector\<close> and \<open>Condition\<close> hold in memory is the
  type parameter \<open>'l\<close>: these structs and their copying are not in the repository.
\<close>

section \<open>Structs with their pointers\<close>

record TypeMeta =
  tmKind :: string
  tmAPIVersion :: string

record go_slice =
  sArr :: nat
  sOff :: nat
  sLen :: nat

record mScionClusterPeerStatus =
  mPeerConditions :: "go_slice option"

record 'l mScionClusterPeer =
  mPeerTypeMeta :: TypeMeta
  mPeerMeta :: 'l
  mPeerSpec :: ScionClusterPeerSpec
  mPeerStatus :: mScionClusterPeerStatus

record 'l mScionClusterPeerList =
  mPeerListTypeMeta :: TypeMeta
  mPeerListMeta :: 'l
  mPeerItems :: "go_slice option"

record mScionComputedPathSpec =
  mPolicyRef :: string
  mDestinationCIDR :: string
  mNextHopIP :: string
  mHopFields :: "go_slice option"

record mScionComputedPathStatus =
  mPathConditions :: "go_slice option"

record 'l mScionComputedPath =
  mPathTypeMeta :: TypeMeta
  mPathMeta :: 'l
  mPathSpec :: mScionComputedPathSpec
  mPathStatus :: mScionComputedPathStatus

record 'l mScionComputedPathList =
  mPathListTypeMeta :: TypeMeta
  mPathListMeta :: 'l
  mPathItems :: "go_slice option"

record 'l mScionPathPolicySpec =
  mPodSelector :: 'l
  mPreference :: "nat option"

record mScionPathPolicyStatus =
  mPolicyConditions :: "go_slice option"

record 'l mScionPathPolicy =
  mPolicyTypeMeta :: TypeMeta
  mPolicyMeta :: 'l
  mPolicySpec :: "'l mScionPathPolicySpec"
  mPolicyStatus :: mScionPathPolicyStatus

record 'l mScionPathPolicyList =
  mPolicyListTypeMeta :: TypeMeta
  mPolicyListMeta :: 'l
  mPolicyItems :: "go_slice option"

section \<open>The heap\<close>

text \<open>The kinds of cells: a variable of each type that is allocated, an array, or memory of the library.\<close>

datatype 'l cell =
    StringCell string
  | ByteArray "byte list"
  | ConditionArray "'l list"
  | PeerCell "'l mScionClusterPeer"
  | PeerArray "'l mScionClusterPeer list"
  | PeerListCell "'l mScionClusterPeerList"
  | PeerSpecCell ScionClusterPeerSpec
  | PeerStatusCell mScionClusterPeerStatus
  | PathCell "'l mScionComputedPath"
  | PathArray "'l mScionComputedPath list"
  | PathListCell "'l mScionComputedPathList"
  | PathSpecCell mScionComputedPathSpec
  | PathStatusCell mScionComputedPathStatus
  | PolicyCell "'l mScionPathPolicy"
  | PolicyArray "'l mScionPathPolicy list"
  | PolicyListCell "'l mScionPathPolicyList"
  | PolicySpecCell "'l mScionPathPolicySpec"
  | PolicyStatusCell mScionPathPolicyStatus
  | LibraryCell 'l

record 'l go_heap =
  hcells :: "nat \<rightharpoonup> 'l cell"
  hbrk :: nat

text \<open>
  A type of cells: how a value is put into a cell and read from it, and the zero value.  Go's
  typing makes a read through a pointer find a cell of the pointer's type; elsewhere the model
  reads a zero value.
\<close>

record ('l, 'a) cell_type =
  wrap :: "'a \<Rightarrow> 'l cell"
  unwrap :: "'l cell \<Rightarrow> 'a option"
  zero_value :: 'a

definition load :: "('l, 'a) cell_type \<Rightarrow> 'l go_heap \<Rightarrow> nat \<Rightarrow> 'a" where
  "load t h a = (case hcells h a of None \<Rightarrow> zero_value t
     | Some c \<Rightarrow> (case unwrap t c of None \<Rightarrow> zero_value t | Some x \<Rightarrow> x))"

definition store :: "('l, 'a) cell_type \<Rightarrow> nat \<Rightarrow> 'a \<Rightarrow> 'l go_heap \<Rightarrow> 'l go_heap" where
  "store t a x h = h\<lparr>hcells := (hcells h)(a \<mapsto> wrap t x)\<rparr>"

text \<open>\<open>new(T)\<close> and \<open>make([]T, n)\<close>: fresh memory with zero values.\<close>

definition alloc :: "'l cell \<Rightarrow> 'l go_heap \<Rightarrow> nat \<times> 'l go_heap" where
  "alloc c h = (hbrk h, h\<lparr>hcells := (hcells h)(hbrk h \<mapsto> c), hbrk := Suc (hbrk h)\<rparr>)"

definition new_value :: "('l, 'a) cell_type \<Rightarrow> 'l go_heap \<Rightarrow> nat \<times> 'l go_heap" where
  "new_value t h = alloc (wrap t (zero_value t)) h"

definition make_slice ::
  "('l, 'a list) cell_type \<Rightarrow> 'a \<Rightarrow> nat \<Rightarrow> 'l go_heap \<Rightarrow> go_slice \<times> 'l go_heap" where
  "make_slice t z n h =
     (case alloc (wrap t (replicate n z)) h of
        (a, h1) \<Rightarrow> (\<lparr>sArr = a, sOff = 0, sLen = n\<rparr>, h1))"

text \<open>\<open>s[i]\<close>, read and written, and the elements of a slice.\<close>

definition elem :: "('l, 'a list) cell_type \<Rightarrow> 'l go_heap \<Rightarrow> go_slice \<Rightarrow> nat \<Rightarrow> 'a" where
  "elem t h s i = load t h (sArr s) ! (sOff s + i)"

definition set_elem ::
  "('l, 'a list) cell_type \<Rightarrow> go_slice \<Rightarrow> nat \<Rightarrow> 'a \<Rightarrow> 'l go_heap \<Rightarrow> 'l go_heap" where
  "set_elem t s i x h = store t (sArr s) ((load t h (sArr s))[sOff s + i := x]) h"

definition elements :: "('l, 'a list) cell_type \<Rightarrow> 'l go_heap \<Rightarrow> go_slice \<Rightarrow> 'a list" where
  "elements t h s = take (sLen s) (drop (sOff s) (load t h (sArr s)))"

text \<open>The built-in \<open>copy\<close>.\<close>

definition go_copy ::
  "('l, 'a list) cell_type \<Rightarrow> go_slice \<Rightarrow> go_slice \<Rightarrow> 'l go_heap \<Rightarrow> 'l go_heap" where
  "go_copy t dst src h =
     (let n = min (sLen dst) (sLen src); d = load t h (sArr dst)
      in store t (sArr dst)
           (take (sOff dst) d @ take n (elements t h src) @ drop (sOff dst + n) d) h)"

section \<open>The types of cells\<close>

text \<open>The zero value of the library's structs is the parameter \<open>z\<close>.\<close>

definition zero_TypeMeta :: TypeMeta where
  "zero_TypeMeta = \<lparr>tmKind = [], tmAPIVersion = []\<rparr>"

definition string_type :: "('l, string) cell_type" where
  "string_type = \<lparr>wrap = StringCell,
     unwrap = (\<lambda>c. case c of StringCell s \<Rightarrow> Some s | _ \<Rightarrow> None), zero_value = []\<rparr>"

definition bytes_type :: "('l, byte list) cell_type" where
  "bytes_type = \<lparr>wrap = ByteArray,
     unwrap = (\<lambda>c. case c of ByteArray bs \<Rightarrow> Some bs | _ \<Rightarrow> None), zero_value = []\<rparr>"

definition conditions_type :: "('l, 'l list) cell_type" where
  "conditions_type = \<lparr>wrap = ConditionArray,
     unwrap = (\<lambda>c. case c of ConditionArray cs \<Rightarrow> Some cs | _ \<Rightarrow> None), zero_value = []\<rparr>"

definition zero_peer :: "'l \<Rightarrow> 'l mScionClusterPeer" where
  "zero_peer z = \<lparr>mPeerTypeMeta = zero_TypeMeta, mPeerMeta = z,
     mPeerSpec = \<lparr>RemoteAS = [], PodCIDR = []\<rparr>, mPeerStatus = \<lparr>mPeerConditions = None\<rparr>\<rparr>"

definition peer_type :: "'l \<Rightarrow> ('l, 'l mScionClusterPeer) cell_type" where
  "peer_type z = \<lparr>wrap = PeerCell,
     unwrap = (\<lambda>c. case c of PeerCell x \<Rightarrow> Some x | _ \<Rightarrow> None), zero_value = zero_peer z\<rparr>"

definition peers_type :: "('l, 'l mScionClusterPeer list) cell_type" where
  "peers_type = \<lparr>wrap = PeerArray,
     unwrap = (\<lambda>c. case c of PeerArray xs \<Rightarrow> Some xs | _ \<Rightarrow> None), zero_value = []\<rparr>"

definition peer_list_type :: "'l \<Rightarrow> ('l, 'l mScionClusterPeerList) cell_type" where
  "peer_list_type z = \<lparr>wrap = PeerListCell,
     unwrap = (\<lambda>c. case c of PeerListCell x \<Rightarrow> Some x | _ \<Rightarrow> None),
     zero_value = \<lparr>mPeerListTypeMeta = zero_TypeMeta, mPeerListMeta = z, mPeerItems = None\<rparr>\<rparr>"

definition peer_spec_type :: "('l, ScionClusterPeerSpec) cell_type" where
  "peer_spec_type = \<lparr>wrap = PeerSpecCell,
     unwrap = (\<lambda>c. case c of PeerSpecCell x \<Rightarrow> Some x | _ \<Rightarrow> None),
     zero_value = \<lparr>RemoteAS = [], PodCIDR = []\<rparr>\<rparr>"

definition peer_status_type :: "('l, mScionClusterPeerStatus) cell_type" where
  "peer_status_type = \<lparr>wrap = PeerStatusCell,
     unwrap = (\<lambda>c. case c of PeerStatusCell x \<Rightarrow> Some x | _ \<Rightarrow> None),
     zero_value = \<lparr>mPeerConditions = None\<rparr>\<rparr>"

definition zero_path_spec :: mScionComputedPathSpec where
  "zero_path_spec = \<lparr>mPolicyRef = [], mDestinationCIDR = [], mNextHopIP = [], mHopFields = None\<rparr>"

definition path_type :: "'l \<Rightarrow> ('l, 'l mScionComputedPath) cell_type" where
  "path_type z = \<lparr>wrap = PathCell,
     unwrap = (\<lambda>c. case c of PathCell x \<Rightarrow> Some x | _ \<Rightarrow> None),
     zero_value = \<lparr>mPathTypeMeta = zero_TypeMeta, mPathMeta = z, mPathSpec = zero_path_spec,
       mPathStatus = \<lparr>mPathConditions = None\<rparr>\<rparr>\<rparr>"

definition paths_type :: "('l, 'l mScionComputedPath list) cell_type" where
  "paths_type = \<lparr>wrap = PathArray,
     unwrap = (\<lambda>c. case c of PathArray xs \<Rightarrow> Some xs | _ \<Rightarrow> None), zero_value = []\<rparr>"

definition path_list_type :: "'l \<Rightarrow> ('l, 'l mScionComputedPathList) cell_type" where
  "path_list_type z = \<lparr>wrap = PathListCell,
     unwrap = (\<lambda>c. case c of PathListCell x \<Rightarrow> Some x | _ \<Rightarrow> None),
     zero_value = \<lparr>mPathListTypeMeta = zero_TypeMeta, mPathListMeta = z, mPathItems = None\<rparr>\<rparr>"

definition path_spec_type :: "('l, mScionComputedPathSpec) cell_type" where
  "path_spec_type = \<lparr>wrap = PathSpecCell,
     unwrap = (\<lambda>c. case c of PathSpecCell x \<Rightarrow> Some x | _ \<Rightarrow> None), zero_value = zero_path_spec\<rparr>"

definition path_status_type :: "('l, mScionComputedPathStatus) cell_type" where
  "path_status_type = \<lparr>wrap = PathStatusCell,
     unwrap = (\<lambda>c. case c of PathStatusCell x \<Rightarrow> Some x | _ \<Rightarrow> None),
     zero_value = \<lparr>mPathConditions = None\<rparr>\<rparr>"

definition policy_type :: "'l \<Rightarrow> ('l, 'l mScionPathPolicy) cell_type" where
  "policy_type z = \<lparr>wrap = PolicyCell,
     unwrap = (\<lambda>c. case c of PolicyCell x \<Rightarrow> Some x | _ \<Rightarrow> None),
     zero_value = \<lparr>mPolicyTypeMeta = zero_TypeMeta, mPolicyMeta = z,
       mPolicySpec = \<lparr>mPodSelector = z, mPreference = None\<rparr>,
       mPolicyStatus = \<lparr>mPolicyConditions = None\<rparr>\<rparr>\<rparr>"

definition policies_type :: "('l, 'l mScionPathPolicy list) cell_type" where
  "policies_type = \<lparr>wrap = PolicyArray,
     unwrap = (\<lambda>c. case c of PolicyArray xs \<Rightarrow> Some xs | _ \<Rightarrow> None), zero_value = []\<rparr>"

definition policy_list_type :: "'l \<Rightarrow> ('l, 'l mScionPathPolicyList) cell_type" where
  "policy_list_type z = \<lparr>wrap = PolicyListCell,
     unwrap = (\<lambda>c. case c of PolicyListCell x \<Rightarrow> Some x | _ \<Rightarrow> None),
     zero_value = \<lparr>mPolicyListTypeMeta = zero_TypeMeta, mPolicyListMeta = z, mPolicyItems = None\<rparr>\<rparr>"

definition policy_spec_type :: "'l \<Rightarrow> ('l, 'l mScionPathPolicySpec) cell_type" where
  "policy_spec_type z = \<lparr>wrap = PolicySpecCell,
     unwrap = (\<lambda>c. case c of PolicySpecCell x \<Rightarrow> Some x | _ \<Rightarrow> None),
     zero_value = \<lparr>mPodSelector = z, mPreference = None\<rparr>\<rparr>"

definition policy_status_type :: "('l, mScionPathPolicyStatus) cell_type" where
  "policy_status_type = \<lparr>wrap = PolicyStatusCell,
     unwrap = (\<lambda>c. case c of PolicyStatusCell x \<Rightarrow> Some x | _ \<Rightarrow> None),
     zero_value = \<lparr>mPolicyConditions = None\<rparr>\<rparr>"

lemmas cell_type_defs = string_type_def bytes_type_def conditions_type_def
  peer_type_def peers_type_def peer_list_type_def peer_spec_type_def peer_status_type_def
  path_type_def paths_type_def path_list_type_def path_spec_type_def path_status_type_def
  policy_type_def policies_type_def policy_list_type_def policy_spec_type_def
  policy_status_type_def

section \<open>Facts\<close>

text \<open>What is written is read.\<close>

definition good_type :: "('l, 'a) cell_type \<Rightarrow> bool" where
  "good_type t \<longleftrightarrow> (\<forall>x. unwrap t (wrap t x) = Some x)"

lemma good_types [simp, intro]:
  "good_type string_type" "good_type bytes_type" "good_type conditions_type"
  "good_type (peer_type z)" "good_type peers_type" "good_type (peer_list_type z)"
  "good_type peer_spec_type" "good_type peer_status_type"
  "good_type (path_type z)" "good_type paths_type" "good_type (path_list_type z)"
  "good_type path_spec_type" "good_type path_status_type"
  "good_type (policy_type z)" "good_type policies_type" "good_type (policy_list_type z)"
  "good_type (policy_spec_type z)" "good_type policy_status_type"
  by (simp_all add: good_type_def cell_type_defs)

lemma load_cell: "good_type t \<Longrightarrow> hcells h a = Some (wrap t x) \<Longrightarrow> load t h a = x"
  by (simp add: load_def good_type_def)

lemma load_cong: "hcells h' a = hcells h a \<Longrightarrow> load t h' a = load t h a"
  by (simp add: load_def)

lemma load_store [simp]: "good_type t \<Longrightarrow> load t (store t a x h) a = x"
  by (simp add: store_def load_def good_type_def)

lemma store_simps [simp]:
  "hcells (store t a x h) = (hcells h)(a \<mapsto> wrap t x)" "hbrk (store t a x h) = hbrk h"
  by (simp_all add: store_def)

lemma elements_cong: "hcells h' (sArr s) = hcells h (sArr s) \<Longrightarrow> elements t h' s = elements t h s"
  by (simp add: elements_def load_def)

end
