(* ===== verification/ApiDeepCopy.thy ===== *)
theory ApiDeepCopy
  imports ApiHeap
begin

text \<open>
  \<open>api/v1alpha1/zz_generated.deepcopy.go\<close>.  \<open>DeepCopyInto\<close> takes the value of \<open>*in\<close> and returns
  the value it leaves in \<open>*out\<close>: \<open>out\<close> starts as the shallow copy \<open>*in\<close>, aliases and all, and the
  fields with memory of their own are then assigned again.  The generated code is called with an
  \<open>out\<close> that is not \<open>in\<close>, so the reads through \<open>in\<close> are not disturbed by the writes.  The
  \<open>DeepCopyInto\<close> of apimachinery's structs are the fields of \<open>copy_lib\<close>.
\<close>

record 'l copy_lib =
  ObjectMeta_DeepCopyInto :: "'l \<Rightarrow> 'l go_heap \<Rightarrow> 'l \<times> 'l go_heap"
  ListMeta_DeepCopyInto :: "'l \<Rightarrow> 'l go_heap \<Rightarrow> 'l \<times> 'l go_heap"
  LabelSelector_DeepCopyInto :: "'l \<Rightarrow> 'l go_heap \<Rightarrow> 'l \<times> 'l go_heap"
  Condition_DeepCopyInto :: "'l \<Rightarrow> 'l go_heap \<Rightarrow> 'l \<times> 'l go_heap"
  zero_lib :: 'l

section \<open>The shapes of the generated code\<close>

text \<open>\<open>for i := range *in { (*in)[i].DeepCopyInto(&(*out)[i]) }\<close>\<close>

fun range_copy ::
  "('l, 'a list) cell_type \<Rightarrow> ('a \<Rightarrow> 'l go_heap \<Rightarrow> 'a \<times> 'l go_heap) \<Rightarrow> go_slice \<Rightarrow> go_slice \<Rightarrow>
     nat list \<Rightarrow> 'l go_heap \<Rightarrow> 'l go_heap" where
  "range_copy t into src dst [] h = h"
| "range_copy t into src dst (i # is) h =
     (case into (elem t h src i) h of
        (y, h1) \<Rightarrow> range_copy t into src dst is (set_elem t dst i y h1))"

text \<open>\<open>if in.F != nil { *out = make([]T, len(*in)); for ... }\<close>: a nil slice stays nil.\<close>

definition copy_slice ::
  "('l, 'a list) cell_type \<Rightarrow> 'a \<Rightarrow> ('a \<Rightarrow> 'l go_heap \<Rightarrow> 'a \<times> 'l go_heap) \<Rightarrow> go_slice option \<Rightarrow>
     'l go_heap \<Rightarrow> go_slice option \<times> 'l go_heap" where
  "copy_slice t z into s h =
     (case s of
        None \<Rightarrow> (None, h)
      | Some src \<Rightarrow>
          (case make_slice t z (sLen src) h of
             (dst, h1) \<Rightarrow> (Some dst, range_copy t into src dst [0..<sLen src] h1)))"

text \<open>\<open>if in == nil { return nil }; out := new(T); in.DeepCopyInto(out); return out\<close>\<close>

definition deep_copy ::
  "('l, 'a) cell_type \<Rightarrow> ('a \<Rightarrow> 'l go_heap \<Rightarrow> 'a \<times> 'l go_heap) \<Rightarrow> nat option \<Rightarrow> 'l go_heap \<Rightarrow>
     nat option \<times> 'l go_heap" where
  "deep_copy t into src h =
     (case src of
        None \<Rightarrow> (None, h)
      | Some a \<Rightarrow>
          (case new_value t h of
             (out, h1) \<Rightarrow>
               (case into (load t h1 a) h1 of (x, h2) \<Rightarrow> (Some out, store t out x h2))))"

text \<open>
  \<open>if c := in.DeepCopy(); c != nil { return c }; return nil\<close>: a \<open>runtime.Object\<close> is nil or holds
  a pointer, here always one that is not nil.
\<close>

definition deep_copy_object ::
  "(nat option \<Rightarrow> 'l go_heap \<Rightarrow> nat option \<times> 'l go_heap) \<Rightarrow> nat option \<Rightarrow> 'l go_heap \<Rightarrow>
     nat option option \<times> 'l go_heap" where
  "deep_copy_object copy src h =
     (case copy src h of (c, h1) \<Rightarrow> if c \<noteq> None then (Some c, h1) else (None, h1))"

section \<open>ScionClusterPeer\<close>

definition ScionClusterPeerSpec_DeepCopyInto ::
  "ScionClusterPeerSpec \<Rightarrow> 'l go_heap \<Rightarrow> ScionClusterPeerSpec \<times> 'l go_heap" where
  "ScionClusterPeerSpec_DeepCopyInto src h = (src, h)"

definition ScionClusterPeerSpec_DeepCopy ::
  "nat option \<Rightarrow> 'l go_heap \<Rightarrow> nat option \<times> 'l go_heap" where
  "ScionClusterPeerSpec_DeepCopy = deep_copy peer_spec_type ScionClusterPeerSpec_DeepCopyInto"

definition ScionClusterPeerStatus_DeepCopyInto ::
  "('l, 'z) copy_lib_scheme \<Rightarrow> mScionClusterPeerStatus \<Rightarrow> 'l go_heap \<Rightarrow>
     mScionClusterPeerStatus \<times> 'l go_heap" where
  "ScionClusterPeerStatus_DeepCopyInto lib src h =
     (case copy_slice conditions_type (zero_lib lib) (Condition_DeepCopyInto lib)
             (mPeerConditions src) h of
        (cs, h1) \<Rightarrow> (src\<lparr>mPeerConditions := cs\<rparr>, h1))"

definition ScionClusterPeerStatus_DeepCopy ::
  "('l, 'z) copy_lib_scheme \<Rightarrow> nat option \<Rightarrow> 'l go_heap \<Rightarrow> nat option \<times> 'l go_heap" where
  "ScionClusterPeerStatus_DeepCopy lib =
     deep_copy peer_status_type (ScionClusterPeerStatus_DeepCopyInto lib)"

definition ScionClusterPeer_DeepCopyInto ::
  "('l, 'z) copy_lib_scheme \<Rightarrow> 'l mScionClusterPeer \<Rightarrow> 'l go_heap \<Rightarrow>
     'l mScionClusterPeer \<times> 'l go_heap" where
  "ScionClusterPeer_DeepCopyInto lib src h =
     (let out = src\<lparr>mPeerTypeMeta := mPeerTypeMeta src\<rparr>
      in case ObjectMeta_DeepCopyInto lib (mPeerMeta src) h of
           (m, h1) \<Rightarrow>
             (case ScionClusterPeerStatus_DeepCopyInto lib (mPeerStatus src) h1 of
                (st, h2) \<Rightarrow>
                  (out\<lparr>mPeerMeta := m, mPeerSpec := mPeerSpec src, mPeerStatus := st\<rparr>, h2)))"

definition ScionClusterPeer_DeepCopy ::
  "('l, 'z) copy_lib_scheme \<Rightarrow> nat option \<Rightarrow> 'l go_heap \<Rightarrow> nat option \<times> 'l go_heap" where
  "ScionClusterPeer_DeepCopy lib =
     deep_copy (peer_type (zero_lib lib)) (ScionClusterPeer_DeepCopyInto lib)"

definition ScionClusterPeer_DeepCopyObject ::
  "('l, 'z) copy_lib_scheme \<Rightarrow> nat option \<Rightarrow> 'l go_heap \<Rightarrow> nat option option \<times> 'l go_heap" where
  "ScionClusterPeer_DeepCopyObject lib = deep_copy_object (ScionClusterPeer_DeepCopy lib)"

definition ScionClusterPeerList_DeepCopyInto ::
  "('l, 'z) copy_lib_scheme \<Rightarrow> 'l mScionClusterPeerList \<Rightarrow> 'l go_heap \<Rightarrow>
     'l mScionClusterPeerList \<times> 'l go_heap" where
  "ScionClusterPeerList_DeepCopyInto lib src h =
     (let out = src\<lparr>mPeerListTypeMeta := mPeerListTypeMeta src\<rparr>
      in case ListMeta_DeepCopyInto lib (mPeerListMeta src) h of
           (m, h1) \<Rightarrow>
             (case copy_slice peers_type (zero_peer (zero_lib lib))
                     (ScionClusterPeer_DeepCopyInto lib) (mPeerItems src) h1 of
                (xs, h2) \<Rightarrow> (out\<lparr>mPeerListMeta := m, mPeerItems := xs\<rparr>, h2)))"

definition ScionClusterPeerList_DeepCopy ::
  "('l, 'z) copy_lib_scheme \<Rightarrow> nat option \<Rightarrow> 'l go_heap \<Rightarrow> nat option \<times> 'l go_heap" where
  "ScionClusterPeerList_DeepCopy lib =
     deep_copy (peer_list_type (zero_lib lib)) (ScionClusterPeerList_DeepCopyInto lib)"

definition ScionClusterPeerList_DeepCopyObject ::
  "('l, 'z) copy_lib_scheme \<Rightarrow> nat option \<Rightarrow> 'l go_heap \<Rightarrow> nat option option \<times> 'l go_heap" where
  "ScionClusterPeerList_DeepCopyObject lib = deep_copy_object (ScionClusterPeerList_DeepCopy lib)"

section \<open>ScionComputedPath\<close>

definition ScionComputedPathSpec_DeepCopyInto ::
  "mScionComputedPathSpec \<Rightarrow> 'l go_heap \<Rightarrow> mScionComputedPathSpec \<times> 'l go_heap" where
  "ScionComputedPathSpec_DeepCopyInto src h =
     (case mHopFields src of
        None \<Rightarrow> (src, h)
      | Some s \<Rightarrow>
          (case make_slice bytes_type 0 (sLen s) h of
             (dst, h1) \<Rightarrow> (src\<lparr>mHopFields := Some dst\<rparr>, go_copy bytes_type dst s h1)))"

definition ScionComputedPathSpec_DeepCopy ::
  "nat option \<Rightarrow> 'l go_heap \<Rightarrow> nat option \<times> 'l go_heap" where
  "ScionComputedPathSpec_DeepCopy = deep_copy path_spec_type ScionComputedPathSpec_DeepCopyInto"

definition ScionComputedPathStatus_DeepCopyInto ::
  "('l, 'z) copy_lib_scheme \<Rightarrow> mScionComputedPathStatus \<Rightarrow> 'l go_heap \<Rightarrow>
     mScionComputedPathStatus \<times> 'l go_heap" where
  "ScionComputedPathStatus_DeepCopyInto lib src h =
     (case copy_slice conditions_type (zero_lib lib) (Condition_DeepCopyInto lib)
             (mPathConditions src) h of
        (cs, h1) \<Rightarrow> (src\<lparr>mPathConditions := cs\<rparr>, h1))"

definition ScionComputedPathStatus_DeepCopy ::
  "('l, 'z) copy_lib_scheme \<Rightarrow> nat option \<Rightarrow> 'l go_heap \<Rightarrow> nat option \<times> 'l go_heap" where
  "ScionComputedPathStatus_DeepCopy lib =
     deep_copy path_status_type (ScionComputedPathStatus_DeepCopyInto lib)"

definition ScionComputedPath_DeepCopyInto ::
  "('l, 'z) copy_lib_scheme \<Rightarrow> 'l mScionComputedPath \<Rightarrow> 'l go_heap \<Rightarrow>
     'l mScionComputedPath \<times> 'l go_heap" where
  "ScionComputedPath_DeepCopyInto lib src h =
     (let out = src\<lparr>mPathTypeMeta := mPathTypeMeta src\<rparr>
      in case ObjectMeta_DeepCopyInto lib (mPathMeta src) h of
           (m, h1) \<Rightarrow>
             (case ScionComputedPathSpec_DeepCopyInto (mPathSpec src) h1 of
                (sp, h2) \<Rightarrow>
                  (case ScionComputedPathStatus_DeepCopyInto lib (mPathStatus src) h2 of
                     (st, h3) \<Rightarrow>
                       (out\<lparr>mPathMeta := m, mPathSpec := sp, mPathStatus := st\<rparr>, h3))))"

definition ScionComputedPath_DeepCopy ::
  "('l, 'z) copy_lib_scheme \<Rightarrow> nat option \<Rightarrow> 'l go_heap \<Rightarrow> nat option \<times> 'l go_heap" where
  "ScionComputedPath_DeepCopy lib =
     deep_copy (path_type (zero_lib lib)) (ScionComputedPath_DeepCopyInto lib)"

definition ScionComputedPath_DeepCopyObject ::
  "('l, 'z) copy_lib_scheme \<Rightarrow> nat option \<Rightarrow> 'l go_heap \<Rightarrow> nat option option \<times> 'l go_heap" where
  "ScionComputedPath_DeepCopyObject lib = deep_copy_object (ScionComputedPath_DeepCopy lib)"

definition ScionComputedPathList_DeepCopyInto ::
  "('l, 'z) copy_lib_scheme \<Rightarrow> 'l mScionComputedPathList \<Rightarrow> 'l go_heap \<Rightarrow>
     'l mScionComputedPathList \<times> 'l go_heap" where
  "ScionComputedPathList_DeepCopyInto lib src h =
     (let out = src\<lparr>mPathListTypeMeta := mPathListTypeMeta src\<rparr>
      in case ListMeta_DeepCopyInto lib (mPathListMeta src) h of
           (m, h1) \<Rightarrow>
             (case copy_slice paths_type (zero_value (path_type (zero_lib lib)))
                     (ScionComputedPath_DeepCopyInto lib) (mPathItems src) h1 of
                (xs, h2) \<Rightarrow> (out\<lparr>mPathListMeta := m, mPathItems := xs\<rparr>, h2)))"

definition ScionComputedPathList_DeepCopy ::
  "('l, 'z) copy_lib_scheme \<Rightarrow> nat option \<Rightarrow> 'l go_heap \<Rightarrow> nat option \<times> 'l go_heap" where
  "ScionComputedPathList_DeepCopy lib =
     deep_copy (path_list_type (zero_lib lib)) (ScionComputedPathList_DeepCopyInto lib)"

definition ScionComputedPathList_DeepCopyObject ::
  "('l, 'z) copy_lib_scheme \<Rightarrow> nat option \<Rightarrow> 'l go_heap \<Rightarrow> nat option option \<times> 'l go_heap" where
  "ScionComputedPathList_DeepCopyObject lib =
     deep_copy_object (ScionComputedPathList_DeepCopy lib)"

section \<open>ScionPathPolicy\<close>

definition ScionPathPolicySpec_DeepCopyInto ::
  "('l, 'z) copy_lib_scheme \<Rightarrow> 'l mScionPathPolicySpec \<Rightarrow> 'l go_heap \<Rightarrow>
     'l mScionPathPolicySpec \<times> 'l go_heap" where
  "ScionPathPolicySpec_DeepCopyInto lib src h =
     (case LabelSelector_DeepCopyInto lib (mPodSelector src) h of
        (sel, h1) \<Rightarrow>
          (let out = src\<lparr>mPodSelector := sel\<rparr>
           in case mPreference src of
                None \<Rightarrow> (out, h1)
              | Some a \<Rightarrow>
                  (case new_value string_type h1 of
                     (b, h2) \<Rightarrow>
                       (out\<lparr>mPreference := Some b\<rparr>,
                        store string_type b (load string_type h2 a) h2))))"

definition ScionPathPolicySpec_DeepCopy ::
  "('l, 'z) copy_lib_scheme \<Rightarrow> nat option \<Rightarrow> 'l go_heap \<Rightarrow> nat option \<times> 'l go_heap" where
  "ScionPathPolicySpec_DeepCopy lib =
     deep_copy (policy_spec_type (zero_lib lib)) (ScionPathPolicySpec_DeepCopyInto lib)"

definition ScionPathPolicyStatus_DeepCopyInto ::
  "('l, 'z) copy_lib_scheme \<Rightarrow> mScionPathPolicyStatus \<Rightarrow> 'l go_heap \<Rightarrow>
     mScionPathPolicyStatus \<times> 'l go_heap" where
  "ScionPathPolicyStatus_DeepCopyInto lib src h =
     (case copy_slice conditions_type (zero_lib lib) (Condition_DeepCopyInto lib)
             (mPolicyConditions src) h of
        (cs, h1) \<Rightarrow> (src\<lparr>mPolicyConditions := cs\<rparr>, h1))"

definition ScionPathPolicyStatus_DeepCopy ::
  "('l, 'z) copy_lib_scheme \<Rightarrow> nat option \<Rightarrow> 'l go_heap \<Rightarrow> nat option \<times> 'l go_heap" where
  "ScionPathPolicyStatus_DeepCopy lib =
     deep_copy policy_status_type (ScionPathPolicyStatus_DeepCopyInto lib)"

definition ScionPathPolicy_DeepCopyInto ::
  "('l, 'z) copy_lib_scheme \<Rightarrow> 'l mScionPathPolicy \<Rightarrow> 'l go_heap \<Rightarrow>
     'l mScionPathPolicy \<times> 'l go_heap" where
  "ScionPathPolicy_DeepCopyInto lib src h =
     (let out = src\<lparr>mPolicyTypeMeta := mPolicyTypeMeta src\<rparr>
      in case ObjectMeta_DeepCopyInto lib (mPolicyMeta src) h of
           (m, h1) \<Rightarrow>
             (case ScionPathPolicySpec_DeepCopyInto lib (mPolicySpec src) h1 of
                (sp, h2) \<Rightarrow>
                  (case ScionPathPolicyStatus_DeepCopyInto lib (mPolicyStatus src) h2 of
                     (st, h3) \<Rightarrow>
                       (out\<lparr>mPolicyMeta := m, mPolicySpec := sp, mPolicyStatus := st\<rparr>, h3))))"

definition ScionPathPolicy_DeepCopy ::
  "('l, 'z) copy_lib_scheme \<Rightarrow> nat option \<Rightarrow> 'l go_heap \<Rightarrow> nat option \<times> 'l go_heap" where
  "ScionPathPolicy_DeepCopy lib =
     deep_copy (policy_type (zero_lib lib)) (ScionPathPolicy_DeepCopyInto lib)"

definition ScionPathPolicy_DeepCopyObject ::
  "('l, 'z) copy_lib_scheme \<Rightarrow> nat option \<Rightarrow> 'l go_heap \<Rightarrow> nat option option \<times> 'l go_heap" where
  "ScionPathPolicy_DeepCopyObject lib = deep_copy_object (ScionPathPolicy_DeepCopy lib)"

definition ScionPathPolicyList_DeepCopyInto ::
  "('l, 'z) copy_lib_scheme \<Rightarrow> 'l mScionPathPolicyList \<Rightarrow> 'l go_heap \<Rightarrow>
     'l mScionPathPolicyList \<times> 'l go_heap" where
  "ScionPathPolicyList_DeepCopyInto lib src h =
     (let out = src\<lparr>mPolicyListTypeMeta := mPolicyListTypeMeta src\<rparr>
      in case ListMeta_DeepCopyInto lib (mPolicyListMeta src) h of
           (m, h1) \<Rightarrow>
             (case copy_slice policies_type (zero_value (policy_type (zero_lib lib)))
                     (ScionPathPolicy_DeepCopyInto lib) (mPolicyItems src) h1 of
                (xs, h2) \<Rightarrow> (out\<lparr>mPolicyListMeta := m, mPolicyItems := xs\<rparr>, h2)))"

definition ScionPathPolicyList_DeepCopy ::
  "('l, 'z) copy_lib_scheme \<Rightarrow> nat option \<Rightarrow> 'l go_heap \<Rightarrow> nat option \<times> 'l go_heap" where
  "ScionPathPolicyList_DeepCopy lib =
     deep_copy (policy_list_type (zero_lib lib)) (ScionPathPolicyList_DeepCopyInto lib)"

definition ScionPathPolicyList_DeepCopyObject ::
  "('l, 'z) copy_lib_scheme \<Rightarrow> nat option \<Rightarrow> 'l go_heap \<Rightarrow> nat option option \<times> 'l go_heap" where
  "ScionPathPolicyList_DeepCopyObject lib = deep_copy_object (ScionPathPolicyList_DeepCopy lib)"

end
