(* ===== verification/DeepCopySpec.thy ===== *)
theory DeepCopySpec
  imports ApiDeepCopy
begin

text \<open>
  What deep copying promises.  A \<open>shape\<close> says of a type which value a datum stands for in a heap,
  which addresses it reaches, and when it is well typed there; shapes are built along the types.
  A \<open>copier\<close> returns a well-typed datum with the same value that reaches fresh memory only and
  leaves all existing memory alone.  Copiers compose as the shapes do.
\<close>

section \<open>Shapes\<close>

record ('l, 'a, 'v) shape =
  val :: "'l go_heap \<Rightarrow> 'a \<Rightarrow> 'v"
  refs :: "'l go_heap \<Rightarrow> 'a \<Rightarrow> nat set"
  well_typed :: "'l go_heap \<Rightarrow> 'a \<Rightarrow> bool"

definition flat_shape :: "('l, 'a, 'a) shape" where
  "flat_shape = \<lparr>val = (\<lambda>_ x. x), refs = (\<lambda>_ _. {}), well_typed = (\<lambda>_ _. True)\<rparr>"

definition pair_shape ::
  "('l, 'a, 'v) shape \<Rightarrow> ('l, 'b, 'u) shape \<Rightarrow> ('l, 'a \<times> 'b, 'v \<times> 'u) shape" where
  "pair_shape A B =
     \<lparr>val = (\<lambda>h (x, y). (val A h x, val B h y)),
      refs = (\<lambda>h (x, y). refs A h x \<union> refs B h y),
      well_typed = (\<lambda>h (x, y). well_typed A h x \<and> well_typed B h y)\<rparr>"

definition via_shape :: "('a \<Rightarrow> 'b) \<Rightarrow> ('l, 'b, 'v) shape \<Rightarrow> ('l, 'a, 'v) shape" where
  "via_shape f A = \<lparr>val = (\<lambda>h x. val A h (f x)), refs = (\<lambda>h x. refs A h (f x)),
     well_typed = (\<lambda>h x. well_typed A h (f x))\<rparr>"

text \<open>A cell holds a value of a type.\<close>

definition holds :: "('l, 'a) cell_type \<Rightarrow> 'l go_heap \<Rightarrow> nat \<Rightarrow> bool" where
  "holds t h a \<longleftrightarrow> a < hbrk h \<and>
     (case hcells h a of None \<Rightarrow> False | Some c \<Rightarrow> unwrap t c \<noteq> None)"

text \<open>A pointer and a slice: nil is a value of its own.\<close>

definition ptr_shape ::
  "('l, 'a) cell_type \<Rightarrow> ('l, 'a, 'v) shape \<Rightarrow> ('l, nat option, 'v option) shape" where
  "ptr_shape t A =
     \<lparr>val = (\<lambda>h p. map_option (\<lambda>a. val A h (load t h a)) p),
      refs = (\<lambda>h p. case p of None \<Rightarrow> {} | Some a \<Rightarrow> insert a (refs A h (load t h a))),
      well_typed = (\<lambda>h p. case p of None \<Rightarrow> True
        | Some a \<Rightarrow> holds t h a \<and> well_typed A h (load t h a))\<rparr>"

definition slice_shape ::
  "('l, 'a list) cell_type \<Rightarrow> ('l, 'a, 'v) shape \<Rightarrow> ('l, go_slice option, 'v list option) shape" where
  "slice_shape t A =
     \<lparr>val = (\<lambda>h p. map_option (\<lambda>s. map (val A h) (elements t h s)) p),
      refs = (\<lambda>h p. case p of None \<Rightarrow> {}
        | Some s \<Rightarrow> insert (sArr s) (\<Union>x\<in>set (elements t h s). refs A h x)),
      well_typed = (\<lambda>h p. case p of None \<Rightarrow> True
        | Some s \<Rightarrow> holds t h (sArr s) \<and> sOff s + sLen s \<le> length (load t h (sArr s)) \<and>
            list_all (well_typed A h) (elements t h s))\<rparr>"

lemmas shape_defs = flat_shape_def pair_shape_def via_shape_def ptr_shape_def slice_shape_def

section \<open>The laws\<close>

text \<open>A shape depends on the memory it reaches and nothing else.\<close>

locale shaped =
  fixes A :: "('l, 'a, 'v) shape"
  assumes refs_bound: "well_typed A h x \<Longrightarrow> a \<in> refs A h x \<Longrightarrow> a < hbrk h"
    and agree: "well_typed A h x \<Longrightarrow> \<forall>a\<in>refs A h x. a < hbrk h' \<and> hcells h' a = hcells h a \<Longrightarrow>
      well_typed A h' x \<and> val A h' x = val A h x \<and> refs A h' x = refs A h x"

definition extends :: "'l go_heap \<Rightarrow> 'l go_heap \<Rightarrow> bool" where
  "extends h h' \<longleftrightarrow> hbrk h \<le> hbrk h' \<and> (\<forall>a. a < hbrk h \<longrightarrow> hcells h' a = hcells h a)"

locale copier = shaped A for A :: "('l, 'a, 'v) shape" +
  fixes copy :: "'a \<Rightarrow> 'l go_heap \<Rightarrow> 'a \<times> 'l go_heap"
  assumes copies: "well_typed A h x \<Longrightarrow> copy x h = (y, h') \<Longrightarrow>
      extends h h' \<and> well_typed A h' y \<and> val A h' y = val A h x \<and>
      (\<forall>a\<in>refs A h' y. hbrk h \<le> a)"

lemma extends_refl [simp, intro]: "extends h h"
  by (simp add: extends_def)

lemma extends_trans [trans]: "extends h h1 \<Longrightarrow> extends h1 h2 \<Longrightarrow> extends h h2"
  by (auto simp: extends_def)

lemma extends_brk: "extends h h' \<Longrightarrow> hbrk h \<le> hbrk h'"
  by (simp add: extends_def)

lemma extends_cell: "extends h h' \<Longrightarrow> a < hbrk h \<Longrightarrow> hcells h' a = hcells h a"
  by (simp add: extends_def)

lemma extends_alloc: "alloc c h = (a, h') \<Longrightarrow> extends h h' \<and> a = hbrk h \<and> hbrk h' = Suc (hbrk h) \<and>
    hcells h' = (hcells h)(hbrk h \<mapsto> c)"
  by (auto simp: alloc_def extends_def)

lemma extends_store: "extends h h1 \<Longrightarrow> hbrk h \<le> a \<Longrightarrow> extends h (store t a x h1)"
  by (auto simp: extends_def)

context shaped
begin

text \<open>Memory that is only extended keeps every datum.\<close>

lemma keeps:
  assumes "well_typed A h x" and "extends h h'"
  shows "well_typed A h' x" and "val A h' x = val A h x" and "refs A h' x = refs A h x"
proof -
  have "\<forall>a\<in>refs A h x. a < hbrk h' \<and> hcells h' a = hcells h a"
    using refs_bound [OF assms(1)] assms(2) by (fastforce simp: extends_def)
  from agree [OF assms(1) this]
  show "well_typed A h' x" and "val A h' x = val A h x" and "refs A h' x = refs A h x" by auto
qed

text \<open>A write outside the memory a datum reaches does not touch it.\<close>

lemma untouched:
  assumes "well_typed A h x" and "a \<notin> refs A h x"
  shows "well_typed A (store t a y h) x" and "val A (store t a y h) x = val A h x"
    and "refs A (store t a y h) x = refs A h x"
proof -
  have "\<forall>b\<in>refs A h x. b < hbrk (store t a y h) \<and> hcells (store t a y h) b = hcells h b"
    using refs_bound [OF assms(1)] assms(2) by auto
  from agree [OF assms(1) this]
  show "well_typed A (store t a y h) x" and "val A (store t a y h) x = val A h x"
    and "refs A (store t a y h) x = refs A h x" by auto
qed

end

context copier
begin

text \<open>The copy and the original live apart in the new heap.\<close>

lemma copied:
  assumes "well_typed A h x" and "copy x h = (y, h')"
  shows "well_typed A h' y" and "val A h' y = val A h x" and "val A h' x = val A h x"
    and "refs A h' y \<inter> refs A h' x = {}" and "extends h h'"
proof -
  note c = copies [OF assms]
  then have ext: "extends h h'" by blast
  note k = keeps [OF assms(1) ext]
  show "well_typed A h' y" and "val A h' y = val A h x" and "extends h h'" using c by blast+
  show "val A h' x = val A h x" by (rule k(2))
  show "refs A h' y \<inter> refs A h' x = {}"
    using c refs_bound [OF assms(1)] unfolding k(3) by fastforce
qed

text \<open>
  Whatever is written later to what one of them reaches, the other one keeps its value.
\<close>

lemma independent:
  assumes "well_typed A h x" and "copy x h = (y, h')" and brk: "hbrk h' \<le> hbrk h2"
  shows "\<forall>a. hcells h2 a \<noteq> hcells h' a \<longrightarrow> a \<in> refs A h' y \<Longrightarrow> val A h2 x = val A h x"
    and "\<forall>a. hcells h2 a \<noteq> hcells h' a \<longrightarrow> a \<in> refs A h' x \<Longrightarrow> val A h2 y = val A h x"
proof -
  note c = copied [OF assms(1,2)]
  have wt: "well_typed A h' x" by (rule keeps(1) [OF assms(1) c(5)])
  note same = agree [where h = h' and h' = h2]
  show "val A h2 x = val A h x" if w: "\<forall>a. hcells h2 a \<noteq> hcells h' a \<longrightarrow> a \<in> refs A h' y"
  proof -
    have "\<forall>a\<in>refs A h' x. a < hbrk h2 \<and> hcells h2 a = hcells h' a"
      using w c(4) refs_bound [OF wt] brk by fastforce
    from same [OF wt this] show ?thesis using c(3) by simp
  qed
  show "val A h2 y = val A h x" if w: "\<forall>a. hcells h2 a \<noteq> hcells h' a \<longrightarrow> a \<in> refs A h' x"
  proof -
    have "\<forall>a\<in>refs A h' y. a < hbrk h2 \<and> hcells h2 a = hcells h' a"
      using w c(4) refs_bound [OF c(1)] brk by fastforce
    from same [OF c(1) this] show ?thesis using c(2) by simp
  qed
qed

end

section \<open>Composition: flat data, pairs, records\<close>

lemma shaped_flat: "shaped flat_shape"
  by unfold_locales (auto simp: flat_shape_def)

lemma copier_flat: "copier flat_shape (\<lambda>x h. (x, h))"
  by (intro copier.intro shaped_flat copier_axioms.intro) (auto simp: flat_shape_def)

lemma shaped_pair:
  fixes A :: "('l, 'a, 'v) shape" and B :: "('l, 'b, 'u) shape"
  assumes "shaped A" and "shaped B"
  shows "shaped (pair_shape A B)"
proof
  fix h x a
  assume "well_typed (pair_shape A B) h x" and "a \<in> refs (pair_shape A B) h x"
  then show "a < hbrk h"
    using shaped.refs_bound [OF assms(1)] shaped.refs_bound [OF assms(2)]
    by (auto simp: pair_shape_def)
next
  fix h h' :: "'l go_heap" and x
  assume "well_typed (pair_shape A B) h x"
    and "\<forall>a\<in>refs (pair_shape A B) h x. a < hbrk h' \<and> hcells h' a = hcells h a"
  then show "well_typed (pair_shape A B) h' x \<and> val (pair_shape A B) h' x = val (pair_shape A B) h x \<and>
      refs (pair_shape A B) h' x = refs (pair_shape A B) h x"
    using shaped.agree [OF assms(1), of h "fst x" h'] shaped.agree [OF assms(2), of h "snd x" h']
    by (auto simp: pair_shape_def)
qed

definition pair_copy ::
  "('a \<Rightarrow> 'l go_heap \<Rightarrow> 'a \<times> 'l go_heap) \<Rightarrow> ('b \<Rightarrow> 'l go_heap \<Rightarrow> 'b \<times> 'l go_heap) \<Rightarrow>
     'a \<times> 'b \<Rightarrow> 'l go_heap \<Rightarrow> ('a \<times> 'b) \<times> 'l go_heap" where
  "pair_copy f g p h =
     (case f (fst p) h of (x, h1) \<Rightarrow> (case g (snd p) h1 of (y, h2) \<Rightarrow> ((x, y), h2)))"

lemma copier_pair:
  assumes f: "copier A f" and g: "copier B g"
  shows "copier (pair_shape A B) (pair_copy f g)"
proof (intro copier.intro copier_axioms.intro)
  have sA: "shaped A" and sB: "shaped B" using f g by (auto dest: copier.axioms)
  then show "shaped (pair_shape A B)" by (rule shaped_pair)
  fix h p q h'
  assume wt: "well_typed (pair_shape A B) h p" and run: "pair_copy f g p h = (q, h')"
  obtain x1 h1 where 1: "f (fst p) h = (x1, h1)" by (cases "f (fst p) h")
  obtain y1 h2 where 2: "g (snd p) h1 = (y1, h2)" by (cases "g (snd p) h1")
  have q: "q = (x1, y1)" "h' = h2" using run 1 2 by (simp_all add: pair_copy_def)
  have wtA: "well_typed A h (fst p)" and wtB: "well_typed B h (snd p)"
    using wt by (auto simp: pair_shape_def)
  note c1 = copier.copies [OF f wtA 1]
  then have ext1: "extends h h1" and wt1: "well_typed A h1 x1" by auto
  note kB = shaped.keeps [OF sB wtB ext1]
  note c2 = copier.copies [OF g kB(1) 2]
  then have ext2: "extends h1 h2" by auto
  note kA = shaped.keeps [OF sA wt1 ext2]
  show "extends h h' \<and> well_typed (pair_shape A B) h' q \<and>
      val (pair_shape A B) h' q = val (pair_shape A B) h p \<and>
      (\<forall>a\<in>refs (pair_shape A B) h' q. hbrk h \<le> a)"
    using c1 c2 kA kB extends_trans [OF ext1 ext2] extends_brk [OF ext1]
    by (auto simp: pair_shape_def q split: prod.splits)
qed

lemma via_simps [simp]:
  "val (via_shape f A) h x = val A h (f x)"
  "refs (via_shape f A) h x = refs A h (f x)"
  "well_typed (via_shape f A) h x = well_typed A h (f x)"
  by (simp_all add: via_shape_def)

lemma shaped_via:
  assumes "shaped A"
  shows "shaped (via_shape f A)"
  unfolding shaped_def via_simps
  using shaped.refs_bound [OF assms] shaped.agree [OF assms] by blast

text \<open>A struct is copied field by field: \<open>f\<close> reads the fields, \<open>g\<close> is the copy of their tuple.\<close>

lemma copier_via:
  assumes g: "copier A g"
    and step: "\<And>x h. \<exists>y h'. copy x h = (y, h') \<and> g (f x) h = (f y, h')"
  shows "copier (via_shape f A) copy"
proof (intro copier.intro copier_axioms.intro shaped_via)
  show "shaped A" using g by (rule copier.axioms)
  fix h x y h'
  assume wt: "well_typed (via_shape f A) h x" and run: "copy x h = (y, h')"
  have "g (f x) h = (f y, h')" using step [of x h] run by auto
  from copier.copies [OF g wt [unfolded via_simps] this]
  show "extends h h' \<and> well_typed (via_shape f A) h' y \<and>
      val (via_shape f A) h' y = val (via_shape f A) h x \<and>
      (\<forall>a\<in>refs (via_shape f A) h' y. hbrk h \<le> a)"
    unfolding via_simps .
qed

end
