(* ===== verification/DeepCopyLaws.thy ===== *)
theory DeepCopyLaws
  imports DeepCopySpec
begin

text \<open>
  The copying of pointers and slices are copiers: \<open>deep_copy\<close> of a pointer, \<open>copy_slice\<close> of a slice
  of structs, and the copying of a string pointer and of a byte slice.
\<close>

section \<open>Pointers\<close>

lemma holds_cong: "a < hbrk h' \<Longrightarrow> hcells h' a = hcells h a \<Longrightarrow> holds t h a \<Longrightarrow> holds t h' a"
  by (simp add: holds_def)

lemma holds_store: "good_type t \<Longrightarrow> a < hbrk h \<Longrightarrow> holds t (store t a x h) a"
  by (simp add: holds_def good_type_def)

lemma ptr_simps [simp]:
  "val (ptr_shape t A) h None = None"
  "val (ptr_shape t A) h (Some a) = Some (val A h (load t h a))"
  "refs (ptr_shape t A) h None = {}"
  "refs (ptr_shape t A) h (Some a) = insert a (refs A h (load t h a))"
  "well_typed (ptr_shape t A) h None"
  "well_typed (ptr_shape t A) h (Some a) \<longleftrightarrow> holds t h a \<and> well_typed A h (load t h a)"
  by (simp_all add: ptr_shape_def)

lemma shaped_ptr:
  fixes A :: "('l, 'a, 'v) shape"
  assumes A: "shaped A"
  shows "shaped (ptr_shape t A)"
proof
  fix h :: "'l go_heap" and p a
  assume "well_typed (ptr_shape t A) h p" and "a \<in> refs (ptr_shape t A) h p"
  then show "a < hbrk h"
    using shaped.refs_bound [OF A] by (cases p) (auto simp: holds_def)
next
  fix h h' :: "'l go_heap" and p
  assume wt: "well_typed (ptr_shape t A) h p"
    and same: "\<forall>a\<in>refs (ptr_shape t A) h p. a < hbrk h' \<and> hcells h' a = hcells h a"
  show "well_typed (ptr_shape t A) h' p \<and> val (ptr_shape t A) h' p = val (ptr_shape t A) h p \<and>
      refs (ptr_shape t A) h' p = refs (ptr_shape t A) h p"
  proof (cases p)
    case None
    then show ?thesis by simp
  next
    case (Some a)
    have a: "a < hbrk h'" "hcells h' a = hcells h a" using same Some by auto
    have "load t h' a = load t h a" by (rule load_cong [OF a(2)])
    moreover have "holds t h' a" using holds_cong [OF a, of t] wt Some by simp
    moreover have "well_typed A h (load t h a)" using wt Some by simp
    from shaped.agree [OF A this, of h'] same Some
    have "well_typed A h' (load t h a) \<and> val A h' (load t h a) = val A h (load t h a) \<and>
        refs A h' (load t h a) = refs A h (load t h a)" by simp
    ultimately show ?thesis by (simp add: Some)
  qed
qed

lemma copier_ptr:
  fixes A :: "('l, 'a, 'v) shape"
  assumes t: "good_type t" and f: "copier A into"
  shows "copier (ptr_shape t A) (deep_copy t into)"
proof (intro copier.intro copier_axioms.intro)
  have A: "shaped A" using f by (rule copier.axioms)
  then show "shaped (ptr_shape t A)" by (rule shaped_ptr)
  fix h h' :: "'l go_heap" and p q
  assume wt: "well_typed (ptr_shape t A) h p" and run: "deep_copy t into p h = (q, h')"
  show "extends h h' \<and> well_typed (ptr_shape t A) h' q \<and>
      val (ptr_shape t A) h' q = val (ptr_shape t A) h p \<and>
      (\<forall>a\<in>refs (ptr_shape t A) h' q. hbrk h \<le> a)"
  proof (cases p)
    case None
    then show ?thesis using run by (auto simp: deep_copy_def)
  next
    case (Some a)
    obtain out h1 where new: "new_value t h = (out, h1)" by (cases "new_value t h")
    note al = extends_alloc [OF new [unfolded new_value_def]]
    have a: "a < hbrk h" using wt Some by (simp add: holds_def)
    have same: "load t h1 a = load t h a" using al a by (intro load_cong) (simp add: extends_cell)
    obtain x h2 where c: "into (load t h a) h1 = (x, h2)" by (cases "into (load t h a) h1")
    have res: "q = Some out" "h' = store t out x h2"
      using run Some new c by (auto simp: deep_copy_def same)
    have wta: "well_typed A h (load t h a)" using wt Some by simp
    note k = shaped.keeps [OF A wta conjunct1 [OF al]]
    note cc = copier.copies [OF f k(1) c]
    then have ext: "extends h h2" and brk: "hbrk h1 \<le> hbrk h2"
      using al extends_trans [of h h1 h2] extends_brk [of h1 h2] by auto
    have "out \<notin> refs A h2 x" using cc al by fastforce
    note u = shaped.untouched [OF A conjunct1 [OF conjunct2 [OF cc]] this, of t x, folded res(2)]
    have "load t h' out = x" unfolding res by (rule load_store [OF t])
    moreover have "holds t h' out" unfolding res using al brk by (intro holds_store t) simp
    moreover have "extends h h'" unfolding res by (rule extends_store [OF ext]) (simp add: al)
    moreover have "\<forall>b\<in>refs A h2 x. hbrk h \<le> b" using cc al by fastforce
    ultimately show ?thesis using u cc k al by (simp add: res(1) Some)
  qed
qed

section \<open>Slices\<close>

lemma slice_simps [simp]:
  "val (slice_shape t A) h None = None"
  "val (slice_shape t A) h (Some s) = Some (map (val A h) (elements t h s))"
  "refs (slice_shape t A) h None = {}"
  "refs (slice_shape t A) h (Some s) =
     insert (sArr s) (\<Union>x\<in>set (elements t h s). refs A h x)"
  "well_typed (slice_shape t A) h None"
  "well_typed (slice_shape t A) h (Some s) \<longleftrightarrow> holds t h (sArr s) \<and>
     sOff s + sLen s \<le> length (load t h (sArr s)) \<and> list_all (well_typed A h) (elements t h s)"
  by (simp_all add: slice_shape_def)

lemma shaped_slice:
  fixes A :: "('l, 'a, 'v) shape"
  assumes A: "shaped A"
  shows "shaped (slice_shape t A)"
proof
  fix h :: "'l go_heap" and p a
  assume "well_typed (slice_shape t A) h p" and "a \<in> refs (slice_shape t A) h p"
  then show "a < hbrk h"
    using shaped.refs_bound [OF A] by (cases p) (auto simp: holds_def list_all_iff)
next
  fix h h' :: "'l go_heap" and p
  assume wt: "well_typed (slice_shape t A) h p"
    and same: "\<forall>a\<in>refs (slice_shape t A) h p. a < hbrk h' \<and> hcells h' a = hcells h a"
  show "well_typed (slice_shape t A) h' p \<and> val (slice_shape t A) h' p = val (slice_shape t A) h p \<and>
      refs (slice_shape t A) h' p = refs (slice_shape t A) h p"
  proof (cases p)
    case None
    then show ?thesis by simp
  next
    case (Some s)
    have a: "sArr s < hbrk h'" "hcells h' (sArr s) = hcells h (sArr s)" using same Some by auto
    have els: "elements t h' s = elements t h s" by (rule elements_cong [OF a(2)])
    have ld: "load t h' (sArr s) = load t h (sArr s)" by (rule load_cong [OF a(2)])
    have each: "well_typed A h' x \<and> val A h' x = val A h x \<and> refs A h' x = refs A h x"
      if "x \<in> set (elements t h s)" for x
      using shaped.agree [OF A, of h x h'] wt same Some that by (simp add: list_all_iff)
    have "list_all (well_typed A h') (elements t h s)" using each by (simp add: list_all_iff)
    moreover have "map (val A h') (elements t h s) = map (val A h) (elements t h s)"
      using each by simp
    moreover have "(\<Union>x\<in>set (elements t h s). refs A h' x) = (\<Union>x\<in>set (elements t h s). refs A h x)"
      using each by simp
    ultimately show ?thesis using holds_cong [OF a, of t] wt by (simp add: Some els ld)
  qed
qed

text \<open>
  The loop: after \<open>n\<close> rounds the first \<open>n\<close> elements of the new array are copies, the rest is as
  \<open>make\<close> left it, and the old memory is untouched.
\<close>

definition copied_upto ::
  "('l, 'a list) cell_type \<Rightarrow> ('l, 'a, 'v) shape \<Rightarrow> 'a \<Rightarrow> 'l go_heap \<Rightarrow> go_slice \<Rightarrow> nat \<Rightarrow>
     'l go_heap \<Rightarrow> bool" where
  "copied_upto t A z h src n hn \<longleftrightarrow>
     (\<exists>ys. hcells hn (hbrk h) = Some (wrap t (ys @ replicate (sLen src - n) z)) \<and> length ys = n \<and>
        map (val A hn) ys = map (val A h) (take n (elements t h src)) \<and>
        list_all (well_typed A hn) ys \<and> (\<forall>y\<in>set ys. \<forall>a\<in>refs A hn y. hbrk h < a)) \<and>
     hbrk h < hbrk hn \<and> (\<forall>a. a < hbrk h \<longrightarrow> hcells hn a = hcells h a)"

lemma range_copy_append:
  "range_copy t into src dst (is @ js) h =
     range_copy t into src dst js (range_copy t into src dst is h)"
  by (induction "is" arbitrary: h) (auto split: prod.splits)

lemma copied_step:
  fixes A :: "('l, 'a, 'v) shape"
  assumes t: "good_type t" and f: "copier A into"
    and src: "well_typed (slice_shape t A) h (Some src)"
    and n: "n < sLen src" and inv: "copied_upto t A z h src n hn"
    and dst: "dst = \<lparr>sArr = hbrk h, sOff = 0, sLen = sLen src\<rparr>"
  shows "copied_upto t A z h src (Suc n) (range_copy t into src dst [n] hn)"
proof -
  have A: "shaped A" using f by (rule copier.axioms)
  obtain ys where arr: "hcells hn (hbrk h) = Some (wrap t (ys @ replicate (sLen src - n) z))"
    and len: "length ys = n"
    and vals: "map (val A hn) ys = map (val A h) (take n (elements t h src))"
    and wty: "list_all (well_typed A hn) ys" and fresh: "\<forall>y\<in>set ys. \<forall>a\<in>refs A hn y. hbrk h < a"
    and brk: "hbrk h < hbrk hn" and old: "\<forall>a. a < hbrk h \<longrightarrow> hcells hn a = hcells h a"
    using inv by (auto simp: copied_upto_def)
  define x where "x = elem t h src n"
  have "sArr src < hbrk h" using src by (simp add: holds_def)
  then have ex: "elem t hn src n = x" using old by (simp add: elem_def x_def load_def)
  have lens: "length (elements t h src) = sLen src" using src by (auto simp: elements_def)
  have x_nth: "elements t h src ! n = x"
    using src n by (auto simp: elements_def elem_def x_def)
  then have "x \<in> set (elements t h src)" using n lens nth_mem by metis
  then have "well_typed A h x" using src by (auto simp: list_all_iff)
  moreover have "extends h hn" using brk old by (simp add: extends_def)
  ultimately have wtx: "well_typed A hn x" and vx: "val A hn x = val A h x"
    using shaped.keeps [OF A] by blast+
  obtain y h1 where c: "into x hn = (y, h1)" by (cases "into x hn")
  note cc = copier.copies [OF f wtx c]
  then have ext: "extends hn h1" by simp
  have brk1: "hbrk h < hbrk h1" using brk extends_brk [OF ext] by simp
  have arr1: "hcells h1 (hbrk h) = Some (wrap t (ys @ replicate (sLen src - n) z))"
    using arr extends_cell [OF ext brk] by simp
  obtain k where k: "sLen src - n = Suc k" "sLen src - Suc n = k" using n by (cases "sLen src - n") auto
  have upd: "(ys @ replicate (sLen src - n) z)[n := y] = (ys @ [y]) @ replicate (sLen src - Suc n) z"
    by (simp add: k len list_update_append)
  define h2 where "h2 = store t (hbrk h) ((ys @ [y]) @ replicate (sLen src - Suc n) z) h1"
  have run: "range_copy t into src dst [n] hn = h2"
    by (simp add: ex c h2_def set_elem_def dst load_cell [OF t arr1] upd)
  have keep1: "well_typed A h1 u" "val A h1 u = val A hn u" "refs A h1 u = refs A hn u"
    if "u \<in> set ys" for u
    using shaped.keeps [OF A _ ext] wty that by (auto simp: list_all_iff)
  have keep2: "well_typed A h2 u" "val A h2 u = val A h1 u" "refs A h2 u = refs A h1 u"
    if "u = y \<or> u \<in> set ys" for u
  proof -
    have "hbrk h \<notin> refs A h1 u" using that cc brk fresh keep1(3) by fastforce
    moreover have "well_typed A h1 u" using that cc keep1(1) by blast
    ultimately show "well_typed A h2 u" "val A h2 u = val A h1 u" "refs A h2 u = refs A h1 u"
      unfolding h2_def by (simp_all add: shaped.untouched [OF A])
  qed
  have "map (val A h2) ys = map (val A hn) ys" using keep1(2) keep2(2) by simp
  then have "map (val A h2) (ys @ [y]) = map (val A h) (take (Suc n) (elements t h src))"
    using vals vx cc keep2(2) lens n by (simp add: take_Suc_conv_app_nth x_nth)
  moreover have "list_all (well_typed A h2) (ys @ [y])" using keep2(1) by (auto simp: list_all_iff)
  moreover have "\<forall>u\<in>set (ys @ [y]). \<forall>a\<in>refs A h2 u. hbrk h < a"
    using keep1(3) keep2(3) fresh cc brk by fastforce
  moreover have "hcells h2 (hbrk h) = Some (wrap t ((ys @ [y]) @ replicate (sLen src - Suc n) z))"
    by (simp add: h2_def)
  moreover have "\<forall>a. a < hbrk h \<longrightarrow> hcells h2 a = hcells h a"
    using old extends_cell [OF ext] brk by (simp add: h2_def)
  moreover have "hbrk h < hbrk h2" using brk1 by (simp add: h2_def)
  ultimately show ?thesis
    unfolding run copied_upto_def using len by (intro conjI exI [of _ "ys @ [y]"]) auto
qed

lemma copier_slice:
  fixes A :: "('l, 'a, 'v) shape"
  assumes t: "good_type t" and f: "copier A into"
  shows "copier (slice_shape t A) (copy_slice t z into)"
proof (intro copier.intro copier_axioms.intro)
  have A: "shaped A" using f by (rule copier.axioms)
  then show "shaped (slice_shape t A)" by (rule shaped_slice)
  fix h h' :: "'l go_heap" and p q
  assume wt: "well_typed (slice_shape t A) h p" and run: "copy_slice t z into p h = (q, h')"
  show "extends h h' \<and> well_typed (slice_shape t A) h' q \<and>
      val (slice_shape t A) h' q = val (slice_shape t A) h p \<and>
      (\<forall>a\<in>refs (slice_shape t A) h' q. hbrk h \<le> a)"
  proof (cases p)
    case None
    then show ?thesis using run by (auto simp: copy_slice_def)
  next
    case (Some src)
    define dst where "dst = \<lparr>sArr = hbrk h, sOff = 0, sLen = sLen src\<rparr>"
    obtain h1 where mk: "make_slice t z (sLen src) h = (dst, h1)"
      and al: "alloc (wrap t (replicate (sLen src) z)) h = (hbrk h, h1)"
      by (simp add: make_slice_def alloc_def dst_def)
    note al = extends_alloc [OF al]
    have "copied_upto t A z h src n (range_copy t into src dst [0..<n] h1)" if "n \<le> sLen src" for n
      using that
    proof (induction n)
      case 0
      then show ?case using al by (simp add: copied_upto_def extends_def)
    next
      case (Suc n)
      then show ?case
        using copied_step [OF t f wt [unfolded Some] _ _ dst_def, of n z]
        by (simp add: range_copy_append)
    qed
    from this [OF order_refl]
    have inv: "copied_upto t A z h src (sLen src) h'" and q: "q = Some dst"
      using run Some mk by (auto simp: copy_slice_def)
    then obtain ys where arr: "hcells h' (hbrk h) = Some (wrap t ys)" and len: "length ys = sLen src"
      and vals: "map (val A h') ys = map (val A h) (take (sLen src) (elements t h src))"
      and wty: "list_all (well_typed A h') ys" and fresh: "\<forall>y\<in>set ys. \<forall>a\<in>refs A h' y. hbrk h < a"
      and brk: "hbrk h < hbrk h'" and old: "\<forall>a. a < hbrk h \<longrightarrow> hcells h' a = hcells h a"
      by (auto simp: copied_upto_def)
    have ld: "load t h' (hbrk h) = ys" by (rule load_cell [OF t arr])
    have els: "elements t h' dst = ys" by (simp add: elements_def dst_def ld len)
    have "take (sLen src) (elements t h src) = elements t h src" by (simp add: elements_def)
    moreover have "holds t h' (hbrk h)" using brk arr t by (simp add: holds_def good_type_def)
    ultimately show ?thesis
      using brk old vals wty fresh len
      by (auto simp: q Some els extends_def dst_def [symmetric] ld) (auto simp: dst_def ld less_imp_le)
  qed
qed

end
