(* ===== verification/DeepCopyTypes.thy ===== *)
theory DeepCopyTypes
  imports DeepCopyLaws
begin

text \<open>
  The shapes of the types of \<open>api/v1alpha1\<close>, and that every generated function is a copier for
  its shape as soon as the four functions of apimachinery are (\<open>deep_copy_lib\<close>).
\<close>

section \<open>Shapes\<close>

text \<open>\<open>L\<close> is the shape of the library's structs.\<close>

definition peer_status_shape :: "('l, 'l, 'v) shape \<Rightarrow> ('l, mScionClusterPeerStatus, 'v list option) shape"
  where "peer_status_shape L = via_shape mPeerConditions (slice_shape conditions_type L)"

definition peer_shape :: "('l, 'l, 'v) shape \<Rightarrow>
    ('l, 'l mScionClusterPeer, TypeMeta \<times> 'v \<times> ScionClusterPeerSpec \<times> 'v list option) shape" where
  "peer_shape L = via_shape (\<lambda>p. (mPeerTypeMeta p, mPeerMeta p, mPeerSpec p, mPeerStatus p))
     (pair_shape flat_shape (pair_shape L (pair_shape flat_shape (peer_status_shape L))))"

definition peer_list_shape :: "('l, 'l, 'v) shape \<Rightarrow> ('l, 'l mScionClusterPeerList,
    TypeMeta \<times> 'v \<times> (TypeMeta \<times> 'v \<times> ScionClusterPeerSpec \<times> 'v list option) list option) shape" where
  "peer_list_shape L = via_shape (\<lambda>p. (mPeerListTypeMeta p, mPeerListMeta p, mPeerItems p))
     (pair_shape flat_shape (pair_shape L (slice_shape peers_type (peer_shape L))))"

definition path_spec_shape ::
  "('l, mScionComputedPathSpec, (string \<times> string \<times> string) \<times> byte list option) shape" where
  "path_spec_shape = via_shape
     (\<lambda>p. ((mPolicyRef p, mDestinationCIDR p, mNextHopIP p), mHopFields p))
     (pair_shape flat_shape (slice_shape bytes_type flat_shape))"

definition path_status_shape :: "('l, 'l, 'v) shape \<Rightarrow> ('l, mScionComputedPathStatus, 'v list option) shape"
  where "path_status_shape L = via_shape mPathConditions (slice_shape conditions_type L)"

definition path_shape :: "('l, 'l, 'v) shape \<Rightarrow> ('l, 'l mScionComputedPath,
    TypeMeta \<times> 'v \<times> ((string \<times> string \<times> string) \<times> byte list option) \<times> 'v list option) shape" where
  "path_shape L = via_shape (\<lambda>p. (mPathTypeMeta p, mPathMeta p, mPathSpec p, mPathStatus p))
     (pair_shape flat_shape (pair_shape L (pair_shape path_spec_shape (path_status_shape L))))"

definition path_list_shape :: "('l, 'l, 'v) shape \<Rightarrow> ('l, 'l mScionComputedPathList,
    TypeMeta \<times> 'v \<times> (TypeMeta \<times> 'v \<times> ((string \<times> string \<times> string) \<times> byte list option) \<times>
      'v list option) list option) shape" where
  "path_list_shape L = via_shape (\<lambda>p. (mPathListTypeMeta p, mPathListMeta p, mPathItems p))
     (pair_shape flat_shape (pair_shape L (slice_shape paths_type (path_shape L))))"

definition policy_spec_shape ::
  "('l, 'l, 'v) shape \<Rightarrow> ('l, 'l mScionPathPolicySpec, 'v \<times> string option) shape" where
  "policy_spec_shape L = via_shape (\<lambda>p. (mPodSelector p, mPreference p))
     (pair_shape L (ptr_shape string_type flat_shape))"

definition policy_status_shape :: "('l, 'l, 'v) shape \<Rightarrow> ('l, mScionPathPolicyStatus, 'v list option) shape"
  where "policy_status_shape L = via_shape mPolicyConditions (slice_shape conditions_type L)"

definition policy_shape :: "('l, 'l, 'v) shape \<Rightarrow> ('l, 'l mScionPathPolicy,
    TypeMeta \<times> 'v \<times> ('v \<times> string option) \<times> 'v list option) shape" where
  "policy_shape L = via_shape (\<lambda>p. (mPolicyTypeMeta p, mPolicyMeta p, mPolicySpec p, mPolicyStatus p))
     (pair_shape flat_shape (pair_shape L (pair_shape (policy_spec_shape L) (policy_status_shape L))))"

definition policy_list_shape :: "('l, 'l, 'v) shape \<Rightarrow> ('l, 'l mScionPathPolicyList,
    TypeMeta \<times> 'v \<times> (TypeMeta \<times> 'v \<times> ('v \<times> string option) \<times> 'v list option) list option) shape" where
  "policy_list_shape L = via_shape (\<lambda>p. (mPolicyListTypeMeta p, mPolicyListMeta p, mPolicyItems p))
     (pair_shape flat_shape (pair_shape L (slice_shape policies_type (policy_shape L))))"

section \<open>The two slices and pointers copied in place\<close>

definition bytes_copy :: "go_slice option \<Rightarrow> 'l go_heap \<Rightarrow> go_slice option \<times> 'l go_heap" where
  "bytes_copy p h = (case p of None \<Rightarrow> (None, h)
     | Some s \<Rightarrow> (case make_slice bytes_type 0 (sLen s) h of
         (dst, h1) \<Rightarrow> (Some dst, go_copy bytes_type dst s h1)))"

lemma elements_new: "elements t h \<lparr>sArr = a, sOff = 0, sLen = n\<rparr> = take n (load t h a)"
  by (simp add: elements_def)

lemma copier_bytes: "copier (slice_shape bytes_type flat_shape) bytes_copy"
proof (intro copier.intro copier_axioms.intro shaped_slice shaped_flat)
  fix h h' :: "'l go_heap" and p q
  assume wt: "well_typed (slice_shape bytes_type flat_shape) h p" and run: "bytes_copy p h = (q, h')"
  show "extends h h' \<and> well_typed (slice_shape bytes_type flat_shape) h' q \<and>
      val (slice_shape bytes_type flat_shape) h' q = val (slice_shape bytes_type flat_shape) h p \<and>
      (\<forall>a\<in>refs (slice_shape bytes_type flat_shape) h' q. hbrk h \<le> a)"
  proof (cases p)
    case None
    then show ?thesis using run by (auto simp: bytes_copy_def)
  next
    case (Some s)
    have s: "sArr s < hbrk h" "sOff s + sLen s \<le> length (load bytes_type h (sArr s))"
      using wt Some by (simp_all add: holds_def)
    define dst where "dst = \<lparr>sArr = hbrk h, sOff = 0, sLen = sLen s\<rparr>"
    define h1 where "h1 = snd (alloc (ByteArray (replicate (sLen s) 0)) h)"
    have mk: "make_slice bytes_type 0 (sLen s) h = (dst, h1)"
      by (simp add: make_slice_def alloc_def dst_def h1_def bytes_type_def)
    have ext: "extends h h1" and brk: "hbrk h1 = Suc (hbrk h)"
      using extends_alloc [of "ByteArray (replicate (sLen s) 0)" h "hbrk h" h1]
      by (simp_all add: h1_def alloc_def)
    have "elements bytes_type h1 s = elements bytes_type h s"
      using extends_cell [OF ext s(1)] by (rule elements_cong)
    moreover have len: "length (elements bytes_type h s) = sLen s" using s by (simp add: elements_def)
    moreover have "load bytes_type h1 (hbrk h) = replicate (sLen s) 0"
      by (simp add: h1_def alloc_def load_def bytes_type_def)
    ultimately have h': "h' = store bytes_type (hbrk h) (elements bytes_type h s) h1" and q: "q = Some dst"
      using run Some mk by (auto simp: bytes_copy_def go_copy_def dst_def)
    have ld: "load bytes_type h' (hbrk h) = elements bytes_type h s" by (simp add: h')
    then have "elements bytes_type h' dst = elements bytes_type h s"
      by (simp add: dst_def elements_new len)
    moreover have "extends h h'" unfolding h' by (rule extends_store [OF ext]) simp
    moreover have "holds bytes_type h' (hbrk h)" unfolding h' using brk by (intro holds_store) simp_all
    ultimately show ?thesis
      by (simp add: q Some flat_shape_def list_all_iff) (simp add: dst_def ld len)
  qed
qed

lemma path_spec: "copier path_spec_shape ScionComputedPathSpec_DeepCopyInto"
  unfolding path_spec_shape_def
  by (rule copier_via [OF copier_pair [OF copier_flat copier_bytes]])
    (auto simp: ScionComputedPathSpec_DeepCopyInto_def pair_copy_def bytes_copy_def
      split: prod.splits option.splits)

section \<open>The generated functions\<close>

text \<open>
  What apimachinery documents of its four functions: they copy deeply.  \<open>L\<close> is the shape of its
  structs in memory.
\<close>

locale deep_copy_lib =
  meta: copier L "ObjectMeta_DeepCopyInto lib" + list_meta: copier L "ListMeta_DeepCopyInto lib" +
  selector: copier L "LabelSelector_DeepCopyInto lib" + condition: copier L "Condition_DeepCopyInto lib"
  for L :: "('l, 'l, 'v) shape" and lib :: "('l, 'z) copy_lib_scheme"

context deep_copy_lib
begin

lemma conditions: "copier (slice_shape conditions_type L)
    (copy_slice conditions_type (zero_lib lib) (Condition_DeepCopyInto lib))"
  by (rule copier_slice) (auto intro: condition.copier_axioms)

lemma peer_status: "copier (peer_status_shape L) (ScionClusterPeerStatus_DeepCopyInto lib)"
  unfolding peer_status_shape_def
  by (rule copier_via [OF conditions])
    (auto simp: ScionClusterPeerStatus_DeepCopyInto_def split: prod.splits)

lemma path_status: "copier (path_status_shape L) (ScionComputedPathStatus_DeepCopyInto lib)"
  unfolding path_status_shape_def
  by (rule copier_via [OF conditions])
    (auto simp: ScionComputedPathStatus_DeepCopyInto_def split: prod.splits)

lemma policy_status: "copier (policy_status_shape L) (ScionPathPolicyStatus_DeepCopyInto lib)"
  unfolding policy_status_shape_def
  by (rule copier_via [OF conditions])
    (auto simp: ScionPathPolicyStatus_DeepCopyInto_def split: prod.splits)

lemma peer_copier: "copier (peer_shape L) (ScionClusterPeer_DeepCopyInto lib)"
  unfolding peer_shape_def
  by (rule copier_via [OF copier_pair [OF copier_flat copier_pair [OF meta.copier_axioms
          copier_pair [OF copier_flat peer_status]]]])
    (auto simp: ScionClusterPeer_DeepCopyInto_def pair_copy_def Let_def split: prod.splits)

lemma path_copier: "copier (path_shape L) (ScionComputedPath_DeepCopyInto lib)"
  unfolding path_shape_def
  by (rule copier_via [OF copier_pair [OF copier_flat copier_pair [OF meta.copier_axioms
          copier_pair [OF path_spec path_status]]]])
    (auto simp: ScionComputedPath_DeepCopyInto_def pair_copy_def Let_def split: prod.splits)

lemma policy_spec: "copier (policy_spec_shape L) (ScionPathPolicySpec_DeepCopyInto lib)"
  unfolding policy_spec_shape_def
  by (rule copier_via [OF copier_pair [OF selector.copier_axioms
          copier_ptr [OF good_types(1) copier_flat]]])
    (auto simp: ScionPathPolicySpec_DeepCopyInto_def pair_copy_def deep_copy_def
      split: prod.splits option.splits)

lemma policy_copier: "copier (policy_shape L) (ScionPathPolicy_DeepCopyInto lib)"
  unfolding policy_shape_def
  by (rule copier_via [OF copier_pair [OF copier_flat copier_pair [OF meta.copier_axioms
          copier_pair [OF policy_spec policy_status]]]])
    (auto simp: ScionPathPolicy_DeepCopyInto_def pair_copy_def Let_def split: prod.splits)

lemma peer_list_copier: "copier (peer_list_shape L) (ScionClusterPeerList_DeepCopyInto lib)"
  unfolding peer_list_shape_def
  by (rule copier_via [OF copier_pair [OF copier_flat copier_pair [OF list_meta.copier_axioms
          copier_slice [where z = "zero_peer (zero_lib lib)", OF good_types(5) peer_copier]]]])
    (auto simp: ScionClusterPeerList_DeepCopyInto_def pair_copy_def Let_def split: prod.splits)

lemma path_list_copier: "copier (path_list_shape L) (ScionComputedPathList_DeepCopyInto lib)"
  unfolding path_list_shape_def
  by (rule copier_via [OF copier_pair [OF copier_flat copier_pair [OF list_meta.copier_axioms
          copier_slice [where z = "zero_value (path_type (zero_lib lib))", OF good_types(10) path_copier]]]])
    (auto simp: ScionComputedPathList_DeepCopyInto_def pair_copy_def Let_def split: prod.splits)

lemma policy_list_copier: "copier (policy_list_shape L) (ScionPathPolicyList_DeepCopyInto lib)"
  unfolding policy_list_shape_def
  by (rule copier_via [OF copier_pair [OF copier_flat copier_pair [OF list_meta.copier_axioms
          copier_slice [where z = "zero_value (policy_type (zero_lib lib))", OF good_types(15) policy_copier]]]])
    (auto simp: ScionPathPolicyList_DeepCopyInto_def pair_copy_def Let_def split: prod.splits)

end

text \<open>The functions on pointers, for each kind: one contract gives the other.\<close>

sublocale deep_copy_lib \<subseteq> peer_ptr: copier
  "ptr_shape (peer_type (zero_lib lib)) (peer_shape L)" "ScionClusterPeer_DeepCopy lib"
  unfolding ScionClusterPeer_DeepCopy_def by (rule copier_ptr [OF good_types(4) peer_copier])

sublocale deep_copy_lib \<subseteq> path_ptr: copier
  "ptr_shape (path_type (zero_lib lib)) (path_shape L)" "ScionComputedPath_DeepCopy lib"
  unfolding ScionComputedPath_DeepCopy_def by (rule copier_ptr [OF good_types(9) path_copier])

sublocale deep_copy_lib \<subseteq> policy_ptr: copier
  "ptr_shape (policy_type (zero_lib lib)) (policy_shape L)" "ScionPathPolicy_DeepCopy lib"
  unfolding ScionPathPolicy_DeepCopy_def by (rule copier_ptr [OF good_types(14) policy_copier])

sublocale deep_copy_lib \<subseteq> peer_list_ptr: copier
  "ptr_shape (peer_list_type (zero_lib lib)) (peer_list_shape L)" "ScionClusterPeerList_DeepCopy lib"
  unfolding ScionClusterPeerList_DeepCopy_def by (rule copier_ptr [OF good_types(6) peer_list_copier])

sublocale deep_copy_lib \<subseteq> path_list_ptr: copier
  "ptr_shape (path_list_type (zero_lib lib)) (path_list_shape L)" "ScionComputedPathList_DeepCopy lib"
  unfolding ScionComputedPathList_DeepCopy_def by (rule copier_ptr [OF good_types(11) path_list_copier])

sublocale deep_copy_lib \<subseteq> policy_list_ptr: copier
  "ptr_shape (policy_list_type (zero_lib lib)) (policy_list_shape L)" "ScionPathPolicyList_DeepCopy lib"
  unfolding ScionPathPolicyList_DeepCopy_def by (rule copier_ptr [OF good_types(16) policy_list_copier])

context deep_copy_lib
begin

lemmas policy_list_copied = policy_list_ptr.copied
lemmas path_list_independent = path_list_ptr.independent
lemmas peer_list_copied = peer_list_ptr.copied
lemmas peer_list_stays = peer_list_ptr.keeps(1)

end

text \<open>Which of the pointers is nil.\<close>

lemma deep_copy_nil: "deep_copy t into p h = (q, h') \<Longrightarrow> q = None \<longleftrightarrow> p = None"
  by (auto simp: deep_copy_def split: option.splits prod.splits)

end
