(* ===== verification/DeepCopyProps.thy ===== *)
theory DeepCopyProps
  imports DeepCopyTypes
begin

text \<open>
  The properties of the generated deep copies, and a reference instance of what they rely on: a
  library whose structs are a name and a pointer to a text.
\<close>

section \<open>A library in memory\<close>

type_synonym mem_lib = "string \<times> nat option"

definition library_type :: "(mem_lib, mem_lib) cell_type" where
  "library_type = \<lparr>wrap = LibraryCell,
     unwrap = (\<lambda>c. case c of LibraryCell x \<Rightarrow> Some x | _ \<Rightarrow> None), zero_value = ([], None)\<rparr>"

definition mem_shape :: "(mem_lib, mem_lib, string \<times> string option) shape" where
  "mem_shape = pair_shape flat_shape (ptr_shape library_type (via_shape fst flat_shape))"

definition mem_lib_copy :: "mem_lib \<Rightarrow> mem_lib go_heap \<Rightarrow> mem_lib \<times> mem_lib go_heap" where
  "mem_lib_copy = pair_copy (\<lambda>x h. (x, h)) (deep_copy library_type (\<lambda>x h. (x, h)))"

definition mem_copy_lib :: "mem_lib copy_lib" where
  "mem_copy_lib = \<lparr>ObjectMeta_DeepCopyInto = mem_lib_copy, ListMeta_DeepCopyInto = mem_lib_copy,
     LabelSelector_DeepCopyInto = mem_lib_copy, Condition_DeepCopyInto = mem_lib_copy,
     zero_lib = ([], None)\<rparr>"

lemma copier_mem_lib: "copier mem_shape mem_lib_copy"
  unfolding mem_shape_def mem_lib_copy_def
proof (intro copier_pair copier_flat copier_ptr)
  show "good_type library_type" by (simp add: good_type_def library_type_def)
  show "copier (via_shape fst flat_shape) (\<lambda>x h. (x, h))"
    by (rule copier_via [OF copier_flat]) simp
qed

interpretation mem_copy: deep_copy_lib mem_shape mem_copy_lib
  by (simp add: deep_copy_lib_def mem_copy_lib_def copier_mem_lib)

lemma mem_copy_ok: "deep_copy_lib mem_shape mem_copy_lib"
  by (rule mem_copy.deep_copy_lib_axioms)

section \<open>Properties\<close>

text \<open>
  C6: copying a list of policies deeply: nil gives nil; otherwise the copy is well typed, stands
  for the same value (type, metadata, selector, preference and conditions of every item, nil
  slices and pointers included), reaches no memory that the original reaches, and neither the
  original nor any other existing memory is changed.
\<close>
theorem PolicyList_DeepCopy_equal:
  assumes "deep_copy_lib L lib"
    and "well_typed (ptr_shape (policy_list_type (zero_lib lib)) (policy_list_shape L)) h p"
    and "ScionPathPolicyList_DeepCopy lib p h = (q, h')"
  shows "let S = ptr_shape (policy_list_type (zero_lib lib)) (policy_list_shape L)
    in (q = None \<longleftrightarrow> p = None) \<and> well_typed S h' q \<and> val S h' q = val S h p \<and>
       val S h' p = val S h p \<and> refs S h' q \<inter> refs S h' p = {} \<and>
       (\<forall>a. a < hbrk h \<longrightarrow> hcells h' a = hcells h a)"
  using deep_copy_lib.policy_list_copied [OF assms]
    deep_copy_nil [OF assms(3) [unfolded ScionPathPolicyList_DeepCopy_def]]
  by (simp add: Let_def extends_def)

text \<open>A list of one policy, with its array at 1, its preference at 2 and its metadata's text at 3.\<close>

definition demo_policy_mem :: "mem_lib mScionPathPolicy" where
  "demo_policy_mem =
     \<lparr>mPolicyTypeMeta = \<lparr>tmKind = ''ScionPathPolicy'', tmAPIVersion = ''v1alpha1''\<rparr>,
      mPolicyMeta = (''web'', Some 3), mPolicySpec = \<lparr>mPodSelector = ([], None), mPreference = Some 2\<rparr>,
      mPolicyStatus = \<lparr>mPolicyConditions = None\<rparr>\<rparr>"

definition demo_policy_heap :: "mem_lib go_heap" where
  "demo_policy_heap =
     \<lparr>hcells = [0 \<mapsto> PolicyListCell \<lparr>mPolicyListTypeMeta = zero_TypeMeta, mPolicyListMeta = ([], None),
          mPolicyItems = Some \<lparr>sArr = 1, sOff = 0, sLen = 1\<rparr>\<rparr>,
        1 \<mapsto> PolicyArray [demo_policy_mem], 2 \<mapsto> StringCell ''low_latency'',
        3 \<mapsto> LibraryCell (''prod'', None)],
      hbrk = 4\<rparr>"

text \<open>What the witnesses' lists stand for.\<close>

definition demo_policy_value ::
  "TypeMeta \<times> (string \<times> string option) \<times> (TypeMeta \<times> (string \<times> string option) \<times>
     ((string \<times> string option) \<times> string option) \<times> (string \<times> string option) list option) list option"
  where
  "demo_policy_value = (zero_TypeMeta, ([], None),
     Some [(\<lparr>tmKind = ''ScionPathPolicy'', tmAPIVersion = ''v1alpha1''\<rparr>, (''web'', Some ''prod''),
       (([], None), Some ''low_latency''), None)])"

theorem PolicyList_DeepCopy_equal_witness:
  "let S = ptr_shape (policy_list_type (zero_lib mem_copy_lib)) (policy_list_shape mem_shape);
       (q, h') = ScionPathPolicyList_DeepCopy mem_copy_lib (Some 0) demo_policy_heap
   in q \<noteq> None \<and> val S h' q = Some demo_policy_value"
proof -
  let ?S = "ptr_shape (policy_list_type (zero_lib mem_copy_lib)) (policy_list_shape mem_shape)"
  obtain q h' where run: "ScionPathPolicyList_DeepCopy mem_copy_lib (Some 0) demo_policy_heap = (q, h')"
    by (cases "ScionPathPolicyList_DeepCopy mem_copy_lib (Some 0) demo_policy_heap")
  have wt: "well_typed ?S demo_policy_heap (Some 0)" by code_simp
  have "val ?S demo_policy_heap (Some 0) = Some demo_policy_value" by code_simp
  then show ?thesis
    using PolicyList_DeepCopy_equal [OF mem_copy_ok wt run] by (simp add: run Let_def)
qed

text \<open>
  C7: a list of computed paths and its copy are independent: whatever is written later to memory
  that one of them reaches (the hop fields of an item, say), the other one keeps the value that
  the original had when it was copied.
\<close>
theorem PathList_DeepCopy_independent:
  assumes "deep_copy_lib L lib"
    and "well_typed (ptr_shape (path_list_type (zero_lib lib)) (path_list_shape L)) h p"
    and "ScionComputedPathList_DeepCopy lib p h = (q, h')" and "hbrk h' \<le> hbrk h2"
  shows "let S = ptr_shape (path_list_type (zero_lib lib)) (path_list_shape L)
    in ((\<forall>a. hcells h2 a \<noteq> hcells h' a \<longrightarrow> a \<in> refs S h' q) \<longrightarrow> val S h2 p = val S h p) \<and>
       ((\<forall>a. hcells h2 a \<noteq> hcells h' a \<longrightarrow> a \<in> refs S h' p) \<longrightarrow> val S h2 q = val S h p)"
  using deep_copy_lib.path_list_independent [OF assms] unfolding Let_def by blast

text \<open>A list of one path, whose hop fields are the middle of the array at 2.\<close>

definition demo_path_mem :: "mem_lib mScionComputedPath" where
  "demo_path_mem =
     \<lparr>mPathTypeMeta = zero_TypeMeta, mPathMeta = (''web-to-a'', None),
      mPathSpec = \<lparr>mPolicyRef = ''web'', mDestinationCIDR = ''10.1.0.0/16'', mNextHopIP = ''192.0.2.1'',
        mHopFields = Some \<lparr>sArr = 2, sOff = 1, sLen = 2\<rparr>\<rparr>,
      mPathStatus = \<lparr>mPathConditions = None\<rparr>\<rparr>"

definition demo_path_heap :: "mem_lib go_heap" where
  "demo_path_heap =
     \<lparr>hcells = [0 \<mapsto> PathListCell \<lparr>mPathListTypeMeta = zero_TypeMeta, mPathListMeta = ([], None),
          mPathItems = Some \<lparr>sArr = 1, sOff = 0, sLen = 1\<rparr>\<rparr>,
        1 \<mapsto> PathArray [demo_path_mem], 2 \<mapsto> ByteArray [9, 7, 8, 9]],
      hbrk = 3\<rparr>"

theorem PathList_DeepCopy_independent_witness:
  "let S = ptr_shape (path_list_type (zero_lib mem_copy_lib)) (path_list_shape mem_shape);
       (q, h') = ScionComputedPathList_DeepCopy mem_copy_lib (Some 0) demo_path_heap
   in val S (store bytes_type 2 [0, 0, 0, 0] h') q =
        Some (zero_TypeMeta, ([], None), Some [(zero_TypeMeta, (''web-to-a'', None),
          ((''web'', ''10.1.0.0/16'', ''192.0.2.1''), Some [7, 8]), None)])"
proof -
  let ?S = "ptr_shape (path_list_type (zero_lib mem_copy_lib)) (path_list_shape mem_shape)"
  let ?run = "ScionComputedPathList_DeepCopy mem_copy_lib (Some 0) demo_path_heap"
  let ?h2 = "store bytes_type 2 [0, 0, 0, 0] (snd ?run)"
  have run: "?run = (fst ?run, snd ?run)" by simp
  have wt: "well_typed ?S demo_path_heap (Some 0)" by code_simp
  have v: "val ?S demo_path_heap (Some 0) =
      Some (zero_TypeMeta, ([], None), Some [(zero_TypeMeta, (''web-to-a'', None),
          ((''web'', ''10.1.0.0/16'', ''192.0.2.1''), Some [7, 8]), None)])" by code_simp
  have "2 \<in> refs ?S (snd ?run) (Some 0)" by code_simp
  then have "\<forall>a. hcells ?h2 a \<noteq> hcells (snd ?run) a \<longrightarrow> a \<in> refs ?S (snd ?run) (Some 0)" by simp
  then have "val ?S ?h2 (fst ?run) = val ?S demo_path_heap (Some 0)"
    using PathList_DeepCopy_independent [OF mem_copy_ok wt run, of ?h2] unfolding Let_def by simp
  then show ?thesis using v by (simp add: Let_def case_prod_beta)
qed

text \<open>
  C27: \<open>DeepCopyObject\<close> of a peer list returns the nil interface exactly for a nil pointer and never
  an interface around a nil pointer; what it returns points to a well-typed list with the value
  of the original, and the original stays well typed.
\<close>
theorem PeerList_DeepCopyObject_typed:
  assumes "deep_copy_lib L lib"
    and "well_typed (ptr_shape (peer_list_type (zero_lib lib)) (peer_list_shape L)) h p"
    and "ScionClusterPeerList_DeepCopyObject lib p h = (obj, h')"
  shows "let S = ptr_shape (peer_list_type (zero_lib lib)) (peer_list_shape L)
    in well_typed S h' p \<and> (p = None \<longrightarrow> obj = None) \<and>
       (p \<noteq> None \<longrightarrow> (\<exists>a. obj = Some (Some a) \<and> well_typed S h' (Some a) \<and>
          val S h' (Some a) = val S h p))"
proof -
  obtain q h1 where run: "ScionClusterPeerList_DeepCopy lib p h = (q, h1)"
    by (cases "ScionClusterPeerList_DeepCopy lib p h")
  have nil: "q = None \<longleftrightarrow> p = None"
    by (rule deep_copy_nil [OF run [unfolded ScionClusterPeerList_DeepCopy_def]])
  have res: "h' = h1" "obj = (if q = None then None else Some q)"
    using assms(3) run
    by (auto simp: ScionClusterPeerList_DeepCopyObject_def deep_copy_object_def split: if_splits)
  show ?thesis
    using deep_copy_lib.peer_list_copied [OF assms(1,2) run]
      deep_copy_lib.peer_list_stays [OF assms(1,2), of h1] nil
    by (auto simp: Let_def res)
qed

text \<open>A list of one peer that has one condition, with the arrays at 1 and 2.\<close>

definition demo_peer_heap :: "mem_lib go_heap" where
  "demo_peer_heap =
     \<lparr>hcells = [0 \<mapsto> PeerListCell \<lparr>mPeerListTypeMeta = zero_TypeMeta, mPeerListMeta = ([], None),
          mPeerItems = Some \<lparr>sArr = 1, sOff = 0, sLen = 1\<rparr>\<rparr>,
        1 \<mapsto> PeerArray [\<lparr>mPeerTypeMeta = zero_TypeMeta, mPeerMeta = (''c'', None),
          mPeerSpec = \<lparr>RemoteAS = ''64-ffaa:0:1102'', PodCIDR = ''10.3.0.0/16''\<rparr>,
          mPeerStatus = \<lparr>mPeerConditions = Some \<lparr>sArr = 2, sOff = 0, sLen = 1\<rparr>\<rparr>\<rparr>],
        2 \<mapsto> ConditionArray [(''Ready'', None)]],
      hbrk = 3\<rparr>"

theorem PeerList_DeepCopyObject_typed_witness:
  "\<exists>a. fst (ScionClusterPeerList_DeepCopyObject mem_copy_lib (Some 0) demo_peer_heap) = Some (Some a) \<and>
     val (ptr_shape (peer_list_type (zero_lib mem_copy_lib)) (peer_list_shape mem_shape))
       (snd (ScionClusterPeerList_DeepCopyObject mem_copy_lib (Some 0) demo_peer_heap)) (Some a) =
     Some (zero_TypeMeta, ([], None), Some [(zero_TypeMeta, (''c'', None),
       \<lparr>RemoteAS = ''64-ffaa:0:1102'', PodCIDR = ''10.3.0.0/16''\<rparr>, Some [(''Ready'', None)])])"
proof -
  let ?S = "ptr_shape (peer_list_type (zero_lib mem_copy_lib)) (peer_list_shape mem_shape)"
  let ?run = "ScionClusterPeerList_DeepCopyObject mem_copy_lib (Some 0) demo_peer_heap"
  have run: "?run = (fst ?run, snd ?run)" by simp
  have wt: "well_typed ?S demo_peer_heap (Some 0)" by code_simp
  have "val ?S demo_peer_heap (Some 0) = Some (zero_TypeMeta, ([], None),
      Some [(zero_TypeMeta, (''c'', None),
       \<lparr>RemoteAS = ''64-ffaa:0:1102'', PodCIDR = ''10.3.0.0/16''\<rparr>, Some [(''Ready'', None)])])" by code_simp
  then show ?thesis
    using PeerList_DeepCopyObject_typed [OF mem_copy_ok wt run] unfolding Let_def by auto
qed

end
