(* ===== verification/OperatorLoop.thy ===== *)
theory OperatorLoop
  imports OperatorSystem PolicyWatches ApiServerRef
begin

text \<open>
  The policy controller with its own events: a run changes stored policies, their changes pass the
  filter that \<open>SetupWithManager\<close> gives to \<open>For\<close>, and what passes is queued again.  This shows
  whether a run wakes the controller up again.  The filters of controller-runtime are an argument
  with the contract \<open>generation_filter\<close>.
\<close>

section \<open>Events of a run\<close>

text \<open>Whether the update of an object passes a filter.\<close>

type_synonym update_filter = "watch_filter \<Rightarrow> ObjectMeta \<Rightarrow> ObjectMeta \<Rightarrow> bool"

text \<open>
  The policies whose change between two states is an event that passes: a creation or a deletion,
  which \<open>GenerationChangedPredicate\<close> lets pass, or an update that it judges.
\<close>

definition policy_events ::
  "(ObjectMeta \<Rightarrow> ObjectMeta \<Rightarrow> bool) \<Rightarrow> (NamespacedName \<rightharpoonup> ScionPathPolicy) \<Rightarrow>
     (NamespacedName \<rightharpoonup> ScionPathPolicy) \<Rightarrow> NamespacedName set" where
  "policy_events upd m m' =
     {k. case m k of
           None \<Rightarrow> m' k \<noteq> None
         | Some p \<Rightarrow> (case m' k of None \<Rightarrow> True
             | Some q \<Rightarrow> p \<noteq> q \<and> upd (polMeta p) (polMeta q))}"

text \<open>
  One run of a controller on a queued request: its reconcile function, the work queue's reaction to
  the outcome, and the events of the run.  Neither peers nor pods are written by \<open>Reconcile\<close>, so
  the other watches see nothing of it.
\<close>

definition controller_run ::
  "update_filter \<Rightarrow> ('w \<Rightarrow> NamespacedName \<rightharpoonup> ScionPathPolicy) \<Rightarrow> 'w controller_builder \<Rightarrow>
     NamespacedName \<Rightarrow> 'w op_state \<Rightarrow> (ctrl_Result \<times> go_error option) go \<times> 'w op_state" where
  "controller_run passes policies b req s =
     (case bReconcile b req (world s) of
        (out, w') \<Rightarrow>
          (out, \<lparr>world = w', queue = op_next req out (queue s) \<union>
             policy_events (passes (bForFilter b)) (policies (world s)) (policies w')\<rparr>))"

text \<open>A run that reports success and asks for no delayed requeue.\<close>

inductive quiet_step ::
  "update_filter \<Rightarrow> ('w \<Rightarrow> NamespacedName \<rightharpoonup> ScionPathPolicy) \<Rightarrow> 'w controller_builder \<Rightarrow>
     'w op_state \<Rightarrow> 'w op_state \<Rightarrow> bool"
  for passes policies b where
  run: "req \<in> queue s \<Longrightarrow> controller_run passes policies b req s = (Return (no_result, None), s') \<Longrightarrow>
    quiet_step passes policies b s s'"

inductive_cases quiet_stepE: "quiet_step passes policies b s s'"

section \<open>The filter\<close>

text \<open>\<open>GenerationChangedPredicate\<close> lets an update pass exactly if the generation differs.\<close>

locale generation_filter =
  fixes passes :: update_filter
  assumes generation_changed:
    "passes GenerationChangedPredicate old new \<longleftrightarrow> Generation old \<noteq> Generation new"
begin

text \<open>Changes that keep the generation are no events.\<close>

lemma no_events:
  assumes "m' = m \<or> (\<exists>p q. m k = Some p \<and> m' = m(k \<mapsto> q) \<and>
      Generation (polMeta q) = Generation (polMeta p))"
  shows "policy_events (passes GenerationChangedPredicate) m m' = {}"
proof -
  have "a \<notin> policy_events (passes GenerationChangedPredicate) m m'" for a
    using assms by (cases "a = k")
      (elim disjE exE conjE; simp add: policy_events_def generation_changed split: option.splits)+
  then show ?thesis by blast
qed

end

definition ref_passes :: update_filter where
  "ref_passes f old new = (f = GenerationChangedPredicate \<longrightarrow> Generation old \<noteq> Generation new)"

interpretation gf: generation_filter ref_passes
  by unfold_locales (simp add: ref_passes_def)

section \<open>What a successful run does to the policies\<close>

context scion_service
begin

lemma Reconcile_policies:
  assumes sc: "rScionClient r = None \<or> rScionClient r = Some fetch"
    and run: "Reconcile lib r req w = (Return (res, None), w')"
  shows "policies w' = policies w \<or> (policies w req \<noteq> None \<and> policies w' = (policies w)(req := None)) \<or>
    (\<exists>p q. policies w req = Some p \<and> policies w' = (policies w)(req \<mapsto> q) \<and>
       Generation (polMeta q) = Generation (polMeta p))"
proof (cases "policy_Get lib req w")
  case (Inl err)
  then show ?thesis using run by (simp add: Reconcile_def)
next
  case (Inr p)
  then have p: "policies w req = Some p" and key: "key_of (polMeta p) = req" using get_ok by auto
  have upd: ?thesis
    if u: "policy_Update lib (p\<lparr>polMeta := m\<rparr>) w = (None, q, w')" and m: "key_of m = req"
      "Generation m = Generation (polMeta p)" for m q
    using update_ok [OF u] p m by (auto split: if_splits)
  show ?thesis
  proof (cases "Time_IsZero (DeletionTimestamp (polMeta p))")
    case False
    then have "w' = w \<or> (\<exists>q. policy_Update lib
        (p\<lparr>polMeta := RemoveFinalizer lib (polMeta p) cilionFinalizer\<rparr>) w = (None, q, w'))"
      using run Inr by (auto simp: Reconcile_def reconcile_delete_def
          split: if_splits prod.splits option.splits)
    then show ?thesis using upd by (auto simp: remove_finalizer key)
  next
    case live: True
    show ?thesis
    proof (cases "cilionFinalizer \<in> set (Finalizers (polMeta p))")
      case False
      then have "\<exists>q. policy_Update lib
          (p\<lparr>polMeta := AddFinalizer lib (polMeta p) cilionFinalizer\<rparr>) w = (None, q, w')"
        using run Inr live by (auto simp: Reconcile_def contains_finalizer
            split: if_splits prod.splits option.splits)
      then show ?thesis using upd add_finalizer [OF False] by (auto simp: key)
    next
      case True
      obtain ps where ps: "peer_List lib w = Inr ps"
        using run Inr live True by (cases "peer_List lib w") (auto simp: Reconcile_def contains_finalizer)
      obtain x w1 where loop: "peers_loop lib (rScionClient r) p ps True w = (x, w1)"
        by (cases "peers_loop lib (rScionClient r) p ps True w")
      obtain ready where "reconcile_status lib p ps ready w1 = (Return (res, None), w')"
        using run loop Reconcile_main [OF Inr live True ps, of r]
        by (auto split: go.splits sum.splits)
      note eff = status_effect [OF this key get_valid [OF Inr]]
      have pols: "policies w1 = policies w" using loop_frame [OF loop sc] by blast
      show ?thesis
      proof (cases ready)
        case True
        then obtain q q' where "policies w req = Some q" "policies w' = (policies w)(req \<mapsto> q')"
          "same_meta (polMeta q) (polMeta q')"
          using eff unfolding pols if_P [OF True] by blast
        then show ?thesis by (auto simp: same_meta_def)
      next
        case False
        then show ?thesis using eff pols by simp
      qed
    qed
  qed
qed

end

section \<open>The controller comes to rest\<close>

text \<open>A queued request counts twice while its policy exists: its deletion is an event.\<close>

definition pending ::
  "('w \<Rightarrow> NamespacedName \<rightharpoonup> ScionPathPolicy) \<Rightarrow> 'w op_state \<Rightarrow> nat" where
  "pending policies s =
     card (queue s) + card {k \<in> queue s. policies (world s) k \<noteq> None}"

locale operator_loop = scion_service lib policies computed peers answers fetch +
  generation_filter passes
  for lib :: "('w, 'z) k8s_scheme" and policies computed peers answers fetch passes
begin

lemma quiet_pending:
  assumes "rScionClient r = None \<or> rScionClient r = Some fetch" and "finite (queue s)"
    and "quiet_step passes policies (policy_builder lib r) s s'"
  shows "pending policies s' < pending policies s"
proof -
  obtain req w' where req: "req \<in> queue s"
    and run: "Reconcile lib r req (world s) = (Return (no_result, None), w')"
    and s': "s' = \<lparr>world = w', queue = op_next req (Return (no_result, None)) (queue s) \<union>
      policy_events (passes GenerationChangedPredicate) (policies (world s)) (policies w')\<rparr>"
    using assms(3)
    by (auto elim!: quiet_stepE simp: controller_run_def policy_builder_def split: prod.splits)
  define m where "m = policies (world s)"
  note fin = finite_subset [OF _ assms(2)]
  have less: "card (queue s - {req}) < card (queue s)" by (rule card_Diff1_less [OF assms(2) req])
  consider (kept) "dom (policies w') = dom m" "queue s' = queue s - {req}"
    | (gone) "m req \<noteq> None" "policies w' = m(req := None)" "queue s' = queue s"
  proof (cases "m req \<noteq> None \<and> policies w' = m(req := None)")
    case True
    then have "policy_events (passes GenerationChangedPredicate) m (policies w') = {req}"
      by (auto simp: policy_events_def split: option.splits)
    then show ?thesis using that(2) True req by (auto simp: s' op_next_def m_def)
  next
    case False
    then have upd: "policies w' = m \<or> (\<exists>p q. m req = Some p \<and> policies w' = m(req \<mapsto> q) \<and>
        Generation (polMeta q) = Generation (polMeta p))"
      using Reconcile_policies [OF assms(1) run] unfolding m_def by blast
    then have "dom (policies w') = dom m" by (elim disjE exE conjE) (simp_all add: insert_absorb domI)
    moreover have "queue s' = queue s - {req}"
      using no_events [OF upd] by (simp add: s' op_next_def m_def)
    ultimately show ?thesis by (rule that(1))
  qed
  then show ?thesis
  proof cases
    case kept
    have "{k \<in> queue s'. policies w' k \<noteq> None} \<subseteq> {k \<in> queue s. m k \<noteq> None}"
      using kept by auto
    then have "card {k \<in> queue s'. policies w' k \<noteq> None} \<le> card {k \<in> queue s. m k \<noteq> None}"
      by (rule card_mono [OF fin, rotated]) auto
    moreover have "world s' = w'" by (simp add: s')
    ultimately show ?thesis using less unfolding pending_def kept(2) m_def by simp
  next
    case gone
    have "{k \<in> queue s'. policies w' k \<noteq> None} = {k \<in> queue s. m k \<noteq> None} - {req}"
      using gone by auto
    moreover have "card ({k \<in> queue s. m k \<noteq> None} - {req}) < card {k \<in> queue s. m k \<noteq> None}"
      using gone(1) req by (intro card_Diff1_less fin) auto
    moreover have "world s' = w'" by (simp add: s')
    ultimately show ?thesis unfolding pending_def gone(3) m_def by simp
  qed
qed

lemma quiet_terminates:
  assumes "rScionClient r = None \<or> rScionClient r = Some fetch"
  shows "wfP (\<lambda>s' s. finite (queue s) \<and> quiet_step passes policies (policy_builder lib r) s s')"
  by (rule wfp_if_convertible_to_nat [of _ "pending policies"])
    (use quiet_pending [OF assms] in blast)

text \<open>A new policy: its finalizer is stored, and nothing wakes the controller up again.\<close>

lemma new_policy_rests:
  assumes "policies (world s) req = Some p" and "Time_IsZero (DeletionTimestamp (polMeta p))"
    and "cilionFinalizer \<notin> set (Finalizers (polMeta p))"
    and "controller_run passes policies (policy_builder lib r) req s = (Return (res, None), s')"
  shows "queue s' = queue s - {req} \<and> computed (world s') = computed (world s) \<and>
    (\<exists>q. policies (world s') req = Some q \<and> polStatus q = polStatus p \<and>
       cilionFinalizer \<in> set (Finalizers (polMeta q)))"
proof -
  obtain w' where run: "Reconcile lib r req (world s) = (Return (res, None), w')"
    and s': "s' = \<lparr>world = w', queue = op_next req (Return (res, None)) (queue s) \<union>
      policy_events (passes GenerationChangedPredicate) (policies (world s)) (policies w')\<rparr>"
    using assms(4) by (auto simp: controller_run_def policy_builder_def split: prod.splits)
  note get = Reconcile_reads [OF assms(1) run]
  obtain v where res: "res = no_result" and comp: "computed w' = computed (world s)"
    and pol: "policies w' = (policies (world s))(req \<mapsto> p\<lparr>polMeta := (polMeta p)
       \<lparr>Finalizers := Finalizers (polMeta p) @ [cilionFinalizer], ResourceVersion := v\<rparr>\<rparr>)"
    using Reconcile_add_finalizer [OF conjunct1 [OF get] assms(2,3) run] by blast
  have "policy_events (passes GenerationChangedPredicate) (policies (world s)) (policies w') = {}"
    by (rule no_events [where k = req], rule disjI2, intro exI conjI, rule assms(1), rule pol) simp
  then show ?thesis using pol comp by (simp add: s' op_next_def res)
qed

end

interpretation ol: operator_loop mem_k8s mem_policies mem_computed aPeers aAnswers mem_fetch ref_passes
  by unfold_locales

end
