(* ===== verification/LoopProps.thy ===== *)
theory LoopProps
  imports DemoApi OperatorLoop
begin

text \<open>The properties of the policy controller in the loop with its own events.\<close>

text \<open>
  C15: the controller does not keep itself awake: without changes from outside there is no infinite
  sequence of runs that report success and ask for no delayed requeue, from any queue, since
  neither its finalizer nor its status updates pass the generation filter.
\<close>
theorem controller_comes_to_rest:
  assumes "scion_service lib policies computed peers answers fetch" and "generation_filter passes"
    and "rScionClient r = None \<or> rScionClient r = Some fetch"
  shows "wfP (\<lambda>s' s. finite (queue s) \<and> quiet_step passes policies (policy_builder lib r) s s')"
  by (rule operator_loop.quiet_terminates [OF operator_loop.intro [OF assms(1,2)] assms(3)])

theorem controller_comes_to_rest_witness:
  "wfP (\<lambda>s' s. finite (queue s) \<and>
     quiet_step ref_passes mem_policies (policy_builder mem_k8s demo_r) s s')"
  by (rule controller_comes_to_rest [OF mem_service gf.generation_filter_axioms
        disjI2 [OF demo_r_client]])

text \<open>
  C13: a new policy is left unfinished: the run that handles its creation stores the finalizer, takes
  the request from the queue and causes no event that would queue it again, so that, until
  something else wakes the controller up, no path is computed for it and its status stays as it is.
\<close>
theorem new_policy_stalls:
  assumes "scion_service lib policies computed peers answers fetch" and "generation_filter passes"
    and "policies (world s) req = Some p" and "Time_IsZero (DeletionTimestamp (polMeta p))"
    and "cilionFinalizer \<notin> set (Finalizers (polMeta p))"
    and "controller_run passes policies (policy_builder lib r) req s = (Return (res, None), s')"
  shows "queue s' = queue s - {req} \<and> computed (world s') = computed (world s) \<and>
    (\<exists>q. policies (world s') req = Some q \<and> polStatus q = polStatus p \<and>
       cilionFinalizer \<in> set (Finalizers (polMeta q)))"
  by (rule operator_loop.new_policy_rests [OF operator_loop.intro [OF assms(1,2)] assms(3-6)])

theorem new_policy_stalls_witness:
  "let p = demo_policy ''web'' None [] (Some ''low_latency'');
       s = \<lparr>world = demo_api [p] [] [peer_a], queue = {demo_key}\<rparr>;
       s' = snd (controller_run ref_passes mem_policies (policy_builder mem_k8s demo_r) demo_key s)
   in queue s' = {} \<and> mem_computed (world s') = Map.empty"
proof -
  define p where "p = demo_policy ''web'' None [] (Some ''low_latency'')"
  define s where "s = \<lparr>world = demo_api [p] [] [peer_a], queue = {demo_key}\<rparr>"
  let ?run = "controller_run ref_passes mem_policies (policy_builder mem_k8s demo_r) demo_key s"
  have "fst (Reconcile mem_k8s demo_r demo_key (world s)) = Return (no_result, None)"
    unfolding s_def p_def by code_simp
  then have run: "?run = (Return (no_result, None), snd ?run)"
    by (intro run_split) (simp add: controller_run_def policy_builder_def case_prod_beta)
  have pol: "mem_policies (world s) demo_key = Some p"
    by (simp add: s_def mem_policies_def demo_api_def p_def demo_policy_def demo_key_def
        key_of_def object_meta_def)
  have none: "mem_computed (world s) = Map.empty" by (simp add: s_def demo_api_def mem_computed_def)
  have "queue (snd ?run) = queue s - {demo_key} \<and> mem_computed (world (snd ?run)) = mem_computed (world s)"
    using new_policy_stalls [OF mem_service gf.generation_filter_axioms pol _ _ run]
    by (simp add: p_def demo_policy_def)
  then show ?thesis unfolding Let_def p_def [symmetric] s_def [symmetric]
    by (simp add: none) (simp add: s_def)
qed

end
