(* ===== verification/Convergence.thy ===== *)
theory Convergence
  imports LoopProps
begin

text \<open>
  What the policy controller has done when it comes to rest.  A sequence of runs that report no
  error, each on a queued request and followed by the events it causes, ends with an empty queue
  only when every policy that was queued with its finalizer is published and active.
\<close>

section \<open>Runs without errors\<close>

inductive smooth_step ::
  "update_filter \<Rightarrow> ('w \<Rightarrow> NamespacedName \<rightharpoonup> ScionPathPolicy) \<Rightarrow> 'w controller_builder \<Rightarrow>
     'w op_state \<Rightarrow> 'w op_state \<Rightarrow> bool"
  for passes policies b where
  run: "req \<in> queue s \<Longrightarrow> controller_run passes policies b req s = (Return (res, None), s') \<Longrightarrow>
    smooth_step passes policies b s s'"

inductive_cases smooth_stepE: "smooth_step passes policies b s s'"

text \<open>The name of a policy's path to a peer, from the key the policy is stored under.\<close>

definition path_key :: "NamespacedName \<Rightarrow> ScionClusterPeer \<Rightarrow> NamespacedName" where
  "path_key k peer = (fst k, snd k @ ''-to-'' @ Name (peerMeta peer))"

lemma path_key_of_key: "path_key_of p x = path_key (key_of (polMeta p)) x"
  by (simp add: path_key_of_def path_key_def computedPathName_def key_of_def)

text \<open>A policy all of whose paths are stored, with the condition that says so.\<close>

definition activated ::
  "(string \<Rightarrow> string \<Rightarrow> fetch_answer) \<Rightarrow> ScionClusterPeer list \<Rightarrow> string \<Rightarrow> NamespacedName \<Rightarrow>
     ScionPathPolicy \<Rightarrow> (NamespacedName \<rightharpoonup> ScionPathPolicy) \<Rightarrow>
     (NamespacedName \<rightharpoonup> ScionComputedPath) \<Rightarrow> bool" where
  "activated ans prs pref k p pols cps \<longleftrightarrow> (\<exists>q. pols k = Some q \<and> polSpec q = polSpec p \<and>
     {c \<in> set (polConditions (polStatus q)). cType c = ''Active''} =
       {active_condition p (length prs)} \<and>
     (\<forall>x\<in>set prs. view_map cps (path_key k x) = Some (peer_view ans pref p x)))"

lemma activated_frame:
  assumes "activated ans prs pref k p pols cps" and "pols' k = pols k"
    and "\<forall>x\<in>set prs. cps' (path_key k x) = cps (path_key k x)"
  shows "activated ans prs pref k p pols' cps'"
  using assms unfolding activated_def view_map_def by auto

context scion_service
begin

text \<open>No run changes peers or answers, and only paths of its own key.\<close>

lemma Reconcile_inputs:
  assumes sc: "rScionClient r = None \<or> rScionClient r = Some fetch"
    and run: "Reconcile lib r req w = (out, w')"
  shows "peers w' = peers w \<and> answers w' = answers w"
proof -
  have upd: "peers w' = peers w \<and> answers w' = answers w"
    if "policy_Update lib p x = (e, q, w')" "peers x = peers w" "answers x = answers w" for p x e q
    using update_other [OF that(1)] that(2,3) by simp
  have status: "peers w' = peers w \<and> answers w' = answers w"
    if "reconcile_status lib p ps ready x = (out, w')" "peers x = peers w" "answers x = answers w"
    for p ps ready x
    using that by (auto simp: reconcile_status_def dest: status_other
        split: if_splits prod.splits option.splits)
  show ?thesis
  proof (cases "policy_Get lib req w")
    case (Inl err)
    then show ?thesis using run by (simp add: Reconcile_def)
  next
    case (Inr p)
    show ?thesis
    proof (cases "Time_IsZero (DeletionTimestamp (polMeta p)) \<and>
        cilionFinalizer \<in> set (Finalizers (polMeta p))")
      case False
      then show ?thesis
        using run Inr upd by (auto simp: Reconcile_def reconcile_delete_def contains_finalizer
            split: if_splits prod.splits option.splits)
    next
      case True
      show ?thesis
      proof (cases "peer_List lib w")
        case (Inl err)
        then show ?thesis using run Inr True by (simp add: Reconcile_def contains_finalizer)
      next
        case ps: (Inr ps)
        obtain x w1 where loop: "peers_loop lib (rScionClient r) p ps True w = (x, w1)"
          by (cases "peers_loop lib (rScionClient r) p ps True w")
        note fr = loop_frame [OF loop sc]
        have "w' = w1 \<or> (\<exists>ready. reconcile_status lib p ps ready w1 = (out, w'))"
          using run loop Reconcile_main [OF Inr conjunct1 [OF True] conjunct2 [OF True] ps, of r]
          by (auto split: go.splits sum.splits)
        then show ?thesis using fr status by blast
      qed
    qed
  qed
qed

lemma Reconcile_paths:
  assumes "rScionClient r = None \<or> rScionClient r = Some fetch"
    and "Reconcile lib r req w = (out, w')"
    and "policies w req \<noteq> None \<Longrightarrow> \<forall>x\<in>set (peers w). k \<noteq> path_key req x"
  shows "computed w' k = computed w k"
proof (cases "policy_Get lib req w")
  case (Inl err)
  then show ?thesis using assms(2) by (simp add: Reconcile_def)
next
  case (Inr p)
  then have p: "policies w req = Some p" "key_of (polMeta p) = req" using get_ok by auto
  then have "\<forall>q x. policies w req = Some q \<longrightarrow> x \<in> set (peers w) \<longrightarrow> k \<noteq> path_key_of q x"
    using assms(3) by (simp add: path_key_of_key)
  then show ?thesis using Reconcile_frame [OF assms(1,2)] by blast
qed

end

section \<open>The invariant\<close>

text \<open>Either the policy still waits in the queue, as it was, or it is activated and left alone.\<close>

definition progress ::
  "(string \<Rightarrow> string \<Rightarrow> fetch_answer) \<Rightarrow> ScionClusterPeer list \<Rightarrow> string \<Rightarrow> NamespacedName \<Rightarrow>
     ScionPathPolicy \<Rightarrow> NamespacedName set \<Rightarrow> (NamespacedName \<rightharpoonup> ScionPathPolicy) \<Rightarrow>
     (NamespacedName \<rightharpoonup> ScionComputedPath) \<Rightarrow> bool" where
  "progress ans prs pref k p q pols cps \<longleftrightarrow>
     (if k \<in> q then pols k = Some p else activated ans prs pref k p pols cps)"

context operator_loop
begin

lemma smooth_run:
  assumes "smooth_step passes policies (policy_builder lib r) s s'"
  obtains req res w' where "req \<in> queue s" "Reconcile lib r req (world s) = (Return (res, None), w')"
    "world s' = w'" "queue s' = op_next req (Return (res, None)) (queue s) \<union>
      policy_events (passes GenerationChangedPredicate) (policies (world s)) (policies w')"
  using assms by (elim smooth_stepE) (auto simp: controller_run_def policy_builder_def split: prod.splits)

lemma own_run:
  assumes pol: "policies w k = Some p" "Time_IsZero (DeletionTimestamp (polMeta p))"
      "cilionFinalizer \<in> set (Finalizers (polMeta p))" "Preference (polSpec p) = Some pref"
    and sc: "rScionClient r = Some fetch" and names: "distinct (map (\<lambda>x. Name (peerMeta x)) (peers w))"
    and run: "Reconcile lib r k w = (Return (res, None), w')" and "k \<in> q"
  shows "progress (answers w) (peers w) pref k p
    (op_next k (Return (res, None)) q \<union>
      policy_events (passes GenerationChangedPredicate) (policies w) (policies w'))
    (policies w') (computed w')"
proof -
  note eff = Reconcile_success [OF pol sc run]
  have key: "key_of (polMeta p) = k" using Reconcile_reads [OF pol(1) run] by simp
  show ?thesis
  proof (cases "\<forall>x\<in>set (peers w). peer_ready (answers w) pref x")
    case False
    with eff have "res = requeue_10s" "policies w' = policies w" by simp_all
    then show ?thesis using \<open>k \<in> q\<close> pol(1)
      by (simp add: progress_def op_next_def requeue_10s_def no_result_def)
  next
    case True
    with eff obtain q' where r: "res = no_result"
      and pols: "policies w' = (policies w)(k \<mapsto> q')" "polSpec q' = polSpec p"
        "same_meta (polMeta p) (polMeta q')"
      and act: "{c \<in> set (polConditions (polStatus q')). cType c = ''Active''} =
          {active_condition p (length (peers w))}"
      by auto
    have "policy_events (passes GenerationChangedPredicate) (policies w) (policies w') = {}"
      using pol(1) pols by (intro no_events [of _ _ k]) (auto simp: same_meta_def)
    moreover have "view_map (computed w') (path_key k x) = Some (peer_view (answers w) pref p x)"
      if "x \<in> set (peers w)" for x
      using eff True that
        publish_each [OF names that, of "answers w" pref p "view_map (computed w)"]
      by (simp add: path_key_of_key key)
    ultimately show ?thesis
      using pols act r by (simp add: progress_def op_next_def activated_def)
  qed
qed

lemma other_run:
  assumes prog: "progress (answers w) (peers w) pref k p q (policies w) (computed w)" and "req \<noteq> k"
    and sc: "rScionClient r = None \<or> rScionClient r = Some fetch"
    and run: "Reconcile lib r req w = (Return (res, None), w')"
    and clash: "policies w req \<noteq> None \<Longrightarrow>
      \<forall>x\<in>set (peers w). \<forall>y\<in>set (peers w). path_key k x \<noteq> path_key req y"
  shows "progress (answers w) (peers w) pref k p
    (op_next req (Return (res, None)) q \<union>
      policy_events (passes GenerationChangedPredicate) (policies w) (policies w'))
    (policies w') (computed w')"
proof -
  have pols: "policies w' k = policies w k" 
    using Reconcile_frame [OF sc run, THEN conjunct1, THEN spec, of k] \<open>req \<noteq> k\<close> by simp
  then have "k \<notin> policy_events (passes GenerationChangedPredicate) (policies w) (policies w')"
    by (simp add: policy_events_def split: option.splits)
  then have q: "k \<in> op_next req (Return (res, None)) q \<union>
      policy_events (passes GenerationChangedPredicate) (policies w) (policies w') \<longleftrightarrow> k \<in> q"
    using \<open>req \<noteq> k\<close> by (simp add: op_next_def)
  have "\<forall>x\<in>set (peers w). computed w' (path_key k x) = computed w (path_key k x)"
  proof
    fix x assume x: "x \<in> set (peers w)"
    show "computed w' (path_key k x) = computed w (path_key k x)"
      by (rule Reconcile_paths [OF sc run]) (use clash x in blast)
  qed
  then show ?thesis
    using prog pols activated_frame [of "answers w" "peers w" pref k p "policies w" "computed w"]
    unfolding progress_def q by (simp split: if_splits)
qed

text \<open>A run that finds all paths ready takes its request away and causes no event.\<close>

lemma ready_run:
  assumes pol: "policies (world s) k = Some p" "Time_IsZero (DeletionTimestamp (polMeta p))"
      "cilionFinalizer \<in> set (Finalizers (polMeta p))" "Preference (polSpec p) = Some pref"
    and sc: "rScionClient r = Some fetch"
    and ready: "\<forall>x\<in>set (peers (world s)). peer_ready (answers (world s)) pref x"
    and run: "controller_run passes policies (policy_builder lib r) k s = (Return (res, None), s')"
  shows "queue s' = queue s - {k} \<and> peers (world s') = peers (world s) \<and>
    answers (world s') = answers (world s) \<and>
    (\<exists>q. policies (world s') = (policies (world s))(k \<mapsto> q) \<and> polSpec q = polSpec p \<and>
       same_meta (polMeta p) (polMeta q) \<and>
       {c \<in> set (polConditions (polStatus q)). cType c = ''Active''} =
         {active_condition p (length (peers (world s)))})"
proof -
  obtain w' where rec: "Reconcile lib r k (world s) = (Return (res, None), w')"
    and s': "s' = \<lparr>world = w', queue = op_next k (Return (res, None)) (queue s) \<union>
      policy_events (passes GenerationChangedPredicate) (policies (world s)) (policies w')\<rparr>"
    using run by (auto simp: controller_run_def policy_builder_def split: prod.splits)
  from Reconcile_success [OF pol sc rec] ready obtain q where r: "res = no_result"
    and same: "peers w' = peers (world s)" "answers w' = answers (world s)"
    and q: "policies w' = (policies (world s))(k \<mapsto> q)" "polSpec q = polSpec p"
      "same_meta (polMeta p) (polMeta q)"
      "{c \<in> set (polConditions (polStatus q)). cType c = ''Active''} =
        {active_condition p (length (peers (world s)))}" by auto
  have "policy_events (passes GenerationChangedPredicate) (policies (world s)) (policies w') = {}"
    using pol(1) q(1,3) by (intro no_events [of _ _ k]) (auto simp: same_meta_def)
  moreover from this have "queue s' = queue s - {k}" by (simp add: s' op_next_def r)
  ultimately show ?thesis using q same by (intro conjI exI [of _ q]) (simp_all add: s')
qed

lemma smooth_steps:
  assumes "(smooth_step passes policies (policy_builder lib r))\<^sup>*\<^sup>* s0 s"
    and sc: "rScionClient r = Some fetch"
    and pol: "policies (world s0) k = Some p" "Time_IsZero (DeletionTimestamp (polMeta p))"
      "cilionFinalizer \<in> set (Finalizers (polMeta p))" "Preference (polSpec p) = Some pref"
    and names: "distinct (map (\<lambda>x. Name (peerMeta x)) (peers (world s0)))"
    and clash: "\<forall>j\<in>dom (policies (world s0)). j \<noteq> k \<longrightarrow> (\<forall>x\<in>set (peers (world s0)).
      \<forall>y\<in>set (peers (world s0)). path_key k x \<noteq> path_key j y)"
    and "k \<in> queue s0"
  shows "peers (world s) = peers (world s0) \<and> answers (world s) = answers (world s0) \<and>
    dom (policies (world s)) \<subseteq> dom (policies (world s0)) \<and>
    progress (answers (world s0)) (peers (world s0)) pref k p (queue s) (policies (world s))
      (computed (world s))"
  using assms(1)
proof (induction rule: rtranclp_induct)
  case base
  then show ?case using pol(1) \<open>k \<in> queue s0\<close> by (simp add: progress_def)
next
  case (step s s')
  note sc' = disjI2 [OF sc]
  from step.hyps(2) obtain req res w' where req: "req \<in> queue s"
    and run: "Reconcile lib r req (world s) = (Return (res, None), w')"
    and w': "world s' = w'" and q: "queue s' = op_next req (Return (res, None)) (queue s) \<union>
      policy_events (passes GenerationChangedPredicate) (policies (world s)) (policies w')"
    by (rule smooth_run)
  have same: "peers (world s) = peers (world s0)" "answers (world s) = answers (world s0)"
    and sub: "dom (policies (world s)) \<subseteq> dom (policies (world s0))"
    and prog: "progress (answers (world s)) (peers (world s)) pref k p (queue s) (policies (world s))
      (computed (world s))"
    using step.IH by simp_all
  have "progress (answers (world s)) (peers (world s)) pref k p (queue s') (policies w') (computed w')"
  proof (cases "req = k")
    case True
    then have "policies (world s) k = Some p" using prog req by (simp add: progress_def)
    from own_run [OF this pol(2-4) sc _ run [unfolded True]] req names show ?thesis
      unfolding q by (simp add: True same)
  next
    case False
    show ?thesis unfolding q
    proof (rule other_run [OF prog False sc' run])
      assume "policies (world s) req \<noteq> None"
      then have "req \<in> dom (policies (world s0))" using sub by blast
      then show "\<forall>x\<in>set (peers (world s)). \<forall>y\<in>set (peers (world s)). path_key k x \<noteq> path_key req y"
        using clash False unfolding same by blast
    qed
  qed
  moreover have "dom (policies w') \<subseteq> dom (policies (world s))"
    using Reconcile_policies [OF sc' run] by (elim disjE exE conjE) (simp_all add: insert_absorb domI)
  ultimately show ?case
    using same sub Reconcile_inputs [OF sc' run] unfolding w' by (simp add: subset_trans [OF _ sub])
qed

end

section \<open>Inputs for the witnesses\<close>

lemma ready_policy_facts:
  "Time_IsZero (DeletionTimestamp (polMeta ready_policy))"
  "cilionFinalizer \<in> set (Finalizers (polMeta ready_policy))"
  "Preference (polSpec ready_policy) = Some ''low_latency''"
  by (simp_all add: ready_policy_def demo_policy_def)

lemma mem_ready_policy: "mem_policies (demo_api [ready_policy] cs prs) = [demo_key \<mapsto> ready_policy]"
  by (rule ext) (simp add: mem_policies_def demo_api_def ready_policy_def demo_policy_def
      demo_key_def key_of_def object_meta_def)

lemma demo_ready:
  "peer_ready demo_answers ''low_latency'' peer_a" "peer_ready demo_answers ''low_latency'' peer_c"
  by (simp_all add: peer_ready_def peer_a_def peer_c_def demo_peer_def demo_answers_def)

lemma demo_path_keys:
  "path_key demo_key peer_a = (''prod'', ''web-to-a'')" "path_key demo_key peer_c = (''prod'', ''web-to-c'')"
  by (simp_all add: path_key_def demo_key_def peer_a_def peer_c_def demo_peer_def object_meta_def)

lemma demo_run_split:
  "fst (Reconcile mem_k8s demo_r demo_key (world s)) = out \<Longrightarrow>
     controller_run ref_passes mem_policies (policy_builder mem_k8s demo_r) demo_key s =
       (out, snd (controller_run ref_passes mem_policies (policy_builder mem_k8s demo_r) demo_key s))"
  by (rule run_split) (simp add: controller_run_def policy_builder_def case_prod_beta)

section \<open>The property\<close>

text \<open>
  C14: when the queue has been worked off by runs that report no error, with no changes from outside,
  every live policy that was queued with its finalizer and a preference is done: its spec is as it
  was, its one Active condition is for its generation and the number of peers, and its path to
  every peer is stored as the service answers; for peers with distinct names and policies whose
  path names do not clash with this one's.
\<close>
theorem controller_converges:
  assumes "scion_service lib policies computed peers answers fetch" and "generation_filter passes"
    and "(smooth_step passes policies (policy_builder lib r))\<^sup>*\<^sup>* s0 s" and "queue s = {}"
    and "rScionClient r = Some fetch"
    and "policies (world s0) k = Some p" and "Time_IsZero (DeletionTimestamp (polMeta p))"
    and "cilionFinalizer \<in> set (Finalizers (polMeta p))" and "Preference (polSpec p) = Some pref"
    and "distinct (map (\<lambda>x. Name (peerMeta x)) (peers (world s0)))"
    and "\<forall>j\<in>dom (policies (world s0)). j \<noteq> k \<longrightarrow> (\<forall>x\<in>set (peers (world s0)).
      \<forall>y\<in>set (peers (world s0)). path_key k x \<noteq> path_key j y)"
    and "k \<in> queue s0"
  shows "\<exists>q. policies (world s) k = Some q \<and> polSpec q = polSpec p \<and>
    {c \<in> set (polConditions (polStatus q)). cType c = ''Active''} =
      {active_condition p (length (peers (world s)))} \<and>
    (\<forall>x\<in>set (peers (world s)). view_map (computed (world s)) (path_key k x) =
       Some (peer_view (answers (world s)) pref p x))"
proof -
  from operator_loop.smooth_steps [OF operator_loop.intro [OF assms(1,2)] assms(3,5-12)]
  have same: "peers (world s) = peers (world s0)" "answers (world s) = answers (world s0)"
    and "progress (answers (world s0)) (peers (world s0)) pref k p (queue s) (policies (world s))
      (computed (world s))" by simp_all
  then show ?thesis unfolding same by (simp add: progress_def activated_def assms(4))
qed

theorem controller_converges_witness:
  "let s0 = \<lparr>world = demo_api [ready_policy] [] [peer_a, peer_c], queue = {demo_key}\<rparr>;
       s = snd (controller_run ref_passes mem_policies (policy_builder mem_k8s demo_r) demo_key s0)
   in queue s = {} \<and> view_map (mem_computed (world s)) (''prod'', ''web-to-a'') =
        Some (peer_view demo_answers ''low_latency'' ready_policy peer_a)"
proof -
  define s0 where
    "s0 = \<lparr>world = demo_api [ready_policy] [] [peer_a, peer_c], queue = {demo_key}\<rparr>"
  define s where
    "s = snd (controller_run ref_passes mem_policies (policy_builder mem_k8s demo_r) demo_key s0)"
  have pol: "mem_policies (world s0) = [demo_key \<mapsto> ready_policy]"
    by (simp add: s0_def mem_ready_policy)
  have input: "aPeers (world s0) = [peer_a, peer_c]" "aAnswers (world s0) = demo_answers"
    "demo_key \<in> queue s0" by (simp_all add: s0_def demo_api_def)
  have "fst (Reconcile mem_k8s demo_r demo_key (world s0)) = Return (no_result, None)"
    unfolding s0_def by code_simp
  then have run: "controller_run ref_passes mem_policies (policy_builder mem_k8s demo_r) demo_key s0 =
      (Return (no_result, None), s)"
    unfolding s_def by (rule demo_run_split)
  have ready: "\<forall>x\<in>set (aPeers (world s0)). peer_ready (aAnswers (world s0)) ''low_latency'' x"
    by (simp add: input demo_ready)
  have names: "distinct (map (\<lambda>x. Name (peerMeta x)) (aPeers (world s0)))"
    by (simp add: input peer_a_def peer_c_def demo_peer_def)
  have p: "mem_policies (world s0) demo_key = Some ready_policy" by (simp add: pol)
  from ol.ready_run [OF p ready_policy_facts demo_r_client ready run]
  have rest: "queue s = {}" "aPeers (world s) = [peer_a, peer_c]" "aAnswers (world s) = demo_answers"
    by (simp_all add: s0_def demo_api_def)
  have step: "(smooth_step ref_passes mem_policies (policy_builder mem_k8s demo_r))\<^sup>*\<^sup>* s0 s"
    by (rule r_into_rtranclp, rule smooth_step.run [OF input(3) run])
  have "\<forall>j\<in>dom (mem_policies (world s0)). j \<noteq> demo_key \<longrightarrow> (\<forall>x\<in>set (aPeers (world s0)).
      \<forall>y\<in>set (aPeers (world s0)). path_key demo_key x \<noteq> path_key j y)"
    by (simp add: pol)
  from controller_converges [OF mem_service gf.generation_filter_axioms step rest(1) demo_r_client p
      ready_policy_facts names this input(3)]
  have "\<forall>x\<in>{peer_a, peer_c}. view_map (mem_computed (world s)) (path_key demo_key x) =
      Some (peer_view demo_answers ''low_latency'' ready_policy x)"
    by (auto simp: rest)
  then show ?thesis
    unfolding Let_def s0_def [symmetric] s_def [symmetric] by (simp add: rest(1) demo_path_keys)
qed

end
