(* ===== verification/Wakeups.thy ===== *)
theory Wakeups
  imports PolicyWatches DemoApi
begin

text \<open>
  Which events wake the policy controller up, and for which policies: the watches that
  \<open>SetupWithManager\<close> registers, composed with their filters and mappers.  How controller-runtime
  hands events to watches is the argument \<open>dispatch\<close> with the contract \<open>event_dispatch\<close>.
\<close>

section \<open>Dispatch of events\<close>

text \<open>\<open>EnqueueRequestsFromMapFunc\<close> maps both objects of an update.\<close>

fun event_objects :: "k8s_event \<Rightarrow> k8s_object list" where
  "event_objects (CreateEvent x) = [x]"
| "event_objects (UpdateEvent x y) = [x, y]"
| "event_objects (DeleteEvent x) = [x]"
| "event_objects (GenericEvent x) = [x]"

definition hears :: "(predicate_Funcs \<Rightarrow> k8s_event \<Rightarrow> bool) \<Rightarrow> string \<Rightarrow> k8s_event \<Rightarrow> 'w watch \<Rightarrow> bool" where
  "hears passes kind ev wt \<longleftrightarrow> wKind wt = kind \<and>
     (case wFilter wt of Filter f \<Rightarrow> passes f ev | _ \<Rightarrow> True)"

text \<open>The requests of one watch for an event.\<close>

definition mapped :: "'w \<Rightarrow> k8s_event \<Rightarrow> 'w watch \<Rightarrow> NamespacedName set" where
  "mapped w ev wt = (\<Union>x\<in>set (event_objects ev). set (wMapper wt w x))"

text \<open>
  An event on an object of a kind other than the controller's own is mapped by every watch of that
  kind whose filter lets it pass, in the world that the mapper then sees.
\<close>

locale event_dispatch = event_filter passes
  for passes :: "predicate_Funcs \<Rightarrow> k8s_event \<Rightarrow> bool" +
  fixes dispatch :: "'w controller_builder \<Rightarrow> 'w \<Rightarrow> string \<Rightarrow> k8s_event \<Rightarrow> NamespacedName set"
  assumes dispatch_watches: "kind \<noteq> bFor b \<Longrightarrow>
      \<forall>wt\<in>set (bWatches b). wFilter wt \<noteq> GenerationChangedPredicate \<Longrightarrow>
      dispatch b w kind ev = (\<Union>wt\<in>{wt \<in> set (bWatches b). hears passes kind ev wt}. mapped w ev wt)"

definition ref_dispatch ::
  "'w controller_builder \<Rightarrow> 'w \<Rightarrow> string \<Rightarrow> k8s_event \<Rightarrow> NamespacedName set" where
  "ref_dispatch b w kind ev =
     \<Union> (set (map (mapped w ev) (filter (hears funcs_pass kind ev) (bWatches b))))"

interpretation ed: event_dispatch funcs_pass ref_dispatch
  by unfold_locales (auto simp: ref_dispatch_def)

section \<open>The watches of the policy controller\<close>

text \<open>The policies to reconcile for a pod: those that select it, else the default policy.\<close>

definition pod_policies :: "('w, 'z) k8s_scheme \<Rightarrow> 'w \<Rightarrow> Pod \<Rightarrow> NamespacedName set" where
  "pod_policies lib w pod =
     (let ps = {p \<in> set (fst (policy_List lib (Some (Namespace (podMeta pod))) w)). selects lib pod p}
      in if ps = {} then {(''kube-system'', ''default-scion-policy'')}
         else (\<lambda>p. key_of (polMeta p)) ` ps)"

lemma podToPolicyMapper_set:
  "set (podToPolicyMapper lib w (PodObject pod)) = pod_policies lib w pod"
  by (auto simp: podToPolicyMapper_eq pod_policies_def Let_def defaultPolicyName_def
      filter_empty_conv)

text \<open>All policies the cluster lists, or none if the listing fails.\<close>

definition listed_policies :: "('w, 'z) k8s_scheme \<Rightarrow> 'w \<Rightarrow> NamespacedName set" where
  "listed_policies lib w =
     (case policy_List lib None w of
        (ps, None) \<Rightarrow> (\<lambda>p. key_of (polMeta p)) ` set ps
      | (ps, Some err) \<Rightarrow> {})"

lemma peerToPolicyMapper_set: "set (peerToPolicyMapper lib w obj) = listed_policies lib w"
  by (auto simp: peerToPolicyMapper_eq listed_policies_def split: prod.splits option.splits)

context event_dispatch
begin

lemma policy_dispatch:
  assumes "kind \<noteq> ''ScionPathPolicy''"
  shows "dispatch (policy_builder lib r) w kind ev =
    (if kind = ''Pod'' \<and> passes podIPAssignedPredicate ev
     then \<Union>x\<in>set (event_objects ev). set (podToPolicyMapper lib w x)
     else if kind = ''ScionClusterPeer'' then listed_policies lib w else {})"
proof -
  have objs: "event_objects ev \<noteq> []" by (cases ev) simp_all
  then have peer: "(\<Union>x\<in>set (event_objects ev). listed_policies lib w) = listed_policies lib w"
    by (cases "event_objects ev") auto
  have "dispatch (policy_builder lib r) w kind ev =
      (\<Union>wt\<in>{wt \<in> set (bWatches (policy_builder lib r)). hears passes kind ev wt}. mapped w ev wt)"
    by (rule dispatch_watches) (simp_all add: policy_builder_def assms)
  also have "{wt \<in> set (bWatches (policy_builder lib r)). hears passes kind ev wt} =
      (if kind = ''Pod'' \<and> passes podIPAssignedPredicate ev
       then {\<lparr>wKind = ''Pod'', wMapper = podToPolicyMapper lib, wFilter = Filter podIPAssignedPredicate\<rparr>}
       else if kind = ''ScionClusterPeer''
       then {\<lparr>wKind = ''ScionClusterPeer'', wMapper = peerToPolicyMapper lib, wFilter = NoFilter\<rparr>}
       else {})"
    by (auto simp: policy_builder_def hears_def)
  finally show ?thesis by (simp add: mapped_def peerToPolicyMapper_set objs)
qed

lemma peer_dispatch:
  "dispatch (policy_builder lib r) w ''ScionClusterPeer'' ev = listed_policies lib w"
  by (simp add: policy_dispatch)

end

lemma mem_list: "policy_List mem_k8s ns w =
    (filter (\<lambda>p. ns = None \<or> ns = Some (Namespace (polMeta p))) (aPolicies w), None)"
  by (simp add: mem_k8s_def)

definition demo_pod :: "string \<Rightarrow> string \<Rightarrow> Pod" where
  "demo_pod app ip =
     \<lparr>podMeta = (object_meta ''p'' ''prod'')\<lparr>Labels := [''app'' \<mapsto> app]\<rparr>, podIP = ip\<rparr>"

lemma demo_pod_ip [simp]: "podIP (demo_pod app ip) = ip"
  by (simp add: demo_pod_def)

lemma demo_pod_policies:
  "pod_policies mem_k8s (demo_api [demo_policy ''web'' None [] (Some ''low_latency'')] [] [])
     (demo_pod app ip) =
   (if app = ''web'' then {demo_key} else {(''kube-system'', ''default-scion-policy'')})"
proof -
  let ?p = "demo_policy ''web'' None [] (Some ''low_latency'')"
  have "selects mem_k8s (demo_pod app ip) ?p \<longleftrightarrow> app = ''web''"
    by (simp add: selects_def mem_LabelSelectorAsSelector_def demo_policy_def demo_pod_def)
  moreover have "Namespace (podMeta (demo_pod app ip)) = Namespace (polMeta ?p)"
    "key_of (polMeta ?p) = demo_key"
    by (simp_all add: demo_pod_def demo_policy_def object_meta_def key_of_def demo_key_def)
  ultimately show ?thesis
    by (cases "app = ''web''") (auto simp: pod_policies_def mem_list demo_api_def)
qed

lemma demo_listed:
  "listed_policies mem_k8s (demo_api [demo_policy ''web'' None [] (Some ''low_latency'')] [] []) =
     {demo_key}"
  by (simp add: listed_policies_def mem_list demo_api_def demo_policy_def object_meta_def key_of_def
      demo_key_def)

section \<open>The property\<close>

text \<open>
  C30: the events that wake the policy controller up, and for which policies: a pod that is created
  with an address or is given its first one, and every pod that is deleted, wakes the policies of
  its namespace that select it, or the default policy if none does; any change of a peer wakes all
  policies, unless they cannot be listed; no other kind of object, in particular no computed path,
  wakes any.
\<close>
theorem events_wake_policies:
  assumes "event_dispatch passes dispatch"
  shows "dispatch (policy_builder lib r) w ''Pod'' (CreateEvent (PodObject pod)) =
      (if podIP pod = [] then {} else pod_policies lib w pod) \<and>
    dispatch (policy_builder lib r) w ''Pod'' (UpdateEvent (PodObject old) (PodObject pod)) =
      (if podIP old = [] \<and> podIP pod \<noteq> [] then pod_policies lib w old \<union> pod_policies lib w pod
       else {}) \<and>
    dispatch (policy_builder lib r) w ''Pod'' (DeleteEvent (PodObject pod)) = pod_policies lib w pod \<and>
    dispatch (policy_builder lib r) w ''ScionClusterPeer'' ev = listed_policies lib w \<and>
    (kind \<notin> {''ScionPathPolicy'', ''Pod'', ''ScionClusterPeer''} \<longrightarrow>
      dispatch (policy_builder lib r) w kind ev = {})"
  by (simp add: event_dispatch.policy_dispatch [OF assms] podToPolicyMapper_set
      event_filter.pod_filter [OF event_dispatch.axioms(1) [OF assms]] podIPAssigned_create_def
      podIPAssigned_update_def)

theorem events_wake_policies_witness:
  "let p = demo_policy ''web'' None [] (Some ''low_latency''); w = demo_api [p] [] [];
       wake = ref_dispatch (policy_builder mem_k8s demo_r) w
   in wake ''Pod'' (CreateEvent (PodObject (demo_pod ''web'' ''10.0.0.1''))) = {demo_key} \<and>
      wake ''Pod'' (CreateEvent (PodObject (demo_pod ''web'' []))) = {} \<and>
      wake ''Pod'' (DeleteEvent (PodObject (demo_pod ''db'' ''10.0.0.1''))) =
        {(''kube-system'', ''default-scion-policy'')} \<and>
      wake ''ScionClusterPeer'' (DeleteEvent (OtherObject ''a'')) = {demo_key} \<and>
      wake ''ScionComputedPath'' (DeleteEvent (OtherObject ''web-to-a'')) = {}"
proof -
  define w where "w = demo_api [demo_policy ''web'' None [] (Some ''low_latency'')] [] []"
  note wakes = events_wake_policies [OF ed.event_dispatch_axioms, of mem_k8s demo_r w]
  have "ref_dispatch (policy_builder mem_k8s demo_r) w ''Pod''
      (CreateEvent (PodObject (demo_pod app ip))) =
      (if ip = [] then {} else if app = ''web'' then {demo_key}
       else {(''kube-system'', ''default-scion-policy'')})" for app ip
    using conjunct1 [OF wakes] by (simp add: w_def demo_pod_policies)
  moreover have "ref_dispatch (policy_builder mem_k8s demo_r) w ''Pod''
      (DeleteEvent (PodObject (demo_pod app ip))) =
      (if app = ''web'' then {demo_key} else {(''kube-system'', ''default-scion-policy'')})" for app ip
    using wakes [of "demo_pod app ip" "demo_pod app ip"] by (simp add: w_def demo_pod_policies)
  moreover have "ref_dispatch (policy_builder mem_k8s demo_r) w ''ScionClusterPeer'' ev = {demo_key}"
    for ev using wakes [where ev = ev] by (simp add: w_def demo_listed)
  moreover have "ref_dispatch (policy_builder mem_k8s demo_r) w ''ScionComputedPath'' ev = {}"
    for ev using wakes [where kind = "''ScionComputedPath''"] by simp
  ultimately show ?thesis unfolding Let_def w_def [symmetric] by simp
qed

end
