(* ===== verification/WatchedLoop.thy ===== *)
theory WatchedLoop
  imports Convergence Wakeups
begin

text \<open>
  The policy controller in its cluster: anybody may change policies, peers and computed paths as far
  as the API server lets him, the answers of the SCION service change, pods come and go, and every
  such change is the event that the controller's watches make of it, or none; runs of the
  controller, failing ones included, take requests from the queue.  Some changes are no events
  although a status depends on them; the state records in \<open>missed\<close> the policies they affect, until
  a complete run has seen them.  The invariant says of all other policies that claim to be active
  when they are: whenever they do not wait in the queue.  A run is one step here; what others do
  between its calls is the subject of \<open>Interference\<close> and \<open>Concurrency\<close>.  An event is dispatched when
  the controller's cache has the change, so that the peers of a state may be read as those the
  cache lists.
\<close>

section \<open>What is relied on\<close>

text \<open>
  Beyond the contract of the API server: a complete listing lists all policies, and an update that
  reports an error was either carried out or not.
\<close>

locale settled_api = scion_service lib policies computed peers answers fetch
  for lib :: "('w, 'z) k8s_scheme" and policies computed peers answers fetch +
  assumes list_complete: "policy_List lib None w = (ps, None) \<Longrightarrow>
      (\<lambda>p. key_of (polMeta p)) ` set ps = dom (policies w)"
    and update_err: "policy_Update lib p w = (Some err, p', w') \<Longrightarrow> policies w' = policies w \<or>
      (\<exists>v. policies w' = (policies w)(key_of (polMeta p) :=
        if \<not> Time_IsZero (DeletionTimestamp (polMeta p)) \<and> Finalizers (polMeta p) = [] then None
        else Some (p\<lparr>polMeta := polMeta p\<lparr>ResourceVersion := v\<rparr>\<rparr>)))"
    and status_err: "policy_StatusUpdate lib p w = (Some err, p', w') \<Longrightarrow> policies w' = policies w \<or>
      (\<exists>q v. policies w (key_of (polMeta p)) = Some q \<and>
        policies w' = (policies w)(key_of (polMeta p) \<mapsto>
          q\<lparr>polStatus := polStatus p, polMeta := polMeta q\<lparr>ResourceVersion := v\<rparr>\<rparr>))"
begin

lemma update_either:
  assumes "policy_Update lib p w = (e, p', w')"
  shows "policies w' = policies w \<or>
      (\<exists>v. policies w' = (policies w)(key_of (polMeta p) :=
        if \<not> Time_IsZero (DeletionTimestamp (polMeta p)) \<and> Finalizers (polMeta p) = [] then None
        else Some (p\<lparr>polMeta := polMeta p\<lparr>ResourceVersion := v\<rparr>\<rparr>)))"
proof (cases e)
  case None
  from update_ok [OF assms [unfolded None]] show ?thesis by blast
next
  case (Some err)
  from update_err [OF assms [unfolded Some]] show ?thesis .
qed

lemma status_either:
  assumes "policy_StatusUpdate lib p w = (e, p', w')"
  shows "policies w' = policies w \<or>
      (\<exists>q v. policies w (key_of (polMeta p)) = Some q \<and>
        policies w' = (policies w)(key_of (polMeta p) \<mapsto>
          q\<lparr>polStatus := polStatus p, polMeta := polMeta q\<lparr>ResourceVersion := v\<rparr>\<rparr>))"
proof (cases e)
  case None
  from status_ok [OF assms [unfolded None]] show ?thesis by blast
next
  case (Some err)
  from status_err [OF assms [unfolded Some]] show ?thesis .
qed

end

section \<open>What any run leaves of its policy\<close>

text \<open>
  Whatever the outcome, a run keeps the spec of its policy, and a live one that it has changed has
  its finalizer.
\<close>

definition kept_policy :: "ScionPathPolicy \<Rightarrow> ScionPathPolicy \<Rightarrow> bool" where
  "kept_policy p q \<longleftrightarrow> DeletionTimestamp (polMeta q) = DeletionTimestamp (polMeta p) \<and>
     key_of (polMeta q) = key_of (polMeta p) \<and> polSpec q = polSpec p \<and>
     (Time_IsZero (DeletionTimestamp (polMeta p)) \<longrightarrow> cilionFinalizer \<in> set (Finalizers (polMeta q)))"

definition own_effect ::
  "NamespacedName \<Rightarrow> (NamespacedName \<rightharpoonup> ScionPathPolicy) \<Rightarrow> (NamespacedName \<rightharpoonup> ScionPathPolicy) \<Rightarrow> bool" where
  "own_effect req m m' \<longleftrightarrow> m' = m \<or> m' = m(req := None) \<or>
     (\<exists>p q. m req = Some p \<and> m' = m(req \<mapsto> q) \<and> kept_policy p q)"

lemma own_effect_refl [simp]: "own_effect req m m"
  by (simp add: own_effect_def)

context settled_api
begin

lemma update_own:
  assumes "policy_Update lib (p\<lparr>polMeta := m\<rparr>) w = (e, p', w')" and "policies w req = Some p"
    and "key_of m = key_of (polMeta p)" and "key_of (polMeta p) = req"
    and "DeletionTimestamp m = DeletionTimestamp (polMeta p)"
    and "Time_IsZero (DeletionTimestamp (polMeta p)) \<Longrightarrow> cilionFinalizer \<in> set (Finalizers m)"
  shows "own_effect req (policies w) (policies w')"
  using update_either [OF assms(1)] assms(2-6)
  by (elim disjE exE) (auto simp: own_effect_def kept_policy_def)

lemma status_own:
  assumes "reconcile_status lib p ps ready w = (out, w')" and "policies w req = Some p"
    and "key_of (polMeta p) = req" and "cilionFinalizer \<in> set (Finalizers (polMeta p))"
  shows "own_effect req (policies w) (policies w')"
proof (cases ready)
  case False
  then show ?thesis using assms(1) by (simp add: reconcile_status_def)
next
  case True
  let ?p = "p\<lparr>polStatus := (polStatus p)\<lparr>polConditions :=
    SetStatusCondition lib (polConditions (polStatus p)) (active_condition p (length ps))\<rparr>\<rparr>"
  obtain e p' w1 where u: "policy_StatusUpdate lib ?p w = (e, p', w1)"
    by (cases "policy_StatusUpdate lib ?p w")
  then have "w' = w1" using assms(1) True by (auto simp: reconcile_status_def split: option.splits)
  then show ?thesis using status_either [OF u] assms(2-4)
    by (elim disjE exE conjE) (auto simp: own_effect_def kept_policy_def)
qed

lemma Reconcile_own:
  assumes sc: "rScionClient r = None \<or> rScionClient r = Some fetch"
    and run: "Reconcile lib r req w = (out, w')"
  shows "own_effect req (policies w) (policies w')"
proof (cases "policy_Get lib req w")
  case (Inl err)
  then show ?thesis using run by (simp add: Reconcile_def)
next
  case (Inr p)
  then have p: "policies w req = Some p" and key: "key_of (polMeta p) = req" using get_ok by auto
  consider (del) "\<not> Time_IsZero (DeletionTimestamp (polMeta p))"
    | (new) "Time_IsZero (DeletionTimestamp (polMeta p))" "cilionFinalizer \<notin> set (Finalizers (polMeta p))"
    | (main) "Time_IsZero (DeletionTimestamp (polMeta p))" "cilionFinalizer \<in> set (Finalizers (polMeta p))"
    by blast
  then show ?thesis
  proof cases
    case del
    then consider "w' = w" | e q where "policy_Update lib
        (p\<lparr>polMeta := RemoveFinalizer lib (polMeta p) cilionFinalizer\<rparr>) w = (e, q, w')"
      using run Inr by (auto simp: Reconcile_def reconcile_delete_def
          split: if_splits prod.splits option.splits)
    then show ?thesis
    proof cases
      case 1
      then show ?thesis by simp
    next
      case 2
      from update_own [OF 2 p] show ?thesis using del key by (simp add: remove_finalizer key_of_def)
    qed
  next
    case new
    then obtain e q where u: "policy_Update lib
        (p\<lparr>polMeta := AddFinalizer lib (polMeta p) cilionFinalizer\<rparr>) w = (e, q, w')"
      using run Inr by (auto simp: Reconcile_def contains_finalizer
          split: if_splits prod.splits option.splits)
    from update_own [OF u p] show ?thesis
      using key by (simp add: add_finalizer [OF new(2)] key_of_def)
  next
    case main
    show ?thesis
    proof (cases "peer_List lib w")
      case (Inl err)
      then show ?thesis using run Inr main by (simp add: Reconcile_def contains_finalizer)
    next
      case ps: (Inr ps)
      obtain x w1 where loop: "peers_loop lib (rScionClient r) p ps True w = (x, w1)"
        by (cases "peers_loop lib (rScionClient r) p ps True w")
      have same: "policies w1 = policies w" using loop_frame [OF loop sc] by simp
      have "w' = w1 \<or> (\<exists>ready. reconcile_status lib p ps ready w1 = (out, w'))"
        using run loop Reconcile_main [OF Inr main ps, of r] by (auto split: go.splits sum.splits)
      then show ?thesis using status_own [of p ps _ w1 out w' req] p key main(2) same by auto
    qed
  qed
qed

end

section \<open>Steps of the cluster\<close>

abbreviation live :: "ScionPathPolicy \<Rightarrow> bool" where
  "live p \<equiv> Time_IsZero (DeletionTimestamp (polMeta p))"

definition says_active :: "ScionPathPolicy \<Rightarrow> bool" where
  "says_active p \<longleftrightarrow> (\<exists>c\<in>set (polConditions (polStatus p)). cType c = ''Active'')"

text \<open>
  What the API server lets anybody do to policies: a new one has no status; an object keeps its name;
  one that is being deleted stays so; the spec changes only together with the generation.
\<close>

definition server_rules ::
  "(NamespacedName \<rightharpoonup> ScionPathPolicy) \<Rightarrow> (NamespacedName \<rightharpoonup> ScionPathPolicy) \<Rightarrow> bool" where
  "server_rules m m' \<longleftrightarrow> (\<forall>k q. m' k = Some q \<longrightarrow>
     (case m k of
        None \<Rightarrow> polConditions (polStatus q) = []
      | Some p \<Rightarrow> key_of (polMeta q) = key_of (polMeta p) \<and> (live q \<longrightarrow> live p) \<and>
          (Generation (polMeta q) = Generation (polMeta p) \<longrightarrow> polSpec q = polSpec p)))"

subsection \<open>Changes that the controller does not hear\<close>

text \<open>Somebody else writes a policy's status or takes the controller's finalizer away.\<close>

definition overwritten ::
  "(NamespacedName \<rightharpoonup> ScionPathPolicy) \<Rightarrow> (NamespacedName \<rightharpoonup> ScionPathPolicy) \<Rightarrow> NamespacedName set" where
  "overwritten m m' = {k. \<exists>p q. m k = Some p \<and> m' k = Some q \<and> (polStatus q \<noteq> polStatus p \<or>
     cilionFinalizer \<in> set (Finalizers (polMeta p)) \<and> cilionFinalizer \<notin> set (Finalizers (polMeta q)))}"

text \<open>A policy's path to a peer is stored anew, changed or deleted.\<close>

definition paths_moved ::
  "ScionClusterPeer list \<Rightarrow> (NamespacedName \<rightharpoonup> ScionComputedPath) \<Rightarrow>
     (NamespacedName \<rightharpoonup> ScionComputedPath) \<Rightarrow> NamespacedName set" where
  "paths_moved prs cps cps' =
     {k. \<exists>x\<in>set prs. view_map cps' (path_key k x) \<noteq> view_map cps (path_key k x)}"

text \<open>The service has another path to a peer.\<close>

definition answers_moved ::
  "ScionClusterPeer list \<Rightarrow> (NamespacedName \<rightharpoonup> ScionPathPolicy) \<Rightarrow>
     (string \<Rightarrow> string \<Rightarrow> fetch_answer) \<Rightarrow> (string \<Rightarrow> string \<Rightarrow> fetch_answer) \<Rightarrow> NamespacedName set" where
  "answers_moved prs m ans ans' = {k. \<exists>p pref. m k = Some p \<and> Preference (polSpec p) = Some pref \<and>
     (\<exists>x\<in>set prs. peer_view ans' pref p x \<noteq> peer_view ans pref p x)}"

text \<open>
  A run completes if it finds its policy live and with the finalizer, and ends with success and no
  delayed requeue.  After a run the policies missed are those of before but for the completed one;
  to these come the run's own policy, if two peers have the same name and so the same path, and
  the policies whose paths the run has changed.
\<close>

definition completes ::
  "(ctrl_Result \<times> go_error option) go \<Rightarrow> ScionPathPolicy option \<Rightarrow> bool" where
  "completes out po \<longleftrightarrow> out = Return (no_result, None) \<and>
     (\<exists>p. po = Some p \<and> live p \<and> cilionFinalizer \<in> set (Finalizers (polMeta p)))"

definition missed_after ::
  "ScionClusterPeer list \<Rightarrow> NamespacedName \<Rightarrow> bool \<Rightarrow> NamespacedName set \<Rightarrow> NamespacedName set \<Rightarrow>
     NamespacedName set" where
  "missed_after prs req complete moved M = {k.
     if k = req then \<not> distinct (map (\<lambda>x. Name (peerMeta x)) prs) \<or> k \<in> M \<and> \<not> complete
     else k \<in> M \<or> k \<in> moved}"

subsection \<open>The step relation\<close>

record 'w cluster =
  ctl :: "'w op_state"
  missed :: "NamespacedName set"

text \<open>
  A run of the controller; a change of policies by others; of peers; of what no watch hears, the
  computed paths and the answers of the service; an event on a pod.  An event on a peer is lost if
  the policies cannot be listed.  A policy that is gone is no longer missed.
\<close>

inductive cluster_step ::
  "('w, 'z) k8s_scheme \<Rightarrow> ('w \<Rightarrow> NamespacedName \<rightharpoonup> ScionPathPolicy) \<Rightarrow>
     ('w \<Rightarrow> NamespacedName \<rightharpoonup> ScionComputedPath) \<Rightarrow> ('w \<Rightarrow> ScionClusterPeer list) \<Rightarrow>
     ('w \<Rightarrow> string \<Rightarrow> string \<Rightarrow> fetch_answer) \<Rightarrow> update_filter \<Rightarrow>
     ('w controller_builder \<Rightarrow> 'w \<Rightarrow> string \<Rightarrow> k8s_event \<Rightarrow> NamespacedName set) \<Rightarrow>
     'w controller_builder \<Rightarrow> 'w cluster \<Rightarrow> 'w cluster \<Rightarrow> bool"
  for lib policies computed peers answers passes dispatch b where
  run: "req \<in> queue t \<Longrightarrow> controller_run passes policies b req t = (out, t') \<Longrightarrow>
    cluster_step lib policies computed peers answers passes dispatch b \<lparr>ctl = t, missed = M\<rparr>
      \<lparr>ctl = t', missed = missed_after (peers (world t)) req (completes out (policies (world t) req))
         (paths_moved (peers (world t)) (computed (world t)) (computed (world t'))) M
         \<inter> dom (policies (world t'))\<rparr>"
| policies_change: "server_rules (policies w) (policies w') \<Longrightarrow> computed w' = computed w \<Longrightarrow>
    peers w' = peers w \<Longrightarrow> answers w' = answers w \<Longrightarrow>
    cluster_step lib policies computed peers answers passes dispatch b
      \<lparr>ctl = \<lparr>world = w, queue = q\<rparr>, missed = M\<rparr>
      \<lparr>ctl = \<lparr>world = w', queue = q \<union> policy_events (passes (bForFilter b)) (policies w) (policies w')\<rparr>,
       missed = (M \<union> overwritten (policies w) (policies w')) \<inter> dom (policies w')\<rparr>"
| peers_change: "policies w' = policies w \<Longrightarrow> computed w' = computed w \<Longrightarrow> answers w' = answers w \<Longrightarrow>
    cluster_step lib policies computed peers answers passes dispatch b
      \<lparr>ctl = \<lparr>world = w, queue = q\<rparr>, missed = M\<rparr>
      \<lparr>ctl = \<lparr>world = w', queue = q \<union> dispatch b w' ''ScionClusterPeer'' ev\<rparr>,
       missed = M \<union> (if snd (policy_List lib None w') = None then {} else dom (policies w'))\<rparr>"
| paths_change: "policies w' = policies w \<Longrightarrow> peers w' = peers w \<Longrightarrow>
    cluster_step lib policies computed peers answers passes dispatch b
      \<lparr>ctl = \<lparr>world = w, queue = q\<rparr>, missed = M\<rparr>
      \<lparr>ctl = \<lparr>world = w', queue = q\<rparr>,
       missed = M \<union> paths_moved (peers w) (computed w) (computed w') \<union>
         answers_moved (peers w) (policies w) (answers w) (answers w')\<rparr>"
| pod_event: "cluster_step lib policies computed peers answers passes dispatch b
    \<lparr>ctl = \<lparr>world = w, queue = q\<rparr>, missed = M\<rparr>
    \<lparr>ctl = \<lparr>world = w, queue = q \<union> dispatch b w ''Pod'' ev\<rparr>, missed = M\<rparr>"

text \<open>
  The controller starts with all stored policies in its queue, since the first listing of its cache
  is a creation event for each; it has missed what was done to the finalizers before.
\<close>

inductive cluster_reach ::
  "('w, 'z) k8s_scheme \<Rightarrow> ('w \<Rightarrow> NamespacedName \<rightharpoonup> ScionPathPolicy) \<Rightarrow>
     ('w \<Rightarrow> NamespacedName \<rightharpoonup> ScionComputedPath) \<Rightarrow> ('w \<Rightarrow> ScionClusterPeer list) \<Rightarrow>
     ('w \<Rightarrow> string \<Rightarrow> string \<Rightarrow> fetch_answer) \<Rightarrow> update_filter \<Rightarrow>
     ('w controller_builder \<Rightarrow> 'w \<Rightarrow> string \<Rightarrow> k8s_event \<Rightarrow> NamespacedName set) \<Rightarrow>
     'w controller_builder \<Rightarrow> 'w cluster \<Rightarrow> bool"
  for lib policies computed peers answers passes dispatch b where
  start: "dom (policies (world t)) \<subseteq> queue t \<Longrightarrow>
    cluster_reach lib policies computed peers answers passes dispatch b \<lparr>ctl = t, missed =
      {k. \<exists>p. policies (world t) k = Some p \<and> says_active p \<and>
         cilionFinalizer \<notin> set (Finalizers (polMeta p))}\<rparr>"
| step: "cluster_reach lib policies computed peers answers passes dispatch b s \<Longrightarrow>
    cluster_step lib policies computed peers answers passes dispatch b s s' \<Longrightarrow>
    cluster_reach lib policies computed peers answers passes dispatch b s'"

section \<open>The invariant\<close>

text \<open>A policy's status and its paths are as the peers and the answers of the service demand.\<close>

definition truthful ::
  "(string \<Rightarrow> string \<Rightarrow> fetch_answer) \<Rightarrow> ScionClusterPeer list \<Rightarrow>
     (NamespacedName \<rightharpoonup> ScionComputedPath) \<Rightarrow> NamespacedName \<Rightarrow> ScionPathPolicy \<Rightarrow> bool" where
  "truthful ans prs cps k p \<longleftrightarrow> (\<forall>pref. Preference (polSpec p) = Some pref \<longrightarrow>
     {c \<in> set (polConditions (polStatus p)). cType c = ''Active''} = {active_condition p (length prs)} \<and>
     (\<forall>x\<in>set prs. view_map cps (path_key k x) = Some (peer_view ans pref p x)))"

definition policy_inv ::
  "(string \<Rightarrow> string \<Rightarrow> fetch_answer) \<Rightarrow> ScionClusterPeer list \<Rightarrow>
     (NamespacedName \<rightharpoonup> ScionComputedPath) \<Rightarrow> bool \<Rightarrow> NamespacedName \<Rightarrow> ScionPathPolicy option \<Rightarrow> bool" where
  "policy_inv ans prs cps queued k po \<longleftrightarrow> (\<forall>p. po = Some p \<longrightarrow> live p \<longrightarrow> says_active p \<longrightarrow>
     cilionFinalizer \<in> set (Finalizers (polMeta p)) \<and> (queued \<or> truthful ans prs cps k p))"

definition cluster_inv ::
  "('w \<Rightarrow> NamespacedName \<rightharpoonup> ScionPathPolicy) \<Rightarrow> ('w \<Rightarrow> NamespacedName \<rightharpoonup> ScionComputedPath) \<Rightarrow>
     ('w \<Rightarrow> ScionClusterPeer list) \<Rightarrow> ('w \<Rightarrow> string \<Rightarrow> string \<Rightarrow> fetch_answer) \<Rightarrow> 'w cluster \<Rightarrow> bool" where
  "cluster_inv policies computed peers answers s \<longleftrightarrow> (\<forall>k. k \<notin> missed s \<longrightarrow>
     policy_inv (answers (world (ctl s))) (peers (world (ctl s))) (computed (world (ctl s)))
       (k \<in> queue (ctl s)) k (policies (world (ctl s)) k))"

text \<open>More requests in the queue never hurt.\<close>

lemma policy_inv_mono:
  "policy_inv ans prs cps a k po \<Longrightarrow> (a \<longrightarrow> b) \<Longrightarrow> policy_inv ans prs cps b k po"
  unfolding policy_inv_def by blast

lemma policy_inv_frame:
  assumes "policy_inv ans prs cps a k po"
    and "\<forall>x\<in>set prs. view_map cps' (path_key k x) = view_map cps (path_key k x)"
  shows "policy_inv ans prs cps' a k po"
  using assms unfolding policy_inv_def truthful_def by simp

lemma policy_inv_queued: "policy_inv ans prs cps a k po \<Longrightarrow> policy_inv ans' prs' cps' True k po"
  unfolding policy_inv_def by blast

lemma policy_inv_None [simp]: "policy_inv ans prs cps a k None"
  by (simp add: policy_inv_def)

text \<open>What moves neither a policy's paths nor the answers for it leaves its status true.\<close>

lemma policy_inv_moved:
  assumes inv: "policy_inv ans prs cps a k (m k)"
    and "k \<notin> paths_moved prs cps cps'" and "k \<notin> answers_moved prs m ans ans'"
  shows "policy_inv ans' prs cps' a k (m k)"
proof -
  have views: "\<forall>x\<in>set prs. view_map cps' (path_key k x) = view_map cps (path_key k x)"
    using assms(2) by (simp add: paths_moved_def)
  have answer: "peer_view ans' pref p x = peer_view ans pref p x"
    if "m k = Some p" "Preference (polSpec p) = Some pref" "x \<in> set prs" for p pref x
    using assms(3) that unfolding answers_moved_def by blast
  from policy_inv_frame [OF inv views] show ?thesis
    by (auto simp: policy_inv_def truthful_def answer)
qed

lemma cluster_invD:
  "cluster_inv policies computed peers answers s \<Longrightarrow> k \<notin> missed s \<Longrightarrow>
    policy_inv (answers (world (ctl s))) (peers (world (ctl s))) (computed (world (ctl s)))
      (k \<in> queue (ctl s)) k (policies (world (ctl s)) k)"
  unfolding cluster_inv_def by blast

lemma peer_view_key: "key_of (polMeta q) = key_of (polMeta p) \<Longrightarrow> peer_view ans pref q x = peer_view ans pref p x"
  by (simp add: peer_view_def wanted_spec_def key_of_def)

text \<open>The change of a user that is no event changes neither status nor what it has to say.\<close>

lemma truthful_cong:
  assumes "truthful ans prs cps k p" and "key_of (polMeta q) = key_of (polMeta p)"
    and "polSpec q = polSpec p" and "polStatus q = polStatus p"
    and "Generation (polMeta q) = Generation (polMeta p)"
  shows "truthful ans prs cps k q"
  using assms by (simp add: truthful_def active_condition_def peer_view_key [OF assms(2)])

section \<open>Runs keep the invariant\<close>

locale watched_loop = operator_loop lib policies computed peers answers fetch passes +
    settled_api lib policies computed peers answers fetch + event_dispatch fpasses dispatch
  for lib :: "('w, 'z) k8s_scheme" and policies computed peers answers fetch passes fpasses
    and dispatch :: "'w controller_builder \<Rightarrow> 'w \<Rightarrow> string \<Rightarrow> k8s_event \<Rightarrow> NamespacedName set"
begin

abbreviation loop_events :: "'w \<Rightarrow> 'w \<Rightarrow> NamespacedName set" where
  "loop_events w w' \<equiv> policy_events (passes GenerationChangedPredicate) (policies w) (policies w')"

text \<open>A complete run that is not followed by an event on its own policy.\<close>

lemma complete_run:
  assumes p: "policies w k = Some p" "live p" "cilionFinalizer \<in> set (Finalizers (polMeta p))"
    and sc: "rScionClient r = Some fetch" and names: "distinct (map (\<lambda>x. Name (peerMeta x)) (peers w))"
    and run: "Reconcile lib r k w = (Return (no_result, None), w')"
    and quiet: "k \<notin> loop_events w w'" and q: "policies w' k = Some q" "live q"
  shows "cilionFinalizer \<in> set (Finalizers (polMeta q)) \<and>
    truthful (answers w) (peers w) (computed w') k q"
proof -
  have "q = p \<or> kept_policy p q"
    using Reconcile_own [OF disjI2 [OF sc] run] q(1) p(1) by (auto simp: own_effect_def)
  then have same: "polSpec q = polSpec p" "key_of (polMeta q) = key_of (polMeta p)"
    and fin: "cilionFinalizer \<in> set (Finalizers (polMeta q))"
    using p(2,3) by (auto simp: kept_policy_def)
  have gen: "Generation (polMeta q) = Generation (polMeta p)"
    using quiet p q(1) by (auto simp: policy_events_def generation_changed)
  have "{c \<in> set (polConditions (polStatus q)). cType c = ''Active''} =
      {active_condition q (length (peers w))} \<and>
    (\<forall>x\<in>set (peers w). view_map (computed w') (path_key k x) = Some (peer_view (answers w) pref q x))"
    if "Preference (polSpec q) = Some pref" for pref
  proof -
    have pref: "Preference (polSpec p) = Some pref" using that same(1) by simp
    from own_run [OF p pref sc names run, of "{k}"] quiet
    have "activated (answers w) (peers w) pref k p (policies w') (computed w')"
      by (simp add: progress_def op_next_def)
    then show ?thesis
      using q(1) gen peer_view_key [OF same(2), of "answers w" pref]
      by (simp add: activated_def active_condition_def)
  qed
  then show ?thesis using fin unfolding truthful_def by blast
qed

text \<open>Success without a delayed requeue is a complete run, but for the finalizer.\<close>

lemma finished_run:
  assumes inv: "policy_inv (answers w) (peers w) (computed w) True k (policies w k)"
    and sc: "rScionClient r = Some fetch" and names: "distinct (map (\<lambda>x. Name (peerMeta x)) (peers w))"
    and run: "Reconcile lib r k w = (Return (no_result, None), w')"
    and quiet: "k \<notin> loop_events w w'" and q: "policies w' k = Some q" "live q" "says_active q"
  shows "truthful (answers w) (peers w) (computed w') k q"
proof -
  obtain p where p: "policies w k = Some p" and "q = p \<or> kept_policy p q"
    using Reconcile_own [OF disjI2 [OF sc] run] q(1) by (auto simp: own_effect_def)
  then have live: "live p" using q(2) by (auto simp: kept_policy_def)
  have "cilionFinalizer \<in> set (Finalizers (polMeta p))"
  proof (rule ccontr)
    assume none: "cilionFinalizer \<notin> set (Finalizers (polMeta p))"
    have get: "policy_Get lib k w = Inr p" using Reconcile_reads [OF p run] by simp
    obtain v where "policies w' = (policies w)(k \<mapsto> p\<lparr>polMeta := (polMeta p)
       \<lparr>Finalizers := Finalizers (polMeta p) @ [cilionFinalizer], ResourceVersion := v\<rparr>\<rparr>)"
      using Reconcile_add_finalizer [OF get live none run] by blast
    then have "says_active p" using q(1,3) by (auto simp: says_active_def)
    then show False using inv p live none by (simp add: policy_inv_def)
  qed
  from complete_run [OF p live this sc names run quiet q(1,2)] show ?thesis ..
qed

lemma run_self:
  assumes inv: "policy_inv (answers w) (peers w) (computed w) True k (policies w k)"
    and sc: "rScionClient r = Some fetch" and names: "distinct (map (\<lambda>x. Name (peerMeta x)) (peers w))"
    and run: "Reconcile lib r k w = (out, w')" and "k \<in> q"
  shows "policy_inv (answers w) (peers w) (computed w') (k \<in> op_next k out q \<union> loop_events w w') k
    (policies w' k)"
  unfolding policy_inv_def
proof (intro allI impI conjI)
  fix p
  assume p: "policies w' k = Some p" "live p" "says_active p"
  obtain p0 where "policies w k = Some p0" and "p = p0 \<or> kept_policy p0 p"
    using Reconcile_own [OF disjI2 [OF sc] run] p(1) by (auto simp: own_effect_def)
  then show "cilionFinalizer \<in> set (Finalizers (polMeta p))"
    using inv p(2,3) by (auto simp: policy_inv_def kept_policy_def)
  show "k \<in> op_next k out q \<union> loop_events w w' \<or> truthful (answers w) (peers w) (computed w') k p"
  proof (cases "k \<in> op_next k out q \<union> loop_events w w'")
    case False
    then have "out = Return (no_result, None)"
      using \<open>k \<in> q\<close> by (auto simp: op_next_def split: if_splits)
    with False show ?thesis using finished_run [OF inv sc names _ _ p] run by blast
  qed simp
qed

text \<open>A complete run repairs what was missed.\<close>

lemma run_repairs:
  assumes "completes out (policies w k)" and sc: "rScionClient r = Some fetch"
    and names: "distinct (map (\<lambda>x. Name (peerMeta x)) (peers w))"
    and run: "Reconcile lib r k w = (out, w')"
  shows "policy_inv (answers w) (peers w) (computed w') (k \<in> op_next k out q \<union> loop_events w w') k
    (policies w' k)"
  unfolding policy_inv_def
proof (intro allI impI)
  fix p'
  assume p': "policies w' k = Some p'" "live p'" "says_active p'"
  obtain p where p: "policies w k = Some p" "live p" "cilionFinalizer \<in> set (Finalizers (polMeta p))"
    and out: "out = Return (no_result, None)" using assms(1) by (auto simp: completes_def)
  have "p' = p \<or> kept_policy p p'"
    using Reconcile_own [OF disjI2 [OF sc] run] p(1) p'(1) by (auto simp: own_effect_def)
  then have "cilionFinalizer \<in> set (Finalizers (polMeta p'))" using p by (auto simp: kept_policy_def)
  then show "cilionFinalizer \<in> set (Finalizers (polMeta p')) \<and>
      (k \<in> op_next k out q \<union> loop_events w w' \<or> truthful (answers w) (peers w) (computed w') k p')"
    using complete_run [OF p sc names run [unfolded out] _ p'(1,2)] by blast
qed

lemma run_other:
  assumes inv: "policy_inv (answers w) (peers w) (computed w) (k \<in> q) k (policies w k)" and "req \<noteq> k"
    and sc: "rScionClient r = Some fetch" and run: "Reconcile lib r req w = (out, w')"
    and unmoved: "k \<notin> paths_moved (peers w) (computed w) (computed w')"
  shows "policy_inv (answers w) (peers w) (computed w') (k \<in> op_next req out q \<union> loop_events w w') k
    (policies w' k)"
proof -
  have pols: "policies w' k = policies w k"
    using Reconcile_frame [OF disjI2 [OF sc] run, THEN conjunct1, THEN spec, of k] \<open>req \<noteq> k\<close> by simp
  have queue: "k \<in> q \<longrightarrow> k \<in> op_next req out q \<union> loop_events w w'"
    using \<open>req \<noteq> k\<close> by (simp add: op_next_def)
  have "\<forall>x\<in>set (peers w). view_map (computed w') (path_key k x) = view_map (computed w) (path_key k x)"
    using unmoved by (simp add: paths_moved_def)
  from policy_inv_frame [OF policy_inv_mono [OF inv queue] this] show ?thesis unfolding pols .
qed

text \<open>An event on a peer queues every policy.\<close>

lemma peer_event_queues_all:
  assumes "snd (policy_List lib None w) = None"
  shows "dom (policies w) \<subseteq> dispatch (policy_builder lib r) w ''ScionClusterPeer'' ev"
  using assms list_complete [of w "fst (policy_List lib None w)"]
  by (cases "policy_List lib None w") (auto simp: peer_dispatch listed_policies_def)

lemma others_keep:
  assumes inv: "policy_inv (answers w) (peers w) (computed w) (k \<in> q) k (policies w k)"
    and rules: "server_rules (policies w) (policies w')"
    and heard: "k \<notin> overwritten (policies w) (policies w')"
  shows "policy_inv (answers w) (peers w) (computed w) (k \<in> q \<union> loop_events w w') k (policies w' k)"
  unfolding policy_inv_def
proof (intro allI impI)
  fix p'
  assume p': "policies w' k = Some p'" "live p'" "says_active p'"
  note change = rules [unfolded server_rules_def, THEN spec, of k, THEN spec, of p', THEN mp, OF p'(1)]
  obtain p where p: "policies w k = Some p"
    using change p'(3) by (cases "policies w k") (auto simp: says_active_def)
  with change have keep: "key_of (polMeta p') = key_of (polMeta p)" and alive: "live p' \<longrightarrow> live p"
    and gen: "Generation (polMeta p') = Generation (polMeta p) \<longrightarrow> polSpec p' = polSpec p"
    by simp_all
  have status: "polStatus p' = polStatus p" and fin: "cilionFinalizer \<in> set (Finalizers (polMeta p)) \<longrightarrow>
      cilionFinalizer \<in> set (Finalizers (polMeta p'))"
    using heard p p'(1) unfolding overwritten_def by blast+
  have act: "live p" "says_active p" using alive status p'(2,3) by (simp_all add: says_active_def)
  with inv p have old: "cilionFinalizer \<in> set (Finalizers (polMeta p))"
    "k \<in> q \<or> truthful (answers w) (peers w) (computed w) k p" by (simp_all add: policy_inv_def)
  show "cilionFinalizer \<in> set (Finalizers (polMeta p')) \<and>
    (k \<in> q \<union> loop_events w w' \<or> truthful (answers w) (peers w) (computed w) k p')"
  proof (cases "k \<in> q \<union> loop_events w w'")
    case True
    then show ?thesis using fin old(1) by simp
  next
    case False
    then have "Generation (polMeta p') = Generation (polMeta p)"
      using p p'(1) by (auto simp: policy_events_def generation_changed)
    with gen keep status old False have "truthful (answers w) (peers w) (computed w) k p'"
      by (auto intro: truthful_cong)
    then show ?thesis using fin old(1) by simp
  qed
qed

text \<open>One lemma per step.\<close>

lemma inv_run:
  assumes inv: "cluster_inv policies computed peers answers \<lparr>ctl = t, missed = M\<rparr>"
    and sc: "rScionClient r = Some fetch" and "req \<in> queue t"
    and step: "controller_run passes policies (policy_builder lib r) req t = (out, t')"
  shows "cluster_inv policies computed peers answers \<lparr>ctl = t', missed =
    missed_after (peers (world t)) req (completes out (policies (world t) req))
      (paths_moved (peers (world t)) (computed (world t)) (computed (world t'))) M
      \<inter> dom (policies (world t'))\<rparr>"
proof -
  obtain w' where rec: "Reconcile lib r req (world t) = (out, w')"
    and t': "t' = \<lparr>world = w', queue = op_next req out (queue t) \<union> loop_events (world t) w'\<rparr>"
    using step by (auto simp: controller_run_def policy_builder_def split: prod.splits)
  have same: "peers w' = peers (world t)" "answers w' = answers (world t)"
    using Reconcile_inputs [OF disjI2 [OF sc] rec] by simp_all
  note pinv = cluster_invD [OF inv, simplified]
  have "policy_inv (answers (world t)) (peers (world t)) (computed w')
      (k \<in> op_next req out (queue t) \<union> loop_events (world t) w') k (policies w' k)"
    if k: "k \<notin> missed_after (peers (world t)) req (completes out (policies (world t) req))
        (paths_moved (peers (world t)) (computed (world t)) (computed w')) M" for k
  proof (cases "k = req")
    case True
    have names: "distinct (map (\<lambda>x. Name (peerMeta x)) (peers (world t)))"
      and "k \<notin> M \<or> completes out (policies (world t) k)"
      using k by (auto simp: missed_after_def True)
    from this(2) show ?thesis
    proof
      assume "k \<notin> M"
      from run_self [OF policy_inv_queued [OF pinv [OF this]] sc names rec [folded True]] assms(3)
      show ?thesis by (simp add: True)
    next
      assume "completes out (policies (world t) k)"
      from run_repairs [OF this sc names rec [folded True]] show ?thesis by (simp add: True)
    qed
  next
    case False
    then have "k \<notin> M" "k \<notin> paths_moved (peers (world t)) (computed (world t)) (computed w')"
      using k by (simp_all add: missed_after_def)
    from run_other [OF pinv [OF this(1)] False [symmetric] sc rec this(2)] show ?thesis .
  qed
  then have "k \<notin> missed_after (peers (world t)) req (completes out (policies (world t) req))
        (paths_moved (peers (world t)) (computed (world t)) (computed w')) M \<or> policies w' k = None \<Longrightarrow>
      policy_inv (answers (world t)) (peers (world t)) (computed w')
      (k \<in> op_next req out (queue t) \<union> loop_events (world t) w') k (policies w' k)" for k
    by (elim disjE) simp_all
  then show ?thesis by (simp add: cluster_inv_def t' same domIff)
qed

lemma inv_policies:
  assumes inv: "cluster_inv policies computed peers answers \<lparr>ctl = \<lparr>world = w, queue = q\<rparr>, missed = M\<rparr>"
    and rules: "server_rules (policies w) (policies w')"
    and same: "computed w' = computed w" "peers w' = peers w" "answers w' = answers w"
  shows "cluster_inv policies computed peers answers
    \<lparr>ctl = \<lparr>world = w', queue = q \<union> loop_events w w'\<rparr>,
     missed = (M \<union> overwritten (policies w) (policies w')) \<inter> dom (policies w')\<rparr>"
proof -
  have "policy_inv (answers w) (peers w) (computed w) (k \<in> q \<union> loop_events w w') k (policies w' k)"
    if "k \<notin> (M \<union> overwritten (policies w) (policies w')) \<inter> dom (policies w')" for k
  proof (cases "policies w' k")
    case (Some p')
    then have "k \<notin> M" "k \<notin> overwritten (policies w) (policies w')" using that by auto
    from others_keep [OF cluster_invD [OF inv, simplified, OF this(1)] rules this(2)] show ?thesis .
  qed simp
  then show ?thesis by (simp add: cluster_inv_def same)
qed

lemma inv_peers:
  assumes inv: "cluster_inv policies computed peers answers \<lparr>ctl = \<lparr>world = w, queue = q\<rparr>, missed = M\<rparr>"
    and same: "policies w' = policies w"
  shows "cluster_inv policies computed peers answers
    \<lparr>ctl = \<lparr>world = w', queue = q \<union> dispatch (policy_builder lib r) w' ''ScionClusterPeer'' ev\<rparr>,
     missed = M \<union> (if snd (policy_List lib None w') = None then {} else dom (policies w'))\<rparr>"
proof -
  have "policy_inv (answers w') (peers w') (computed w')
      (k \<in> q \<union> dispatch (policy_builder lib r) w' ''ScionClusterPeer'' ev) k (policies w' k)"
    if k: "k \<notin> M \<union> (if snd (policy_List lib None w') = None then {} else dom (policies w'))" for k
  proof (cases "policies w' k")
    case (Some p)
    then have "snd (policy_List lib None w') = None" using k by (auto split: if_splits)
    then have "k \<in> dispatch (policy_builder lib r) w' ''ScionClusterPeer'' ev"
      using peer_event_queues_all Some by blast
    moreover have "k \<notin> M" using k by simp
    ultimately show ?thesis
      using policy_inv_queued [OF cluster_invD [OF inv, simplified, of k]] same by simp
  qed simp
  then show ?thesis by (simp add: cluster_inv_def)
qed

lemma cluster_step_inv:
  assumes "cluster_step lib policies computed peers answers passes dispatch (policy_builder lib r) s s'"
    and inv: "cluster_inv policies computed peers answers s" and sc: "rScionClient r = Some fetch"
  shows "cluster_inv policies computed peers answers s'"
  using assms(1)
proof cases
  case (run req t out t' M)
  from inv_run [OF inv [unfolded run(1)] sc run(3,4)] show ?thesis unfolding run(2) .
next
  case (policies_change w w' q M)
  from inv_policies [OF inv [unfolded policies_change(1)] policies_change(3-6)] show ?thesis
    by (simp add: policies_change(2) policy_builder_def)
next
  case (peers_change w' w q M ev)
  from inv_peers [OF inv [unfolded peers_change(1)] peers_change(3)] show ?thesis
    unfolding peers_change(2) .
next
  case (paths_change w' w q M)
  have "policy_inv (answers w') (peers w) (computed w') (k \<in> q) k (policies w k)"
    if "k \<notin> M \<union> paths_moved (peers w) (computed w) (computed w') \<union>
        answers_moved (peers w) (policies w) (answers w) (answers w')" for k
    by (rule policy_inv_moved [where m = "policies w",
          OF cluster_invD [OF inv [unfolded paths_change(1)], simplified]]) (use that in simp_all)
  then show ?thesis by (simp add: cluster_inv_def paths_change(2-4))
next
  case (pod_event w q M ev)
  have "policy_inv (answers w) (peers w) (computed w) (k \<in> q \<union> dispatch (policy_builder lib r) w ''Pod'' ev)
      k (policies w k)" if "k \<notin> M" for k
    by (rule policy_inv_mono [OF cluster_invD [OF inv [unfolded pod_event(1)], simplified, OF that]]) simp
  then show ?thesis by (simp add: cluster_inv_def pod_event(2))
qed

lemma cluster_reach_inv:
  assumes "cluster_reach lib policies computed peers answers passes dispatch (policy_builder lib r) s"
    and "rScionClient r = Some fetch"
  shows "cluster_inv policies computed peers answers s"
  using assms(1)
proof (induction rule: cluster_reach.induct)
  case (start t)
  then show ?case by (auto simp: cluster_inv_def policy_inv_def)
next
  case (step s s')
  from cluster_step_inv [OF step.hyps(2) step.IH assms(2)] show ?case .
qed

text \<open>Working off the queue after such an event publishes all paths.\<close>

lemma peer_event_activates:
  assumes "snd (policy_List lib None w) = None"
    and names: "distinct (map (\<lambda>x. Name (peerMeta x)) (peers w))"
    and clash: "\<forall>j\<in>dom (policies w). j \<noteq> k \<longrightarrow>
      (\<forall>x\<in>set (peers w). \<forall>y\<in>set (peers w). path_key k x \<noteq> path_key j y)"
    and steps: "(smooth_step passes policies (policy_builder lib r))\<^sup>*\<^sup>*
      \<lparr>world = w, queue = q \<union> dispatch (policy_builder lib r) w ''ScionClusterPeer'' ev\<rparr> s"
    and rest: "queue s = {}" and sc: "rScionClient r = Some fetch"
    and pol: "policies w k = Some p" "live p" "cilionFinalizer \<in> set (Finalizers (polMeta p))"
      "Preference (polSpec p) = Some pref"
  shows "activated (answers w) (peers w) pref k p (policies (world s)) (computed (world s))"
proof -
  have "k \<in> dispatch (policy_builder lib r) w ''ScionClusterPeer'' ev"
    using peer_event_queues_all [OF assms(1)] pol(1) by blast
  then show ?thesis
    using smooth_steps [OF steps sc, of k p pref] names clash pol rest by (simp add: progress_def)
qed

end

section \<open>On the API server in memory\<close>

lemma mem_err:
  "mem_Update p w = (Some err, p', w') \<Longrightarrow> w' = w"
  "mem_StatusUpdate p w = (Some err, p', w') \<Longrightarrow> w' = w"
  by (auto simp: mem_Update_def mem_StatusUpdate_def Let_def split: option.splits if_splits)

interpretation wl: watched_loop mem_k8s mem_policies mem_computed aPeers aAnswers mem_fetch ref_passes
    funcs_pass ref_dispatch
proof unfold_locales
  show "(\<lambda>p. key_of (polMeta p)) ` set ps = dom (mem_policies w)"
    if "policy_List mem_k8s None w = (ps, None)" for w ps
    using that by (auto simp: mem_list mem_policies_def dom_def store_find_None
        simp flip: not_None_eq intro: rev_image_eqI)
qed (auto dest: mem_err)

end
