(* ===== verification/WatchedProps.thy ===== *)
theory WatchedProps
  imports WatchedLoop
begin

text \<open>
  What the status of a policy is worth in the cluster of \<open>WatchedLoop\<close>, and a concrete execution of
  the cluster for its witness.
\<close>

section \<open>An execution\<close>

lemma cluster_reach_peers:
  assumes "cluster_reach lib policies computed peers answers passes dispatch b \<lparr>ctl = t, missed = {}\<rparr>"
    and "policies w' = policies (world t)" and "computed w' = computed (world t)"
    and "answers w' = answers (world t)" and "snd (policy_List lib None w') = None"
  shows "cluster_reach lib policies computed peers answers passes dispatch b
    \<lparr>ctl = \<lparr>world = w', queue = queue t \<union> dispatch b w' ''ScionClusterPeer'' ev\<rparr>, missed = {}\<rparr>"
proof -
  have "cluster_reach lib policies computed peers answers passes dispatch b
      \<lparr>ctl = \<lparr>world = world t, queue = queue t\<rparr>, missed = {}\<rparr>" using assms(1) by (cases t) simp
  from cluster_reach.step [OF this cluster_step.peers_change [OF assms(2-4), where q = "queue t" and ev = ev]]
  show ?thesis by (simp add: assms(5))
qed

lemma demo_distinct:
  "prs \<in> {[peer_a], [peer_a, peer_c]} \<Longrightarrow> distinct (map (\<lambda>x. Name (peerMeta x)) prs)"
  by (auto simp: peer_a_def peer_c_def demo_peer_def)

lemma demo_first_run:
  "fst (Reconcile mem_k8s demo_r demo_key (demo_api [ready_policy] [] [peer_a])) =
     Return (no_result, None)"
  by code_simp

lemma demo_second_run:
  "fst (Reconcile mem_k8s demo_r demo_key ((snd (Reconcile mem_k8s demo_r demo_key
     (demo_api [ready_policy] [] [peer_a])))\<lparr>aPeers := [peer_a, peer_c]\<rparr>)) = Return (no_result, None)"
  by code_simp

abbreviation demo_reach :: "api_server cluster \<Rightarrow> bool" where
  "demo_reach \<equiv> cluster_reach mem_k8s mem_policies mem_computed aPeers aAnswers ref_passes ref_dispatch
     (policy_builder mem_k8s demo_r)"

abbreviation demo_run :: "api_server op_state \<Rightarrow> api_server op_state" where
  "demo_run s \<equiv> snd (controller_run ref_passes mem_policies (policy_builder mem_k8s demo_r) demo_key s)"

lemma demo_run_reach:
  assumes "demo_reach \<lparr>ctl = s, missed = {}\<rparr>" and "queue s = {demo_key}" and pol: "mem_policies (world s) = [demo_key \<mapsto> p]"
    and p: "live p" "cilionFinalizer \<in> set (Finalizers (polMeta p))"
      "Preference (polSpec p) = Some ''low_latency''"
    and input: "aPeers (world s) = prs" "prs \<in> {[peer_a], [peer_a, peer_c]}"
      "aAnswers (world s) = demo_answers"
    and ok: "fst (Reconcile mem_k8s demo_r demo_key (world s)) = Return (no_result, None)"
  shows "demo_reach \<lparr>ctl = demo_run s, missed = {}\<rparr> \<and> queue (demo_run s) = {} \<and>
    aPeers (world (demo_run s)) = prs \<and>
    aAnswers (world (demo_run s)) = demo_answers \<and>
    (\<exists>q. mem_policies (world (demo_run s)) = [demo_key \<mapsto> q] \<and> polSpec q = polSpec p \<and>
       same_meta (polMeta p) (polMeta q) \<and>
       {c \<in> set (polConditions (polStatus q)). cType c = ''Active''} =
         {active_condition p (length prs)})"
proof -
  note run = demo_run_split [OF ok]
  have key: "mem_policies (world s) demo_key = Some p" by (simp add: pol)
  have "\<forall>x\<in>set prs. peer_ready demo_answers ''low_latency'' x" using input(2) by (auto simp: demo_ready)
  then have "\<forall>x\<in>set (aPeers (world s)). peer_ready (aAnswers (world s)) ''low_latency'' x"
    by (simp add: input)
  note eff = ol.ready_run [OF key p demo_r_client this run]
  obtain q where q: "mem_policies (world (demo_run s)) = [demo_key \<mapsto> q]"
    using eff unfolding pol by auto
  note reach = cluster_reach.step [OF assms(1) cluster_step.run [OF _ run]]
  have "demo_reach \<lparr>ctl = demo_run s, missed = {}\<rparr>"
    using reach assms(2) demo_distinct [OF input(2)]
    by (simp add: q input(1) missed_after_def Collect_conj_eq [symmetric] cong: conj_cong)
  then show ?thesis using eff unfolding input pol assms(2) by simp
qed

section \<open>The property\<close>

text \<open>
  C11: a policy that says it is active is, unless it waits in the queue or a change was missed: in
  every reachable state of the cluster, in which anybody changes policies, peers and computed paths
  as the API server allows, the service changes its answers, pods come and go and runs fail, a live
  policy with a preference and an Active condition that is not queued has exactly the one for its
  generation and the present number of peers, and its path to every present peer is stored as the
  service answers now.  Missed, until a run has completed for the policy, are precisely: that others
  took its finalizer away or wrote its status, or that it was active without finalizer when the
  controller started; that its paths were changed, by others or by the run
  of a policy with the same path name, or the service answers anew for it; that the policies could
  not be listed when a peer changed; and that it was run while two peers had the same name.
\<close>
theorem active_status_is_true:
  assumes "settled_api lib policies computed peers answers fetch" and "generation_filter passes"
    and "event_dispatch fpasses dispatch"
    and "cluster_reach lib policies computed peers answers passes dispatch (policy_builder lib r) s"
    and "rScionClient r = Some fetch" and "k \<notin> missed s"
    and "policies (world (ctl s)) k = Some p" and "Time_IsZero (DeletionTimestamp (polMeta p))"
    and "Preference (polSpec p) = Some pref" and "k \<notin> queue (ctl s)"
    and "c \<in> set (polConditions (polStatus p))" and "cType c = ''Active''"
  shows "{c \<in> set (polConditions (polStatus p)). cType c = ''Active''} =
      {active_condition p (length (peers (world (ctl s))))} \<and>
    (\<forall>x\<in>set (peers (world (ctl s))). view_map (computed (world (ctl s))) (path_key k x) =
       Some (peer_view (answers (world (ctl s))) pref p x))"
proof -
  have "watched_loop lib policies computed peers answers fetch passes fpasses dispatch"
    by (intro watched_loop.intro operator_loop.intro assms(1-3) settled_api.axioms(1) [OF assms(1)])
  from cluster_invD [OF watched_loop.cluster_reach_inv [OF this assms(4,5)] assms(6)]
  show ?thesis using assms(7-12) by (auto simp: policy_inv_def truthful_def says_active_def)
qed

text \<open>
  The witness: a policy becomes active for one peer, a second peer is added, and the run that this
  event causes publishes the path to it.
\<close>

theorem active_status_is_true_witness:
  "let b = policy_builder mem_k8s demo_r;
       run = (\<lambda>s. snd (controller_run ref_passes mem_policies b demo_key s));
       s1 = run \<lparr>world = demo_api [ready_policy] [] [peer_a], queue = {demo_key}\<rparr>;
       w2 = (world s1)\<lparr>aPeers := [peer_a, peer_c]\<rparr>;
       s3 = run \<lparr>world = w2, queue = queue s1 \<union> ref_dispatch b w2 ''ScionClusterPeer''
              (CreateEvent (OtherObject ''c''))\<rparr>
   in queue s3 = {} \<and> view_map (mem_computed (world s3)) (''prod'', ''web-to-c'') =
        Some (peer_view demo_answers ''low_latency'' ready_policy peer_c)"
proof -
  define s0 where "s0 = \<lparr>world = demo_api [ready_policy] [] [peer_a], queue = {demo_key}\<rparr>"
  define s1 where "s1 = demo_run s0"
  define w2 where "w2 = (world s1)\<lparr>aPeers := [peer_a, peer_c]\<rparr>"
  define s2 where "s2 = \<lparr>world = w2, queue = queue s1 \<union> ref_dispatch (policy_builder mem_k8s demo_r)
    w2 ''ScionClusterPeer'' (CreateEvent (OtherObject ''c''))\<rparr>"
  define s3 where "s3 = demo_run s2"
  have w0: "mem_policies (world s0) = [demo_key \<mapsto> ready_policy]" "aPeers (world s0) = [peer_a]"
    "aAnswers (world s0) = demo_answers" "queue s0 = {demo_key}"
    by (simp_all add: s0_def mem_ready_policy) (simp_all add: demo_api_def)
  have none: "{k. \<exists>p. mem_policies (world s0) k = Some p \<and> says_active p \<and>
      cilionFinalizer \<notin> set (Finalizers (polMeta p))} = {}"
    by (auto simp: w0 ready_policy_facts split: if_splits)
  have "demo_reach \<lparr>ctl = s0, missed = {}\<rparr>"
    by (subst none [symmetric], rule cluster_reach.start) (simp add: w0)
  from demo_run_reach [OF this w0(4,1) ready_policy_facts w0(2) _ w0(3)]
  obtain q1 where s1: "demo_reach \<lparr>ctl = s1, missed = {}\<rparr>" "queue s1 = {}" "aAnswers (world s1) = demo_answers"
    and q1: "mem_policies (world s1) = [demo_key \<mapsto> q1]" "polSpec q1 = polSpec ready_policy"
      "same_meta (polMeta ready_policy) (polMeta q1)"
    unfolding s1_def using demo_first_run by (auto simp: s0_def)
  have w2: "mem_policies w2 = [demo_key \<mapsto> q1]" "aPeers w2 = [peer_a, peer_c]"
    "aAnswers w2 = demo_answers" "mem_computed w2 = mem_computed (world s1)" "world s2 = w2"
    using q1(1) s1(3) by (simp_all add: w2_def mem_policies_def mem_computed_def s2_def)
  have reach2: "demo_reach \<lparr>ctl = s2, missed = {}\<rparr>"
    unfolding s2_def by (rule cluster_reach_peers [OF s1(1)]) (simp_all add: w2 q1(1) s1 mem_list)
  have queue2: "queue s2 = {demo_key}"
    using wl.list_complete [of w2 "aPolicies w2"]
    by (simp add: s2_def s1 ed.peer_dispatch listed_policies_def mem_list w2)
  have p1: "live q1" "cilionFinalizer \<in> set (Finalizers (polMeta q1))"
    "Preference (polSpec q1) = Some ''low_latency''"
    using same_meta_fields [OF q1(3)] q1(2) ready_policy_facts by simp_all
  have ok2: "fst (Reconcile mem_k8s demo_r demo_key (world s2)) = Return (no_result, None)"
    by (simp add: w2(5)) (simp add: w2_def s1_def s0_def controller_run_def policy_builder_def
        case_prod_beta demo_second_run)
  from demo_run_reach [OF reach2 queue2 _ p1 _ _ _ ok2]
  obtain q3 where s3: "demo_reach \<lparr>ctl = s3, missed = {}\<rparr>" "queue s3 = {}" "aPeers (world s3) = [peer_a, peer_c]"
      "aAnswers (world s3) = demo_answers"
    and q3: "mem_policies (world s3) demo_key = Some q3" "polSpec q3 = polSpec q1"
      "same_meta (polMeta q1) (polMeta q3)"
      "{c \<in> set (polConditions (polStatus q3)). cType c = ''Active''} =
        {active_condition q1 (length [peer_a, peer_c])}"
    unfolding s3_def by (auto simp: w2)
  have act: "active_condition q1 (length [peer_a, peer_c]) \<in> set (polConditions (polStatus q3))"
    "cType (active_condition q1 (length [peer_a, peer_c])) = ''Active''" using q3(4) by blast+
  have p3: "live q3" "Preference (polSpec q3) = Some ''low_latency''" "demo_key \<notin> queue s3"
    using q3(2) same_meta_fields [OF q3(3)] p1 s3(2) by simp_all
  have "peer_view demo_answers ''low_latency'' q3 x = peer_view demo_answers ''low_latency'' ready_policy x"
    for x using same_meta_fields [OF q1(3)] same_meta_fields [OF q3(3)]
    by (intro peer_view_key) (simp add: key_of_def)
  with active_status_is_true [OF wl.settled_api_axioms gf.generation_filter_axioms
      ed.event_dispatch_axioms s3(1) demo_r_client, of demo_key q3 "''low_latency''", simplified,
      OF q3(1) p3 act]
  show ?thesis
    using s3(2) unfolding Let_def s0_def [symmetric] s1_def [symmetric] w2_def [symmetric]
      s2_def [symmetric] s3_def [symmetric] by (simp add: s3 demo_path_keys)
qed

text \<open>
  C12: a change of the peers reaches every policy: once its event is dispatched and the queue is
  worked off by runs that report no error, every live policy with its finalizer and a preference,
  queued before or not, has the one Active condition for the new number of peers and its path to
  each of the new peers stored as the service answers; provided that the policies can be listed when
  the event is dispatched, that the peers have distinct names, that none of the policy's path names
  is one of another policy, and that nobody else acts meanwhile.
\<close>
theorem peer_change_propagates:
  assumes "settled_api lib policies computed peers answers fetch" and "generation_filter passes"
    and "event_dispatch fpasses dispatch" and "rScionClient r = Some fetch"
    and "snd (policy_List lib None w) = None" 
    and "distinct (map (\<lambda>x. Name (peerMeta x)) (peers w))"
    and "\<forall>j\<in>dom (policies w). j \<noteq> k \<longrightarrow>
      (\<forall>x\<in>set (peers w). \<forall>y\<in>set (peers w). path_key k x \<noteq> path_key j y)"
    and "(smooth_step passes policies (policy_builder lib r))\<^sup>*\<^sup>*
      \<lparr>world = w, queue = q \<union> dispatch (policy_builder lib r) w ''ScionClusterPeer'' ev\<rparr> s"
    and "queue s = {}"
    and "policies w k = Some p" and "Time_IsZero (DeletionTimestamp (polMeta p))"
    and "cilionFinalizer \<in> set (Finalizers (polMeta p))" and "Preference (polSpec p) = Some pref"
  shows "(\<exists>p'. policies (world s) k = Some p' \<and> polSpec p' = polSpec p \<and>
      {c \<in> set (polConditions (polStatus p')). cType c = ''Active''} =
        {active_condition p (length (peers w))}) \<and>
    (\<forall>x\<in>set (peers w). view_map (computed (world s)) (path_key k x) =
       Some (peer_view (answers w) pref p x))"
proof -
  have "watched_loop lib policies computed peers answers fetch passes fpasses dispatch"
    by (intro watched_loop.intro operator_loop.intro assms(1-3) settled_api.axioms(1) [OF assms(1)])
  from watched_loop.peer_event_activates [OF this assms(5-9,4,10-13)]
  show ?thesis by (auto simp: activated_def)
qed

theorem peer_change_propagates_witness:
  "let b = policy_builder mem_k8s demo_r; w = demo_api [ready_policy] [] [peer_a];
       s = demo_run \<lparr>world = w, queue = ref_dispatch b w ''ScionClusterPeer'' (CreateEvent (OtherObject ''a''))\<rparr>
   in queue s = {} \<and> view_map (mem_computed (world s)) (''prod'', ''web-to-a'') =
        Some (peer_view demo_answers ''low_latency'' ready_policy peer_a)"
proof -
  define w where "w = demo_api [ready_policy] [] [peer_a]"
  define s0 where "s0 = \<lparr>world = w, queue =
    ref_dispatch (policy_builder mem_k8s demo_r) w ''ScionClusterPeer'' (CreateEvent (OtherObject ''a''))\<rparr>"
  define s where "s = demo_run s0"
  have w: "mem_policies w = [demo_key \<mapsto> ready_policy]" "aPeers w = [peer_a]" "aAnswers w = demo_answers"
    "aPolicies w = [ready_policy]"
    by (simp_all add: w_def mem_ready_policy) (simp_all add: demo_api_def)
  have queue: "queue s0 = {demo_key}"
    using wl.list_complete [of w "aPolicies w"]
    by (simp add: s0_def ed.peer_dispatch listed_policies_def mem_list w)
  have ok: "fst (Reconcile mem_k8s demo_r demo_key (world s0)) = Return (no_result, None)"
    using demo_first_run by (simp add: s0_def w_def)
  note run = demo_run_split [OF ok, folded s_def]
  have "\<forall>x\<in>set (aPeers (world s0)). peer_ready (aAnswers (world s0)) ''low_latency'' x"
    "mem_policies (world s0) demo_key = Some ready_policy"
    by (simp_all add: s0_def w demo_ready)
  from ol.ready_run [OF this(2) ready_policy_facts demo_r_client this(1) run]
  have rest: "queue s = {}" by (simp add: queue)
  have "(smooth_step ref_passes mem_policies (policy_builder mem_k8s demo_r))\<^sup>*\<^sup>* s0 s"
    by (rule r_into_rtranclp, rule smooth_step.run [OF _ run]) (simp add: queue)
  then have steps: "(smooth_step ref_passes mem_policies (policy_builder mem_k8s demo_r))\<^sup>*\<^sup>*
      \<lparr>world = w, queue = {} \<union> ref_dispatch (policy_builder mem_k8s demo_r) w ''ScionClusterPeer''
        (CreateEvent (OtherObject ''a''))\<rparr> s"
    by (simp add: s0_def)
  have pol: "mem_policies w demo_key = Some ready_policy" and names: "distinct (map (\<lambda>x. Name (peerMeta x)) (aPeers w))"
    and clash: "\<forall>j\<in>dom (mem_policies w). j \<noteq> demo_key \<longrightarrow> (\<forall>x\<in>set (aPeers w). \<forall>y\<in>set (aPeers w).
      path_key demo_key x \<noteq> path_key j y)"
    and listed: "snd (policy_List mem_k8s None w) = None" by (simp_all add: w mem_list)
  from peer_change_propagates [OF wl.settled_api_axioms gf.generation_filter_axioms
      ed.event_dispatch_axioms demo_r_client listed names clash steps rest pol ready_policy_facts]
  have "view_map (mem_computed (world s)) (path_key demo_key peer_a) =
      Some (peer_view demo_answers ''low_latency'' ready_policy peer_a)" by (simp add: w)
  then show ?thesis
    using rest unfolding Let_def w_def [symmetric] s0_def [symmetric] s_def [symmetric]
    by (simp add: demo_path_keys)
qed

end
