(* ===== verification/Concurrency.thy ===== *)
theory Concurrency
  imports Interference ApiServerRef
begin

text \<open>
  Optimistic concurrency.  The server keeps a revision that grows with every change; an object's
  resource version is the revision of its last change, and an update is accepted only for the
  version that is stored.  So a run that succeeds while others act has changed the policy that it
  read, and none that someone stored in between.
\<close>

section \<open>Contract\<close>

abbreviation version :: "ScionPathPolicy \<Rightarrow> nat" where
  "version p \<equiv> ResourceVersion (polMeta p)"

locale versioned_api = scion_service lib policies computed peers answers fetch
  for lib :: "('w, 'z) k8s_scheme" and policies computed peers answers fetch +
  fixes revision :: "'w \<Rightarrow> nat"
  assumes version_bound: "policies w k = Some p \<Longrightarrow> version p \<le> revision w"
    and update_current: "policy_Update lib p w = (None, p', w') \<Longrightarrow>
      \<exists>q. policies w (key_of (polMeta p)) = Some q \<and> version q = version p"
    and status_current: "policy_StatusUpdate lib p w = (None, p', w') \<Longrightarrow>
      \<exists>q. policies w (key_of (polMeta p)) = Some q \<and> version q = version p"
    and cou_revision: "CreateOrUpdate lib c f w = (r, c', w') \<Longrightarrow> revision w \<le> revision w'"
    and fetch_revision: "fetch as pref w = (a, w') \<Longrightarrow> revision w \<le> revision w'"

text \<open>
  How one world may follow another: a policy that was not there before is of a later revision.
  An action of others conforms if it leads to such a world.
\<close>

definition later ::
  "('w \<Rightarrow> nat) \<Rightarrow> ('w \<Rightarrow> NamespacedName \<rightharpoonup> ScionPathPolicy) \<Rightarrow> 'w \<Rightarrow> 'w \<Rightarrow> bool" where
  "later revision policies w w' \<longleftrightarrow> revision w \<le> revision w' \<and>
     (\<forall>k q. policies w' k = Some q \<longrightarrow> policies w k = Some q \<or> revision w < version q)"

definition conforms ::
  "('w \<Rightarrow> nat) \<Rightarrow> ('w \<Rightarrow> NamespacedName \<rightharpoonup> ScionPathPolicy) \<Rightarrow> ('w \<Rightarrow> 'w) \<Rightarrow> bool" where
  "conforms revision policies f \<longleftrightarrow> (\<forall>w. later revision policies w (f w))"

lemma later_refl [simp]: "later revision policies w w"
  by (simp add: later_def)

lemma later_trans:
  assumes "later revision policies w w1" and "later revision policies w1 w2"
  shows "later revision policies w w2"
  unfolding later_def
proof (intro conjI allI impI)
  show "revision w \<le> revision w2" using assms by (simp add: later_def)
  fix k q
  assume "policies w2 k = Some q"
  then have "policies w1 k = Some q \<or> revision w1 < version q"
    using assms(2) unfolding later_def by blast
  then show "policies w k = Some q \<or> revision w < version q"
    using assms(1) unfolding later_def by (meson le_less_trans)
qed

lemma conforms_step:
  "conforms revision policies f \<Longrightarrow> later revision policies w x \<Longrightarrow> later revision policies w (f x)"
  by (rule later_trans, assumption) (simp add: conforms_def)

lemma conforms_steps:
  assumes "\<forall>f\<in>A. conforms revision policies f"
  shows "\<forall>f\<in>A. \<forall>x. later revision policies w x \<longrightarrow> later revision policies w (f x)"
proof (intro ballI allI impI)
  fix f x
  assume "f \<in> A" and later: "later revision policies w x"
  then have "conforms revision policies f" using assms by blast
  then show "later revision policies w (f x)" using later by (rule conforms_step)
qed

section \<open>Runs among others\<close>

context versioned_api
begin

text \<open>The version that was read is still the one that is stored only if the object is the same.\<close>

lemma current:
  assumes "later revision policies w w'" and "policies w k = Some p" and "policies w' k = Some q"
    and "version q = version p"
  shows "q = p"
  using assms version_bound [OF assms(2)] unfolding later_def
  by (metis linorder_not_less option.inject)

lemma later_acts:
  assumes "\<forall>f\<in>set (snd b). conforms revision policies f" and "later revision policies w (fst b)"
  shows "later revision policies w (fst (meanwhile b))"
  by (rule meanwhile_keeps [of "later revision policies w" b, OF assms(2) conforms_steps [OF assms(1)]])

lemma later_loop:
  assumes sc: "sc = None \<or> sc = Some fetch"
    and acts: "\<forall>f\<in>set (snd b). conforms revision policies f"
    and run: "peers_loop (busy_k8s lib) (map_option busy_fetch sc) policy ps ready b = (res, b')"
  shows "later revision policies (fst b) (fst b')"
    and "later revision policies (fst b) (fst (meanwhile b'))"
proof -
  have same: "later revision policies (fst b) w'"
    if "later revision policies (fst b) w" "policies w' = policies w" "revision w \<le> revision w'" for w w'
    using that unfolding later_def by (metis order_trans)
  have both: "later revision policies (fst b) (fst b') \<and> set (snd b') \<subseteq> set (snd b)"
  proof (rule busy_loop_keeps [where P = "later revision policies (fst b)", OF _ _ _ later_refl run])
    show "\<forall>f\<in>set (snd b). \<forall>w. later revision policies (fst b) w \<longrightarrow>
        later revision policies (fst b) (f w)"
      by (rule conforms_steps [OF acts])
    show "later revision policies (fst b) w'"
      if "sc = Some fe" "later revision policies (fst b) w" "fe as pref w = (a, w')" for fe as pref w a w'
      using that sc same [OF that(2)] fetch_frame fetch_revision by blast
    show "later revision policies (fst b) w'"
      if "later revision policies (fst b) w" "CreateOrUpdate lib (new_computedPath policy peer)
        (path_mutate lib policy peer nh raw) w = (r, c', w')" for peer nh raw w r c' w'
      using same [OF that(1)] cou_other [OF that(2)] cou_revision [OF that(2)] by blast
  qed
  then show "later revision policies (fst b) (fst b')" by blast
  have "\<forall>f\<in>set (snd b'). conforms revision policies f" using acts both by blast
  then show "later revision policies (fst b) (fst (meanwhile b'))"
    using both by (intro later_acts) simp_all
qed

text \<open>A policy write that succeeds replaces the policy that was read.\<close>

lemma busy_update:
  assumes u: "policy_Update (busy_k8s lib) m b = (None, p', b')"
    and later: "later revision policies w (fst (meanwhile b))"
    and p: "policies w req = Some p" and key: "key_of (polMeta m) = req" and v: "version m = version p"
  shows "policies (fst (meanwhile b)) req = Some p \<and>
    (\<exists>v. policies (fst b') = (policies (fst (meanwhile b)))(req :=
       if \<not> Time_IsZero (DeletionTimestamp (polMeta m)) \<and> Finalizers (polMeta m) = [] then None
       else Some (m\<lparr>polMeta := polMeta m\<lparr>ResourceVersion := v\<rparr>\<rparr>)))"
proof -
  have u': "policy_Update lib m (fst (meanwhile b)) = (None, p', fst b')"
    using u unfolding busy_Update by blast
  obtain q where q: "policies (fst (meanwhile b)) req = Some q" "version q = version m"
    using update_current [OF u'] unfolding key by blast
  then have "q = p" using current [OF later p q(1)] v by simp
  then show ?thesis using q(1) update_ok [OF u'] unfolding key by auto
qed

lemma busy_status:
  assumes run: "reconcile_status (busy_k8s lib) p ps ready b = (Return (no_result, None), b')"
    and later: "later revision policies w (fst (meanwhile b))"
    and p: "policies w req = Some p" and key: "key_of (polMeta p) = req"
    and valid: "distinct (map cType (polConditions (polStatus p)))"
  shows "policies (fst (meanwhile b)) req = Some p \<and>
    (\<forall>k. k \<noteq> req \<longrightarrow> policies (fst b') k = policies (fst (meanwhile b)) k) \<and>
    (\<exists>q. policies (fst b') req = Some q \<and> polSpec q = polSpec p \<and>
    same_meta (polMeta p) (polMeta q) \<and>
    {c \<in> set (polConditions (polStatus q)). cType c = ''Active''} = {active_condition q (length ps)})"
proof -
  let ?cs = "SetStatusCondition lib (polConditions (polStatus p)) (active_condition p (length ps))"
  let ?p = "p\<lparr>polStatus := (polStatus p)\<lparr>polConditions := ?cs\<rparr>\<rparr>"
  obtain p' where u: "policy_StatusUpdate lib ?p (fst (meanwhile b)) = (None, p', fst b')"
    using run
    by (auto simp: reconcile_status_def no_result_def busy_StatusUpdate
        split: if_splits prod.splits option.splits)
  obtain q v where q: "policies (fst (meanwhile b)) req = Some q"
    and pols: "policies (fst b') req =
      Some (q\<lparr>polStatus := polStatus ?p, polMeta := polMeta q\<lparr>ResourceVersion := v\<rparr>\<rparr>)"
    using status_ok [OF u] key by auto
  have "version q = version p" using status_current [OF u] q key by auto
  then have qp: "q = p" by (rule current [OF later p q])
  have act: "active_condition (q\<lparr>polStatus := polStatus ?p,
      polMeta := polMeta q\<lparr>ResourceVersion := v\<rparr>\<rparr>) n = active_condition p n" for n
    by (simp add: active_condition_def qp)
  have "cType (active_condition p (length ps)) = ''Active''" by (simp add: active_condition_def)
  then have "{c \<in> set ?cs. cType c = ''Active''} = {active_condition p (length ps)}"
    using set_condition [of "active_condition p (length ps)" "polConditions (polStatus p)"]
      set_condition_type [OF valid, of _ "active_condition p (length ps)"]
    by auto
  then have "\<exists>q. policies (fst b') req = Some q \<and> polSpec q = polSpec p \<and>
      same_meta (polMeta p) (polMeta q) \<and>
      {c \<in> set (polConditions (polStatus q)). cType c = ''Active''} = {active_condition q (length ps)}"
    using pols act by (simp add: qp)
  moreover have "policies (fst b') k = policies (fst (meanwhile b)) k" if "k \<noteq> req" for k
    using status_other [OF u] that key by (cases k) auto
  ultimately show ?thesis using q qp by blast
qed

lemma busy_reads:
  assumes "policies w req = Some p"
    and "Reconcile (busy_k8s lib) r req (w, acts) = (Return (res, None), b')"
  shows "policy_Get lib req w = Inr p" and "key_of (polMeta p) = req"
proof -
  have "policy_Get lib req w = Inr p \<and> key_of (polMeta p) = req"
  proof (cases "policy_Get lib req w")
    case (Inl err)
    then have "err = StatusError ''NotFound''"
      using assms(2) by (auto simp: Reconcile_def ignore_NotFound split: if_splits)
    then show ?thesis using get_NotFound Inl assms(1) by auto
  next
    case (Inr q)
    then show ?thesis using get_ok assms(1) by auto
  qed
  then show "policy_Get lib req w = Inr p" and "key_of (polMeta p) = req" by blast+
qed

text \<open>
  The two runs that write the whole policy, to add the finalizer or to release it: they succeed only
  if the policy is still the one that was read.
\<close>

lemma busy_finalizer:
  assumes acts: "\<forall>f\<in>set acts. conforms revision policies f" and p: "policies w req = Some p"
    and branch: "Time_IsZero (DeletionTimestamp (polMeta p)) \<longleftrightarrow>
      cilionFinalizer \<notin> set (Finalizers (polMeta p))"
    and fs: "fs = (if cilionFinalizer \<in> set (Finalizers (polMeta p))
      then filter (\<lambda>g. g \<noteq> cilionFinalizer) (Finalizers (polMeta p))
      else Finalizers (polMeta p) @ [cilionFinalizer])"
    and run: "Reconcile (busy_k8s lib) r req (w, acts) = (Return (res, None), b')"
  shows "let wb = fst (meanwhile (w, acts))
    in policies wb req = Some p \<and> (\<exists>v. policies (fst b') = (policies wb)(req :=
      if \<not> Time_IsZero (DeletionTimestamp (polMeta p)) \<and> fs = [] then None
      else Some (p\<lparr>polMeta := (polMeta p)\<lparr>Finalizers := fs, ResourceVersion := v\<rparr>\<rparr>)))"
proof -
  note reads = busy_reads [OF p run]
  have start: "later revision policies w (fst (meanwhile (w, acts)))"
    by (rule later_acts) (simp_all add: acts)
  let ?m = "p\<lparr>polMeta := (polMeta p)\<lparr>Finalizers := fs\<rparr>\<rparr>"
  have "\<exists>q. policy_Update (busy_k8s lib) ?m (w, acts) = (None, q, b')"
  proof (cases "cilionFinalizer \<in> set (Finalizers (polMeta p))")
    case True
    then show ?thesis
      using run reads branch fs
      by (auto simp: Reconcile_def reconcile_delete_def contains_finalizer remove_finalizer
          split: if_splits prod.splits option.splits)
  next
    case False
    then show ?thesis
      using run reads branch fs
      by (auto simp: Reconcile_def contains_finalizer add_finalizer
          split: if_splits prod.splits option.splits)
  qed
  then obtain q where "policy_Update (busy_k8s lib) ?m (w, acts) = (None, q, b')" by blast
  from busy_update [OF this start p] show ?thesis by (simp add: reads Let_def split del: if_split cong: if_cong)
qed

text \<open>The run that activates: the condition describes the policy that is stored with it.\<close>

lemma busy_activates:
  assumes sc: "rScionClient r = None \<or> rScionClient r = Some fetch"
    and acts: "\<forall>f\<in>set acts. conforms revision policies f" and p: "policies w req = Some p"
    and live: "Time_IsZero (DeletionTimestamp (polMeta p))"
    and fin: "cilionFinalizer \<in> set (Finalizers (polMeta p))"
    and run: "Reconcile (busy_k8s lib) (busy_reconciler r) req (w, acts) =
      (Return (no_result, None), b')"
  shows "\<exists>q. policies (fst b') req = Some q \<and> polSpec q = polSpec p \<and>
    same_meta (polMeta p) (polMeta q) \<and>
    {c \<in> set (polConditions (polStatus q)). cType c = ''Active''} =
      {active_condition q (length (peers w))}"
proof -
  note reads = busy_reads [OF p run]
  obtain ps x b1 ready where ps: "peer_List lib w = Inr ps"
    and loop: "peers_loop (busy_k8s lib) (map_option busy_fetch (rScionClient r)) p ps True (w, acts) = (x, b1)"
    and st: "reconcile_status (busy_k8s lib) p ps ready b1 = (Return (no_result, None), b')"
    using run reads live fin
    by (auto simp: Reconcile_def contains_finalizer split: prod.splits sum.splits go.splits)
  have "\<forall>f\<in>set (snd (w, acts)). conforms revision policies f" using acts by simp
  note later = later_loop(2) [OF sc this loop, unfolded fst_conv]
  have "ps = peers w" by (rule peers_ok [OF ps])
  then show ?thesis using busy_status [OF st later p reads(2) get_valid [OF reads(1)]] by blast
qed

end

section \<open>The server in memory\<close>

text \<open>Its revision: the highest version of a stored policy.\<close>

definition mem_revision :: "api_server \<Rightarrow> nat" where
  "mem_revision w = foldr (\<lambda>p n. max (version p) n) (aPolicies w) 0"

lemma mem_revision_bound: "mem_policies w k = Some p \<Longrightarrow> version p \<le> mem_revision w"
proof -
  have "store_find key ps k = Some p \<Longrightarrow> version p \<le> foldr (\<lambda>p n. max (version p) n) ps 0" for key ps
    by (induction ps) (auto simp: le_max_iff_disj split: if_splits)
  then show "mem_policies w k = Some p \<Longrightarrow> version p \<le> mem_revision w"
    by (simp add: mem_policies_def mem_revision_def)
qed

lemma mem_Update_current:
  "mem_Update p w = (None, p', w') \<Longrightarrow>
     \<exists>q. mem_policies w (key_of (polMeta p)) = Some q \<and> version q = version p"
  by (auto simp: mem_Update_def split: option.splits if_splits)

lemma mem_StatusUpdate_current:
  "mem_StatusUpdate p w = (None, p', w') \<Longrightarrow>
     \<exists>q. mem_policies w (key_of (polMeta p)) = Some q \<and> version q = version p"
  by (auto simp: mem_StatusUpdate_def split: option.splits if_splits)

lemma mem_cou_revision:
  "mem_CreateOrUpdate c f w = (r, c', w') \<Longrightarrow> mem_revision w \<le> mem_revision w'"
  by (auto simp: mem_CreateOrUpdate_def mem_revision_def Let_def
      split: prod.splits option.splits if_splits)

interpretation mv: versioned_api mem_k8s mem_policies mem_computed aPeers aAnswers mem_fetch mem_revision
  by unfold_locales
    (auto simp: mem_fetch_def intro: mem_revision_bound mem_cou_revision
      dest: mem_Update_current mem_StatusUpdate_current)

end
