(* ===== verification/ConcurrencyProps.thy ===== *)
theory ConcurrencyProps
  imports DemoApi Concurrency
begin

text \<open>The properties of runs while others act, under optimistic concurrency.\<close>

text \<open>
  C10: while others change objects between the reads and the writes of a run, the runs that write
  the whole policy (to add the finalizer, or to release it) succeed only if the policy is still
  the one that was read, and then change its finalizers and nothing else of what is stored: no
  change that someone else has made is lost.
\<close>
theorem finalizer_write_loses_nothing:
  assumes "versioned_api lib policies computed peers answers fetch revision"
    and "\<forall>f\<in>set acts. conforms revision policies f" and "policies w req = Some p"
    and "Time_IsZero (DeletionTimestamp (polMeta p)) \<longleftrightarrow>
      cilionFinalizer \<notin> set (Finalizers (polMeta p))"
    and "fs = (if cilionFinalizer \<in> set (Finalizers (polMeta p))
      then filter (\<lambda>g. g \<noteq> cilionFinalizer) (Finalizers (polMeta p))
      else Finalizers (polMeta p) @ [cilionFinalizer])"
    and "Reconcile (busy_k8s lib) r req (w, acts) = (Return (res, None), w', rest)"
  shows "let wb = fst (meanwhile (w, acts))
    in policies wb req = Some p \<and> (\<exists>v. policies w' = (policies wb)(req :=
      if \<not> Time_IsZero (DeletionTimestamp (polMeta p)) \<and> fs = [] then None
      else Some (p\<lparr>polMeta := (polMeta p)\<lparr>Finalizers := fs, ResourceVersion := v\<rparr>\<rparr>)))"
  using versioned_api.busy_finalizer [OF assms] by simp

lemma drop_peers_conforms:
  "\<forall>f\<in>set [\<lambda>w. w\<lparr>aPeers := []\<rparr>]. conforms mem_revision mem_policies f"
  by (simp add: conforms_def later_def mem_revision_def mem_policies_def)

theorem finalizer_write_loses_nothing_witness:
  "let p = demo_policy ''web'' (Some 7) [''other'', cilionFinalizer] None;
       w' = fst (snd (Reconcile (busy_k8s mem_k8s) (busy_reconciler demo_r) demo_key
         (demo_api [p] [] [peer_a], [\<lambda>w. w\<lparr>aPeers := []\<rparr>])))
   in \<exists>q. mem_policies w' demo_key = Some q \<and> polSpec q = polSpec p \<and>
        Finalizers (polMeta q) = [''other'']"
proof -
  define p where "p = demo_policy ''web'' (Some 7) [''other'', cilionFinalizer] None"
  let ?acts = "[\<lambda>w. w\<lparr>aPeers := []\<rparr>]"
  let ?run = "Reconcile (busy_k8s mem_k8s) (busy_reconciler demo_r) demo_key (demo_api [p] [] [peer_a], ?acts)"
  have "fst ?run = Return (no_result, None)" unfolding p_def by code_simp
  then have run: "?run = (Return (no_result, None), fst (snd ?run), snd (snd ?run))"
    by (metis prod.collapse)
  have pol: "mem_policies (demo_api [p] [] [peer_a]) demo_key = Some p"
    by (simp add: mem_policies_def demo_api_def p_def demo_policy_def demo_key_def key_of_def
        object_meta_def)
  have fin: "Finalizers (polMeta p) = [''other'', cilionFinalizer]"
    and del: "\<not> Time_IsZero (DeletionTimestamp (polMeta p))"
    by (simp_all add: p_def demo_policy_def)
  have other: "''other'' \<noteq> cilionFinalizer" by (simp add: cilionFinalizer_def)
  have "\<exists>q. mem_policies (fst (snd ?run)) demo_key = Some q \<and> polSpec q = polSpec p \<and>
      Finalizers (polMeta q) = [''other'']"
    using finalizer_write_loses_nothing [OF mv.versioned_api_axioms drop_peers_conforms pol _ _ run,
        of "[''other'']"] other
    by (auto simp: fin del Let_def)
  then show ?thesis unfolding Let_def p_def .
qed

text \<open>
  C9: while others change objects between the calls of a run, a run that reports success without a
  requeue on a live policy with its finalizer leaves an Active condition that describes the policy
  it is stored with: the spec is the one the paths were computed for, and the observed generation
  is the stored policy's own.
\<close>
theorem Active_describes_stored:
  assumes "versioned_api lib policies computed peers answers fetch revision"
    and "rScionClient r = None \<or> rScionClient r = Some fetch"
    and "\<forall>f\<in>set acts. conforms revision policies f" and "policies w req = Some p"
    and "Time_IsZero (DeletionTimestamp (polMeta p))"
    and "cilionFinalizer \<in> set (Finalizers (polMeta p))"
    and "Reconcile (busy_k8s lib) (busy_reconciler r) req (w, acts) =
      (Return (no_result, None), w', rest)"
  shows "\<exists>q. policies w' req = Some q \<and> polSpec q = polSpec p \<and>
    Generation (polMeta q) = Generation (polMeta p) \<and>
    {c \<in> set (polConditions (polStatus q)). cType c = ''Active''} =
      {\<lparr>cType = ''Active'', cStatus = ''True'', cObservedGeneration = Generation (polMeta q),
        cReason = ''PathsComputed'',
        cMessage = ''Computed paths for '' @ itoa (length (peers w)) @ '' destinations''\<rparr>}"
proof -
  have "Generation m' = Generation m" if "same_meta m m'" for m m'
    using that by (auto simp: same_meta_def)
  then show ?thesis using versioned_api.busy_activates [OF assms] unfolding active_condition_def by fastforce
qed

theorem Active_describes_stored_witness:
  "\<exists>q. mem_policies (fst (snd (Reconcile (busy_k8s mem_k8s) (busy_reconciler demo_r) demo_key
        (demo_api [ready_policy] [] [peer_a], [\<lambda>w. w\<lparr>aPeers := []\<rparr>])))) demo_key = Some q \<and>
     {c \<in> set (polConditions (polStatus q)). cType c = ''Active''} =
       {\<lparr>cType = ''Active'', cStatus = ''True'', cObservedGeneration = Generation (polMeta q),
         cReason = ''PathsComputed'', cMessage = ''Computed paths for '' @ itoa 1 @ '' destinations''\<rparr>}"
proof -
  let ?acts = "[\<lambda>w. w\<lparr>aPeers := []\<rparr>]"
  let ?run = "Reconcile (busy_k8s mem_k8s) (busy_reconciler demo_r) demo_key
    (demo_api [ready_policy] [] [peer_a], ?acts)"
  have "fst ?run = Return (no_result, None)" by code_simp
  then have run: "?run = (Return (no_result, None), fst (snd ?run), snd (snd ?run))"
    by (metis prod.collapse)
  have pol: "mem_policies (demo_api [ready_policy] [] [peer_a]) demo_key = Some ready_policy"
    by (simp add: mem_policies_def demo_api_def ready_policy_def demo_policy_def demo_key_def
        key_of_def object_meta_def)
  have "length (aPeers (demo_api [ready_policy] [] [peer_a])) = 1" by (simp add: demo_api_def)
  then show ?thesis
    using Active_describes_stored [OF mv.versioned_api_axioms disjI2 [OF demo_r_client]
        drop_peers_conforms pol _ _ run]
    by (auto simp: ready_policy_def demo_policy_def)
qed

end
