(* ===== verification/Spec2Isabelle.thy ===== *)
theory Spec2Isabelle
  imports ControlProps ControlEdges StartupProps ScionProps EncapProps MapLimits TestUtils
    SchemeReg Rbac DeepCopyProps WatchedProps ConcurrencyProps
begin

text \<open>
  \<^bold>\<open>CilION: a SCION underlay for Kubernetes\<close>

  \<^bold>\<open>The program.\<close>  One Go binary (\<open>cmd/main.go\<close>) runs in two modes.  As \<open>operator\<close> it reconciles
  users' \<open>ScionPathPolicy\<close> objects: for every \<open>ScionClusterPeer\<close> it asks the SCION control service
  for a path and stores it as a \<open>ScionComputedPath\<close> (\<open>internal/controller\<close>, types in
  \<open>api/v1alpha1\<close>).  As \<open>agent\<close> it is to put these paths into the kernel: \<open>internal/bpf\<close> loads two
  eBPF programs, attaches them and writes the maps \<open>pod_policy_map\<close> (pod address to policy id) and
  \<open>scion_path_cache\<close> (policy id to path), by which \<open>bpf/tc_egress.c\<close> encapsulates outgoing packets
  and \<open>bpf/xdp_ingress.c\<close> judges incoming ones.  The agent's reconciler is still empty, so the two
  halves do not call each other yet.  \<open>pkg/scion\<close> is a client of the local SCION daemon with its
  own view of paths and a cache of them.

  \<^bold>\<open>Conventions\<close> (\<open>Prelude\<close>).  A Go call returns a value, panics or exits the process (\<open>go\<close>); an
  error is a \<open>go_error\<close> with the text of the code's format strings; strings are byte lists; fixed
  width integers are words.  A method takes and returns the state it works on.  What is not in the
  repository is an argument: the eBPF and netlink packages (\<open>bpf_lib\<close> over a kernel \<open>'k\<close>), the
  Kubernetes client and helpers (\<open>k8s\<close> over a world \<open>'w\<close>), the SCION packages (\<open>scion_env\<close>,
  \<open>snet\<close>), \<open>sort.Slice\<close>, the controller-runtime manager (\<open>mgr_lib\<close>).  What the code relies on of
  them is stated in locales, which the properties name as hypotheses; each locale has an instance.
  Logging and printing are left out, and contexts with their timeouts.

  \<^bold>\<open>Data path.\<close>
  \<^item> \<open>BpfTypes\<close>: \<open>types.go\<close>, the map keys and the path entry, with the layout rule that Go and C
    share and the C view of a map value.
  \<^item> \<open>BpfLib\<close>: the interface of the eBPF and netlink packages and its contracts; \<open>KernelRef\<close>: a
    kernel that meets them.
  \<^item> \<open>BpfObjects\<close>: \<open>tc_egress_bpfel.go\<close> and \<open>xdp_ingress_bpfel.go\<close>, loading and closing.
  \<^item> \<open>Loader\<close>: \<open>loader.go\<close>; \<open>LoaderSpec\<close>: the tables its map operations implement, and the
    reachable states of a loader as a step relation with its invariants.
  \<^item> \<open>Datapath\<close>: the decisions of the two eBPF programs on a packet, as readers of the maps;
    \<open>Encap\<close>: the headers and the MAC that they write and check (\<open>write_scion_headers\<close>,
    \<open>scion_mac.h\<close>), and \<open>tc_egress\<close> on packets.
  \<^item> \<open>MapLimits\<close>: the maps' declarations (\<open>maps.h\<close>), the limits that they put on the tables, and
    that the loader's calls have the declared sizes.
  \<^item> \<open>LoaderProps\<close>, \<open>LifecycleProps\<close>, \<open>DatapathProps\<close>, \<open>EncapProps\<close>: the properties.  Keys and
    entries are read by the programs as the loader meant them; map operations refine the tables; in
    every reachable state the egress program decides by the tables; loading is all or nothing and
    closing undoes it; the ingress program's own maps stay empty, so that it drops every SCION
    packet; what both programs read, cut off and add is bounded; the outer headers say what the
    path entry says, but its path is not written behind them, and the ingress program makes nothing
    of such a packet; the MAC check keeps nobody out.

  \<^bold>\<open>Control plane.\<close>
  \<^item> \<open>ApiTypes\<close>: \<open>api/v1alpha1\<close>, with the part of \<open>ObjectMeta\<close> the code uses.
  \<^item> \<open>K8sLib\<close>: the interface of the client, the helpers and the service, and its contracts;
    \<open>ApiServerRef\<close>: an API server in memory that meets them; \<open>DemoApi\<close>: the witnesses' inputs.
  \<^item> \<open>PolicyReconciler\<close>: \<open>Reconcile\<close> of \<open>scionpathpolicy_controller.go\<close>; \<open>ReconcilerSpec\<close>: the
    abstract effect \<open>publish\<close> and that a successful run refines it.
  \<^item> \<open>Interference\<close>: a run on a busy world, in which others act between its calls;
    \<open>OperatorSystem\<close>: such runs in any order among arbitrary changes by others, as a step relation
    with an invariant; \<open>Concurrency\<close>: what optimistic concurrency makes of it.
  \<^item> \<open>PolicyWatches\<close>: the predicate and mappers of the watches, \<open>SetupWithManager\<close> of the three
    controllers and the two reconcilers that do nothing; \<open>Manager\<close>: \<open>cmd/main.go\<close> after flag parsing,
    \<open>Flags\<close>: its flags and Go's parsing of them; \<open>SchemeReg\<close>: package initialisation, with the
    property that every kind a controller needs is registered.
  \<^item> \<open>Rbac\<close>: the manager's role and a client authorized by it, with the property that under the
    committed role no policy becomes active.
  \<^item> \<open>OperatorLoop\<close>: runs together with the events they cause, through the filter that
    \<open>SetupWithManager\<close> sets; \<open>LoopProps\<close>: the controller comes to rest, and a new policy rests
    too early; \<open>Convergence\<close>: what it has done when it rests.
  \<^item> \<open>Wakeups\<close>: which pod and peer events reach which policies through the watches;
    \<open>WatchedLoop\<close>, \<open>WatchedProps\<close>: the cluster, in which the writes of anybody, pods and failing
    runs come in any order, as a step relation.  A history variable \<open>missed\<close> collects the policies
    affected by changes that are no events for the controller, until a run completes for them; the
    invariant is that an active status is true of every other policy that does not wait in the
    queue.  A change of the peers reaches every policy.
  \<^item> \<open>ControlProps\<close>, \<open>ControlEdges\<close>, \<open>ConcurrencyProps\<close>, \<open>StartupProps\<close>: the other
    properties.  What a successful run has published, activation and requeue, idempotence, what no
    run touches, deletion, exactly when a run panics, clashes of names, ownership in all reachable
    states; what each mode registers and how the process ends.

  \<^bold>\<open>Deep copies.\<close>
  \<^item> \<open>ApiHeap\<close>: the resources as structs in Go's memory, with addresses and slices;
    \<open>ApiDeepCopy\<close>: \<open>zz_generated.deepcopy.go\<close>, function by function.
  \<^item> \<open>DeepCopySpec\<close>: shapes (the value, the reachable memory and the typing of a datum) and the
    contract of a copier, with their composition; \<open>DeepCopyLaws\<close>: pointers and slices;
    \<open>DeepCopyTypes\<close>: all generated functions are copiers if those of apimachinery are.
  \<^item> \<open>DeepCopyProps\<close>: the properties.  A copy is equal, well typed and shares no memory, so that
    writes to one of the two are not seen through the other.

  \<^bold>\<open>SCION client.\<close>
  \<^item> \<open>ScionHost\<close>: \<open>host.go\<close>; \<open>ScionPaths\<close>: \<open>paths.go\<close>; \<open>PathCache\<close>: \<open>path_cache.go\<close>.
  \<^item> \<open>ScionPathsSpec\<close>: the loops as joins and maps, the hash; \<open>PathOrder\<close>: the sort key as a linear
    order, the contract of \<open>sort.Slice\<close> and Go's insertion sort as its instance; \<open>PathNames\<close>: the
    texts of paths can be read back.
  \<^item> \<open>ScionProps\<close>: the properties.

  \<^bold>\<open>Test helpers.\<close>
  \<^item> \<open>TestUtils\<close>: \<open>test/utils/utils.go\<close>, the commands of the end-to-end tests and \<open>UncommentCode\<close>,
    over the operating system as the record \<open>os_lib\<close>.

  \<^bold>\<open>Bounds.\<close>  No definition uses fuel: every loop of the modelled code runs over a list it is given
  and is a structural recursion; the two other recursions (decimal and hexadecimal text, replacing
  in a string) have a termination measure.

  \<^bold>\<open>Not modelled.\<close>  The tests themselves and manifests other than the role; the client and the
  scheme of the reconciler structs are not fields but arguments.  Two pieces of C do
  not compile as committed and are given the meaning they are meant to have: the undeclared
  variables of \<open>write_scion_headers\<close> are arguments, and the subscripts of a bit-field in
  \<open>verify_scion_mac\<close> read its bytes.  \<open>clamp_tcp_mss\<close> does nothing.  A read through the client
  returns what is stored: the staleness of controller-runtime's cache is modelled only as far as a
  stale read of the policy is a run during which others act before its first write.
\<close>

end
